(* ===== verification/Prelude.thy ===== *)
theory Prelude
  imports Main "HOL-Library.Char_ord" "HOL-Library.List_Lexorder" "HOL-Library.AList"
begin

text \<open>
  What every component of the development shares:
  \<^item> the result type of the Go code, \<open>error + value\<close>, threaded through a state
    (\<open>returnE\<close>, \<open>throwE\<close>, \<open>bindE\<close>, \<open>catchE\<close>, \<open>deferE\<close>, \<open>forE\<close>);
  \<^item> the calculus of call logs: a computation only appends to the log of the API calls it
    makes (\<open>adds\<close>), the calls it issued (\<open>issued\<close>), and the rules that push both
    through the combinators (collections \<open>adds_intros\<close> and \<open>issued_simps\<close>);
  \<^item> the fields a computation leaves alone (\<open>keeps\<close>, collection \<open>keeps_intros\<close>);
  \<^item> Go's map reads (\<open>lookup0\<close>) and association lists for maps whose keys are iterated.
\<close>

named_theorems adds_intros \<open>every call a computation appends satisfies a predicate\<close>
named_theorems adds_inv_intros \<open>the same, from states with an invariant\<close>
named_theorems keeps_intros \<open>a computation keeps an observation of the state\<close>
named_theorems issued_simps \<open>the calls issued by a combinator\<close>
named_theorems run_simps \<open>running a combinator from a state\<close>
named_theorems gives_intros \<open>the value a computation returns satisfies a predicate\<close>
named_theorems inv_simps \<open>what a combinator that ended with a given result did\<close>

section \<open>Computations with state and an error result\<close>

type_synonym ('s, 'e, 'a) em = "'s \<Rightarrow> ('e + 'a) \<times> 's"

definition returnE :: "'a \<Rightarrow> ('s, 'e, 'a) em" where
  "returnE x = (\<lambda>s. (Inr x, s))"

definition throwE :: "'e \<Rightarrow> ('s, 'e, 'a) em" where
  "throwE e = (\<lambda>s. (Inl e, s))"

definition bindE :: "('s, 'e, 'a) em \<Rightarrow> ('a \<Rightarrow> ('s, 'e, 'b) em) \<Rightarrow> ('s, 'e, 'b) em" where
  "bindE m f = (\<lambda>s. case m s of (Inl e, s') \<Rightarrow> (Inl e, s') | (Inr x, s') \<Rightarrow> f x s')"

definition catchE :: "('s, 'e, 'a) em \<Rightarrow> ('e \<Rightarrow> ('s, 'e, 'a) em) \<Rightarrow> ('s, 'e, 'a) em" where
  "catchE m h = (\<lambda>s. case m s of (Inl e, s') \<Rightarrow> h e s' | (Inr x, s') \<Rightarrow> (Inr x, s'))"

text \<open>The result of a call as a value: the Go idiom \<open>x, err := f()\<close> before \<open>err\<close> is looked at.\<close>

definition tryE :: "('s, 'e, 'a) em \<Rightarrow> ('s, 'e, 'e + 'a) em" where
  "tryE m = (\<lambda>s. case m s of (r, s') \<Rightarrow> (Inr r, s'))"

text \<open>Go's \<open>defer\<close>: \<open>d\<close> runs after \<open>m\<close> whatever \<open>m\<close> returned, and its own result is dropped.\<close>

definition deferE :: "('s, 'e, 'a) em \<Rightarrow> ('s, 'e, 'b) em \<Rightarrow> ('s, 'e, 'a) em" where
  "deferE m d = (\<lambda>s. case m s of (r, s') \<Rightarrow> (r, snd (d s')))"

definition getsE :: "('s \<Rightarrow> 'a) \<Rightarrow> ('s, 'e, 'a) em" where
  "getsE f = (\<lambda>s. (Inr (f s), s))"

definition modifyE :: "('s \<Rightarrow> 's) \<Rightarrow> ('s, 'e, unit) em" where
  "modifyE f = (\<lambda>s. (Inr (), f s))"

definition liftE :: "'e + 'a \<Rightarrow> ('s, 'e, 'a) em" where
  "liftE r = (\<lambda>s. (r, s))"

fun forE :: "('a \<Rightarrow> ('s, 'e, unit) em) \<Rightarrow> 'a list \<Rightarrow> ('s, 'e, unit) em" where
  "forE f [] = returnE ()"
| "forE f (x # xs) = bindE (f x) (\<lambda>_. forE f xs)"

lemma run_returnE [run_simps]: "returnE x s = (Inr x, s)"
  by (simp add: returnE_def)

lemma run_throwE [run_simps]: "throwE e s = (Inl e, s)"
  by (simp add: throwE_def)

lemma run_getsE [run_simps]: "getsE f s = (Inr (f s), s)"
  by (simp add: getsE_def)

lemma run_modifyE [run_simps]: "modifyE f s = (Inr (), f s)"
  by (simp add: modifyE_def)

lemma run_liftE [run_simps]: "liftE r s = (r, s)"
  by (simp add: liftE_def)

lemma run_bindE [run_simps]:
  "bindE m f s = (case m s of (Inl e, s') \<Rightarrow> (Inl e, s') | (Inr x, s') \<Rightarrow> f x s')"
  by (simp add: bindE_def)

lemma run_catchE [run_simps]:
  "catchE m h s = (case m s of (Inl e, s') \<Rightarrow> h e s' | (Inr x, s') \<Rightarrow> (Inr x, s'))"
  by (simp add: catchE_def)

lemma run_tryE [run_simps]: "tryE m s = (case m s of (r, s') \<Rightarrow> (Inr r, s'))"
  by (simp add: tryE_def)

lemma run_deferE [run_simps]: "deferE m d s = (case m s of (r, s') \<Rightarrow> (r, snd (d s')))"
  by (simp add: deferE_def)

lemmas run_atoms [inv_simps] = run_returnE run_throwE run_getsE run_modifyE run_liftE

lemma map_sum_id_Inr [simp]: "map_sum f id x = Inr y \<longleftrightarrow> x = Inr y"
  by (cases x) simp_all

lemma map_sum_id_Inl [simp]: "map_sum f id x = Inl y \<longleftrightarrow> (\<exists>e. x = Inl e \<and> y = f e)"
  by (cases x) auto

lemma bindE_Inr [inv_simps]:
  "bindE m f s = (Inr y, t) \<longleftrightarrow> (\<exists>x s'. m s = (Inr x, s') \<and> f x s' = (Inr y, t))"
  by (simp add: bindE_def split: prod.splits sum.splits)

lemma catchE_Inr [inv_simps]:
  "catchE m h s = (Inr y, t) \<longleftrightarrow> m s = (Inr y, t) \<or> (\<exists>e s'. m s = (Inl e, s') \<and> h e s' = (Inr y, t))"
  by (simp add: catchE_def split: prod.splits sum.splits)

lemma catchE_Inl [inv_simps]:
  "catchE m h s = (Inl y, t) \<longleftrightarrow> (\<exists>e s'. m s = (Inl e, s') \<and> h e s' = (Inl y, t))"
  by (simp add: catchE_def split: prod.splits sum.splits)

lemma tryE_Inr [inv_simps]: "tryE m s = (Inr r, t) \<longleftrightarrow> m s = (r, t)"
  by (simp add: tryE_def split: prod.splits)

lemma tryE_Inl [inv_simps]: "tryE m s \<noteq> (Inl e, t)"
  by (simp add: tryE_def split: prod.splits)

lemma bindE_Inl [inv_simps]:
  "bindE m f s = (Inl e, t) \<longleftrightarrow>
     m s = (Inl e, t) \<or> (\<exists>x s'. m s = (Inr x, s') \<and> f x s' = (Inl e, t))"
  by (simp add: bindE_def split: prod.splits sum.splits)

lemma bindE_returnE [simp]: "bindE (returnE x) f = f x"
  by (simp add: bindE_def returnE_def)

lemma bindE_throwE [simp]: "bindE (throwE e) f = throwE e"
  by (simp add: bindE_def throwE_def)

lemma bindE_assoc: "bindE (bindE m f) g = bindE m (\<lambda>x. bindE (f x) g)"
  by (simp add: bindE_def fun_eq_iff split: prod.split sum.split)

text \<open>An observation of the state that a computation does not change.\<close>

definition keeps :: "('s \<Rightarrow> 'v) \<Rightarrow> ('s, 'e, 'a) em \<Rightarrow> bool" where
  "keeps obs m \<longleftrightarrow> (\<forall>s. obs (snd (m s)) = obs s)"

section \<open>What a computation appends to a call log\<close>

definition adds :: "('s \<Rightarrow> 'c list) \<Rightarrow> ('c \<Rightarrow> bool) \<Rightarrow> ('s, 'e, 'a) em \<Rightarrow> bool" where
  "adds log P m \<longleftrightarrow> (\<forall>s. \<exists>new. log (snd (m s)) = log s @ new \<and> (\<forall>c\<in>set new. P c))"

definition issued :: "('s \<Rightarrow> 'c list) \<Rightarrow> ('s, 'e, 'a) em \<Rightarrow> 's \<Rightarrow> 'c list" where
  "issued log m s = drop (length (log s)) (log (snd (m s)))"

abbreviation logs :: "('s \<Rightarrow> 'c list) \<Rightarrow> ('s, 'e, 'a) em \<Rightarrow> bool" where
  "logs log m \<equiv> adds log (\<lambda>_. True) m"

lemma adds_weaken: "adds log P m \<Longrightarrow> (\<And>c. P c \<Longrightarrow> Q c) \<Longrightarrow> adds log Q m"
  unfolding adds_def by metis

lemma adds_logs: "adds log P m \<Longrightarrow> logs log m"
  by (rule adds_weaken) simp_all

lemma addsD:
  assumes "adds log P m" and "c \<in> set (issued log m s)"
  shows "P c"
proof -
  from assms(1) obtain new where "log (snd (m s)) = log s @ new" and "\<forall>c\<in>set new. P c"
    unfolding adds_def by blast
  with assms(2) show ?thesis by (simp add: issued_def)
qed

lemma log_run: "logs log m \<Longrightarrow> log (snd (m s)) = log s @ issued log m s"
  unfolding adds_def issued_def by (metis append_eq_conv_conj)

lemma log_runD: "logs log m \<Longrightarrow> m s = (r, s') \<Longrightarrow> log s' = log s @ issued log m s"
  by (metis log_run snd_conv)

lemma addsI_issued:
  assumes "logs log m" and "\<And>s c. c \<in> set (issued log m s) \<Longrightarrow> P c"
  shows "adds log P m"
  unfolding adds_def using log_run [OF assms(1)] assms(2) by blast

lemma issued_eq: "log (snd (m s)) = log s @ xs \<Longrightarrow> issued log m s = xs"
  by (simp add: issued_def)

lemma issued_empty: "log (snd (m s)) = log s \<Longrightarrow> issued log m s = []"
  by (simp add: issued_def)

lemma adds_returnE [adds_intros]: "adds log P (returnE x)"
  by (simp add: adds_def returnE_def)

lemma adds_throwE [adds_intros]: "adds log P (throwE e)"
  by (simp add: adds_def throwE_def)

lemma adds_getsE [adds_intros]: "adds log P (getsE f)"
  by (simp add: adds_def getsE_def)

lemma adds_liftE [adds_intros]: "adds log P (liftE r)"
  by (simp add: adds_def liftE_def)

lemma adds_bindE [adds_intros]:
  assumes "adds log P m" and "\<And>x. adds log P (f x)"
  shows "adds log P (bindE m f)"
  unfolding adds_def
proof
  fix s
  obtain r s' where ms: "m s = (r, s')" by fastforce
  from assms(1) ms obtain new where n: "log s' = log s @ new" "\<forall>c\<in>set new. P c"
    unfolding adds_def by (metis snd_conv)
  show "\<exists>new. log (snd (bindE m f s)) = log s @ new \<and> (\<forall>c\<in>set new. P c)"
  proof (cases r)
    case (Inl e)
    with ms n show ?thesis by (auto simp: bindE_def)
  next
    case (Inr x)
    from assms(2) [of x] obtain new' where
      "log (snd (f x s')) = log s' @ new'" "\<forall>c\<in>set new'. P c"
      unfolding adds_def by blast
    with Inr ms n show ?thesis by (auto simp: bindE_def)
  qed
qed

lemma adds_catchE [adds_intros]:
  assumes "adds log P m" and "\<And>e. adds log P (h e)"
  shows "adds log P (catchE m h)"
  unfolding adds_def
proof
  fix s
  obtain r s' where ms: "m s = (r, s')" by fastforce
  from assms(1) ms obtain new where n: "log s' = log s @ new" "\<forall>c\<in>set new. P c"
    unfolding adds_def by (metis snd_conv)
  show "\<exists>new. log (snd (catchE m h s)) = log s @ new \<and> (\<forall>c\<in>set new. P c)"
  proof (cases r)
    case (Inr x)
    with ms n show ?thesis by (auto simp: catchE_def)
  next
    case (Inl e)
    from assms(2) [of e] obtain new' where
      "log (snd (h e s')) = log s' @ new'" "\<forall>c\<in>set new'. P c"
      unfolding adds_def by blast
    with Inl ms n show ?thesis by (auto simp: catchE_def)
  qed
qed

lemma adds_tryE [adds_intros]: "adds log P m \<Longrightarrow> adds log P (tryE m)"
  by (simp add: adds_def tryE_def split: prod.split) (metis snd_conv)

lemma adds_deferE [adds_intros]:
  assumes "adds log P m" and "adds log P d"
  shows "adds log P (deferE m d)"
  unfolding adds_def
proof
  fix s
  obtain r s' where ms: "m s = (r, s')" by fastforce
  from assms(1) ms obtain new where "log s' = log s @ new" "\<forall>c\<in>set new. P c"
    unfolding adds_def by (metis snd_conv)
  moreover from assms(2) obtain new' where "log (snd (d s')) = log s' @ new'" "\<forall>c\<in>set new'. P c"
    unfolding adds_def by blast
  ultimately show "\<exists>new. log (snd (deferE m d s)) = log s @ new \<and> (\<forall>c\<in>set new. P c)"
    using ms by (auto simp: deferE_def)
qed

lemma adds_modifyE: "(\<And>s. log (f s) = log s) \<Longrightarrow> adds log P (modifyE f)"
  by (simp add: adds_def modifyE_def)

lemma adds_if [adds_intros]:
  "(b \<Longrightarrow> adds log P m) \<Longrightarrow> (\<not> b \<Longrightarrow> adds log P n) \<Longrightarrow> adds log P (if b then m else n)"
  by simp

lemma adds_case_option [adds_intros]:
  "(x = None \<Longrightarrow> adds log P m) \<Longrightarrow> (\<And>y. x = Some y \<Longrightarrow> adds log P (f y)) \<Longrightarrow>
   adds log P (case x of None \<Rightarrow> m | Some y \<Rightarrow> f y)"
  by (cases x) simp_all

lemma adds_case_sum [adds_intros]:
  "(\<And>e. x = Inl e \<Longrightarrow> adds log P (g e)) \<Longrightarrow> (\<And>y. x = Inr y \<Longrightarrow> adds log P (f y)) \<Longrightarrow>
   adds log P (case x of Inl e \<Rightarrow> g e | Inr y \<Rightarrow> f y)"
  by (cases x) simp_all

lemma adds_case_prod [adds_intros]:
  "(\<And>a b. x = (a, b) \<Longrightarrow> adds log P (f a b)) \<Longrightarrow> adds log P (case x of (a, b) \<Rightarrow> f a b)"
  by (cases x) simp_all

lemma adds_Let [adds_intros]: "adds log P (f v) \<Longrightarrow> adds log P (let x = v in f x)"
  by simp

lemma adds_forE [adds_intros]: "(\<And>x. adds log P (f x)) \<Longrightarrow> adds log P (forE f xs)"
  by (induction xs) (auto intro: adds_intros)

subsection \<open>The calls issued, one combinator at a time\<close>

lemma issued_returnE [issued_simps]: "issued log (returnE x) s = []"
  by (simp add: issued_def returnE_def)

lemma issued_throwE [issued_simps]: "issued log (throwE e) s = []"
  by (simp add: issued_def throwE_def)

lemma issued_getsE [issued_simps]: "issued log (getsE f) s = []"
  by (simp add: issued_def getsE_def)

lemma issued_liftE [issued_simps]: "issued log (liftE r) s = []"
  by (simp add: issued_def liftE_def)

lemma issued_modifyE: "log (f s) = log s \<Longrightarrow> issued log (modifyE f) s = []"
  by (simp add: issued_def modifyE_def)

lemma issued_bindE:
  assumes "logs log m" and "\<And>x. logs log (f x)"
  shows "issued log (bindE m f) s =
    issued log m s @ (case m s of (Inl e, s') \<Rightarrow> [] | (Inr x, s') \<Rightarrow> issued log (f x) s')"
proof -
  obtain r s' where ms: "m s = (r, s')" by fastforce
  then have l: "log s' = log s @ issued log m s" by (rule log_runD [OF assms(1)])
  show ?thesis
  proof (cases r)
    case (Inl e)
    with ms l show ?thesis by (simp add: issued_def bindE_def)
  next
    case (Inr x)
    have "log (snd (f x s')) = log s' @ issued log (f x) s'" by (rule log_run [OF assms(2)])
    with Inr ms l have "log (snd (bindE m f s)) = log s @ issued log m s @ issued log (f x) s'"
      by (simp add: bindE_def)
    then show ?thesis using Inr ms by (simp add: issued_eq)
  qed
qed

lemma issued_same_run: "m s = m' s \<Longrightarrow> issued log m s = issued log m' s"
  by (simp add: issued_def)

text \<open>A computation that has got as far as running \<open>m'\<close> from \<open>t\<close>.\<close>

lemma issued_from:
  assumes "m s = m' t" and "log t = log s @ new" and "logs log m'"
  shows "issued log m s = new @ issued log m' t"
proof (rule issued_eq)
  show "log (snd (m s)) = log s @ new @ issued log m' t"
    unfolding assms(1) log_run [OF assms(3)] assms(2) by (rule append_assoc)
qed

lemma issued_bindE_in:
  assumes "logs log m" and "\<And>x. logs log (f x)" and "c \<in> set (issued log (bindE m f) s)"
  shows "c \<in> set (issued log m s) \<or> (\<exists>x s'. m s = (Inr x, s') \<and> c \<in> set (issued log (f x) s'))"
  using assms(3) unfolding issued_bindE [OF assms(1,2)] by (auto split: prod.splits sum.splits)

lemma issued_bindE_later:
  assumes "adds log Q m" and "\<And>x. logs log (f x)" and "c \<in> set (issued log (bindE m f) s)" and "\<not> Q c"
  shows "\<exists>x s'. m s = (Inr x, s') \<and> c \<in> set (issued log (f x) s')"
  using issued_bindE_in [OF adds_logs [OF assms(1)] assms(2,3)] addsD [OF assms(1)] assms(4) by blast

lemma issued_bindE_earlier:
  assumes "logs log m" and "\<And>x. adds log Q (f x)" and "c \<in> set (issued log (bindE m f) s)" and "\<not> Q c"
  shows "c \<in> set (issued log m s)"
  using issued_bindE_in [OF assms(1) adds_logs [OF assms(2)] assms(3)] addsD [OF assms(2)] assms(4) by blast

lemma issued_catchE:
  assumes "logs log m" and "\<And>e. logs log (h e)"
  shows "issued log (catchE m h) s =
    issued log m s @ (case m s of (Inl e, s') \<Rightarrow> issued log (h e) s' | (Inr x, s') \<Rightarrow> [])"
proof -
  obtain r s' where ms: "m s = (r, s')" by fastforce
  then have l: "log s' = log s @ issued log m s" by (rule log_runD [OF assms(1)])
  show ?thesis
  proof (cases r)
    case (Inr x)
    with ms l show ?thesis by (simp add: issued_def catchE_def)
  next
    case (Inl e)
    have "log (snd (h e s')) = log s' @ issued log (h e) s'" by (rule log_run [OF assms(2)])
    with Inl ms l have "log (snd (catchE m h s)) = log s @ issued log m s @ issued log (h e) s'"
      by (simp add: catchE_def)
    then show ?thesis using Inl ms by (simp add: issued_eq)
  qed
qed

lemma issued_tryE [issued_simps]: "issued log (tryE m) s = issued log m s"
  by (simp add: issued_def tryE_def split: prod.split)

lemma issued_deferE:
  assumes "logs log m" and "logs log d"
  shows "issued log (deferE m d) s = issued log m s @ issued log d (snd (m s))"
proof -
  obtain r s' where ms: "m s = (r, s')" by fastforce
  then have "log s' = log s @ issued log m s" by (rule log_runD [OF assms(1)])
  moreover have "log (snd (d s')) = log s' @ issued log d s'" by (rule log_run [OF assms(2)])
  ultimately have "log (snd (deferE m d s)) = log s @ issued log m s @ issued log d s'"
    using ms by (simp add: deferE_def)
  then show ?thesis using ms by (simp add: issued_eq)
qed

subsection \<open>Performing a call\<close>

text \<open>
  A call is put on the log, and the answer depends on the whole log: whatever the servers and the
  other actors did in between is a function \<open>f\<close> of what has been asked so far.
\<close>

definition perform ::
    "('s \<Rightarrow> 'c list) \<Rightarrow> ('c \<Rightarrow> 's \<Rightarrow> 's) \<Rightarrow> ('c list \<Rightarrow> 'e + 'a) \<Rightarrow> 'c \<Rightarrow> ('s, 'e, 'a) em" where
  "perform log app f c = (\<lambda>s. let s' = app c s in (f (log s'), s'))"

locale call_log =
  fixes log :: "'s \<Rightarrow> 'c list" and app :: "'c \<Rightarrow> 's \<Rightarrow> 's"
  assumes log_app: "log (app c s) = log s @ [c]"
begin

lemma adds_perform: "P c \<Longrightarrow> adds log P (perform log app f c)"
  by (simp add: adds_def perform_def Let_def log_app)

lemma issued_perform: "issued log (perform log app f c) s = [c]"
  by (simp add: issued_eq perform_def Let_def log_app)

lemma run_perform: "perform log app f c s = (f (log s @ [c]), app c s)"
  by (simp add: perform_def Let_def log_app)

lemma keeps_perform: "(\<And>s. obs (app c s) = obs s) \<Longrightarrow> keeps obs (perform log app f c)"
  by (simp add: keeps_def perform_def Let_def)

end

section \<open>What a computation leaves alone\<close>

lemma keepsD: "keeps obs m \<Longrightarrow> m s = (r, s') \<Longrightarrow> obs s' = obs s"
  unfolding keeps_def by (metis snd_conv)

lemma keeps_returnE [keeps_intros]: "keeps obs (returnE x)"
  by (simp add: keeps_def returnE_def)

lemma keeps_throwE [keeps_intros]: "keeps obs (throwE e)"
  by (simp add: keeps_def throwE_def)

lemma keeps_getsE [keeps_intros]: "keeps obs (getsE f)"
  by (simp add: keeps_def getsE_def)

lemma keeps_liftE [keeps_intros]: "keeps obs (liftE r)"
  by (simp add: keeps_def liftE_def)

lemma keeps_modifyE: "(\<And>s. obs (f s) = obs s) \<Longrightarrow> keeps obs (modifyE f)"
  by (simp add: keeps_def modifyE_def)

lemma keeps_bindE [keeps_intros]:
  "keeps obs m \<Longrightarrow> (\<And>x. keeps obs (f x)) \<Longrightarrow> keeps obs (bindE m f)"
  unfolding keeps_def bindE_def by (auto split: prod.split sum.split) (metis snd_conv)+

lemma keeps_catchE [keeps_intros]:
  "keeps obs m \<Longrightarrow> (\<And>e. keeps obs (h e)) \<Longrightarrow> keeps obs (catchE m h)"
  unfolding keeps_def catchE_def by (auto split: prod.split sum.split) (metis snd_conv)+

lemma keeps_tryE [keeps_intros]: "keeps obs m \<Longrightarrow> keeps obs (tryE m)"
  unfolding keeps_def tryE_def by (auto split: prod.split) (metis snd_conv)

lemma keeps_deferE [keeps_intros]: "keeps obs m \<Longrightarrow> keeps obs d \<Longrightarrow> keeps obs (deferE m d)"
  unfolding keeps_def deferE_def by (auto split: prod.split) (metis snd_conv)

lemma keeps_if [keeps_intros]:
  "(b \<Longrightarrow> keeps obs m) \<Longrightarrow> (\<not> b \<Longrightarrow> keeps obs n) \<Longrightarrow> keeps obs (if b then m else n)"
  by simp

lemma keeps_case_option [keeps_intros]:
  "(x = None \<Longrightarrow> keeps obs m) \<Longrightarrow> (\<And>y. x = Some y \<Longrightarrow> keeps obs (f y)) \<Longrightarrow>
   keeps obs (case x of None \<Rightarrow> m | Some y \<Rightarrow> f y)"
  by (cases x) simp_all

lemma keeps_case_sum [keeps_intros]:
  "(\<And>e. x = Inl e \<Longrightarrow> keeps obs (g e)) \<Longrightarrow> (\<And>y. x = Inr y \<Longrightarrow> keeps obs (f y)) \<Longrightarrow>
   keeps obs (case x of Inl e \<Rightarrow> g e | Inr y \<Rightarrow> f y)"
  by (cases x) simp_all

lemma keeps_case_prod [keeps_intros]:
  "(\<And>a b. x = (a, b) \<Longrightarrow> keeps obs (f a b)) \<Longrightarrow> keeps obs (case x of (a, b) \<Rightarrow> f a b)"
  by (cases x) simp_all

lemma keeps_Let [keeps_intros]: "keeps obs (f v) \<Longrightarrow> keeps obs (let x = v in f x)"
  by simp

lemma keeps_forE [keeps_intros]: "(\<And>x. keeps obs (f x)) \<Longrightarrow> keeps obs (forE f xs)"
  by (induction xs) (auto intro: keeps_intros)

section \<open>What a computation returns\<close>

definition gives :: "('a \<Rightarrow> bool) \<Rightarrow> ('s, 'e, 'a) em \<Rightarrow> bool" where
  "gives P m \<longleftrightarrow> (\<forall>s x s'. m s = (Inr x, s') \<longrightarrow> P x)"

lemma givesD: "gives P m \<Longrightarrow> m s = (Inr x, s') \<Longrightarrow> P x"
  unfolding gives_def by blast

lemma gives_returnE [gives_intros]: "P x \<Longrightarrow> gives P (returnE x)"
  by (simp add: gives_def returnE_def)

lemma gives_throwE [gives_intros]: "gives P (throwE e)"
  by (simp add: gives_def throwE_def)

lemma gives_liftE [gives_intros]: "(\<And>x. r = Inr x \<Longrightarrow> P x) \<Longrightarrow> gives P (liftE r)"
  by (simp add: gives_def liftE_def)

lemma gives_bindE [gives_intros]: "(\<And>x. gives P (f x)) \<Longrightarrow> gives P (bindE m f)"
  by (simp add: gives_def bindE_Inr) blast

lemma gives_bindE_with: "gives Q m \<Longrightarrow> (\<And>x. Q x \<Longrightarrow> gives P (f x)) \<Longrightarrow> gives P (bindE m f)"
  by (simp add: gives_def bindE_Inr) blast

lemma adds_bindE_with:
  assumes "adds log P m" and "gives Q m" and "\<And>x. Q x \<Longrightarrow> adds log P (f x)"
  shows "adds log P (bindE m f)"
  unfolding adds_def
proof
  fix s
  obtain r s' where ms: "m s = (r, s')" by fastforce
  from assms(1) ms obtain new where n: "log s' = log s @ new" "\<forall>c\<in>set new. P c"
    unfolding adds_def by (metis snd_conv)
  show "\<exists>new. log (snd (bindE m f s)) = log s @ new \<and> (\<forall>c\<in>set new. P c)"
  proof (cases r)
    case (Inl e)
    with ms n show ?thesis by (auto simp: bindE_def)
  next
    case (Inr x)
    with ms assms(2) have "Q x" by (auto dest: givesD)
    from assms(3) [OF this] obtain new' where
      "log (snd (f x s')) = log s' @ new'" "\<forall>c\<in>set new'. P c"
      unfolding adds_def by blast
    with Inr ms n show ?thesis by (auto simp: bindE_def)
  qed
qed

lemma gives_case_prod [gives_intros]:
  "(\<And>a b. x = (a, b) \<Longrightarrow> gives P (f a b)) \<Longrightarrow> gives P (case x of (a, b) \<Rightarrow> f a b)"
  by (cases x) simp_all

lemma gives_catchE [gives_intros]: "gives P m \<Longrightarrow> (\<And>e. gives P (h e)) \<Longrightarrow> gives P (catchE m h)"
  by (simp add: gives_def catchE_Inr) blast

lemma gives_tryE: "gives P m \<Longrightarrow> gives (\<lambda>r. \<forall>x. r = Inr x \<longrightarrow> P x) (tryE m)"
  by (auto simp: gives_def tryE_Inr)

lemma gives_bindE_tryE:
  "gives Q m \<Longrightarrow> (\<And>e. gives P (f (Inl e))) \<Longrightarrow> (\<And>x. Q x \<Longrightarrow> gives P (f (Inr x))) \<Longrightarrow> gives P (bindE (tryE m) f)"
  by (rule gives_bindE_with [OF gives_tryE]) (auto, metis sum.exhaust_sel)

lemma gives_if [gives_intros]:
  "(b \<Longrightarrow> gives P m) \<Longrightarrow> (\<not> b \<Longrightarrow> gives P n) \<Longrightarrow> gives P (if b then m else n)"
  by simp

lemma gives_case_option [gives_intros]:
  "(x = None \<Longrightarrow> gives P m) \<Longrightarrow> (\<And>y. x = Some y \<Longrightarrow> gives P (f y)) \<Longrightarrow>
   gives P (case x of None \<Rightarrow> m | Some y \<Rightarrow> f y)"
  by (cases x) simp_all

lemma gives_case_sum [gives_intros]:
  "(\<And>e. x = Inl e \<Longrightarrow> gives P (g e)) \<Longrightarrow> (\<And>y. x = Inr y \<Longrightarrow> gives P (f y)) \<Longrightarrow>
   gives P (case x of Inl e \<Rightarrow> g e | Inr y \<Rightarrow> f y)"
  by (cases x) simp_all

lemma gives_Let [gives_intros]: "gives P (f v) \<Longrightarrow> gives P (let x = v in f x)"
  by simp

section \<open>What a computation appends, from states with an invariant\<close>

definition adds_inv :: "('s \<Rightarrow> bool) \<Rightarrow> ('s \<Rightarrow> 'c list) \<Rightarrow> ('c \<Rightarrow> bool) \<Rightarrow> ('s, 'e, 'a) em \<Rightarrow> bool" where
  "adds_inv I log P m \<longleftrightarrow>
     (\<forall>s. I s \<longrightarrow> I (snd (m s)) \<and> (\<exists>new. log (snd (m s)) = log s @ new \<and> (\<forall>c\<in>set new. P c)))"

lemma adds_invD: "adds_inv I log P m \<Longrightarrow> I s \<Longrightarrow> c \<in> set (issued log m s) \<Longrightarrow> P c"
  unfolding adds_inv_def issued_def by fastforce

lemma adds_inv_of: "adds log P m \<Longrightarrow> keeps obs m \<Longrightarrow> adds_inv (\<lambda>s. obs s = v) log P m"
  unfolding adds_inv_def adds_def keeps_def by auto

lemma adds_inv_returnE [adds_inv_intros]: "adds_inv I log P (returnE x)"
  by (simp add: adds_inv_def returnE_def)

lemma adds_inv_throwE [adds_inv_intros]: "adds_inv I log P (throwE e)"
  by (simp add: adds_inv_def throwE_def)

lemma adds_inv_bindE [adds_inv_intros]:
  assumes "adds_inv I log P m" and "\<And>x. adds_inv I log P (f x)"
  shows "adds_inv I log P (bindE m f)"
  unfolding adds_inv_def
proof (intro allI impI)
  fix s
  assume "I s"
  obtain r s' where ms: "m s = (r, s')" by fastforce
  with assms(1) \<open>I s\<close> obtain new where n: "I s'" "log s' = log s @ new" "\<forall>c\<in>set new. P c"
    unfolding adds_inv_def by (metis snd_conv)
  show "I (snd (bindE m f s)) \<and> (\<exists>new. log (snd (bindE m f s)) = log s @ new \<and> (\<forall>c\<in>set new. P c))"
  proof (cases r)
    case (Inl e)
    with ms n show ?thesis by (auto simp: bindE_def)
  next
    case (Inr x)
    from assms(2) [of x] n(1) obtain new' where
      "I (snd (f x s'))" "log (snd (f x s')) = log s' @ new'" "\<forall>c\<in>set new'. P c"
      unfolding adds_inv_def by blast
    with Inr ms n show ?thesis by (auto simp: bindE_def)
  qed
qed

text \<open>A value read from the state is one of a state with the invariant.\<close>

lemma adds_inv_getsE [adds_inv_intros]:
  "(\<And>s. I s \<Longrightarrow> adds_inv I log P (f (g s))) \<Longrightarrow> adds_inv I log P (bindE (getsE g) f)"
  unfolding adds_inv_def bindE_def getsE_def by auto

lemma adds_inv_if [adds_inv_intros]:
  "(b \<Longrightarrow> adds_inv I log P m) \<Longrightarrow> (\<not> b \<Longrightarrow> adds_inv I log P n) \<Longrightarrow> adds_inv I log P (if b then m else n)"
  by simp

lemma adds_inv_case_option [adds_inv_intros]:
  "(x = None \<Longrightarrow> adds_inv I log P m) \<Longrightarrow> (\<And>y. x = Some y \<Longrightarrow> adds_inv I log P (f y)) \<Longrightarrow>
   adds_inv I log P (case x of None \<Rightarrow> m | Some y \<Rightarrow> f y)"
  by (cases x) simp_all

lemma adds_inv_case_sum [adds_inv_intros]:
  "(\<And>e. x = Inl e \<Longrightarrow> adds_inv I log P (g e)) \<Longrightarrow> (\<And>y. x = Inr y \<Longrightarrow> adds_inv I log P (f y)) \<Longrightarrow>
   adds_inv I log P (case x of Inl e \<Rightarrow> g e | Inr y \<Rightarrow> f y)"
  by (cases x) simp_all

lemma adds_inv_case_prod [adds_inv_intros]:
  "(\<And>a b. x = (a, b) \<Longrightarrow> adds_inv I log P (f a b)) \<Longrightarrow> adds_inv I log P (case x of (a, b) \<Rightarrow> f a b)"
  by (cases x) simp_all

section \<open>Go maps\<close>

text \<open>Reading a missing key of a \<open>map[string]string\<close> gives the zero value, the empty string.\<close>

definition lookup0 :: "('k \<rightharpoonup> string) \<Rightarrow> 'k \<Rightarrow> string" where
  "lookup0 m k = (case m k of None \<Rightarrow> '''' | Some v \<Rightarrow> v)"

lemma lookup0_upd [simp]: "lookup0 (m(k \<mapsto> v)) k' = (if k' = k then v else lookup0 m k')"
  by (simp add: lookup0_def)

lemma lookup0_None [simp]: "m k = None \<Longrightarrow> lookup0 m k = ''''"
  by (simp add: lookup0_def)

lemma lookup0_Some [simp]: "m k = Some v \<Longrightarrow> lookup0 m k = v"
  by (simp add: lookup0_def)

lemma update_same_keys: "k \<in> fst ` set xs \<Longrightarrow> map fst (AList.update k v xs) = map fst xs"
  by (induction xs) auto

lemma map_of_update [simp]: "map_of (AList.update k v xs) k' = (if k' = k then Some v else map_of xs k')"
  by (simp add: update_conv')

end
