(* ===== verification/GoStd.thy ===== *)
theory GoStd
  imports Prelude
begin

text \<open>
  The parts of Go's standard library the code relies on, on byte strings: \<open>strings\<close>
  (\<open>ToLower\<close>, \<open>EqualFold\<close>, \<open>Replace\<close>, \<open>ReplaceAll\<close>, \<open>Contains\<close>; MACs and the replaced
  markers are ASCII, where folding is per byte), \<open>strconv.Itoa\<close>, \<open>cmp.Or\<close>, \<open>path.Split\<close>,
  \<open>path.Clean\<close> and \<open>path.Join\<close>, \<open>net/netip.ParseAddr\<close> with \<open>Addr.Unmap().Is4()\<close>, and
  \<open>sort.Slice\<close> as an insertion sort by the caller's less function.
\<close>

section \<open>Strings\<close>

definition is_digit :: "char \<Rightarrow> bool" where
  "is_digit c \<longleftrightarrow> 48 \<le> (of_char c :: nat) \<and> (of_char c :: nat) \<le> 57"

definition digit_val :: "char \<Rightarrow> nat" where
  "digit_val c = of_char c - 48"

definition digit_char :: "nat \<Rightarrow> char" where
  "digit_char d = char_of (48 + d)"

definition lower_char :: "char \<Rightarrow> char" where
  "lower_char c =
     (if 65 \<le> (of_char c :: nat) \<and> (of_char c :: nat) \<le> 90 then char_of (of_char c + 32 :: nat) else c)"

definition to_lower :: "string \<Rightarrow> string" where
  "to_lower s = map lower_char s"

definition equal_fold :: "string \<Rightarrow> string \<Rightarrow> bool" where
  "equal_fold a b \<longleftrightarrow> to_lower a = to_lower b"

definition cmp_or :: "string \<Rightarrow> string \<Rightarrow> string" where
  "cmp_or a b = (if a \<noteq> '''' then a else b)"

fun has_prefix :: "string \<Rightarrow> string \<Rightarrow> bool" where
  "has_prefix [] s = True"
| "has_prefix (p # ps) [] = False"
| "has_prefix (p # ps) (c # cs) = (p = c \<and> has_prefix ps cs)"

fun contains :: "string \<Rightarrow> string \<Rightarrow> bool" where
  "contains [] sub = has_prefix sub []"
| "contains (c # cs) sub = (has_prefix sub (c # cs) \<or> contains cs sub)"

text \<open>\<open>strings.ReplaceAll(s, old, new)\<close> for a non-empty \<open>old\<close>: left to right, without overlaps.\<close>

function replace_all :: "string \<Rightarrow> string \<Rightarrow> string \<Rightarrow> string" where
  "replace_all s old new =
     (case s of [] \<Rightarrow> []
      | c # cs \<Rightarrow> if old \<noteq> [] \<and> has_prefix old s then new @ replace_all (drop (length old) s) old new
                  else c # replace_all cs old new)"
  by pat_completeness auto
termination
  by (relation "measure (\<lambda>(s, old, new). length s)") auto

declare replace_all.simps [simp del]

text \<open>\<open>strings.Replace(s, old, new, n)\<close> for a one-byte \<open>old\<close>: the first \<open>n\<close> occurrences.\<close>

fun replace_char_n :: "string \<Rightarrow> char \<Rightarrow> char \<Rightarrow> nat \<Rightarrow> string" where
  "replace_char_n s old new 0 = s"
| "replace_char_n [] old new (Suc n) = []"
| "replace_char_n (c # cs) old new (Suc n) =
     (if c = old then new # replace_char_n cs old new n else c # replace_char_n cs old new (Suc n))"

fun nat_to_string :: "nat \<Rightarrow> string" where
  "nat_to_string n = (if n < 10 then [digit_char n] else nat_to_string (n div 10) @ [digit_char (n mod 10)])"

declare nat_to_string.simps [simp del]

definition itoa :: "int \<Rightarrow> string" where
  "itoa i = (if i < 0 then CHR ''-'' # nat_to_string (nat (- i)) else nat_to_string (nat i))"

lemma of_char_digit_char: "d < 10 \<Longrightarrow> (of_char (digit_char d) :: nat) = 48 + d"
  by (simp add: digit_char_def)

lemma is_digit_digit_char [simp]: "d < 10 \<Longrightarrow> is_digit (digit_char d)"
  by (simp add: is_digit_def of_char_digit_char)

lemma digit_val_digit_char [simp]: "d < 10 \<Longrightarrow> digit_val (digit_char d) = d"
  by (simp add: digit_val_def of_char_digit_char)

lemma nat_to_string_nonempty [simp]: "nat_to_string n \<noteq> []"
  by (subst nat_to_string.simps) simp

lemma nat_to_string_digits: "\<forall>c\<in>set (nat_to_string n). is_digit c"
proof (induction n rule: nat_to_string.induct)
  case (1 n)
  then show ?case by (subst nat_to_string.simps) auto
qed

lemma itoa_nonempty [simp]: "itoa i \<noteq> ''''"
  by (simp add: itoa_def)

lemma length_to_lower [simp]: "length (to_lower s) = length s"
  by (simp add: to_lower_def)

lemma lower_char_idem [simp]: "lower_char (lower_char c) = lower_char c"
  by (simp add: lower_char_def)

lemma to_lower_idem [simp]: "to_lower (to_lower s) = to_lower s"
  by (simp add: to_lower_def)

lemma to_lower_empty [simp]: "to_lower s = '''' \<longleftrightarrow> s = ''''"
  by (simp add: to_lower_def)

lemma equal_fold_refl [simp]: "equal_fold a a"
  by (simp add: equal_fold_def)

lemma equal_fold_to_lower [simp]: "equal_fold a (to_lower b) = equal_fold a b"
  by (simp add: equal_fold_def)

lemma equal_fold_lower_eq: "to_lower a = a \<Longrightarrow> to_lower b = b \<Longrightarrow> equal_fold a b \<longleftrightarrow> a = b"
  by (simp add: equal_fold_def)

section \<open>Slash-separated paths\<close>

text \<open>\<open>path.Split\<close>: everything up to and including the last slash, and the rest.\<close>

definition path_split :: "string \<Rightarrow> string \<times> string" where
  "path_split p =
     (let file = rev (takeWhile (\<lambda>c. c \<noteq> CHR ''/'') (rev p))
      in (take (length p - length file) p, file))"

fun split_slash :: "string \<Rightarrow> string list" where
  "split_slash [] = [[]]"
| "split_slash (c # cs) =
     (if c = CHR ''/'' then [] # split_slash cs
      else (case split_slash cs of [] \<Rightarrow> [[c]] | seg # segs \<Rightarrow> (c # seg) # segs))"

fun join_slash :: "string list \<Rightarrow> string" where
  "join_slash [] = []"
| "join_slash [s] = s"
| "join_slash (s # ss) = s @ CHR ''/'' # join_slash ss"

text \<open>
  \<open>path.Clean\<close>: empty and \<open>.\<close> elements go, \<open>..\<close> drops the element before it; at the root it is
  dropped, and at the start of a relative path it stays. \<open>out\<close> is the output, last element first.
\<close>

fun clean_segs :: "bool \<Rightarrow> string list \<Rightarrow> string list \<Rightarrow> string list" where
  "clean_segs rooted out [] = rev out"
| "clean_segs rooted out (seg # segs) =
     (if seg = '''' \<or> seg = ''.'' then clean_segs rooted out segs
      else if seg = ''..'' then
        (case out of
           [] \<Rightarrow> if rooted then clean_segs rooted [] segs else clean_segs rooted [''..''] segs
         | o1 # os \<Rightarrow> if o1 = ''..'' then clean_segs rooted (''..'' # out) segs
                      else clean_segs rooted os segs)
      else clean_segs rooted (seg # out) segs)"

definition path_clean :: "string \<Rightarrow> string" where
  "path_clean p =
     (let rooted = has_prefix ''/'' p;
          body = join_slash (clean_segs rooted [] (split_slash p))
      in if rooted then CHR ''/'' # body else if body = '''' then ''.'' else body)"

text \<open>\<open>path.Join\<close>: the non-empty elements, separated by slashes, cleaned; empty if there is none.\<close>

definition path_join :: "string list \<Rightarrow> string" where
  "path_join elems =
     (case filter (\<lambda>e. e \<noteq> '''') elems of [] \<Rightarrow> '''' | es \<Rightarrow> path_clean (join_slash es))"

section \<open>IP addresses\<close>

datatype ip_addr =
    V4 "nat list"         \<comment> \<open>four bytes\<close>
  | V6 "nat list" string  \<comment> \<open>sixteen bytes and the zone\<close>

text \<open>
  \<open>parseIPv4Fields\<close>: the value and the number of digits of the octet being read, and the octets
  already read. No octet may be empty, exceed 255 or start with a superfluous zero.
\<close>

fun ipv4_fields :: "string \<Rightarrow> nat \<Rightarrow> nat \<Rightarrow> nat list \<Rightarrow> nat list option" where
  "ipv4_fields [] val digLen fs = (if length fs < 3 then None else Some (fs @ [val]))"
| "ipv4_fields (c # cs) val digLen fs =
     (if is_digit c then
        (if digLen = 1 \<and> val = 0 then None
         else if 255 < val * 10 + digit_val c then None
         else ipv4_fields cs (val * 10 + digit_val c) (Suc digLen) fs)
      else if c = CHR ''.'' then
        (if digLen = 0 \<or> cs = [] then None
         else if length fs = 3 then None
         else ipv4_fields cs 0 0 (fs @ [val]))
      else None)"

definition hex_val :: "char \<Rightarrow> nat option" where
  "hex_val c =
     (let n = of_char c :: nat in
      if 48 \<le> n \<and> n \<le> 57 then Some (n - 48)
      else if 97 \<le> n \<and> n \<le> 102 then Some (n - 97 + 10)
      else if 65 \<le> n \<and> n \<le> 70 then Some (n - 65 + 10)
      else None)"

text \<open>A run of hexadecimal digits: how many, their value, and what follows; \<open>None\<close> above 16 bits.\<close>

fun scan_hex :: "string \<Rightarrow> nat \<Rightarrow> nat \<Rightarrow> (nat \<times> nat \<times> string) option" where
  "scan_hex [] off acc = Some (off, acc, [])"
| "scan_hex (c # cs) off acc =
     (case hex_val c of
        None \<Rightarrow> Some (off, acc, c # cs)
      | Some d \<Rightarrow>
          if 3 < off then None
          else if 65535 < acc * 16 + d then None
          else scan_hex cs (Suc off) (acc * 16 + d))"

text \<open>The end of \<open>parseIPv6\<close>: nothing may be left over, and an ellipsis fills up to 16 bytes.\<close>

definition ipv6_finish :: "string \<Rightarrow> nat list \<Rightarrow> nat option \<Rightarrow> nat list option" where
  "ipv6_finish rest bs ell =
     (if rest \<noteq> [] then None
      else if length bs < 16 then
        (case ell of
           None \<Rightarrow> None
         | Some e \<Rightarrow> Some (take e bs @ replicate (16 - length bs) 0 @ drop e bs))
      else if ell \<noteq> None then None
      else Some bs)"

text \<open>The loop of \<open>parseIPv6\<close>: the bytes read so far and the position of the ellipsis among them.\<close>

function ipv6_loop :: "string \<Rightarrow> nat list \<Rightarrow> nat option \<Rightarrow> nat list option" where
  "ipv6_loop s bs ell =
     (if 16 \<le> length bs then ipv6_finish s bs ell
      else (case scan_hex s 0 0 of
        None \<Rightarrow> None
      | Some (off, acc, rest) \<Rightarrow>
          if off = 0 then None
          else if has_prefix ''.'' rest then
            (if ell = None \<and> length bs \<noteq> 12 then None
             else if 16 < length bs + 4 then None
             else (case ipv4_fields s 0 0 [] of None \<Rightarrow> None | Some fs \<Rightarrow> ipv6_finish [] (bs @ fs) ell))
          else (let bs' = bs @ [acc div 256, acc mod 256] in
            case rest of
              [] \<Rightarrow> ipv6_finish [] bs' ell
            | c # t \<Rightarrow>
                if c \<noteq> CHR '':'' then None
                else (case t of
                  [] \<Rightarrow> None
                | c2 # t2 \<Rightarrow>
                    if c2 = CHR '':'' then
                      (if ell \<noteq> None then None
                       else if t2 = [] then ipv6_finish [] bs' (Some (length bs'))
                       else ipv6_loop t2 bs' (Some (length bs')))
                    else ipv6_loop t bs' ell))))"
  by pat_completeness auto
termination
  by (relation "measure (\<lambda>(s, bs, ell). 16 - length bs)") auto

declare ipv6_loop.simps [simp del]

definition parse_ipv6 :: "string \<Rightarrow> ip_addr option" where
  "parse_ipv6 s0 =
     (let addr = takeWhile (\<lambda>c. c \<noteq> CHR ''%'') s0;
          zone = drop (Suc (length addr)) s0
      in if addr \<noteq> s0 \<and> zone = '''' then None
         else if has_prefix ''::'' addr then
           (if drop 2 addr = [] then Some (V6 (replicate 16 0) zone)
            else map_option (\<lambda>bs. V6 bs zone) (ipv6_loop (drop 2 addr) [] (Some 0)))
         else map_option (\<lambda>bs. V6 bs zone) (ipv6_loop addr [] None))"

text \<open>\<open>ParseAddr\<close> decides by the first of \<open>.\<close>, \<open>:\<close> and \<open>%\<close> in the string.\<close>

fun addr_separator :: "string \<Rightarrow> char option" where
  "addr_separator [] = None"
| "addr_separator (c # cs) =
     (if c = CHR ''.'' \<or> c = CHR '':'' \<or> c = CHR ''%'' then Some c else addr_separator cs)"

definition parse_addr :: "string \<Rightarrow> ip_addr option" where
  "parse_addr s =
     (case addr_separator s of
        None \<Rightarrow> None
      | Some c \<Rightarrow>
          if c = CHR ''.'' then map_option V4 (ipv4_fields s 0 0 [])
          else if c = CHR '':'' then parse_ipv6 s
          else None)"

text \<open>\<open>addr.Unmap().Is4()\<close>: an IPv4 address, or an IPv6 address that embeds one (\<open>::ffff:a.b.c.d\<close>).\<close>

definition unmap_is4 :: "ip_addr \<Rightarrow> bool" where
  "unmap_is4 a =
     (case a of V4 _ \<Rightarrow> True
      | V6 bs _ \<Rightarrow> take 12 bs = replicate 10 0 @ [255, 255])"

definition dotted_quad :: "nat \<Rightarrow> nat \<Rightarrow> nat \<Rightarrow> nat \<Rightarrow> string" where
  "dotted_quad a b c d =
     nat_to_string a @ ''.'' @ nat_to_string b @ ''.'' @ nat_to_string c @ ''.'' @ nat_to_string d"

lemma ipv4_fields_octet:
  "n \<le> 255 \<Longrightarrow> ipv4_fields (nat_to_string n @ t) 0 0 fs = ipv4_fields t n (length (nat_to_string n)) fs"
proof (induction n arbitrary: t rule: nat_to_string.induct)
  case (1 n)
  show ?case
  proof (cases "n < 10")
    case True
    then show ?thesis by (simp add: nat_to_string.simps [of n])
  next
    case False
    have "ipv4_fields (nat_to_string (n div 10) @ digit_char (n mod 10) # t) 0 0 fs =
        ipv4_fields (digit_char (n mod 10) # t) (n div 10) (length (nat_to_string (n div 10))) fs"
      using 1 False by simp
    moreover have "n div 10 * 10 + n mod 10 = n" by simp
    ultimately show ?thesis using False 1(2) by (simp add: nat_to_string.simps [of n] div_eq_0_iff)
  qed
qed

lemma not_digit_dot [simp]: "\<not> is_digit (CHR ''.'')"
  by (simp add: is_digit_def)

lemma digit_not_separator:
  "is_digit c \<Longrightarrow> c \<noteq> CHR ''.'' \<and> c \<noteq> CHR '':'' \<and> c \<noteq> CHR ''%''"
  by (auto simp: is_digit_def)

lemma addr_separator_digits:
  "\<forall>c\<in>set p. is_digit c \<Longrightarrow> addr_separator (p @ t) = addr_separator t"
  by (induction p) (auto dest: digit_not_separator)

lemma ipv4_fields_octet_dot:
  "n \<le> 255 \<Longrightarrow> length fs < 3 \<Longrightarrow> t \<noteq> [] \<Longrightarrow>
   ipv4_fields (nat_to_string n @ CHR ''.'' # t) 0 0 fs = ipv4_fields t 0 0 (fs @ [n])"
  by (simp add: ipv4_fields_octet)

lemma ipv4_fields_dotted_quad:
  assumes "a \<le> 255" "b \<le> 255" "c \<le> 255" "d \<le> 255"
  shows "ipv4_fields (dotted_quad a b c d) 0 0 [] = Some [a, b, c, d]"
  using assms ipv4_fields_octet [of d "[]" "[a, b, c]"]
  by (simp add: dotted_quad_def ipv4_fields_octet_dot)

lemma parse_addr_dotted_quad:
  assumes "a \<le> 255" "b \<le> 255" "c \<le> 255" "d \<le> 255"
  shows "parse_addr (dotted_quad a b c d) = Some (V4 [a, b, c, d])"
proof -
  have "addr_separator (dotted_quad a b c d) = Some (CHR ''.'')"
    unfolding dotted_quad_def using nat_to_string_digits [of a]
    by (subst addr_separator_digits) simp_all
  then show ?thesis using ipv4_fields_dotted_quad [OF assms] by (simp add: parse_addr_def)
qed

section \<open>sort.Slice\<close>

text \<open>
  \<open>sort.Slice\<close> sorts by a less function. Go leaves the order of elements that tie open; the model
  inserts each element before the first one that is not less than it, so ties keep their order.
\<close>

fun insert_by :: "('a \<Rightarrow> 'a \<Rightarrow> bool) \<Rightarrow> 'a \<Rightarrow> 'a list \<Rightarrow> 'a list" where
  "insert_by lt x [] = [x]"
| "insert_by lt x (y # ys) = (if lt y x then y # insert_by lt x ys else x # y # ys)"

fun sort_slice :: "('a \<Rightarrow> 'a \<Rightarrow> bool) \<Rightarrow> 'a list \<Rightarrow> 'a list" where
  "sort_slice lt [] = []"
| "sort_slice lt (x # xs) = insert_by lt x (sort_slice lt xs)"

lemma set_insert_by [simp]: "set (insert_by lt x ys) = insert x (set ys)"
  by (induction ys) auto

lemma set_sort_slice [simp]: "set (sort_slice lt xs) = set xs"
  by (induction xs) auto

lemma sort_slice_Nil [simp]: "sort_slice lt xs = [] \<longleftrightarrow> xs = []"
  by (metis set_sort_slice set_empty)

lemma hd_insert_by:
  "ys \<noteq> [] \<Longrightarrow> hd (insert_by lt x ys) = (if lt (hd ys) x then hd ys else x)"
  by (cases ys) auto

text \<open>For a less function that is a strict weak order, the first element has nothing below it.\<close>

lemma hd_sort_slice_least:
  assumes asym: "\<And>a b. lt a b \<Longrightarrow> \<not> lt b a"
    and cotrans: "\<And>a b c. \<not> lt a b \<Longrightarrow> \<not> lt b c \<Longrightarrow> \<not> lt a c"
    and "y \<in> set xs"
  shows "\<not> lt y (hd (sort_slice lt xs))"
  using assms(3)
proof (induction xs arbitrary: y)
  case Nil
  then show ?case by simp
next
  case (Cons x xs)
  show ?case
  proof (cases "xs = []")
    case True
    with Cons.prems asym show ?thesis by auto
  next
    case False
    let ?m = "hd (sort_slice lt xs)"
    from False have hd: "hd (sort_slice lt (x # xs)) = (if lt ?m x then ?m else x)"
      by (simp add: hd_insert_by)
    show ?thesis
    proof (cases "y = x")
      case True
      then show ?thesis using hd asym by auto
    next
      case False
      with Cons have "\<not> lt y ?m" by simp
      then show ?thesis using hd cotrans by (cases "lt ?m x") auto
    qed
  qed
qed

lemma hd_sort_slice_in: "xs \<noteq> [] \<Longrightarrow> hd (sort_slice lt xs) \<in> set xs"
  by (metis hd_in_set set_sort_slice sort_slice_Nil)

end
