(* ===== verification/Objects.thy ===== *)
theory Objects
  imports GoStd
begin

text \<open>
  The Kubernetes objects of the program. Every object extends \<open>objmeta\<close>, as every Go object embeds
  \<open>metav1.ObjectMeta\<close>, so an operation on a \<open>client.Object\<close> is an operation on any extension of it.
  The types of \<open>api/v1beta2\<close> have all their fields; the types of other modules (Hardware, Workflow,
  Task, Template and Job of Tinkerbell, IPAddressClaim and IPAddress, Machine and Cluster of Cluster
  API) have the fields this repository reads or writes, and one field for the rest where the code
  has to keep the rest. A Go pointer that may be nil is an option; a zero time is \<open>None\<close>.
\<close>

section \<open>Names and metadata\<close>

datatype nsname = NN (nsNamespace: string) (nsName: string)

instantiation nsname :: linorder
begin

definition less_eq_nsname :: "nsname \<Rightarrow> nsname \<Rightarrow> bool" where
  "less_eq_nsname a b \<longleftrightarrow>
     (if nsNamespace a \<noteq> nsNamespace b then nsNamespace a < nsNamespace b else nsName a \<le> nsName b)"

definition less_nsname :: "nsname \<Rightarrow> nsname \<Rightarrow> bool" where
  "less_nsname a b \<longleftrightarrow>
     (if nsNamespace a \<noteq> nsNamespace b then nsNamespace a < nsNamespace b else nsName a < nsName b)"

instance
proof
  fix x y z :: nsname
  show "(x < y) = (x \<le> y \<and> \<not> y \<le> x)"
    by (auto simp: less_eq_nsname_def less_nsname_def)
  show "x \<le> x"
    by (simp add: less_eq_nsname_def)
  show "x \<le> y \<Longrightarrow> y \<le> z \<Longrightarrow> x \<le> z"
    by (auto simp: less_eq_nsname_def split: if_splits)
  show "x \<le> y \<Longrightarrow> y \<le> x \<Longrightarrow> x = y"
    by (cases x; cases y) (auto simp: less_eq_nsname_def split: if_splits)
  show "x \<le> y \<or> y \<le> x"
    by (auto simp: less_eq_nsname_def)
qed

end

record owner_ref =
  orKind :: string
  orName :: string
  orUID :: string
  orController :: bool

record objmeta =
  Name :: string
  Namespace :: string
  UID :: string
  ResourceVersion :: string
  Labels :: "string \<rightharpoonup> string"
  Annotations :: "string \<rightharpoonup> string"
  Finalizers :: "string list"
  OwnerReferences :: "owner_ref list"
  DeletionTimestamp :: "int option"

abbreviation meta :: "'a objmeta_scheme \<Rightarrow> objmeta" where
  "meta \<equiv> objmeta.truncate"

text \<open>\<open>client.ObjectKeyFromObject\<close>.\<close>

definition object_key :: "'a objmeta_scheme \<Rightarrow> nsname" where
  "object_key o' = NN (Namespace o') (Name o')"

text \<open>An object with a name and a namespace and nothing else set.\<close>

definition new_meta :: "string \<Rightarrow> string \<Rightarrow> objmeta" where
  "new_meta n ns = \<lparr>Name = n, Namespace = ns, UID = '''', ResourceVersion = '''',
     Labels = Map.empty, Annotations = Map.empty, Finalizers = [], OwnerReferences = [],
     DeletionTimestamp = None\<rparr>"

definition being_deleted :: "'a objmeta_scheme \<Rightarrow> bool" where
  "being_deleted o' \<longleftrightarrow> DeletionTimestamp o' \<noteq> None"

section \<open>Hardware (tinkerbell.org/v1alpha2)\<close>

record ip_config =
  Address :: string
  Prefix :: string
  Gateway :: string
  ipRest :: "(string \<times> string) list"  \<comment> \<open>the other fields of the IP configuration that are set\<close>

definition zero_ip :: ip_config where
  "zero_ip = \<lparr>Address = '''', Prefix = '''', Gateway = '''', ipRest = []\<rparr>"

record ipam_config =
  IPv4 :: "ip_config option"
  IPv6 :: "ip_config option"

record net_interface =
  IPAM :: "ipam_config option"
  niRest :: "(string \<times> string) list"

record hw_instance =
  LookupID :: string
  Userdata :: "string option"
  instRest :: "(string \<times> string) list"

record hw_bmc =
  Connection :: "string option"

text \<open>
  \<open>spec.networkInterfaces\<close> is a Go map whose keys the code ranges over: an association list with
  distinct keys, whose order stands for the order one iteration happens to take.
\<close>

record hardware = objmeta +
  NetworkInterfaces :: "(string \<times> net_interface) list"
  AgentID :: string
  Instance :: "hw_instance option"
  BMC :: "hw_bmc option"
  StorageDevices :: "string list"

section \<open>IPAM objects (ipam.cluster.x-k8s.io)\<close>

record ip_pool_ref =
  poolAPIGroup :: string
  poolKind :: string
  poolName :: string

record ip_claim = objmeta +
  claimClusterName :: string
  claimPoolRef :: ip_pool_ref
  claimAddressRef :: string    \<comment> \<open>\<open>status.addressRef.name\<close>\<close>

record ip_address_obj = objmeta +
  addrAddress :: string
  addrPrefix :: "int option"
  addrGateway :: string

section \<open>Workflow, Task, Template and Job\<close>

datatype workflow_state =
    StateNone | StatePreparing | StatePending | StateRunning | StatePost
  | StateSuccess | StateFailed | StateTimeout | StateOther string

datatype boot_mode =
    BootModeUnset | BootModeNetboot | BootModeISO | BootModeIsoboot | BootModeCustomboot
  | BootModeOther string

type_synonym customboot_config = string

record v1_boot_options =
  ToggleAllowNetboot :: bool
  v1BootMode :: boot_mode
  v1ISOURL :: string
  v1CustombootConfig :: customboot_config

record v1_workflow = objmeta +
  v1TemplateRef :: string
  v1HardwareRef :: string
  v1HardwareMap :: "string \<rightharpoonup> string"
  v1BootOptions :: v1_boot_options

text \<open>A task of a v1alpha2 Workflow: the boot options of its hardware, when it has any.\<close>

record wf_task =
  taskBootOptions :: "string option"
  taskRest :: string

record workflow = objmeta +
  wfTasks :: "wf_task list"
  wfState :: workflow_state
  wfRest :: string

record task = objmeta +
  taskSpec :: string

record v1_template = objmeta +
  templateSpecData :: "string option"

datatype power_action = PowerActionHardOff | PowerActionOn

datatype bmc_condition_type = ConditionTypeCompleted | ConditionTypeFailed | ConditionTypeOther string

datatype bmc_condition_status = ConditionStatusTrue | ConditionStatusFalse | ConditionStatusOther string

record bmc_condition =
  bcType :: bmc_condition_type
  bcStatus :: bmc_condition_status

record bmc_job = objmeta +
  jobHardwareRef :: nsname
  jobOperations :: "power_action list"
  jobConditions :: "bmc_condition list"

section \<open>Cluster API objects\<close>

datatype condition_status = ConditionTrue | ConditionFalse | ConditionUnknown

record machine_condition =
  mcType :: string
  mcStatus :: condition_status
  mcLastTransition :: "int option"

record capi_machine = objmeta +
  DataSecretName :: "string option"
  Version :: string
  ClusterName :: string
  mInfraRefName :: string
  mConditions :: "machine_condition list"

record api_endpoint =
  Host :: string
  Port :: int

record capi_cluster = objmeta +
  clEndpoint :: api_endpoint
  clInfraRefName :: string

record secret = objmeta +
  secretData :: "string \<rightharpoonup> string"

section \<open>api/v1beta2\<close>

record object_ref =
  refName :: string
  refNamespace :: string

datatype selector_op = OpIn | OpNotIn | OpExists | OpDoesNotExist

record selector_requirement =
  reqKey :: string
  reqOperator :: selector_op
  reqValues :: "string list"

record label_selector =
  MatchLabels :: "(string \<times> string) list"
  MatchExpressions :: "selector_requirement list"

record hardware_affinity_term =
  LabelSelector :: label_selector

record weighted_affinity_term =
  Weight :: int
  AffinityTerm :: hardware_affinity_term

record hardware_affinity =
  Required :: "hardware_affinity_term list"
  Preferred :: "weighted_affinity_term list"

record boot_options =
  ISOURL :: string
  BootMode :: boot_mode
  CustombootConfig :: customboot_config

record machine_config =
  TemplateInline :: string
  TemplateRef :: "object_ref option"
  HardwareAffinity :: "hardware_affinity option"
  BootOptions :: boot_options
  AddressFromPool :: "ip_pool_ref option"

record machine_spec = machine_config +
  HardwareName :: string
  ProviderID :: string

record machine_init_status =
  Provisioned :: "bool option"

record condition =
  condType :: string
  condStatus :: condition_status
  condReason :: string

datatype node_address_type = NodeInternalIP | NodeExternalIP | NodeHostName

record node_address =
  naType :: node_address_type
  naAddress :: string

record machine_status =
  Ready :: bool
  Initialization :: "machine_init_status option"
  Addresses :: "node_address list"
  State :: "int option"
  TargetNamespace :: string
  Conditions :: "condition list"
  ErrorReason :: "string option"
  ErrorMessage :: "string option"

record tinkerbell_machine = objmeta +
  tmSpec :: machine_spec
  tmStatus :: machine_status

record cluster_spec =
  ControlPlaneEndpoint :: "api_endpoint option"
  ClusterTemplateInline :: string
  ClusterTemplateRef :: "object_ref option"

record cluster_init_status =
  ClusterProvisioned :: "bool option"

record cluster_status =
  ClusterReady :: bool
  ClusterInitialization :: "cluster_init_status option"
  ClusterConditions :: "condition list"

record tinkerbell_cluster = objmeta +
  tcSpec :: cluster_spec
  tcStatus :: cluster_status

text \<open>Names the code gives to finalizers, conditions and their reasons, labels and annotations.\<close>

definition MachineFinalizer :: string where
  "MachineFinalizer = ''infrastructure.cluster.x-k8s.io/tinkerbellmachine''"

definition MachineLegacyFinalizer :: string where
  "MachineLegacyFinalizer = ''tinkerbellmachine.infrastructure.cluster.x-k8s.io''"

definition IPAddressClaimFinalizer :: string where
  "IPAddressClaimFinalizer = ''infrastructure.cluster.x-k8s.io/ipaddressclaim''"

definition IPAddressClaimedCondition :: string where
  "IPAddressClaimedCondition = ''IPAddressClaimed''"

definition IPAddressClaimedReason :: string where
  "IPAddressClaimedReason = ''IPAddressClaimed''"

definition WaitingForIPAddressReason :: string where
  "WaitingForIPAddressReason = ''WaitingForIPAddress''"

definition IPAddressClaimDeletingReason :: string where
  "IPAddressClaimDeletingReason = ''IPAddressClaimDeleting''"

definition IPAddressClaimInvalidReason :: string where
  "IPAddressClaimInvalidReason = ''IPAddressClaimInvalid''"

definition HardwareOwnerNameLabel :: string where
  "HardwareOwnerNameLabel = ''v1alpha1.tinkerbell.org/ownerName''"

definition HardwareOwnerNamespaceLabel :: string where
  "HardwareOwnerNamespaceLabel = ''v1alpha1.tinkerbell.org/ownerNamespace''"

definition HardwareProvisionedAnnotation :: string where
  "HardwareProvisionedAnnotation = ''v1alpha1.tinkerbell.org/provisioned''"

definition HardwareTemplateOverrideAnnotation :: string where
  "HardwareTemplateOverrideAnnotation = ''hardware.tinkerbell.org/capt-template-override''"

definition LabelMachineName :: string where
  "LabelMachineName = ''capt.tinkerbell.org/machine-name''"

definition LabelMachineNamespace :: string where
  "LabelMachineNamespace = ''capt.tinkerbell.org/machine-namespace''"

definition AnnotationHardwareName :: string where
  "AnnotationHardwareName = ''capt.tinkerbell.org/hardware-name''"

definition AnnotationHardwareNamespace :: string where
  "AnnotationHardwareNamespace = ''capt.tinkerbell.org/hardware-namespace''"

definition AnnotationMACAddress :: string where
  "AnnotationMACAddress = ''capt.tinkerbell.org/mac-address''"

definition AnnotationIPAMMACAddress :: string where
  "AnnotationIPAMMACAddress = ''ipam.cluster.x-k8s.io/mac-address''"

definition AnnotationIPAMHostname :: string where
  "AnnotationIPAMHostname = ''ipam.cluster.x-k8s.io/hostname''"

definition AnnotationCompatibilityMode :: string where
  "AnnotationCompatibilityMode = ''capt.tinkerbell.org/v1alpha1-compatibility''"

definition InPlaceRecoveryAttemptedAnnotation :: string where
  "InPlaceRecoveryAttemptedAnnotation = ''infrastructure.cluster.x-k8s.io/in-place-recovery-attempted''"

text \<open>\<open>clusterv1.ClusterNameLabel\<close>, under which a claim records its cluster.\<close>

definition ClusterNameLabel :: string where
  "ClusterNameLabel = ''cluster.x-k8s.io/cluster-name''"

lemmas name_defs = MachineFinalizer_def MachineLegacyFinalizer_def IPAddressClaimFinalizer_def
  IPAddressClaimedCondition_def IPAddressClaimedReason_def WaitingForIPAddressReason_def
  IPAddressClaimDeletingReason_def IPAddressClaimInvalidReason_def HardwareOwnerNameLabel_def
  HardwareOwnerNamespaceLabel_def HardwareProvisionedAnnotation_def
  HardwareTemplateOverrideAnnotation_def LabelMachineName_def LabelMachineNamespace_def
  AnnotationHardwareName_def AnnotationHardwareNamespace_def AnnotationMACAddress_def
  AnnotationIPAMMACAddress_def AnnotationIPAMHostname_def AnnotationCompatibilityMode_def
  InPlaceRecoveryAttemptedAnnotation_def ClusterNameLabel_def

lemma owner_labels_distinct [simp]:
  "HardwareOwnerNameLabel \<noteq> HardwareOwnerNamespaceLabel"
  "HardwareOwnerNamespaceLabel \<noteq> HardwareOwnerNameLabel"
  by (simp_all add: name_defs)

lemma machine_labels_distinct [simp]:
  "LabelMachineName \<noteq> LabelMachineNamespace" "LabelMachineNamespace \<noteq> LabelMachineName"
  "ClusterNameLabel \<noteq> LabelMachineName" "ClusterNameLabel \<noteq> LabelMachineNamespace"
  by (simp_all add: name_defs)

lemma finalizers_distinct [simp]:
  "MachineFinalizer \<noteq> MachineLegacyFinalizer" "MachineLegacyFinalizer \<noteq> MachineFinalizer"
  by (simp_all add: name_defs)

lemma hw_annotations_distinct [simp]:
  "AnnotationHardwareName \<noteq> AnnotationHardwareNamespace"
  "AnnotationHardwareNamespace \<noteq> AnnotationHardwareName"
  "AnnotationIPAMMACAddress \<noteq> AnnotationIPAMHostname" "AnnotationIPAMHostname \<noteq> AnnotationIPAMMACAddress"
  "AnnotationMACAddress \<noteq> AnnotationIPAMMACAddress" "AnnotationIPAMMACAddress \<noteq> AnnotationMACAddress"
  "AnnotationMACAddress \<noteq> AnnotationIPAMHostname" "AnnotationIPAMHostname \<noteq> AnnotationMACAddress"
  "AnnotationHardwareName \<noteq> AnnotationMACAddress" "AnnotationHardwareNamespace \<noteq> AnnotationMACAddress"
  "AnnotationHardwareName \<noteq> AnnotationIPAMMACAddress" "AnnotationHardwareNamespace \<noteq> AnnotationIPAMMACAddress"
  "AnnotationHardwareName \<noteq> AnnotationIPAMHostname" "AnnotationHardwareNamespace \<noteq> AnnotationIPAMHostname"
  by (simp_all add: name_defs)

end
