(* ===== verification/Watch.thy ===== *)
theory Watch
  imports Objects
begin

text \<open>
  \<open>pkg/cluster/watch.go\<close>: the manager of the per-namespace watches the machine controller needs
  when Tinkerbell is on another cluster. The state is the namespaces with a running cache and the
  failures still remembered; each method is the code between taking and releasing \<open>m.mu\<close>.
  Starting a cache and registering its watches (\<open>startAndRegister\<close>) is input and output: it is the
  parameter \<open>start\<close>, which gives the cancel function or an error. Times are nanoseconds.
\<close>

section \<open>Backoff\<close>

definition second_ns :: int where
  "second_ns = 1000000000"

definition backoffBase :: int where
  "backoffBase = 5 * second_ns"

definition backoffMax :: int where
  "backoffMax = 5 * 60 * second_ns"

text \<open>\<open>math.Pow(2, n)\<close> is exact below 64 and truncates to 0 for a negative \<open>n\<close>.\<close>

definition backoffDuration :: "int \<Rightarrow> int" where
  "backoffDuration failureCount =
     (if 6 \<le> failureCount then backoffMax
      else let d = (if failureCount < 0 then 0 else 2 ^ nat failureCount) * backoffBase
           in if backoffMax < d then backoffMax else d)"

lemmas backoff_consts = second_ns_def backoffBase_def backoffMax_def

section \<open>The manager\<close>

datatype watch_error =
    WatchEmptyNamespace
  | WatchInBackoff int     \<comment> \<open>the time remaining\<close>
  | WatchControllerNotSet
  | WatchContextNotSet
  | WatchStartFailed string

record failure_record =
  failCount :: int
  lastAttempt :: int

record watch_manager =
  wmController :: "string option"
  wmContext :: "string option"
  wmNamespaces :: "string \<rightharpoonup> string"      \<comment> \<open>namespace to the cancel function of its cache\<close>
  wmFailures :: "string \<rightharpoonup> failure_record"
  wmLabelName :: string
  wmLabelNamespace :: string

definition NewNamespaceWatchManager :: "string \<Rightarrow> string \<Rightarrow> watch_manager" where
  "NewNamespaceWatchManager labelName labelNamespace =
     \<lparr>wmController = None, wmContext = None, wmNamespaces = Map.empty, wmFailures = Map.empty,
      wmLabelName = labelName, wmLabelNamespace = labelNamespace\<rparr>"

definition SetController :: "string \<Rightarrow> watch_manager \<Rightarrow> watch_manager" where
  "SetController c m = m\<lparr>wmController := Some c\<rparr>"

definition SetContext :: "string \<Rightarrow> watch_manager \<Rightarrow> watch_manager" where
  "SetContext c m = m\<lparr>wmContext := Some c\<rparr>"

text \<open>
  \<open>EnsureWatch\<close> before it enters \<open>singleflight\<close>: \<open>Some r\<close> is an early return of \<open>r\<close>, which is
  nothing for a namespace already watched.
\<close>

definition ew_check :: "int \<Rightarrow> string \<Rightarrow> watch_manager \<Rightarrow> (watch_error + unit) option" where
  "ew_check now ns m =
     (if ns = '''' then Some (Inl WatchEmptyNamespace)
      else if wmNamespaces m ns \<noteq> None then Some (Inr ())
      else (case wmFailures m ns of
          None \<Rightarrow> None
        | Some fr \<Rightarrow>
            (let wait = backoffDuration (failCount fr); elapsed = now - lastAttempt fr
             in if elapsed < wait then Some (Inl (WatchInBackoff (wait - elapsed))) else None)))"

text \<open>The first locked section under \<open>singleflight\<close>: \<open>None\<close> means the cache is to be started.\<close>

definition ew_recheck :: "string \<Rightarrow> watch_manager \<Rightarrow> (watch_error + unit) option" where
  "ew_recheck ns m =
     (if wmNamespaces m ns \<noteq> None then Some (Inr ())
      else if wmController m = None then Some (Inl WatchControllerNotSet)
      else if wmContext m = None then Some (Inl WatchContextNotSet)
      else None)"

text \<open>The locked sections after a failed and after a successful start.\<close>

definition ew_fail :: "int \<Rightarrow> string \<Rightarrow> watch_manager \<Rightarrow> watch_manager" where
  "ew_fail now ns m =
     m\<lparr>wmFailures := (wmFailures m)(ns \<mapsto>
        \<lparr>failCount = (case wmFailures m ns of None \<Rightarrow> 0 | Some fr \<Rightarrow> failCount fr) + 1, lastAttempt = now\<rparr>)\<rparr>"

definition ew_success :: "string \<Rightarrow> string \<Rightarrow> watch_manager \<Rightarrow> watch_manager" where
  "ew_success cancel ns m =
     m\<lparr>wmNamespaces := (wmNamespaces m)(ns \<mapsto> cancel), wmFailures := (wmFailures m)(ns := None)\<rparr>"

text \<open>
  \<open>EnsureWatch\<close> by a caller no other caller interleaves with. \<open>now\<close> is the clock at the backoff
  check and \<open>now'\<close> the clock when a failure is recorded.
\<close>

definition EnsureWatch ::
    "int \<Rightarrow> int \<Rightarrow> (string \<Rightarrow> string + string) \<Rightarrow> string \<Rightarrow> watch_manager \<Rightarrow> (watch_error + unit) \<times> watch_manager" where
  "EnsureWatch now now' start ns m =
     (case ew_check now ns m of
        Some r \<Rightarrow> (r, m)
      | None \<Rightarrow>
          (case ew_recheck ns m of
             Some r \<Rightarrow> (r, m)
           | None \<Rightarrow>
               (case start ns of
                  Inl e \<Rightarrow> (Inl (WatchStartFailed e), ew_fail now' ns m)
                | Inr cancel \<Rightarrow> (Inr (), ew_success cancel ns m))))"

text \<open>The namespace's cache stopped by itself: the goroutine of \<open>startAndRegister\<close> forgets it.\<close>

definition cache_stopped :: "string \<Rightarrow> watch_manager \<Rightarrow> watch_manager" where
  "cache_stopped ns m = m\<lparr>wmNamespaces := (wmNamespaces m)(ns := None)\<rparr>"

text \<open>\<open>StopWatch\<close> and \<open>StopAll\<close> also say which cancel functions they call.\<close>

definition StopWatch :: "string \<Rightarrow> watch_manager \<Rightarrow> string set \<times> watch_manager" where
  "StopWatch ns m =
     (set_option (wmNamespaces m ns),
      m\<lparr>wmNamespaces := (wmNamespaces m)(ns := None), wmFailures := (wmFailures m)(ns := None)\<rparr>)"

definition StopAll :: "watch_manager \<Rightarrow> string set \<times> watch_manager" where
  "StopAll m = (ran (wmNamespaces m), m\<lparr>wmNamespaces := Map.empty, wmFailures := Map.empty\<rparr>)"

text \<open>\<open>labelMapper\<close>: the machine a watched object belongs to, by the manager's two label keys.\<close>

definition labelMapper :: "string \<Rightarrow> string \<Rightarrow> 'a objmeta_scheme \<Rightarrow> nsname list" where
  "labelMapper labelName labelNamespace o' =
     (let n = lookup0 (Labels o') labelName; ns = lookup0 (Labels o') labelNamespace
      in if n = '''' \<or> ns = '''' then [] else [NN ns n])"

section \<open>Backoff: a bounded, monotone policy\<close>

text \<open>
  What the manager relies on of its backoff: it waits after a failure, never less after more
  failures, and never longer than the maximum.
\<close>

locale backoff_policy =
  fixes wait :: "int \<Rightarrow> int" and longest :: int
  assumes wait_pos: "0 < n \<Longrightarrow> 0 < wait n"
    and wait_mono: "n \<le> k \<Longrightarrow> wait n \<le> wait k"
    and wait_bound: "wait n \<le> longest"
begin

lemma retry_after_longest: "longest \<le> now - since \<Longrightarrow> \<not> now - since < wait n"
  using wait_bound [of n] by linarith

lemma no_immediate_retry: "0 < n \<Longrightarrow> now - since \<le> 0 \<Longrightarrow> now - since < wait n"
  using wait_pos [of n] by linarith

lemma open_stays_open: "n \<le> k \<Longrightarrow> \<not> now - since < wait k \<Longrightarrow> \<not> now - since < wait n"
  using wait_mono [of n k] by linarith

end

lemma backoffDuration_closed:
  "0 \<le> n \<Longrightarrow> backoffDuration n = min (2 ^ nat n * backoffBase) backoffMax"
proof -
  assume n: "0 \<le> n"
  show ?thesis
  proof (cases "6 \<le> n")
    case True
    then have "(2 :: int) ^ 6 \<le> 2 ^ nat n" by (intro power_increasing) auto
    then show ?thesis using True by (simp add: backoffDuration_def backoff_consts min_def)
  next
    case False
    then show ?thesis using n by (simp add: backoffDuration_def Let_def min_def)
  qed
qed

lemma backoffDuration_neg: "n < 0 \<Longrightarrow> backoffDuration n = 0"
  by (simp add: backoffDuration_def backoff_consts)

lemma backoffDuration_mono: "n \<le> k \<Longrightarrow> backoffDuration n \<le> backoffDuration k"
proof (cases "0 \<le> n")
  case True
  assume "n \<le> k"
  with True have "(2 :: int) ^ nat n \<le> 2 ^ nat k" by (intro power_increasing) auto
  then have "2 ^ nat n * backoffBase \<le> 2 ^ nat k * backoffBase"
    by (simp add: backoff_consts)
  then show ?thesis using True \<open>n \<le> k\<close> by (simp add: backoffDuration_closed min.coboundedI1)
next
  case False
  then show ?thesis
    by (cases "0 \<le> k") (simp_all add: backoffDuration_neg backoffDuration_closed backoff_consts)
qed

interpretation backoff: backoff_policy backoffDuration backoffMax
proof
  fix n :: int
  assume "0 < n"
  then show "0 < backoffDuration n" by (simp add: backoffDuration_closed backoff_consts)
next
  fix n k :: int
  assume "n \<le> k"
  then show "backoffDuration n \<le> backoffDuration k" by (rule backoffDuration_mono)
next
  fix n :: int
  show "backoffDuration n \<le> backoffMax"
    by (cases "0 \<le> n") (simp_all add: backoffDuration_closed backoffDuration_neg backoff_consts)
qed

section \<open>The registry contract\<close>

text \<open>
  What the machine controller relies on when it calls \<open>EnsureWatch\<close> for the namespace of a
  machine's Hardware: after a success the namespace is watched, a watched namespace costs nothing,
  and no call makes another namespace unwatched.
\<close>

locale watch_registry =
  fixes ensure :: "string \<Rightarrow> 'm \<Rightarrow> ('e + unit) \<times> 'm"
    and watched :: "'m \<Rightarrow> string set"
  assumes ensure_watches: "ensure ns m = (Inr (), m') \<Longrightarrow> ns \<in> watched m'"
    and ensure_keeps: "ensure ns m = (r, m') \<Longrightarrow> watched m \<subseteq> watched m'"
    and ensure_again: "ns \<in> watched m \<Longrightarrow> ensure ns m = (Inr (), m)"
begin

primrec ensure_all :: "string list \<Rightarrow> 'm \<Rightarrow> 'm" where
  "ensure_all [] m = m"
| "ensure_all (ns # nss) m = ensure_all nss (snd (ensure ns m))"

lemma ensure_all_keeps: "watched m \<subseteq> watched (ensure_all nss m)"
proof (induction nss arbitrary: m)
  case (Cons ns nss)
  have "watched m \<subseteq> watched (snd (ensure ns m))"
    by (rule ensure_keeps [of ns m "fst (ensure ns m)"]) simp
  with Cons show ?case by fastforce
qed simp

lemma once_watched_never_restarted:
  "ns \<in> watched m \<Longrightarrow> ensure ns (ensure_all nss m) = (Inr (), ensure_all nss m)"
  using ensure_all_keeps [of m nss] by (auto intro: ensure_again)

end

definition watched_namespaces :: "watch_manager \<Rightarrow> string set" where
  "watched_namespaces m = dom (wmNamespaces m) - {''''}"

lemma EnsureWatch_success:
  "EnsureWatch now now' start ns m = (Inr (), m') \<Longrightarrow> ns \<noteq> '''' \<and> ns \<in> dom (wmNamespaces m')"
  by (auto simp: EnsureWatch_def ew_check_def ew_recheck_def ew_success_def Let_def
      split: if_splits option.splits sum.splits)

lemma EnsureWatch_frame:
  "EnsureWatch now now' start ns m = (r, m') \<Longrightarrow> ns' \<noteq> ns \<Longrightarrow>
   wmNamespaces m' ns' = wmNamespaces m ns' \<and> wmFailures m' ns' = wmFailures m ns'"
  by (auto simp: EnsureWatch_def ew_success_def ew_fail_def split: option.splits sum.splits)

lemma EnsureWatch_watched:
  "ns \<noteq> '''' \<Longrightarrow> wmNamespaces m ns \<noteq> None \<Longrightarrow> EnsureWatch now now' start ns m = (Inr (), m)"
  by (auto simp: EnsureWatch_def ew_check_def)

lemma EnsureWatch_keeps:
  "EnsureWatch now now' start ns m = (r, m') \<Longrightarrow> dom (wmNamespaces m) \<subseteq> dom (wmNamespaces m')"
  by (auto simp: EnsureWatch_def ew_success_def ew_fail_def dom_def split: option.splits sum.splits if_splits)

interpretation registry: watch_registry "EnsureWatch now now' start" watched_namespaces
  for now now' start
proof
  fix ns m m'
  assume "EnsureWatch now now' start ns m = (Inr (), m')"
  then show "ns \<in> watched_namespaces m'"
    using EnsureWatch_success by (auto simp: watched_namespaces_def)
next
  fix ns m m' and r :: "watch_error + unit"
  assume "EnsureWatch now now' start ns m = (r, m')"
  then show "watched_namespaces m \<subseteq> watched_namespaces m'"
    using EnsureWatch_keeps by (fastforce simp: watched_namespaces_def)
next
  fix ns m
  assume "ns \<in> watched_namespaces m"
  then show "EnsureWatch now now' start ns m = (Inr (), m)"
    by (intro EnsureWatch_watched) (auto simp: watched_namespaces_def)
qed

section \<open>The invariant of the manager\<close>

text \<open>
  No namespace is both watched and failed, the empty namespace is neither, and a remembered
  failure counts at least once.
\<close>

definition wm_ok :: "watch_manager \<Rightarrow> bool" where
  "wm_ok m \<longleftrightarrow>
     dom (wmNamespaces m) \<inter> dom (wmFailures m) = {} \<and>
     '''' \<notin> dom (wmNamespaces m) \<and> '''' \<notin> dom (wmFailures m) \<and>
     (\<forall>fr\<in>ran (wmFailures m). 1 \<le> failCount fr)"

lemma wm_ok_new: "wm_ok (NewNamespaceWatchManager ln lns)"
  by (simp add: wm_ok_def NewNamespaceWatchManager_def)

lemma wm_ok_set: "wm_ok (SetController c m) = wm_ok m" "wm_ok (SetContext c m) = wm_ok m"
  by (simp_all add: wm_ok_def SetController_def SetContext_def)

lemma wm_ok_success: "wm_ok m \<Longrightarrow> ns \<noteq> '''' \<Longrightarrow> wm_ok (ew_success cancel ns m)"
  by (fastforce simp: wm_ok_def ew_success_def ran_def dom_def split: if_splits)

lemma wm_ok_fail: "wm_ok m \<Longrightarrow> ns \<noteq> '''' \<Longrightarrow> wmNamespaces m ns = None \<Longrightarrow> wm_ok (ew_fail now ns m)"
  by (fastforce simp: wm_ok_def ew_fail_def ran_def dom_def split: if_splits option.splits)

lemma wm_ok_EnsureWatch:
  assumes "wm_ok m" and run: "EnsureWatch now now' start ns m = (r, m')"
  shows "wm_ok m'"
proof (cases "ew_check now ns m = None \<and> ew_recheck ns m = None")
  case False
  with run assms(1) show ?thesis by (auto simp: EnsureWatch_def split: option.splits)
next
  case True
  then have "ns \<noteq> ''''" and "wmNamespaces m ns = None"
    by (auto simp: ew_check_def ew_recheck_def split: if_splits)
  with True run assms(1) show ?thesis
    by (auto simp: EnsureWatch_def intro: wm_ok_success wm_ok_fail split: sum.splits)
qed

lemma wm_ok_cache_stopped: "wm_ok m \<Longrightarrow> wm_ok (cache_stopped ns m)"
  by (fastforce simp: wm_ok_def cache_stopped_def dom_def)

lemma wm_ok_StopWatch: "wm_ok m \<Longrightarrow> wm_ok (snd (StopWatch ns m))"
  by (fastforce simp: wm_ok_def StopWatch_def dom_def ran_def split: if_splits)

lemma wm_ok_StopAll: "wm_ok (snd (StopAll m))"
  by (simp add: wm_ok_def StopAll_def)

end
