(* ===== verification/World.thy ===== *)
theory World
  imports Watch
begin

text \<open>
  The world of the machine controller: the errors of the code, the calls it makes to the API
  servers, the state of one reconcile (\<open>machineReconcileScope\<close>), and the environment \<open>env\<close>, the
  parameter that stands for everything not under \<open>src/\<close>: the answers of the API servers and the
  functions of other modules.

  An answer is a function of the calls made so far, the current one last. Nothing is assumed of
  it: an object may change between two reads, a patch may be refused, a list may be stale. What a
  theorem does need is a named hypothesis (\<open>finalizer_laws\<close> and its kin, at the end).
\<close>

section \<open>Errors\<close>

text \<open>What an API server's error is classified as by \<open>apierrors\<close> and \<open>meta\<close>.\<close>

datatype apierr = NotFound | Conflict | AlreadyExists | NoMatch | OtherAPIError string

text \<open>
  The errors of the code by the sentinel \<open>errors.Is\<close> finds in them: wrapping with \<open>%w\<close> keeps it,
  and only the text around it, which nothing looks at, is left out. \<open>ErrNilDereference\<close> is the
  panic of a nil pointer dereference, and the four errors of the machine reconciler's \<open>validate\<close>
  (\<open>ErrConfigurationNil\<close> to \<open>ErrMissingScheme\<close>) are what it panics with.
\<close>

datatype goerr =
    Api apierr
  | ErrNoHardwareAvailable
  | ErrHardwareIsNil
  | ErrHardwareMissingInterfaces
  | ErrHardwareFirstInterfaceNotDHCP
  | ErrHardwareFirstInterfaceDHCPMissingIP
  | ErrHardwareMissingDiskConfiguration
  | ErrHardwareClaimRequeue "apierr option"
  | ErrWaitingForIPAddress
  | ErrHardwareInterfaceMissingMAC
  | ErrIPAddressMissingPrefix
  | ErrHardwareInterfaceNotFound
  | ErrIPAddressClaimConflict
  | ErrParseAddr string
  | ErrPrefixLength int nat
  | ErrMachineVersionEmpty
  | ErrConfigurationNil
  | ErrMissingClient
  | ErrMissingTinkerbellClient
  | ErrMissingScheme
  | ErrMissingBootstrapDataSecretValueKey
  | ErrBootstrapUserDataEmpty
  | ErrTemplateRefNoData
  | ErrTemplatesNotServed
  | ErrNoTemplateFound
  | ErrWorkflowFailed
  | ErrWorkflowTimeout
  | ErrISOBootURLRequired
  | ErrURLParse string
  | ErrRequeueRequested
  | ErrBMCJobCreated nsname
  | ErrBMCJobFailed nsname
  | ErrBMCJobNotCompleted nsname
  | ErrWatch watch_error
  | ErrConversion string
  | ErrSelector string
  | ErrOwnership string
  | ErrPatchHelper string
  | ErrClusterNotReady
  | ErrControlPlaneEndpointNotSet
  | ErrNilDereference

text \<open>\<open>apierrors.IsNotFound\<close>, \<open>IsConflict\<close>, \<open>IsAlreadyExists\<close> and \<open>meta.IsNoMatchError\<close>, which look through wrapping.\<close>

definition api_cause :: "goerr \<Rightarrow> apierr option" where
  "api_cause e = (case e of Api a \<Rightarrow> Some a | ErrHardwareClaimRequeue c \<Rightarrow> c | _ \<Rightarrow> None)"

definition isNotFound :: "goerr \<Rightarrow> bool" where
  "isNotFound e \<longleftrightarrow> api_cause e = Some NotFound"

definition isConflict :: "goerr \<Rightarrow> bool" where
  "isConflict e \<longleftrightarrow> api_cause e = Some Conflict"

definition isAlreadyExists :: "goerr \<Rightarrow> bool" where
  "isAlreadyExists e \<longleftrightarrow> api_cause e = Some AlreadyExists"

definition isNoMatch :: "goerr \<Rightarrow> bool" where
  "isNoMatch e \<longleftrightarrow> api_cause e = Some NoMatch"

lemma api_class [simp]:
  "isNotFound (Api a) \<longleftrightarrow> a = NotFound" "isConflict (Api a) \<longleftrightarrow> a = Conflict"
  "isAlreadyExists (Api a) \<longleftrightarrow> a = AlreadyExists" "isNoMatch (Api a) \<longleftrightarrow> a = NoMatch"
  by (simp_all add: isNotFound_def isConflict_def isAlreadyExists_def isNoMatch_def api_cause_def)

section \<open>Calls\<close>

text \<open>
  The calls through the two clients. A patch carries the object it was computed from, the object
  it should become, and whether it has the optimistic lock on the resource version.
  \<open>PatchTinkerbellMachine\<close> is \<open>patchHelper.Patch\<close>, \<open>PatchMachineObject\<close> the client's own patch.
  \<open>CallEnsureWatch\<close> is the watch manager's turn, \<open>RecordEvent\<close> an event for the user.
\<close>

datatype call =
    GetHardware nsname
  | ListAssignedHardware string string
  | ListHardware label_selector
  | PatchHardware hardware hardware bool
  | GetClaim nsname
  | CreateClaim ip_claim
  | PatchClaim ip_claim ip_claim bool
  | DeleteClaim nsname
  | GetIPAddress nsname
  | GetWorkflow nsname
  | CreateWorkflow workflow
  | DeleteWorkflow nsname
  | GetTemplate nsname
  | CreateTemplate v1_template
  | DeleteTemplate nsname
  | GetTask nsname
  | CreateTask task
  | UpdateTask task
  | DeleteTask nsname
  | ListTasks string string string
  | GetJob nsname
  | CreateJob bmc_job
  | GetSecret nsname
  | GetMachine nsname
  | GetOwnerMachine objmeta
  | GetClusterFromMetadata objmeta
  | GetTinkerbellCluster nsname
  | GetTinkerbellMachine nsname
  | GetOwnerCluster objmeta
  | ListClusterMachines capi_cluster
  | EnsurePausedCluster "capi_cluster option" tinkerbell_cluster
  | PatchTinkerbellCluster tinkerbell_cluster
  | EnsurePausedCondition "capi_cluster option" tinkerbell_machine
  | PatchTinkerbellMachine tinkerbell_machine
  | PatchMachineObject tinkerbell_machine tinkerbell_machine
  | CallEnsureWatch string
  | RecordEvent string

section \<open>The state of one reconcile\<close>

record hardware_address =
  haFamily :: nat
  haAddress :: string
  haPrefix :: string
  haGateway :: string

text \<open>\<open>machineReconcileScope\<close>, with the calls made so far in place of its two clients.\<close>

record scope =
  tinkerbellMachine :: tinkerbell_machine
  ownerMachine :: "capi_machine option"
  tinkerbellCluster :: "tinkerbell_cluster option"
  bootstrapCloudConfig :: string
  externalTinkerbell :: bool
  reservedAddress :: "hardware_address option"
  watchManager :: "watch_manager option"
  calls :: "call list"

type_synonym 'a io = "(scope, goerr, 'a) em"

definition add_call :: "call \<Rightarrow> scope \<Rightarrow> scope" where
  "add_call c s = s\<lparr>calls := calls s @ [c]\<rparr>"

interpretation machine_log: call_log calls add_call
  by unfold_locales (simp add: add_call_def)

definition api :: "(call list \<Rightarrow> apierr + 'a) \<Rightarrow> call \<Rightarrow> 'a io" where
  "api answer c = perform calls add_call (\<lambda>h. map_sum Api id (answer h)) c"

lemma run_api [run_simps, inv_simps]: "api f c s = (map_sum Api id (f (calls s @ [c])), add_call c s)"
  by (simp add: api_def machine_log.run_perform)

lemma adds_api [adds_intros]: "P c \<Longrightarrow> adds calls P (api f c)"
  unfolding api_def by (rule machine_log.adds_perform)

lemma gives_api [gives_intros]: "(\<And>h x. f h = Inr x \<Longrightarrow> P x) \<Longrightarrow> gives P (api f c)"
  by (simp add: gives_def run_api)

lemma issued_api [issued_simps]: "issued calls (api f c) s = [c]"
  unfolding api_def by (rule machine_log.issued_perform)

lemma add_call_sel [simp]:
  "tinkerbellMachine (add_call c s) = tinkerbellMachine s" "ownerMachine (add_call c s) = ownerMachine s"
  "tinkerbellCluster (add_call c s) = tinkerbellCluster s"
  "bootstrapCloudConfig (add_call c s) = bootstrapCloudConfig s"
  "externalTinkerbell (add_call c s) = externalTinkerbell s"
  "reservedAddress (add_call c s) = reservedAddress s" "watchManager (add_call c s) = watchManager s"
  "calls (add_call c s) = calls s @ [c]"
  by (simp_all add: add_call_def)

lemma keeps_api [keeps_intros]: "(\<And>s. obs (add_call c s) = obs s) \<Longrightarrow> keeps obs (api f c)"
  unfolding api_def by (rule machine_log.keeps_perform)

text \<open>Assignments to the fields of the scope the code changes.\<close>

definition modify_machine :: "(tinkerbell_machine \<Rightarrow> tinkerbell_machine) \<Rightarrow> unit io" where
  "modify_machine f = modifyE (\<lambda>s. s\<lparr>tinkerbellMachine := f (tinkerbellMachine s)\<rparr>)"

definition set_reserved :: "hardware_address \<Rightarrow> unit io" where
  "set_reserved a = modifyE (\<lambda>s. s\<lparr>reservedAddress := Some a\<rparr>)"

lemma run_modify_machine [run_simps, inv_simps]:
  "modify_machine f s = (Inr (), s\<lparr>tinkerbellMachine := f (tinkerbellMachine s)\<rparr>)"
  by (simp add: modify_machine_def run_simps)

lemma run_set_reserved [run_simps, inv_simps]: "set_reserved a s = (Inr (), s\<lparr>reservedAddress := Some a\<rparr>)"
  by (simp add: set_reserved_def run_simps)

lemma adds_modify_machine [adds_intros]: "adds calls P (modify_machine f)"
  unfolding modify_machine_def by (rule adds_modifyE) simp

lemma adds_set_reserved [adds_intros]: "adds calls P (set_reserved a)"
  unfolding set_reserved_def by (rule adds_modifyE) simp

lemma issued_modify_machine [issued_simps]: "issued calls (modify_machine f) s = []"
  unfolding modify_machine_def by (rule issued_modifyE) simp

lemma issued_set_reserved [issued_simps]: "issued calls (set_reserved a) s = []"
  unfolding set_reserved_def by (rule issued_modifyE) simp

lemma keeps_modify_machine [keeps_intros]:
  "(\<And>s. obs (s\<lparr>tinkerbellMachine := f (tinkerbellMachine s)\<rparr>) = obs s) \<Longrightarrow> keeps obs (modify_machine f)"
  unfolding modify_machine_def by (rule keeps_modifyE)

lemma keeps_set_reserved [keeps_intros]:
  "(\<And>s. obs (s\<lparr>reservedAddress := Some a\<rparr>) = obs s) \<Longrightarrow> keeps obs (set_reserved a)"
  unfolding set_reserved_def by (rule keeps_modifyE)

section \<open>The environment\<close>

record go_url =
  urlPath :: string
  urlRest :: string

text \<open>
  Functions of other modules. \<open>controllerutil\<close>: the finalizer functions and
  \<open>SetControllerReference owner object\<close>, which gives the new owner references or an error;
  \<open>metav1.IsControlledBy object owner\<close>; \<open>conditions.Set\<close>; \<open>metav1.LabelSelectorAsSelector\<close> with
  \<open>Selector.Matches\<close>; \<open>rufio.HasConditionStatus\<close>; \<open>equality.Semantic.DeepEqual\<close>; the conversion
  functions of Tinkerbell (\<open>hardwareToV1Alpha1\<close> gives, per v1alpha1 interface, the MAC of its DHCP
  part if it has one; a refused conversion gives its reason); \<open>json.Marshal\<close> of the boot options;
  \<open>net/url\<close>. The two clocks are \<open>time.Now\<close> at the first and the second reading between two calls.
  \<open>newPatchHelper\<close> is \<open>patch.NewHelper\<close>, which may fail to convert the object, and \<open>endpointIsValid\<close> the
  \<open>IsValid\<close> of a Cluster API endpoint. \<open>zeroSizePointersEqual\<close> says whether pointers to two zero-size values compare equal, which the
  language leaves open.
\<close>

text \<open>
  A function a template may call, by where it comes from (\<open>sprigFuncs\<close> below is \<open>sprig.HermeticTxtFuncMap\<close>), and an
  error of the conversion functions: a \<open>NotConvertibleError\<close> with its reason, or another one with its text.
\<close>

datatype template_func = SprigFunc string | NotRendered

datatype conversion_error = NotConvertible string | ConversionError string

record env =
  containsFinalizer :: "string list \<Rightarrow> string \<Rightarrow> bool"
  addFinalizer :: "string list \<Rightarrow> string \<Rightarrow> string list"
  removeFinalizer :: "string list \<Rightarrow> string \<Rightarrow> string list"
  setControllerReference :: "objmeta \<Rightarrow> objmeta \<Rightarrow> string + owner_ref list"
  isControlledBy :: "objmeta \<Rightarrow> objmeta \<Rightarrow> bool"
  conditionsSet :: "condition list \<Rightarrow> condition \<Rightarrow> condition list"
  asSelector :: "label_selector \<Rightarrow> string + ((string \<rightharpoonup> string) \<Rightarrow> bool)"
  hasConditionStatus :: "bmc_condition list \<Rightarrow> bmc_condition_type \<Rightarrow> bmc_condition_status \<Rightarrow> bool"
  equalTaskSpecs :: "string \<Rightarrow> string \<Rightarrow> bool"
  equalAnnotations :: "(string \<rightharpoonup> string) \<Rightarrow> (string \<rightharpoonup> string) \<Rightarrow> bool"
  AnnotationV1Alpha1 :: string
  hardwareToV1Alpha1 :: "hardware \<Rightarrow> string + string option list"
  hardwareBMCRef :: "hardware \<Rightarrow> string option"
  workflowToV1Alpha2 :: "v1_workflow \<Rightarrow> string + workflow"
  sprigFuncs :: "string \<rightharpoonup> template_func"
  convertTemplate :: "(string \<rightharpoonup> template_func) \<Rightarrow> string \<Rightarrow> conversion_error + string"
  rewriteWorkflowToTasks :: "workflow \<Rightarrow> v1_template \<Rightarrow> string \<Rightarrow> conversion_error + workflow"
  templateTasks :: "v1_template \<Rightarrow> string \<Rightarrow> task list"
  bootOptionsJSON :: "string \<Rightarrow> string + string"
  urlParse :: "string \<Rightarrow> string + go_url"
  urlString :: "go_url \<Rightarrow> string"
  UpdateInProgressAnnotation :: string
  MachineUpToDateCondition :: string
  zeroSizePointersEqual :: bool
  newPatchHelper :: "objmeta \<Rightarrow> string + unit"
  endpointIsValid :: "api_endpoint \<Rightarrow> bool"
  timeFormat :: "int \<Rightarrow> string"
  clock :: "call list \<Rightarrow> int"
  clock' :: "call list \<Rightarrow> int"
  startWatch :: "call list \<Rightarrow> string \<Rightarrow> string + string"

text \<open>
  The answers of the API servers, by what they return. \<open>ansPaused\<close> is \<open>paused.EnsurePausedCondition\<close>: whether
  the object is paused, and the conditions it leaves on the object.
\<close>

record kube = env +
  ansHardware :: "call list \<Rightarrow> apierr + hardware"
  ansHardwareList :: "call list \<Rightarrow> apierr + hardware list"
  ansClaim :: "call list \<Rightarrow> apierr + ip_claim"
  ansIPAddress :: "call list \<Rightarrow> apierr + ip_address_obj"
  ansWorkflow :: "call list \<Rightarrow> apierr + workflow"
  ansTemplate :: "call list \<Rightarrow> apierr + v1_template"
  ansTask :: "call list \<Rightarrow> apierr + task"
  ansTaskList :: "call list \<Rightarrow> apierr + task list"
  ansJob :: "call list \<Rightarrow> apierr + bmc_job"
  ansSecret :: "call list \<Rightarrow> apierr + secret"
  ansMachine :: "call list \<Rightarrow> apierr + capi_machine"
  ansOwnerMachine :: "call list \<Rightarrow> apierr + capi_machine option"
  ansCluster :: "call list \<Rightarrow> apierr + capi_cluster"
  ansTinkerbellCluster :: "call list \<Rightarrow> apierr + tinkerbell_cluster"
  ansTinkerbellMachine :: "call list \<Rightarrow> apierr + tinkerbell_machine"
  ansOwnerCluster :: "call list \<Rightarrow> apierr + capi_cluster option"
  ansMachineList :: "call list \<Rightarrow> apierr + capi_machine list"
  ansPaused :: "call list \<Rightarrow> apierr + bool \<times> condition list"
  ansUnit :: "call list \<Rightarrow> apierr + unit"

section \<open>Documented behaviour the theorems may assume\<close>

definition finalizer_laws :: "('a) env_scheme \<Rightarrow> bool" where
  "finalizer_laws E \<longleftrightarrow>
     (\<forall>fs f. containsFinalizer E fs f \<longleftrightarrow> f \<in> set fs) \<and>
     (\<forall>fs f. set (addFinalizer E fs f) = insert f (set fs)) \<and>
     (\<forall>fs f. set (removeFinalizer E fs f) = set fs - {f})"

definition condition_laws :: "('a) env_scheme \<Rightarrow> bool" where
  "condition_laws E \<longleftrightarrow>
     (\<forall>cs c. find (\<lambda>d. condType d = condType c) (conditionsSet E cs c) = Some c)"

text \<open>A valid endpoint has a host and a port.\<close>

definition endpoint_laws :: "('a) env_scheme \<Rightarrow> bool" where
  "endpoint_laws E \<longleftrightarrow> (\<forall>e. endpointIsValid E e \<longleftrightarrow> Host e \<noteq> '''' \<and> Port e \<noteq> 0)"

text \<open>What a label selector means, and that a server's list answers what was asked.\<close>

definition requirement_matches :: "selector_requirement \<Rightarrow> (string \<rightharpoonup> string) \<Rightarrow> bool" where
  "requirement_matches r ls =
     (case reqOperator r of
        OpIn \<Rightarrow> (case ls (reqKey r) of None \<Rightarrow> False | Some v \<Rightarrow> v \<in> set (reqValues r))
      | OpNotIn \<Rightarrow> (case ls (reqKey r) of None \<Rightarrow> True | Some v \<Rightarrow> v \<notin> set (reqValues r))
      | OpExists \<Rightarrow> ls (reqKey r) \<noteq> None
      | OpDoesNotExist \<Rightarrow> ls (reqKey r) = None)"

definition selector_matches :: "label_selector \<Rightarrow> (string \<rightharpoonup> string) \<Rightarrow> bool" where
  "selector_matches sel ls \<longleftrightarrow>
     list_all (\<lambda>(k, v). ls k = Some v) (MatchLabels sel) \<and>
     list_all (\<lambda>r. requirement_matches r ls) (MatchExpressions sel)"

definition hardware_list_laws :: "('a) kube_scheme \<Rightarrow> bool" where
  "hardware_list_laws E \<longleftrightarrow>
     (\<forall>sel matches. asSelector E sel = Inr matches \<longrightarrow> matches = selector_matches sel) \<and>
     (\<forall>cs n ns items h. ansHardwareList E (cs @ [ListAssignedHardware n ns]) = Inr items \<and> h \<in> set items \<longrightarrow>
        Labels h HardwareOwnerNameLabel = Some n \<and> Labels h HardwareOwnerNamespaceLabel = Some ns) \<and>
     (\<forall>cs sel items h. ansHardwareList E (cs @ [ListHardware sel]) = Inr items \<and> h \<in> set items \<longrightarrow>
        selector_matches sel (Labels h))"

text \<open>An instance, for the witnesses: lists as sets, a conversion that refuses, a server that knows nothing.\<close>

definition base_env :: env where
  "base_env = \<lparr>containsFinalizer = (\<lambda>fs f. f \<in> set fs),
     addFinalizer = (\<lambda>fs f. if f \<in> set fs then fs else fs @ [f]),
     removeFinalizer = (\<lambda>fs f. removeAll f fs),
     setControllerReference = (\<lambda>ow ob. Inr (OwnerReferences ob @
        [\<lparr>orKind = ''TinkerbellMachine'', orName = Name ow, orUID = UID ow, orController = True\<rparr>])),
     isControlledBy = (\<lambda>ob ow. list_ex (\<lambda>r. orController r \<and> orUID r = UID ow) (OwnerReferences ob)),
     conditionsSet = (\<lambda>cs c. c # filter (\<lambda>d. condType d \<noteq> condType c) cs),
     asSelector = (\<lambda>sel. Inr (selector_matches sel)),
     hasConditionStatus = (\<lambda>cs ty st. list_ex (\<lambda>c. bcType c = ty \<and> bcStatus c = st) cs),
     equalTaskSpecs = (\<lambda>a b. a = b), equalAnnotations = (\<lambda>a b. False),
     AnnotationV1Alpha1 = ''conversion.tinkerbell.org/v1alpha1'',
     hardwareToV1Alpha1 = (\<lambda>_. Inl ''none''), hardwareBMCRef = (\<lambda>_. None),
     workflowToV1Alpha2 = (\<lambda>w. Inr (objmeta.extend (meta w) \<lparr>wfTasks = [], wfState = StateNone, wfRest = ''''\<rparr>)),
     sprigFuncs = Map.empty, convertTemplate = (\<lambda>_ _. Inl (NotConvertible ''not convertible'')),
     rewriteWorkflowToTasks = (\<lambda>w t c. Inr w), templateTasks = (\<lambda>t c. []),
     bootOptionsJSON = (\<lambda>b. Inr b),
     urlParse = (\<lambda>u. Inr \<lparr>urlPath = u, urlRest = ''''\<rparr>), urlString = urlPath,
     UpdateInProgressAnnotation = ''in-progress'', MachineUpToDateCondition = ''UpToDate'',
     zeroSizePointersEqual = True, newPatchHelper = (\<lambda>_. Inr ()),
     endpointIsValid = (\<lambda>e. Host e \<noteq> '''' \<and> Port e \<noteq> 0), timeFormat = (\<lambda>_. ''now''),
     clock = (\<lambda>_. 0), clock' = (\<lambda>_. 0), startWatch = (\<lambda>_ ns. Inr ns)\<rparr>"

definition base_kube :: kube where
  "base_kube = env.extend base_env
     \<lparr>ansHardware = (\<lambda>_. Inl NotFound), ansHardwareList = (\<lambda>_. Inr []), ansClaim = (\<lambda>_. Inl NotFound),
      ansIPAddress = (\<lambda>_. Inl NotFound), ansWorkflow = (\<lambda>_. Inl NotFound), ansTemplate = (\<lambda>_. Inl NotFound),
      ansTask = (\<lambda>_. Inl NotFound), ansTaskList = (\<lambda>_. Inr []), ansJob = (\<lambda>_. Inl NotFound),
      ansSecret = (\<lambda>_. Inl NotFound), ansMachine = (\<lambda>_. Inl NotFound), ansOwnerMachine = (\<lambda>_. Inr None),
      ansCluster = (\<lambda>_. Inl NotFound), ansTinkerbellCluster = (\<lambda>_. Inl NotFound),
      ansTinkerbellMachine = (\<lambda>_. Inl NotFound), ansOwnerCluster = (\<lambda>_. Inr None), ansMachineList = (\<lambda>_. Inr []),
      ansPaused = (\<lambda>_. Inr (False, [])), ansUnit = (\<lambda>_. Inr ())\<rparr>"

lemmas base_defs = base_kube_def base_env_def env.defs objmeta.defs

lemma finalizer_laws_base: "finalizer_laws (base_kube\<lparr>ansHardware := f\<rparr>)"
  by (auto simp: finalizer_laws_def base_defs)

lemma condition_laws_base: "condition_laws base_kube"
  by (simp add: condition_laws_def base_defs)

end
