(* ===== verification/Examples.thy ===== *)
theory Examples
  imports World
begin

text \<open>
  Concrete objects the witnesses of the properties are evaluated on: a Hardware with one
  interface, a machine that has selected nothing yet, the scope of its reconcile.
\<close>

lemma base_kube_sel [simp]:
  "ansHardware base_kube h = Inl NotFound" "ansHardwareList base_kube h = Inr []" "ansClaim base_kube h = Inl NotFound"
  "ansIPAddress base_kube h = Inl NotFound" "ansWorkflow base_kube h = Inl NotFound" "ansTemplate base_kube h = Inl NotFound"
  "ansTask base_kube h = Inl NotFound" "ansTaskList base_kube h = Inr []" "ansJob base_kube h = Inl NotFound"
  "ansSecret base_kube h = Inl NotFound" "ansMachine base_kube h = Inl NotFound" "ansOwnerMachine base_kube h = Inr None"
  "ansCluster base_kube h = Inl NotFound" "ansTinkerbellCluster base_kube h = Inl NotFound"
  "ansTinkerbellMachine base_kube h = Inl NotFound" "ansOwnerCluster base_kube h = Inr None"
  "ansMachineList base_kube h = Inr []" "ansPaused base_kube h = Inr (False, [])" "ansUnit base_kube h = Inr ()"
  by (simp_all add: base_defs)

lemma base_env_sel [simp]:
  "containsFinalizer base_kube fs f \<longleftrightarrow> f \<in> set fs"
  "addFinalizer base_kube fs f = (if f \<in> set fs then fs else fs @ [f])"
  "removeFinalizer base_kube fs f = removeAll f fs"
  "isControlledBy base_kube a b = list_ex (\<lambda>r. orController r \<and> orUID r = UID b) (OwnerReferences a)"
  "asSelector base_kube sel = Inr (selector_matches sel)"
  "hasConditionStatus base_kube cs ty st = list_ex (\<lambda>c. bcType c = ty \<and> bcStatus c = st) cs"
  "convertTemplate base_kube fm d = Inl (NotConvertible ''not convertible'')"
  "workflowToV1Alpha2 base_kube w = Inr (objmeta.extend (meta w) \<lparr>wfTasks = [], wfState = StateNone, wfRest = ''''\<rparr>)"
  "AnnotationV1Alpha1 base_kube = ''conversion.tinkerbell.org/v1alpha1''"
  "hardwareBMCRef base_kube hw = None" "zeroSizePointersEqual base_kube"
  "newPatchHelper base_kube m = Inr ()" "endpointIsValid base_kube e \<longleftrightarrow> Host e \<noteq> '''' \<and> Port e \<noteq> 0"
  by (simp_all add: base_defs)

lemma condition_laws_base_kube: "condition_laws base_kube"
  by (rule condition_laws_base)

definition example_hw :: "string \<Rightarrow> (string \<rightharpoonup> string) \<Rightarrow> hardware" where
  "example_hw n ls = objmeta.extend ((new_meta n ''ns'')\<lparr>Labels := ls\<rparr>)
     \<lparr>NetworkInterfaces = [(''aa'', \<lparr>IPAM = Some \<lparr>IPv4 = Some (zero_ip\<lparr>Address := ''10.0.0.9''\<rparr>), IPv6 = None\<rparr>,
        niRest = []\<rparr>)], AgentID = ''agent'', Instance = None, BMC = None, StorageDevices = []\<rparr>"

lemma example_hw_sel [simp]:
  "Name (example_hw n ls) = n" "Namespace (example_hw n ls) = ''ns''" "Labels (example_hw n ls) = ls"
  "Annotations (example_hw n ls) = Map.empty" "Finalizers (example_hw n ls) = []"
  "AgentID (example_hw n ls) = ''agent''" "Instance (example_hw n ls) = None" "BMC (example_hw n ls) = None"
  "NetworkInterfaces (example_hw n ls) =
     [(''aa'', \<lparr>IPAM = Some \<lparr>IPv4 = Some (zero_ip\<lparr>Address := ''10.0.0.9''\<rparr>), IPv6 = None\<rparr>, niRest = []\<rparr>)]"
  "object_key (example_hw n ls) = NN ''ns'' n"
  by (simp_all add: example_hw_def new_meta_def objmeta.defs object_key_def)

definition example_spec :: machine_spec where
  "example_spec = \<lparr>TemplateInline = '''', TemplateRef = None, HardwareAffinity = None,
     BootOptions = \<lparr>ISOURL = '''', BootMode = BootModeUnset, CustombootConfig = ''''\<rparr>, AddressFromPool = None,
     HardwareName = '''', ProviderID = ''''\<rparr>"

definition example_status :: machine_status where
  "example_status = \<lparr>Ready = False, Initialization = None, Addresses = [], State = None, TargetNamespace = '''',
     Conditions = [], ErrorReason = None, ErrorMessage = None\<rparr>"

definition example_machine :: tinkerbell_machine where
  "example_machine = objmeta.extend (new_meta ''m1'' ''ns'') \<lparr>tmSpec = example_spec, tmStatus = example_status\<rparr>"

lemma example_machine_sel [simp]:
  "Name example_machine = ''m1''" "Namespace example_machine = ''ns''" "UID example_machine = ''''"
  "Annotations example_machine = Map.empty" "Finalizers example_machine = []"
  "DeletionTimestamp example_machine = None" "tmSpec example_machine = example_spec"
  "tmStatus example_machine = example_status"
  by (simp_all add: example_machine_def new_meta_def objmeta.defs)

lemma example_spec_sel [simp]:
  "HardwareAffinity example_spec = None" "AddressFromPool example_spec = None"
  "HardwareName example_spec = ''''" "ProviderID example_spec = ''''" "TemplateInline example_spec = ''''"
  "TemplateRef example_spec = None"
  "BootOptions example_spec = \<lparr>ISOURL = '''', BootMode = BootModeUnset, CustombootConfig = ''''\<rparr>"
  by (simp_all add: example_spec_def)

lemma example_status_sel [simp]:
  "TargetNamespace example_status = ''''" "Ready example_status = False" "Conditions example_status = []"
  "Addresses example_status = []" "Initialization example_status = None"
  by (simp_all add: example_status_def)

definition example_scope :: scope where
  "example_scope = \<lparr>tinkerbellMachine = example_machine, ownerMachine = None, tinkerbellCluster = None,
     bootstrapCloudConfig = ''cfg PROVIDER_ID'', externalTinkerbell = False, reservedAddress = None,
     watchManager = None, calls = []\<rparr>"

lemma example_scope_sel [simp]:
  "tinkerbellMachine example_scope = example_machine" "ownerMachine example_scope = None"
  "tinkerbellCluster example_scope = None" "bootstrapCloudConfig example_scope = ''cfg PROVIDER_ID''"
  "externalTinkerbell example_scope = False" "reservedAddress example_scope = None"
  "watchManager example_scope = None" "calls example_scope = []"
  by (simp_all add: example_scope_def)

end
