(* ===== verification/HardwareOps.thy ===== *)
theory HardwareOps
  imports Examples
begin

text \<open>
  \<open>controller/machine/hardware.go\<close>: what the controller reads off a Hardware (its primary
  interface, its address, its lookup ID, its BMC), how a machine selects a Hardware and claims it,
  and the user data it puts on it. A Go function that changes \<open>hw\<close> through its pointer returns the
  new value; after a patch that is the object the server answered with.
\<close>

section \<open>Reading a Hardware\<close>

definition zero_interface :: net_interface where
  "zero_interface = \<lparr>IPAM = None, niRest = []\<rparr>"

definition net_interface_of :: "hardware \<Rightarrow> string \<Rightarrow> net_interface" where
  "net_interface_of hw mac =
     (case map_of (NetworkInterfaces hw) mac of None \<Rightarrow> zero_interface | Some ni \<Rightarrow> ni)"

definition interface_keys :: "hardware \<Rightarrow> string list" where
  "interface_keys hw = map fst (NetworkInterfaces hw)"

definition interfaceKey :: "hardware \<Rightarrow> string \<Rightarrow> string option" where
  "interfaceKey hw mac =
     (if mac = '''' then None
      else if mac \<in> set (interface_keys hw) then Some mac
      else find (\<lambda>key. equal_fold key mac) (interface_keys hw))"

fun first_v1_interface :: "hardware \<Rightarrow> string option list \<Rightarrow> string option" where
  "first_v1_interface hw [] = None"
| "first_v1_interface hw (None # ifaces) = first_v1_interface hw ifaces"
| "first_v1_interface hw (Some mac # ifaces) =
     (case interfaceKey hw mac of Some key \<Rightarrow> Some key | None \<Rightarrow> first_v1_interface hw ifaces)"

definition v1alpha1PrimaryInterface :: "('e) env_scheme \<Rightarrow> hardware \<Rightarrow> string option" where
  "v1alpha1PrimaryInterface E hw =
     (if Annotations hw (AnnotationV1Alpha1 E) = None then None
      else (case hardwareToV1Alpha1 E hw of
          Inl _ \<Rightarrow> None
        | Inr ifaces \<Rightarrow> first_v1_interface hw ifaces))"

definition primaryInterface :: "('e) env_scheme \<Rightarrow> hardware option \<Rightarrow> goerr + string" where
  "primaryInterface E hw =
     (case hw of
        None \<Rightarrow> Inl ErrHardwareIsNil
      | Some h \<Rightarrow>
          if NetworkInterfaces h = [] then Inl ErrHardwareMissingInterfaces
          else (case v1alpha1PrimaryInterface E h of
              Some mac \<Rightarrow> Inr mac
            | None \<Rightarrow>
                (case interfaceKey h (AgentID h) of
                   Some mac \<Rightarrow> Inr mac
                 | None \<Rightarrow> Inr (hd (sort (interface_keys h))))))"

fun first_address :: "ip_config option list \<Rightarrow> string option" where
  "first_address [] = None"
| "first_address (None # ips) = first_address ips"
| "first_address (Some ip # ips) = (if Address ip \<noteq> '''' then Some (Address ip) else first_address ips)"

definition hardwareIP :: "('e) env_scheme \<Rightarrow> hardware option \<Rightarrow> goerr + string" where
  "hardwareIP E hw =
     (case hw of
        None \<Rightarrow> Inl ErrHardwareIsNil
      | Some h \<Rightarrow>
          (case primaryInterface E hw of
             Inl e \<Rightarrow> Inl e
           | Inr mac \<Rightarrow>
               (case IPAM (net_interface_of h mac) of
                  None \<Rightarrow> Inl ErrHardwareFirstInterfaceNotDHCP
                | Some ipam \<Rightarrow>
                    if IPv4 ipam = None \<and> IPv6 ipam = None then Inl ErrHardwareFirstInterfaceNotDHCP
                    else (case first_address [IPv4 ipam, IPv6 ipam] of
                        Some a \<Rightarrow> Inr a
                      | None \<Rightarrow> Inl ErrHardwareFirstInterfaceDHCPMissingIP))))"

definition hardwareLookupID :: "hardware \<Rightarrow> string" where
  "hardwareLookupID hw =
     cmp_or (case Instance hw of None \<Rightarrow> '''' | Some i \<Rightarrow> LookupID i) (AgentID hw)"

definition hasBMC :: "('e) env_scheme \<Rightarrow> hardware option \<Rightarrow> bool" where
  "hasBMC E hw =
     (case hw of
        None \<Rightarrow> False
      | Some h \<Rightarrow>
          (case BMC h of Some b \<Rightarrow> Connection b \<noteq> None | None \<Rightarrow> False) \<or>
          (case hardwareBMCRef E h of None \<Rightarrow> False | Some n \<Rightarrow> n \<noteq> ''''))"

definition hardwareUserData :: "hardware \<Rightarrow> string option" where
  "hardwareUserData hw = (case Instance hw of None \<Rightarrow> None | Some i \<Rightarrow> Userdata i)"

section \<open>Claiming a Hardware\<close>

definition patchHardwareAnnotations :: "('e) kube_scheme \<Rightarrow> hardware \<Rightarrow> (string \<rightharpoonup> string) \<Rightarrow> hardware io" where
  "patchHardwareAnnotations E hw anns =
     api (ansHardware E) (PatchHardware hw (hw\<lparr>Annotations := Annotations hw ++ anns\<rparr>) False)"

definition hardwareAlreadyClaimed :: "('e) env_scheme \<Rightarrow> tinkerbell_machine \<Rightarrow> hardware \<Rightarrow> bool" where
  "hardwareAlreadyClaimed E tm hw \<longleftrightarrow>
     lookup0 (Labels hw) HardwareOwnerNameLabel = Name tm \<and>
     lookup0 (Labels hw) HardwareOwnerNamespaceLabel = Namespace tm \<and>
     containsFinalizer E (Finalizers hw) MachineFinalizer \<and>
     \<not> containsFinalizer E (Finalizers hw) MachineLegacyFinalizer"

text \<open>A different machine's owner label is on the Hardware.\<close>

definition owned_by_other :: "tinkerbell_machine \<Rightarrow> hardware \<Rightarrow> bool" where
  "owned_by_other tm hw \<longleftrightarrow>
     (case Labels hw HardwareOwnerNameLabel of
        None \<Rightarrow> False
      | Some owner \<Rightarrow> owner \<noteq> Name tm \<or> lookup0 (Labels hw) HardwareOwnerNamespaceLabel \<noteq> Namespace tm)"

definition claimed_hardware :: "('e) env_scheme \<Rightarrow> tinkerbell_machine \<Rightarrow> hardware \<Rightarrow> hardware" where
  "claimed_hardware E tm hw =
     hw\<lparr>Labels := (Labels hw)(HardwareOwnerNameLabel \<mapsto> Name tm, HardwareOwnerNamespaceLabel \<mapsto> Namespace tm),
        Finalizers := addFinalizer E (removeFinalizer E (Finalizers hw) MachineLegacyFinalizer) MachineFinalizer\<rparr>"

definition takeHardwareOwnership :: "('e) kube_scheme \<Rightarrow> hardware \<Rightarrow> hardware io" where
  "takeHardwareOwnership E hw =
     bindE (getsE tinkerbellMachine) (\<lambda>tm.
     if owned_by_other tm hw then throwE (ErrHardwareClaimRequeue None)
     else if hardwareAlreadyClaimed E tm hw then returnE hw
     else catchE (api (ansHardware E) (PatchHardware hw (claimed_hardware E tm hw) True))
            (\<lambda>e. if isConflict e then throwE (ErrHardwareClaimRequeue (api_cause e)) else throwE e))"

definition providerIDPlaceholder :: string where
  "providerIDPlaceholder = ''PROVIDER_ID''"

definition zero_instance :: hw_instance where
  "zero_instance = \<lparr>LookupID = '''', Userdata = None, instRest = []\<rparr>"

definition with_userdata :: "string option \<Rightarrow> hardware \<Rightarrow> hardware" where
  "with_userdata u hw =
     hw\<lparr>Instance := Some ((case Instance hw of None \<Rightarrow> zero_instance | Some i \<Rightarrow> i)\<lparr>Userdata := u\<rparr>)\<rparr>"

definition ensureHardwareUserData :: "('e) kube_scheme \<Rightarrow> hardware \<Rightarrow> string \<Rightarrow> hardware io" where
  "ensureHardwareUserData E hw providerID =
     bindE (getsE bootstrapCloudConfig) (\<lambda>cfg.
     let userData = replace_all cfg providerIDPlaceholder providerID in
     if hardwareUserData hw = Some userData then returnE hw
     else api (ansHardware E) (PatchHardware hw (with_userdata (Some userData) hw) False))"

section \<open>Selecting a Hardware\<close>

definition assignedHardware :: "('e) kube_scheme \<Rightarrow> hardware option io" where
  "assignedHardware E =
     bindE (getsE tinkerbellMachine) (\<lambda>tm.
     bindE (api (ansHardwareList E) (ListAssignedHardware (Name tm) (Namespace tm))) (\<lambda>items.
     returnE (case items of [] \<Rightarrow> None | h # _ \<Rightarrow> Some h)))"

text \<open>Adding the term's weight: it is assigned, so a later matching term replaces an earlier one.\<close>

definition score_term ::
    "((string \<rightharpoonup> string) \<Rightarrow> bool) \<Rightarrow> int \<Rightarrow> hardware list \<Rightarrow> (nsname \<rightharpoonup> int) \<Rightarrow> (nsname \<rightharpoonup> int)" where
  "score_term matches w hws scores =
     foldl (\<lambda>sc h. if matches (Labels h) then sc(object_key h \<mapsto> w) else sc) scores hws"

fun affinity_scores ::
    "('e) env_scheme \<Rightarrow> hardware list \<Rightarrow> weighted_affinity_term list \<Rightarrow> (nsname \<rightharpoonup> int) \<Rightarrow> goerr + (nsname \<rightharpoonup> int)" where
  "affinity_scores E hws [] scores = Inr scores"
| "affinity_scores E hws (t # ts) scores =
     (case asSelector E (LabelSelector (AffinityTerm t)) of
        Inl e \<Rightarrow> Inl (ErrSelector e)
      | Inr matches \<Rightarrow> affinity_scores E hws ts (score_term matches (Weight t) hws scores))"

definition score_of :: "(nsname \<rightharpoonup> int) \<Rightarrow> hardware \<Rightarrow> int" where
  "score_of scores h = (case scores (object_key h) of None \<Rightarrow> 0 | Some w \<Rightarrow> w)"

text \<open>A higher score first, then the lower namespace, then the lower name.\<close>

definition affinity_less :: "(nsname \<rightharpoonup> int) \<Rightarrow> hardware \<Rightarrow> hardware \<Rightarrow> bool" where
  "affinity_less scores a b =
     (if score_of scores b < score_of scores a then True
      else if score_of scores a < score_of scores b then False
      else if Namespace a \<noteq> Namespace b then Namespace a < Namespace b
      else Name a < Name b)"

definition byHardwareAffinity ::
    "('e) env_scheme \<Rightarrow> hardware list \<Rightarrow> weighted_affinity_term list \<Rightarrow> goerr + (hardware \<Rightarrow> hardware \<Rightarrow> bool)" where
  "byHardwareAffinity E hws preferred =
     map_sum id affinity_less (affinity_scores E hws preferred Map.empty)"

definition unowned_selector :: "label_selector \<Rightarrow> label_selector" where
  "unowned_selector sel =
     sel\<lparr>MatchExpressions := MatchExpressions sel @
        [\<lparr>reqKey = HardwareOwnerNameLabel, reqOperator = OpDoesNotExist, reqValues = []\<rparr>]\<rparr>"

definition empty_affinity_term :: hardware_affinity_term where
  "empty_affinity_term = \<lparr>LabelSelector = \<lparr>MatchLabels = [], MatchExpressions = []\<rparr>\<rparr>"

text \<open>The loop over the required terms: they are OR'd by listing each one.\<close>

fun list_required :: "('e) kube_scheme \<Rightarrow> hardware_affinity_term list \<Rightarrow> hardware list io" where
  "list_required E [] = returnE []"
| "list_required E (t # ts) =
     (let sel = unowned_selector (LabelSelector t) in
      case asSelector E sel of
        Inl e \<Rightarrow> throwE (ErrSelector e)
      | Inr _ \<Rightarrow>
          bindE (api (ansHardwareList E) (ListHardware sel)) (\<lambda>matched.
          bindE (list_required E ts) (\<lambda>rest. returnE (matched @ rest))))"

definition required_terms :: "hardware_affinity option \<Rightarrow> hardware_affinity_term list" where
  "required_terms a =
     (case a of
        None \<Rightarrow> [empty_affinity_term]
      | Some a' \<Rightarrow> if Required a' = [] then [empty_affinity_term] else Required a')"

definition preferred_terms :: "hardware_affinity option \<Rightarrow> weighted_affinity_term list" where
  "preferred_terms a = (case a of None \<Rightarrow> [] | Some a' \<Rightarrow> Preferred a')"

definition best_hardware ::
    "('e) env_scheme \<Rightarrow> hardware list \<Rightarrow> weighted_affinity_term list \<Rightarrow> goerr + hardware" where
  "best_hardware E hws preferred =
     (case byHardwareAffinity E hws preferred of
        Inl e \<Rightarrow> Inl e
      | Inr lt \<Rightarrow>
          (case sort_slice lt hws of [] \<Rightarrow> Inl ErrNoHardwareAvailable | h # _ \<Rightarrow> Inr h))"

definition hardwareForMachine :: "('e) kube_scheme \<Rightarrow> hardware io" where
  "hardwareForMachine E =
     bindE (assignedHardware E) (\<lambda>assigned.
     case assigned of
       Some hw \<Rightarrow> returnE hw
     | None \<Rightarrow>
         bindE (getsE (\<lambda>s. HardwareAffinity (tmSpec (tinkerbellMachine s)))) (\<lambda>affinity.
         bindE (list_required E (required_terms affinity)) (\<lambda>matching.
         liftE (best_hardware E matching (preferred_terms affinity)))))"

section \<open>ensureHardware\<close>

definition provider_id :: "hardware \<Rightarrow> string" where
  "provider_id hw = ''tinkerbell://'' @ Namespace hw @ ''/'' @ Name hw"

definition record_hardware :: "hardware \<Rightarrow> tinkerbell_machine \<Rightarrow> tinkerbell_machine" where
  "record_hardware hw tm =
     tm\<lparr>tmSpec := (tmSpec tm)\<lparr>HardwareName := Name hw, ProviderID := provider_id hw\<rparr>,
        tmStatus := (if TargetNamespace (tmStatus tm) = ''''
                     then (tmStatus tm)\<lparr>TargetNamespace := Namespace hw\<rparr> else tmStatus tm)\<rparr>"

definition ensure_watch :: "('e) env_scheme \<Rightarrow> string \<Rightarrow> unit io" where
  "ensure_watch E ns = (\<lambda>s.
     (case watchManager s of
        None \<Rightarrow> (Inr (), s)
      | Some m \<Rightarrow>
          (let h = calls s @ [CallEnsureWatch ns];
               (r, m') = EnsureWatch (clock E h) (clock' E h) (startWatch E h) ns m
           in (map_sum ErrWatch id r, (add_call (CallEnsureWatch ns) s)\<lparr>watchManager := Some m'\<rparr>))))"

definition ensureHardware :: "('e) kube_scheme \<Rightarrow> hardware io" where
  "ensureHardware E =
     bindE (hardwareForMachine E) (\<lambda>selected.
     bindE (takeHardwareOwnership E selected) (\<lambda>hw.
     bindE (modify_machine (record_hardware hw)) (\<lambda>_.
     bindE (ensure_watch E (Namespace hw)) (\<lambda>_.
     ensureHardwareUserData E hw (provider_id hw)))))"

definition getHardwareForMachine :: "('e) kube_scheme \<Rightarrow> hardware io" where
  "getHardwareForMachine E =
     bindE (getsE tinkerbellMachine) (\<lambda>tm.
     api (ansHardware E) (GetHardware (NN (TargetNamespace (tmStatus tm)) (HardwareName (tmSpec tm)))))"

section \<open>Reading: the primary interface\<close>

lemma interfaceKey_in: "interfaceKey hw mac = Some key \<Longrightarrow> key \<in> set (interface_keys hw)"
  by (auto simp: interfaceKey_def find_Some_iff split: if_splits)

lemma interfaceKey_fold: "interfaceKey hw mac = Some key \<Longrightarrow> equal_fold key mac"
  by (auto simp: interfaceKey_def find_Some_iff split: if_splits)

lemma interfaceKey_None:
  "interfaceKey hw mac = None \<longleftrightarrow> mac = '''' \<or> (\<forall>key\<in>set (interface_keys hw). \<not> equal_fold key mac)"
  by (auto simp: interfaceKey_def find_None_iff intro: bexI [of _ mac])

lemma interfaceKey_nonempty: "interfaceKey hw mac = Some key \<Longrightarrow> mac \<noteq> ''''"
  by (auto simp: interfaceKey_def)

lemma first_v1_interface_in: "first_v1_interface hw ifs = Some key \<Longrightarrow> key \<in> set (interface_keys hw)"
  by (induction hw ifs rule: first_v1_interface.induct) (auto split: option.splits dest: interfaceKey_in)

lemma v1alpha1PrimaryInterface_in:
  "v1alpha1PrimaryInterface E hw = Some key \<Longrightarrow> key \<in> set (interface_keys hw)"
  by (auto simp: v1alpha1PrimaryInterface_def split: if_splits sum.splits dest: first_v1_interface_in)

lemma hd_sort_least:
  fixes xs :: "'a :: linorder list"
  assumes "x \<in> set xs"
  shows "hd (sort xs) \<in> set xs" and "hd (sort xs) \<le> x"
proof -
  obtain y ys where s: "sort xs = y # ys"
    using assms by (cases "sort xs") (metis empty_iff set_empty set_sort, blast)
  have "sorted (y # ys)" and st: "set (y # ys) = set xs" by (metis s sorted_sort, metis s set_sort)
  with assms show "hd (sort xs) \<in> set xs" and "hd (sort xs) \<le> x" by (auto simp: s)
qed

lemma interface_keys_Nil [simp]: "interface_keys hw = [] \<longleftrightarrow> NetworkInterfaces hw = []"
  by (simp add: interface_keys_def)

text \<open>
  A MAC identifies at most one interface when the keys are lower case, and then the key found
  does not depend on the order in which the map is ranged over.
\<close>

lemma interfaceKey_lower:
  assumes "\<forall>k\<in>set (interface_keys hw). to_lower k = k"
  shows "interfaceKey hw mac = Some key \<longleftrightarrow> mac \<noteq> '''' \<and> key \<in> set (interface_keys hw) \<and> key = to_lower mac"
proof
  assume k: "interfaceKey hw mac = Some key"
  then have "key \<in> set (interface_keys hw)" "equal_fold key mac" "mac \<noteq> ''''"
    by (rule interfaceKey_in, rule interfaceKey_fold, rule interfaceKey_nonempty)
  with assms show "mac \<noteq> '''' \<and> key \<in> set (interface_keys hw) \<and> key = to_lower mac"
    by (auto simp: equal_fold_def)
next
  assume r: "mac \<noteq> '''' \<and> key \<in> set (interface_keys hw) \<and> key = to_lower mac"
  then have "equal_fold key mac" by (simp add: equal_fold_def)
  with r obtain key' where k': "interfaceKey hw mac = Some key'"
    by (cases "interfaceKey hw mac") (auto simp: interfaceKey_None)
  then have "key' \<in> set (interface_keys hw)" "equal_fold key' mac"
    by (auto dest: interfaceKey_in interfaceKey_fold)
  with assms have "key' = to_lower mac" by (auto simp: equal_fold_def)
  with k' r show "interfaceKey hw mac = Some key" by simp
qed

section \<open>Claiming: what is written, and when\<close>

lemma claimed_hardware_claimed:
  "finalizer_laws E \<Longrightarrow> hardwareAlreadyClaimed E tm (claimed_hardware E tm hw)"
  by (simp add: hardwareAlreadyClaimed_def claimed_hardware_def finalizer_laws_def)

lemma claimed_not_other [simp]: "\<not> owned_by_other tm (claimed_hardware E tm hw)"
  by (simp add: owned_by_other_def claimed_hardware_def)

lemma already_claimed_not_other: "hardwareAlreadyClaimed E tm hw \<Longrightarrow> \<not> owned_by_other tm hw"
  by (auto simp: hardwareAlreadyClaimed_def owned_by_other_def lookup0_def split: option.splits)

lemma take_owned_by_other:
  "owned_by_other (tinkerbellMachine s) hw \<Longrightarrow>
   takeHardwareOwnership E hw s = (Inl (ErrHardwareClaimRequeue None), s)"
  by (simp add: takeHardwareOwnership_def run_simps)

lemma take_already_claimed:
  "hardwareAlreadyClaimed E (tinkerbellMachine s) hw \<Longrightarrow> takeHardwareOwnership E hw s = (Inr hw, s)"
  by (simp add: takeHardwareOwnership_def run_simps already_claimed_not_other)

lemma take_claims:
  assumes "\<not> owned_by_other (tinkerbellMachine s) hw" "\<not> hardwareAlreadyClaimed E (tinkerbellMachine s) hw"
  shows "takeHardwareOwnership E hw s =
    (case ansHardware E (calls s @ [PatchHardware hw (claimed_hardware E (tinkerbellMachine s) hw) True]) of
       Inl a \<Rightarrow> Inl (if a = Conflict then ErrHardwareClaimRequeue (Some Conflict) else Api a)
     | Inr hw' \<Rightarrow> Inr hw',
     add_call (PatchHardware hw (claimed_hardware E (tinkerbellMachine s) hw) True) s)"
  using assms
  by (cases "ansHardware E (calls s @ [PatchHardware hw (claimed_hardware E (tinkerbellMachine s) hw) True])")
    (simp_all add: takeHardwareOwnership_def run_simps api_cause_def)

definition is_hardware_patch :: "call \<Rightarrow> bool" where
  "is_hardware_patch c = (case c of PatchHardware _ _ _ \<Rightarrow> True | _ \<Rightarrow> False)"

lemma is_hardware_patch_simps [simp]:
  "is_hardware_patch (PatchHardware b n l)" "\<not> is_hardware_patch (ListAssignedHardware a b')"
  "\<not> is_hardware_patch (ListHardware sel)" "\<not> is_hardware_patch (CallEnsureWatch ns)"
  "\<not> is_hardware_patch (GetHardware k)"
  by (simp_all add: is_hardware_patch_def)

lemma adds_list_required [adds_intros]: "(\<And>sel. P (ListHardware sel)) \<Longrightarrow> adds calls P (list_required E ts)"
  by (induction ts) (auto intro!: adds_intros)

lemma adds_assignedHardware [adds_intros]:
  "(\<And>a b. P (ListAssignedHardware a b)) \<Longrightarrow> adds calls P (assignedHardware E)"
  unfolding assignedHardware_def by (intro adds_intros) simp

lemma adds_hardwareForMachine [adds_intros]:
  "(\<And>a b. P (ListAssignedHardware a b)) \<Longrightarrow> (\<And>sel. P (ListHardware sel)) \<Longrightarrow>
   adds calls P (hardwareForMachine E)"
  unfolding hardwareForMachine_def by (intro adds_intros) simp_all

lemma adds_takeHardwareOwnership [adds_intros]:
  "(\<And>tm. \<not> owned_by_other tm hw \<Longrightarrow> P (PatchHardware hw (claimed_hardware E tm hw) True)) \<Longrightarrow>
   adds calls P (takeHardwareOwnership E hw)"
  unfolding takeHardwareOwnership_def by (intro adds_intros) simp_all

lemma adds_ensureHardwareUserData [adds_intros]:
  "(\<And>u. P (PatchHardware hw (with_userdata u hw) False)) \<Longrightarrow> adds calls P (ensureHardwareUserData E hw pid)"
  unfolding ensureHardwareUserData_def by (intro adds_intros) simp_all

lemma adds_ensure_watch [adds_intros]: "P (CallEnsureWatch ns) \<Longrightarrow> adds calls P (ensure_watch E ns)"
  by (auto simp: adds_def ensure_watch_def Let_def split: option.split prod.split)

lemma adds_patchHardwareAnnotations [adds_intros]:
  "P (PatchHardware hw (hw\<lparr>Annotations := Annotations hw ++ anns\<rparr>) False) \<Longrightarrow>
   adds calls P (patchHardwareAnnotations E hw anns)"
  unfolding patchHardwareAnnotations_def by (intro adds_intros)

lemma adds_getHardwareForMachine [adds_intros]:
  "(\<And>k. P (GetHardware k)) \<Longrightarrow> adds calls P (getHardwareForMachine E)"
  unfolding getHardwareForMachine_def by (intro adds_intros) simp

lemma adds_ensureHardware [adds_intros]:
  assumes "\<And>a b. P (ListAssignedHardware a b)" "\<And>sel. P (ListHardware sel)"
    "\<And>b n l. P (PatchHardware b n l)" "\<And>ns. P (CallEnsureWatch ns)"
  shows "adds calls P (ensureHardware E)"
  unfolding ensureHardware_def by (intro adds_intros) (simp_all add: assms)

text \<open>What selecting a Hardware leaves alone: everything in the scope but the calls.\<close>

lemma keeps_list_required [keeps_intros]:
  "(\<And>c s. obs (add_call c s) = obs s) \<Longrightarrow> keeps obs (list_required E ts)"
  by (induction ts) (auto intro!: keeps_intros)

lemma keeps_hardwareForMachine [keeps_intros]:
  "(\<And>c s. obs (add_call c s) = obs s) \<Longrightarrow> keeps obs (hardwareForMachine E)"
  unfolding hardwareForMachine_def assignedHardware_def by (intro keeps_intros) simp_all

lemma keeps_takeHardwareOwnership [keeps_intros]:
  "(\<And>c s. obs (add_call c s) = obs s) \<Longrightarrow> keeps obs (takeHardwareOwnership E hw)"
  unfolding takeHardwareOwnership_def by (intro keeps_intros) simp_all

lemma keeps_ensureHardwareUserData [keeps_intros]:
  "(\<And>c s. obs (add_call c s) = obs s) \<Longrightarrow> keeps obs (ensureHardwareUserData E hw pid)"
  unfolding ensureHardwareUserData_def by (intro keeps_intros) simp_all

lemma keeps_ensure_watch [keeps_intros]:
  "(\<And>c s m. obs ((add_call c s)\<lparr>watchManager := m\<rparr>) = obs s) \<Longrightarrow> keeps obs (ensure_watch E ns)"
  by (auto simp: keeps_def ensure_watch_def Let_def split: option.split prod.split)

section \<open>Selecting: scores and order\<close>

lemma affinity_less_asym: "affinity_less sc a b \<Longrightarrow> \<not> affinity_less sc b a"
  by (auto simp: affinity_less_def split: if_splits)

lemma not_affinity_less:
  "\<not> affinity_less sc b a \<longleftrightarrow>
   score_of sc b < score_of sc a \<or> score_of sc b = score_of sc a \<and> object_key a \<le> object_key b"
  by (auto simp: affinity_less_def object_key_def less_eq_nsname_def)

lemma affinity_less_cotrans:
  "\<not> affinity_less sc a b \<Longrightarrow> \<not> affinity_less sc b c \<Longrightarrow> \<not> affinity_less sc a c"
  unfolding not_affinity_less by (auto intro: order.trans)

lemma score_term_apply:
  "score_term matches w hws sc k =
     (if \<exists>h\<in>set hws. object_key h = k \<and> matches (Labels h) then Some w else sc k)"
  unfolding score_term_def by (induction hws arbitrary: sc) auto

lemma best_hardware_Inr:
  "best_hardware E hws pref = Inr h \<longleftrightarrow>
     (\<exists>sc. affinity_scores E hws pref Map.empty = Inr sc \<and> hws \<noteq> [] \<and> h = hd (sort_slice (affinity_less sc) hws))"
proof (cases "affinity_scores E hws pref Map.empty")
  case (Inr sc)
  have "sort_slice (affinity_less sc) hws = [] \<longleftrightarrow> hws = []" by (rule sort_slice_Nil)
  with Inr show ?thesis
    by (cases "sort_slice (affinity_less sc) hws") (auto simp: best_hardware_def byHardwareAffinity_def)
qed (simp add: best_hardware_def byHardwareAffinity_def)

text \<open>The score of a Hardware is the weight of the last preferred term that matches it.\<close>

fun last_matching :: "('e) env_scheme \<Rightarrow> weighted_affinity_term list \<Rightarrow> (string \<rightharpoonup> string) \<Rightarrow> int option" where
  "last_matching E [] ls = None"
| "last_matching E (t # ts) ls =
     (case last_matching E ts ls of
        Some w \<Rightarrow> Some w
      | None \<Rightarrow>
          (case asSelector E (LabelSelector (AffinityTerm t)) of
             Inl _ \<Rightarrow> None
           | Inr matches \<Rightarrow> if matches ls then Some (Weight t) else None))"

lemma affinity_scores_apply:
  assumes "affinity_scores E hws ts sc = Inr sc'" and "inj_on object_key (set hws)" and "h \<in> set hws"
  shows "sc' (object_key h) = (case last_matching E ts (Labels h) of Some w \<Rightarrow> Some w | None \<Rightarrow> sc (object_key h))"
  using assms(1)
proof (induction ts arbitrary: sc)
  case Nil
  then show ?case by simp
next
  case (Cons t ts)
  then obtain matches where m: "asSelector E (LabelSelector (AffinityTerm t)) = Inr matches"
    and r: "affinity_scores E hws ts (score_term matches (Weight t) hws sc) = Inr sc'"
    by (auto split: sum.splits)
  have "(\<exists>h'\<in>set hws. object_key h' = object_key h \<and> matches (Labels h')) \<longleftrightarrow> matches (Labels h)"
    using assms(2,3) by (metis inj_onD)
  then have "score_term matches (Weight t) hws sc (object_key h) =
      (if matches (Labels h) then Some (Weight t) else sc (object_key h))"
    by (simp add: score_term_apply)
  with Cons.IH [OF r] m show ?case by (auto split: option.split)
qed

lemma affinity_scores_hws: "affinity_scores E hws ts sc = Inr sc' \<Longrightarrow> \<exists>sc''. affinity_scores E hws' ts sc0 = Inr sc''"
  by (induction ts arbitrary: sc sc0) (auto split: sum.splits)

definition preference :: "('e) env_scheme \<Rightarrow> weighted_affinity_term list \<Rightarrow> hardware \<Rightarrow> int" where
  "preference E pref h = (case last_matching E pref (Labels h) of Some w \<Rightarrow> w | None \<Rightarrow> 0)"

definition preferred_over :: "('e) env_scheme \<Rightarrow> weighted_affinity_term list \<Rightarrow> hardware \<Rightarrow> hardware \<Rightarrow> bool" where
  "preferred_over E pref h x \<longleftrightarrow>
     preference E pref x < preference E pref h \<or>
     preference E pref x = preference E pref h \<and> object_key h \<le> object_key x"

lemma score_of_preference:
  assumes "affinity_scores E hws pref Map.empty = Inr sc" "inj_on object_key (set hws)" "h \<in> set hws"
  shows "score_of sc h = preference E pref h"
  using affinity_scores_apply [OF assms] by (simp add: score_of_def preference_def split: option.split)

lemma best_hardware_best:
  assumes b: "best_hardware E hws pref = Inr h" and inj: "inj_on object_key (set hws)"
  shows "h \<in> set hws" and "x \<in> set hws \<Longrightarrow> preferred_over E pref h x"
proof -
  obtain sc where sc: "affinity_scores E hws pref Map.empty = Inr sc" and ne: "hws \<noteq> []"
    and h: "h = hd (sort_slice (affinity_less sc) hws)"
    using b unfolding best_hardware_Inr by blast
  show hin: "h \<in> set hws" using hd_sort_slice_in [OF ne] h by simp
  assume x: "x \<in> set hws"
  have "\<not> affinity_less sc x h"
    unfolding h by (rule hd_sort_slice_least [OF affinity_less_asym affinity_less_cotrans x])
  then show "preferred_over E pref h x"
    unfolding not_affinity_less preferred_over_def
    using score_of_preference [OF sc inj x] score_of_preference [OF sc inj hin] by auto
qed

lemma preferred_over_antisym:
  "preferred_over E pref a b \<Longrightarrow> preferred_over E pref b a \<Longrightarrow> object_key a = object_key b"
  by (auto simp: preferred_over_def)

section \<open>Properties\<close>


definition label_term :: "string \<Rightarrow> string \<Rightarrow> int \<Rightarrow> weighted_affinity_term" where
  "label_term k v w = \<lparr>Weight = w, AffinityTerm = \<lparr>LabelSelector = \<lparr>MatchLabels = [(k, v)], MatchExpressions = []\<rparr>\<rparr>\<rparr>"

lemma example_best:
  "best_hardware base_kube [example_hw ''a'' Map.empty, example_hw ''b'' [''rack'' \<mapsto> ''r1'']]
     [label_term ''rack'' ''r1'' 5] = Inr (example_hw ''b'' [''rack'' \<mapsto> ''r1''])"
  by (simp add: best_hardware_def byHardwareAffinity_def base_defs label_term_def score_term_def
      object_key_def affinity_less_def score_of_def selector_matches_def)


text \<open>
  Which Hardware is picked depends on the set of candidates only: neither the order in which
  the API server lists them, nor duplicates, nor how the sort breaks ties can change it.
\<close>

theorem best_hardware_order_independent:
  assumes "set hws = set hws'" and "inj_on object_key (set hws)"
  shows "best_hardware E hws pref = best_hardware E hws' pref"
proof (cases "best_hardware E hws pref")
  case (Inr h)
  then obtain sc where "affinity_scores E hws pref Map.empty = Inr sc" "hws \<noteq> []"
    unfolding best_hardware_Inr by blast
  then obtain h' where h': "best_hardware E hws' pref = Inr h'"
    unfolding best_hardware_Inr using affinity_scores_hws [of E hws pref _ sc hws'] assms(1) by fastforce
  have "h \<in> set hws" "h' \<in> set hws'" "preferred_over E pref h h'" "preferred_over E pref h' h"
    using best_hardware_best [OF Inr assms(2)] best_hardware_best [OF h'] assms by auto
  then have "h = h'" using preferred_over_antisym assms by (metis inj_onD)
  with Inr h' show ?thesis by simp
next
  case (Inl e)
  show ?thesis
  proof (cases "hws = []")
    case True
    with assms(1) show ?thesis by simp
  next
    case False
    with assms(1) have "hws' \<noteq> []" by auto
    have l: "affinity_scores E hws pref sc = Inl e' \<Longrightarrow> affinity_scores E hws' pref sc' = Inl e'" for sc sc' e'
      by (induction pref arbitrary: sc sc') (auto split: sum.splits)
    show ?thesis
    proof (cases "affinity_scores E hws pref Map.empty")
      case (Inl e')
      then show ?thesis using l [OF Inl] by (simp add: best_hardware_def byHardwareAffinity_def)
    next
      case (Inr sc)
      with False have "best_hardware E hws pref = Inr (hd (sort_slice (affinity_less sc) hws))"
        unfolding best_hardware_Inr by blast
      with Inl show ?thesis by simp
    qed
  qed
qed

theorem best_hardware_order_independent_witness:
  "best_hardware base_kube [example_hw ''b'' Map.empty, example_hw ''a'' Map.empty, example_hw ''b'' Map.empty] [] =
   best_hardware base_kube [example_hw ''a'' Map.empty, example_hw ''b'' Map.empty] []"
  by (rule best_hardware_order_independent) (auto simp: object_key_def)

definition address_of :: "ip_config option \<Rightarrow> string" where
  "address_of ip = (case ip of None \<Rightarrow> '''' | Some c \<Rightarrow> Address c)"

lemma first_address_two:
  "first_address [a, b] =
     (if address_of a \<noteq> '''' then Some (address_of a)
      else if address_of b \<noteq> '''' then Some (address_of b) else None)"
  by (cases a; cases b) (simp_all add: address_of_def)

text \<open>
  The node address read off a Hardware is never empty: it is the IPv4 address of the primary
  interface when that is set, its IPv6 address otherwise, and every other case is an error.
\<close>

theorem hardwareIP_iff:
  "hardwareIP E (Some h) = Inr a \<longleftrightarrow>
     (\<exists>mac ipam. primaryInterface E (Some h) = Inr mac \<and> IPAM (net_interface_of h mac) = Some ipam \<and> a \<noteq> '''' \<and>
        (a = address_of (IPv4 ipam) \<or> address_of (IPv4 ipam) = '''' \<and> a = address_of (IPv6 ipam)))"
  by (cases "primaryInterface E (Some h)")
    (auto simp: hardwareIP_def first_address_two address_of_def split: option.splits)

lemma primaryInterface_in:
  assumes "primaryInterface E (Some h) = Inr mac"
  shows "mac \<in> set (interface_keys h)"
proof -
  from assms have ne: "interface_keys h \<noteq> []" by (auto simp: primaryInterface_def split: if_splits)
  then obtain x where "x \<in> set (interface_keys h)" by (meson list.set_sel(1))
  then have "hd (sort (interface_keys h)) \<in> set (interface_keys h)" by (rule hd_sort_least)
  with assms show ?thesis
    by (auto simp: primaryInterface_def split: if_splits option.splits
        dest: v1alpha1PrimaryInterface_in interfaceKey_in)
qed

lemma primaryInterface_total:
  "NetworkInterfaces h \<noteq> [] \<Longrightarrow> \<exists>mac. primaryInterface E (Some h) = Inr mac"
  by (auto simp: primaryInterface_def split: option.split)

text \<open>
  A Hardware with interfaces has a primary one among them: the one its v1alpha1 form gives, else
  the one its agent ID names whatever the case of the MAC, else the lowest MAC. When the keys are
  lower case the choice does not depend on the order in which the interface map is ranged over.
\<close>

theorem primaryInterface_choice:
  assumes "NetworkInterfaces h \<noteq> []" and "\<forall>k\<in>set (interface_keys h). to_lower k = k"
  shows "\<exists>mac. primaryInterface E (Some h) = Inr mac \<and> mac \<in> set (interface_keys h) \<and>
    (case v1alpha1PrimaryInterface E h of
       Some m \<Rightarrow> mac = m
     | None \<Rightarrow>
         if AgentID h \<noteq> '''' \<and> to_lower (AgentID h) \<in> set (interface_keys h) then mac = to_lower (AgentID h)
         else (\<forall>k\<in>set (interface_keys h). mac \<le> k))"
proof -
  obtain mac where p: "primaryInterface E (Some h) = Inr mac" using primaryInterface_total [OF assms(1)] by blast
  have "case v1alpha1PrimaryInterface E h of
       Some m \<Rightarrow> mac = m
     | None \<Rightarrow>
         if AgentID h \<noteq> '''' \<and> to_lower (AgentID h) \<in> set (interface_keys h) then mac = to_lower (AgentID h)
         else (\<forall>k\<in>set (interface_keys h). mac \<le> k)"
  proof (cases "v1alpha1PrimaryInterface E h")
    case (Some m)
    with p assms(1) show ?thesis by (simp add: primaryInterface_def)
  next
    case None
    show ?thesis
    proof (cases "interfaceKey h (AgentID h)")
      case (Some k)
      with interfaceKey_lower [OF assms(2), of "AgentID h" k] None p assms(1) show ?thesis
        by (auto simp: primaryInterface_def)
    next
      case no: None
      then have "\<not> (AgentID h \<noteq> '''' \<and> to_lower (AgentID h) \<in> set (interface_keys h))"
        using interfaceKey_lower [OF assms(2), of "AgentID h" "to_lower (AgentID h)"] by simp
      with no None p assms(1) show ?thesis by (auto simp: primaryInterface_def intro: hd_sort_least(2))
    qed
  qed
  with p primaryInterface_in [OF p] show ?thesis by blast
qed

theorem primaryInterface_choice_witness:
  "\<exists>mac. primaryInterface base_kube (Some (example_hw ''a'' Map.empty)) = Inr mac"
  using primaryInterface_choice [of "example_hw ''a'' Map.empty" base_kube]
  by (fastforce simp: interface_keys_def to_lower_def lower_char_def)

lemma issued_hardwareForMachine_reads: "filter is_hardware_patch (issued calls (hardwareForMachine E) s) = []"
proof -
  have "adds calls (\<lambda>c. \<not> is_hardware_patch c) (hardwareForMachine E)" by (intro adds_intros) simp_all
  then show ?thesis by (auto simp: filter_empty_conv dest: addsD)
qed

lemma logs_hardwareForMachine: "logs calls (hardwareForMachine E)"
  by (intro adds_intros) simp_all

lemma hardwareForMachine_keeps_machine: "hardwareForMachine E s = (r, s1) \<Longrightarrow> tinkerbellMachine s1 = tinkerbellMachine s"
  using keeps_hardwareForMachine [where obs = tinkerbellMachine] by (auto dest: keepsD)

lemma issued_userdata:
  "issued calls (ensureHardwareUserData E hw pid) s =
     (let u = replace_all (bootstrapCloudConfig s) providerIDPlaceholder pid in
      if hardwareUserData hw = Some u then [] else [PatchHardware hw (with_userdata (Some u) hw) False])"
  by (simp add: ensureHardwareUserData_def issued_def run_simps Let_def)

lemma issued_ensure_watch: "filter is_hardware_patch (issued calls (ensure_watch E ns) s) = []"
  by (simp add: ensure_watch_def issued_def Let_def split: option.split prod.split)

text \<open>What follows the claim writes at most the user data.\<close>

definition after_claim :: "('e) kube_scheme \<Rightarrow> hardware \<Rightarrow> hardware io" where
  "after_claim E hw =
     bindE (modify_machine (record_hardware hw)) (\<lambda>_.
     bindE (ensure_watch E (Namespace hw)) (\<lambda>_.
     ensureHardwareUserData E hw (provider_id hw)))"

lemma issued_after_claim:
  "filter is_hardware_patch (issued calls (after_claim E hw) s) = [] \<or>
   (\<exists>u. filter is_hardware_patch (issued calls (after_claim E hw) s) =
      [PatchHardware hw (with_userdata (Some u) hw) False])"
proof -
  have l: "logs calls (modify_machine f)" "logs calls (ensure_watch E ns)"
    "logs calls (ensureHardwareUserData E hw pid)" for f ns pid
    by (intro adds_intros; simp)+
  have "logs calls (bindE (ensure_watch E (Namespace hw)) (\<lambda>_. ensureHardwareUserData E hw (provider_id hw)))"
    by (intro adds_intros) simp_all
  then show ?thesis
    unfolding after_claim_def
    by (simp add: issued_bindE l issued_modify_machine issued_ensure_watch issued_userdata run_simps Let_def
        split: prod.split sum.split) blast
qed

definition claim_of :: "('e) env_scheme \<Rightarrow> tinkerbell_machine \<Rightarrow> hardware \<Rightarrow> call" where
  "claim_of E tm hw = PatchHardware hw (claimed_hardware E tm hw) True"

definition userdata_patch :: "hardware \<Rightarrow> string \<Rightarrow> call" where
  "userdata_patch hw u = PatchHardware hw (with_userdata (Some u) hw) False"

lemma logs_after_claim: "logs calls (after_claim E hw)"
  unfolding after_claim_def by (intro adds_intros) simp_all

lemma logs_take: "logs calls (takeHardwareOwnership E hw)"
  by (intro adds_intros) simp

lemma issued_take:
  "issued calls (takeHardwareOwnership E hw) s =
     (if owned_by_other (tinkerbellMachine s) hw \<or> hardwareAlreadyClaimed E (tinkerbellMachine s) hw then []
      else [claim_of E (tinkerbellMachine s) hw])"
  by (auto simp: issued_def take_owned_by_other take_already_claimed take_claims claim_of_def)

text \<open>
  C2: What \<open>ensureHardware\<close> writes to the Hardware, whatever the servers answer. The first write is
  either the claim, an optimistic-lock patch of a Hardware no other machine's label is on, or the
  user data of a Hardware this machine already holds. User data follows a claim only on the very
  object the server returned for a claim it accepted. There is no third write.
\<close>

theorem ensureHardware_writes:
  "\<exists>hw. let tm = tinkerbellMachine s; ps = filter is_hardware_patch (issued calls (ensureHardware E) s) in
     ps = [] \<or>
     \<not> owned_by_other tm hw \<and>
       (ps = [claim_of E tm hw] \<or>
        (\<exists>h hw' u. ansHardware E (h @ [claim_of E tm hw]) = Inr hw' \<and> ps = [claim_of E tm hw, userdata_patch hw' u])) \<or>
     hardwareAlreadyClaimed E tm hw \<and> (\<exists>u. ps = [userdata_patch hw u])"
proof -
  let ?rest = "\<lambda>hw. bindE (takeHardwareOwnership E hw) (after_claim E)"
  have e: "ensureHardware E = bindE (hardwareForMachine E) ?rest"
    by (simp add: ensureHardware_def after_claim_def [abs_def])
  have lr: "logs calls (?rest hw)" for hw
    by (rule adds_bindE [OF logs_take logs_after_claim])
  obtain r s1 where r: "hardwareForMachine E s = (r, s1)" by fastforce
  have f: "filter is_hardware_patch (issued calls (ensureHardware E) s) =
      (case r of Inl _ \<Rightarrow> [] | Inr hw \<Rightarrow> filter is_hardware_patch (issued calls (?rest hw) s1))"
    unfolding e issued_bindE [OF logs_hardwareForMachine lr]
    by (simp add: issued_hardwareForMachine_reads r split: sum.split)
  show ?thesis
  proof (cases r)
    case (Inl err)
    with f show ?thesis by simp
  next
    case (Inr hw)
    have tm: "tinkerbellMachine s1 = tinkerbellMachine s" by (rule hardwareForMachine_keeps_machine [OF r])
    have rest: "issued calls (?rest hw) s1 = issued calls (takeHardwareOwnership E hw) s1 @
        (case takeHardwareOwnership E hw s1 of (Inl _, s') \<Rightarrow> [] | (Inr h, s') \<Rightarrow> issued calls (after_claim E h) s')"
      by (rule issued_bindE [OF logs_take logs_after_claim])
    consider (other) "owned_by_other (tinkerbellMachine s1) hw"
      | (held) "hardwareAlreadyClaimed E (tinkerbellMachine s1) hw" "\<not> owned_by_other (tinkerbellMachine s1) hw"
      | (free) "\<not> hardwareAlreadyClaimed E (tinkerbellMachine s1) hw" "\<not> owned_by_other (tinkerbellMachine s1) hw"
      by blast
    then show ?thesis
    proof cases
      case other
      then show ?thesis using f Inr rest by (simp add: issued_take take_owned_by_other)
    next
      case held
      then show ?thesis
        using f Inr rest tm issued_after_claim [of E hw s1]
        by (simp add: issued_take take_already_claimed userdata_patch_def Let_def) blast
    next
      case free
      let ?c = "claim_of E (tinkerbellMachine s) hw"
      show ?thesis
      proof (cases "ansHardware E (calls s1 @ [?c])")
        case (Inl a)
        with free have "filter is_hardware_patch (issued calls (ensureHardware E) s) = [?c]"
          using f \<open>r = Inr hw\<close> rest tm by (simp add: issued_take take_claims claim_of_def)
        then show ?thesis using free tm unfolding Let_def by metis
      next
        case (Inr hw')
        with free have "filter is_hardware_patch (issued calls (ensureHardware E) s) =
            ?c # filter is_hardware_patch (issued calls (after_claim E hw') (add_call ?c s1))"
          using f \<open>r = Inr hw\<close> rest tm by (simp add: issued_take take_claims claim_of_def)
        then show ?thesis
          using free tm Inr issued_after_claim [of E hw' "add_call ?c s1"]
          unfolding userdata_patch_def Let_def by metis
      qed
    qed
  qed
qed

text \<open>
  C3: Contention is a requeue, not an error: a Hardware with another machine's label, or a claim
  the server refuses as a conflict, ends \<open>ensureHardware\<close> with the requeue error, the machine left as
  it was and nothing written after the claim.
\<close>

theorem ensureHardware_contention:
  assumes "hardwareForMachine E s = (Inr hw, s1)" and "\<not> hardwareAlreadyClaimed E (tinkerbellMachine s) hw"
    and "owned_by_other (tinkerbellMachine s) hw \<or>
         ansHardware E (calls s1 @ [claim_of E (tinkerbellMachine s) hw]) = Inl Conflict"
  shows "\<exists>cause s2. ensureHardware E s = (Inl (ErrHardwareClaimRequeue cause), s2) \<and>
      tinkerbellMachine s2 = tinkerbellMachine s \<and>
      calls s2 = calls s1 @ (if owned_by_other (tinkerbellMachine s) hw then [] else [claim_of E (tinkerbellMachine s) hw])"
proof -
  have tm: "tinkerbellMachine s1 = tinkerbellMachine s" by (rule hardwareForMachine_keeps_machine [OF assms(1)])
  show ?thesis
  proof (cases "owned_by_other (tinkerbellMachine s) hw")
    case True
    then show ?thesis using assms(1) tm by (simp add: ensureHardware_def run_simps take_owned_by_other)
  next
    case False
    then show ?thesis
      using assms tm by (simp add: ensureHardware_def run_simps take_claims claim_of_def)
  qed
qed

definition other_hw :: hardware where
  "other_hw = example_hw ''a'' [HardwareOwnerNameLabel \<mapsto> ''m2'', HardwareOwnerNamespaceLabel \<mapsto> ''ns'']"

lemma example_selects:
  "ansHardwareList E = (\<lambda>_. Inr [hw]) \<Longrightarrow>
   hardwareForMachine E example_scope = (Inr hw, add_call (ListAssignedHardware ''m1'' ''ns'') example_scope)"
  by (simp add: hardwareForMachine_def assignedHardware_def run_simps)

theorem ensureHardware_contention_witness:
  "\<exists>cause s2. ensureHardware (base_kube\<lparr>ansHardwareList := \<lambda>_. Inr [other_hw]\<rparr>) example_scope =
     (Inl (ErrHardwareClaimRequeue cause), s2)"
proof -
  let ?E = "base_kube\<lparr>ansHardwareList := \<lambda>_. Inr [other_hw]\<rparr>"
  have sel: "hardwareForMachine ?E example_scope =
      (Inr other_hw, add_call (ListAssignedHardware ''m1'' ''ns'') example_scope)"
    by (rule example_selects) (simp add: base_kube_def)
  have other: "owned_by_other (tinkerbellMachine example_scope) other_hw"
    by (simp add: owned_by_other_def other_hw_def)
  then have "\<not> hardwareAlreadyClaimed ?E (tinkerbellMachine example_scope) other_hw"
    using already_claimed_not_other by blast
  from ensureHardware_contention [OF sel this] other show ?thesis by blast
qed

text \<open>
  Claiming is idempotent: once the server has stored the claim, the next reconcile that is given
  the Hardware back writes nothing for it.
\<close>

theorem takeHardwareOwnership_idempotent:
  assumes "finalizer_laws E"
  shows "takeHardwareOwnership E (claimed_hardware E (tinkerbellMachine s) hw) s =
    (Inr (claimed_hardware E (tinkerbellMachine s) hw), s)"
  by (rule take_already_claimed) (rule claimed_hardware_claimed [OF assms])

theorem takeHardwareOwnership_idempotent_witness:
  "takeHardwareOwnership (base_kube\<lparr>ansHardware := \<lambda>_. Inl Conflict\<rparr>)
      (claimed_hardware (base_kube\<lparr>ansHardware := \<lambda>_. Inl Conflict\<rparr>) (tinkerbellMachine example_scope) other_hw) example_scope =
   (Inr (claimed_hardware (base_kube\<lparr>ansHardware := \<lambda>_. Inl Conflict\<rparr>) (tinkerbellMachine example_scope) other_hw), example_scope)"
  by (rule takeHardwareOwnership_idempotent [OF finalizer_laws_base])

lemma ensure_watch_keeps_machine: "ensure_watch E ns s = (r, s') \<Longrightarrow> tinkerbellMachine s' = tinkerbellMachine s"
  using keeps_ensure_watch [where obs = tinkerbellMachine] by (auto dest: keepsD)

lemma userdata_keeps_machine: "ensureHardwareUserData E hw pid s = (r, s') \<Longrightarrow> tinkerbellMachine s' = tinkerbellMachine s"
  using keeps_ensureHardwareUserData [where obs = tinkerbellMachine] by (auto dest: keepsD)

lemma take_keeps_machine: "takeHardwareOwnership E hw s = (r, s') \<Longrightarrow> tinkerbellMachine s' = tinkerbellMachine s"
  using keeps_takeHardwareOwnership [where obs = tinkerbellMachine] by (auto dest: keepsD)

lemma userdata_keeps_watch: "ensureHardwareUserData E hw pid s = (r, s') \<Longrightarrow> watchManager s' = watchManager s"
  using keeps_ensureHardwareUserData [where obs = watchManager] by (auto dest: keepsD)


lemma ensure_watch_watched:
  "ensure_watch E ns s = (Inr (), s') \<Longrightarrow> watchManager s' = None \<or>
     (\<exists>m. watchManager s' = Some m \<and> ns \<in> dom (wmNamespaces m))"
  by (auto simp: ensure_watch_def Let_def split: option.splits prod.splits sum.splits dest: EnsureWatch_success)

text \<open>
  After a successful \<open>ensureHardware\<close> the machine carries the name and provider ID of a Hardware
  it holds (one found already claimed, or the server's answer to an accepted claim), its target
  namespace is the Hardware's unless an earlier one was kept, nothing else of it changed, and in
  watch mode the Hardware's namespace is watched.
\<close>

theorem ensureHardware_records:
  assumes "ensureHardware E s = (Inr hw, s')"
  shows "\<exists>h. let tm = tinkerbellMachine s; tm' = tinkerbellMachine s' in
     (hardwareAlreadyClaimed E tm h \<or> (\<exists>b cs. ansHardware E (cs @ [claim_of E tm b]) = Inr h)) \<and>
     tm' = record_hardware h tm \<and>
     HardwareName (tmSpec tm') = Name h \<and> ProviderID (tmSpec tm') = ''tinkerbell://'' @ Namespace h @ ''/'' @ Name h \<and>
     TargetNamespace (tmStatus tm') = cmp_or (TargetNamespace (tmStatus tm)) (Namespace h) \<and>
     (\<forall>m. watchManager s' = Some m \<longrightarrow> Namespace h \<in> dom (wmNamespaces m))"
proof -
  from assms obtain sel s1 h s2 s3 where sel: "hardwareForMachine E s = (Inr sel, s1)"
    and take: "takeHardwareOwnership E sel s1 = (Inr h, s2)"
    and watch: "ensure_watch E (Namespace h) (s2\<lparr>tinkerbellMachine := record_hardware h (tinkerbellMachine s2)\<rparr>) = (Inr (), s3)"
    and ud: "ensureHardwareUserData E h (provider_id h) s3 = (Inr hw, s')"
    by (auto simp: ensureHardware_def bindE_Inr run_modify_machine)
  have tm: "tinkerbellMachine s2 = tinkerbellMachine s" "tinkerbellMachine s1 = tinkerbellMachine s"
    using take_keeps_machine [OF take] hardwareForMachine_keeps_machine [OF sel] by simp_all
  have tm': "tinkerbellMachine s' = record_hardware h (tinkerbellMachine s)"
    using userdata_keeps_machine [OF ud] ensure_watch_keeps_machine [OF watch] tm by simp
  have "hardwareAlreadyClaimed E (tinkerbellMachine s) h \<or>
      (\<exists>b cs. ansHardware E (cs @ [claim_of E (tinkerbellMachine s) b]) = Inr h)"
  proof (cases "owned_by_other (tinkerbellMachine s1) sel \<or> hardwareAlreadyClaimed E (tinkerbellMachine s1) sel")
    case True
    with take tm show ?thesis by (auto simp: take_owned_by_other take_already_claimed)
  next
    case False
    with take tm show ?thesis by (auto simp: take_claims claim_of_def split: sum.splits)
  qed
  moreover have "\<forall>m. watchManager s' = Some m \<longrightarrow> Namespace h \<in> dom (wmNamespaces m)"
    using userdata_keeps_watch [OF ud] ensure_watch_watched [OF watch] by auto
  ultimately show ?thesis
    unfolding Let_def tm'
    by (intro exI [of _ h] conjI) (simp_all add: record_hardware_def provider_id_def cmp_or_def)
qed

definition own_hw :: hardware where
  "own_hw = with_userdata (Some ''cfg tinkerbell://ns/a'') (claimed_hardware base_env example_machine (example_hw ''a'' Map.empty))"

definition own_kube :: kube where
  "own_kube = base_kube\<lparr>ansHardwareList := \<lambda>_. Inr [own_hw], ansHardware := \<lambda>_. Inr own_hw\<rparr>"

lemma own_hw_claimed: "hardwareAlreadyClaimed own_kube example_machine own_hw"
  by (simp add: hardwareAlreadyClaimed_def own_hw_def own_kube_def with_userdata_def claimed_hardware_def base_defs)

lemma own_ensureHardware: "\<exists>s'. ensureHardware own_kube example_scope = (Inr own_hw, s')"
proof -
  let ?s = "add_call (ListAssignedHardware ''m1'' ''ns'') example_scope"
  have sel: "hardwareForMachine own_kube example_scope = (Inr own_hw, ?s)"
    by (rule example_selects) (simp add: own_kube_def base_kube_def)
  have "takeHardwareOwnership own_kube own_hw ?s = (Inr own_hw, ?s)"
    by (rule take_already_claimed) (use own_hw_claimed in \<open>simp\<close>)
  moreover have "ansHardware own_kube cs = Inr own_hw" for cs by (simp add: own_kube_def)
  ultimately show ?thesis
    using sel by (simp add: ensureHardware_def run_simps ensure_watch_def ensureHardwareUserData_def Let_def)
qed

theorem ensureHardware_records_witness:
  "\<exists>s'. ensureHardware own_kube example_scope = (Inr own_hw, s') \<and> ProviderID (tmSpec (tinkerbellMachine s')) \<noteq> ''''"
proof -
  obtain s' where "ensureHardware own_kube example_scope = (Inr own_hw, s')" using own_ensureHardware by blast
  with ensureHardware_records [OF this] show ?thesis by (auto simp: Let_def)
qed

lemma list_required_from:
  "list_required E ts s = (Inr hws, s') \<Longrightarrow> h \<in> set hws \<Longrightarrow>
   \<exists>t\<in>set ts. \<exists>cs items. ansHardwareList E (cs @ [ListHardware (unowned_selector (LabelSelector t))]) = Inr items \<and>
      h \<in> set items"
proof (induction ts arbitrary: s hws)
  case Nil
  then show ?case by (simp add: run_simps)
next
  case (Cons t ts)
  let ?c = "ListHardware (unowned_selector (LabelSelector t))"
  from Cons.prems(1) obtain matched rest s1 where
    "ansHardwareList E (calls s @ [?c]) = Inr matched" "list_required E ts s1 = (Inr rest, s')" "hws = matched @ rest"
    by (auto simp: inv_simps Let_def split: sum.splits)
  with Cons show ?case by fastforce
qed

lemma unowned_matches:
  "selector_matches (unowned_selector sel) ls \<longleftrightarrow> selector_matches sel ls \<and> ls HardwareOwnerNameLabel = None"
  by (auto simp: selector_matches_def unowned_selector_def requirement_matches_def)

lemma assignedHardware_Inr:
  "assignedHardware E s = (Inr a, s') \<Longrightarrow>
   (\<exists>items. ansHardwareList E (calls s @ [ListAssignedHardware (Name (tinkerbellMachine s)) (Namespace (tinkerbellMachine s))]) = Inr items \<and>
      (case a of None \<Rightarrow> items = [] | Some h \<Rightarrow> h \<in> set items)) \<and> tinkerbellMachine s' = tinkerbellMachine s"
  by (auto simp: assignedHardware_def inv_simps split: list.split)

text \<open>
  C32: Selection: the Hardware a machine gets carries its own labels already, or carries no owner
  label and matches one of the machine's required affinity terms. It is never another machine's.
\<close>

theorem hardwareForMachine_selects:
  assumes "hardware_list_laws E" and "hardwareForMachine E s = (Inr hw, s')"
  shows "(Labels hw HardwareOwnerNameLabel = Some (Name (tinkerbellMachine s)) \<and>
          Labels hw HardwareOwnerNamespaceLabel = Some (Namespace (tinkerbellMachine s)) \<or>
          Labels hw HardwareOwnerNameLabel = None \<and>
          (\<exists>t\<in>set (required_terms (HardwareAffinity (tmSpec (tinkerbellMachine s)))).
             selector_matches (LabelSelector t) (Labels hw))) \<and>
         \<not> owned_by_other (tinkerbellMachine s) hw"
proof -
  from assms(2) obtain a s1 where a: "assignedHardware E s = (Inr a, s1)"
    and r: "(case a of Some hw \<Rightarrow> returnE hw
     | None \<Rightarrow> bindE (getsE (\<lambda>s. HardwareAffinity (tmSpec (tinkerbellMachine s)))) (\<lambda>affinity.
         bindE (list_required E (required_terms affinity)) (\<lambda>matching.
         liftE (best_hardware E matching (preferred_terms affinity))))) s1 = (Inr hw, s')"
    unfolding hardwareForMachine_def bindE_Inr by blast
  note a' = assignedHardware_Inr [OF a]
  show ?thesis
  proof (cases a)
    case (Some h)
    with r have "h = hw" by (simp add: run_simps)
    with Some a' assms(1) have "Labels hw HardwareOwnerNameLabel = Some (Name (tinkerbellMachine s)) \<and>
          Labels hw HardwareOwnerNamespaceLabel = Some (Namespace (tinkerbellMachine s))"
      unfolding hardware_list_laws_def by fastforce
    then show ?thesis by (simp add: owned_by_other_def)
  next
    case None
    with r a' obtain matching where m: "list_required E (required_terms (HardwareAffinity (tmSpec (tinkerbellMachine s)))) s1 = (Inr matching, s')"
      and b: "best_hardware E matching (preferred_terms (HardwareAffinity (tmSpec (tinkerbellMachine s)))) = Inr hw"
      by (auto simp: inv_simps)
    then have "hw \<in> set matching" unfolding best_hardware_Inr using hd_sort_slice_in by blast
    from list_required_from [OF m this] assms(1) obtain t where
      "t \<in> set (required_terms (HardwareAffinity (tmSpec (tinkerbellMachine s))))"
      "selector_matches (unowned_selector (LabelSelector t)) (Labels hw)"
      unfolding hardware_list_laws_def by blast
    then show ?thesis by (auto simp: unowned_matches owned_by_other_def)
  qed
qed

definition listing_kube :: kube where
  "listing_kube = base_kube\<lparr>ansHardwareList := \<lambda>cs.
     case List.last cs of
       ListHardware sel \<Rightarrow> Inr (filter (\<lambda>h. selector_matches sel (Labels h)) [other_hw, example_hw ''b'' Map.empty])
     | _ \<Rightarrow> Inr []\<rparr>"

lemma listing_kube_laws: "hardware_list_laws listing_kube"
  by (auto simp: hardware_list_laws_def listing_kube_def base_defs split: if_splits)

theorem hardwareForMachine_selects_witness:
  "\<exists>s'. hardwareForMachine listing_kube example_scope = (Inr (example_hw ''b'' Map.empty), s') \<and>
     \<not> owned_by_other example_machine (example_hw ''b'' Map.empty)"
proof -
  let ?sel = "unowned_selector (LabelSelector empty_affinity_term)"
  have "filter (\<lambda>h. selector_matches ?sel (Labels h)) [other_hw, example_hw ''b'' Map.empty] = [example_hw ''b'' Map.empty]"
    unfolding unowned_matches
    by (simp add: other_hw_def selector_matches_def empty_affinity_term_def)
  then have l: "ansHardwareList listing_kube (cs @ [ListHardware ?sel]) = Inr [example_hw ''b'' Map.empty]" for cs
    by (simp add: listing_kube_def del: filter.simps)
  have l': "ansHardwareList listing_kube (cs @ [ListAssignedHardware n ns]) = Inr []" for cs n ns
    by (simp add: listing_kube_def)
  have "asSelector listing_kube = (\<lambda>sel. Inr (selector_matches sel))" by (simp add: listing_kube_def base_defs)
  then have h: "\<exists>s'. hardwareForMachine listing_kube example_scope = (Inr (example_hw ''b'' Map.empty), s')"
    by (simp add: hardwareForMachine_def assignedHardware_def run_simps l l' l [of "[_]", simplified] required_terms_def Let_def
        preferred_terms_def best_hardware_def byHardwareAffinity_def)
  then obtain s' where h: "hardwareForMachine listing_kube example_scope = (Inr (example_hw ''b'' Map.empty), s')" by blast
  have "tinkerbellMachine example_scope = example_machine" by simp
  with h hardwareForMachine_selects [OF listing_kube_laws h] show ?thesis by auto
qed

end
