(* ===== verification/Ipam.thy ===== *)
theory Ipam
  imports HardwareOps
begin

text \<open>
  \<open>controller/machine/ipam.go\<close>: the address a machine takes from a pool. The claim is made and
  watched over on the management cluster, the address the provider answers with is reserved on the
  Hardware interface the claim names, and both are given back when the machine goes; with it
  \<open>releaseHardware\<close> of \<open>hardware.go\<close>, which clears the reservation. Functions that change \<open>hw\<close> through
  its pointer return it.
\<close>

section \<open>Addresses\<close>

definition ipv4Bits :: int where "ipv4Bits = 32"

definition ipv6Bits :: int where "ipv6Bits = 128"

definition ipv4Family :: nat where "ipv4Family = 4"

definition ipv6Family :: nat where "ipv6Family = 6"

lemmas family_defs = ipv4Bits_def ipv6Bits_def ipv4Family_def ipv6Family_def

definition primaryInterfaceMAC :: "('e) env_scheme \<Rightarrow> hardware \<Rightarrow> goerr + string" where
  "primaryInterfaceMAC E hw =
     (case primaryInterface E (Some hw) of
        Inl e \<Rightarrow> Inl e
      | Inr mac \<Rightarrow> if mac = '''' then Inl ErrHardwareInterfaceMissingMAC else Inr (to_lower mac))"

definition prefixLength :: "int \<Rightarrow> nat \<Rightarrow> goerr + string" where
  "prefixLength prefix family =
     (let bits = (if family = ipv6Family then ipv6Bits else ipv4Bits) in
      if prefix < 0 \<or> bits < prefix then Inl (ErrPrefixLength prefix family) else Inr (itoa prefix))"

definition hardwareAddressFromIPAddress :: "ip_address_obj \<Rightarrow> goerr + hardware_address" where
  "hardwareAddressFromIPAddress addr =
     (case parse_addr (addrAddress addr) of
        None \<Rightarrow> Inl (ErrParseAddr (addrAddress addr))
      | Some parsed \<Rightarrow>
          (let family = (if unmap_is4 parsed then ipv4Family else ipv6Family);
               ip = \<lparr>haFamily = family, haAddress = addrAddress addr, haPrefix = '''', haGateway = addrGateway addr\<rparr>
           in case addrPrefix addr of
                None \<Rightarrow> if family = ipv4Family then Inl ErrIPAddressMissingPrefix else Inr ip
              | Some p \<Rightarrow>
                  (case prefixLength p family of
                     Inl e \<Rightarrow> Inl e
                   | Inr len \<Rightarrow> Inr (ip\<lparr>haPrefix := len\<rparr>))))"

definition interfaceAddress :: "net_interface \<Rightarrow> nat \<Rightarrow> ip_config option" where
  "interfaceAddress ni family =
     (case IPAM ni of
        None \<Rightarrow> None
      | Some ipam \<Rightarrow> if family = ipv6Family then IPv6 ipam else IPv4 ipam)"

definition heldBy :: "hardware_address \<Rightarrow> ip_config option \<Rightarrow> bool" where
  "heldBy addr ip \<longleftrightarrow>
     (case ip of
        None \<Rightarrow> False
      | Some c \<Rightarrow> Address c = haAddress addr \<and> Prefix c = haPrefix addr \<and> Gateway c = haGateway addr)"

section \<open>The claim\<close>

definition setIPAddressClaimedCondition :: "('e) env_scheme \<Rightarrow> condition_status \<Rightarrow> string \<Rightarrow> unit io" where
  "setIPAddressClaimedCondition E st reason =
     modify_machine (\<lambda>tm. tm\<lparr>tmStatus := (tmStatus tm)\<lparr>Conditions :=
        conditionsSet E (Conditions (tmStatus tm))
          \<lparr>condType = IPAddressClaimedCondition, condStatus = st, condReason = reason\<rparr>\<rparr>\<rparr>)"

text \<open>Without a pool the key dereferences a nil pointer.\<close>

definition ipAddressClaimKey :: "tinkerbell_machine \<Rightarrow> goerr + nsname" where
  "ipAddressClaimKey tm =
     (case AddressFromPool (tmSpec tm) of
        None \<Rightarrow> Inl ErrNilDereference
      | Some pool \<Rightarrow> Inr (NN (Namespace tm) (HardwareName (tmSpec tm) @ ''-'' @ poolName pool)))"

definition getIPAddressClaim :: "('e) kube_scheme \<Rightarrow> ip_claim io" where
  "getIPAddressClaim E =
     bindE (getsE tinkerbellMachine) (\<lambda>tm.
     bindE (liftE (ipAddressClaimKey tm)) (\<lambda>key. api (ansClaim E) (GetClaim key)))"

definition clusterName :: "capi_machine option \<Rightarrow> string" where
  "clusterName m = (case m of None \<Rightarrow> '''' | Some m' \<Rightarrow> ClusterName m')"

definition newIPAddressClaim ::
    "tinkerbell_machine \<Rightarrow> capi_machine option \<Rightarrow> hardware \<Rightarrow> string \<Rightarrow> ip_pool_ref \<Rightarrow> goerr + ip_claim" where
  "newIPAddressClaim tm owner hw mac pool =
     map_sum id (\<lambda>key. objmeta.extend
       ((new_meta (nsName key) (nsNamespace key))
          \<lparr>Labels := [ClusterNameLabel \<mapsto> clusterName owner, LabelMachineName \<mapsto> Name tm,
             LabelMachineNamespace \<mapsto> Namespace tm],
           Annotations := [AnnotationHardwareName \<mapsto> Name hw, AnnotationHardwareNamespace \<mapsto> Namespace hw,
             AnnotationMACAddress \<mapsto> mac, AnnotationIPAMMACAddress \<mapsto> mac, AnnotationIPAMHostname \<mapsto> Name hw],
           Finalizers := [IPAddressClaimFinalizer]\<rparr>)
       \<lparr>claimClusterName = clusterName owner, claimPoolRef = pool, claimAddressRef = ''''\<rparr>)
     (ipAddressClaimKey tm)"

definition wanted_annotations :: "hardware \<Rightarrow> string \<Rightarrow> (string \<times> string) list" where
  "wanted_annotations hw mac = [(AnnotationIPAMMACAddress, mac), (AnnotationIPAMHostname, Name hw)]"

definition ensureIPAMAnnotations :: "('e) kube_scheme \<Rightarrow> ip_claim \<Rightarrow> hardware \<Rightarrow> string \<Rightarrow> ip_claim io" where
  "ensureIPAMAnnotations E claim hw mac =
     (let missing = filter (\<lambda>(k, v). lookup0 (Annotations claim) k \<noteq> v) (wanted_annotations hw mac) in
      if missing = [] then returnE claim
      else api (ansClaim E) (PatchClaim claim (claim\<lparr>Annotations := Annotations claim ++ map_of missing\<rparr>) False))"

definition createIPAddressClaim :: "('e) kube_scheme \<Rightarrow> hardware \<Rightarrow> string \<Rightarrow> ip_pool_ref \<Rightarrow> ip_claim io" where
  "createIPAddressClaim E hw mac pool =
     bindE (getsE tinkerbellMachine) (\<lambda>tm.
     bindE (getsE ownerMachine) (\<lambda>owner.
     bindE (liftE (newIPAddressClaim tm owner hw mac pool)) (\<lambda>claim.
     case setControllerReference E (meta tm) (meta claim) of
       Inl e \<Rightarrow> throwE (ErrOwnership e)
     | Inr refs \<Rightarrow> api (ansClaim E) (CreateClaim (claim\<lparr>OwnerReferences := refs\<rparr>)))))"

text \<open>The claim is this machine's, and was made for this Hardware.\<close>

definition claim_is_ours :: "('e) env_scheme \<Rightarrow> tinkerbell_machine \<Rightarrow> hardware \<Rightarrow> ip_claim \<Rightarrow> bool" where
  "claim_is_ours E tm hw claim \<longleftrightarrow>
     isControlledBy E (meta claim) (meta tm) \<and>
     lookup0 (Annotations claim) AnnotationHardwareName = Name hw \<and>
     lookup0 (Annotations claim) AnnotationHardwareNamespace = Namespace hw"

definition ensureIPAddressClaim :: "('e) kube_scheme \<Rightarrow> hardware \<Rightarrow> string \<Rightarrow> ip_pool_ref \<Rightarrow> ip_claim io" where
  "ensureIPAddressClaim E hw mac pool =
     bindE (tryE (getIPAddressClaim E)) (\<lambda>r.
     case r of
       Inl e \<Rightarrow> if isNotFound e then createIPAddressClaim E hw mac pool else throwE e
     | Inr claim \<Rightarrow>
         bindE (getsE tinkerbellMachine) (\<lambda>tm.
         if being_deleted claim then returnE claim
         else if \<not> claim_is_ours E tm hw claim then
           bindE (setIPAddressClaimedCondition E ConditionFalse IPAddressClaimInvalidReason) (\<lambda>_.
           throwE ErrIPAddressClaimConflict)
         else ensureIPAMAnnotations E claim hw mac))"

section \<open>Reserving the address on the Hardware\<close>

text \<open>The IP configuration \<open>ensureHardwareAddress\<close> writes, and the Hardware with it.\<close>

definition with_address :: "hardware_address \<Rightarrow> net_interface \<Rightarrow> net_interface" where
  "with_address ip ni =
     (let ipam = (case IPAM ni of None \<Rightarrow> \<lparr>IPv4 = None, IPv6 = None\<rparr> | Some i \<Rightarrow> i);
          current = (case interfaceAddress (ni\<lparr>IPAM := Some ipam\<rparr>) (haFamily ip) of None \<Rightarrow> zero_ip | Some c \<Rightarrow> c);
          written = current\<lparr>Address := haAddress ip, Prefix := haPrefix ip, Gateway := haGateway ip\<rparr>
      in ni\<lparr>IPAM := Some (if haFamily ip = ipv6Family then ipam\<lparr>IPv6 := Some written\<rparr> else ipam\<lparr>IPv4 := Some written\<rparr>)\<rparr>)"

definition reserved_hardware :: "hardware \<Rightarrow> string \<Rightarrow> hardware_address \<Rightarrow> hardware" where
  "reserved_hardware hw key ip =
     hw\<lparr>NetworkInterfaces := AList.update key (with_address ip (net_interface_of hw key)) (NetworkInterfaces hw)\<rparr>"

definition ensureHardwareAddress :: "('e) kube_scheme \<Rightarrow> hardware \<Rightarrow> string \<Rightarrow> hardware_address \<Rightarrow> hardware io" where
  "ensureHardwareAddress E hw mac ip =
     (case interfaceKey hw mac of
        None \<Rightarrow> throwE ErrHardwareInterfaceNotFound
      | Some key \<Rightarrow>
          if heldBy ip (interfaceAddress (net_interface_of hw key) (haFamily ip)) then returnE hw
          else catchE (api (ansHardware E) (PatchHardware hw (reserved_hardware hw key ip) True))
                 (\<lambda>e. if isConflict e then throwE (ErrHardwareClaimRequeue (api_cause e)) else throwE e))"

definition applyIPAddress :: "('e) kube_scheme \<Rightarrow> hardware \<Rightarrow> ip_claim \<Rightarrow> hardware io" where
  "applyIPAddress E hw claim =
     bindE (tryE (api (ansIPAddress E) (GetIPAddress (NN (Namespace claim) (claimAddressRef claim))))) (\<lambda>r.
     case r of
       Inl e \<Rightarrow>
         if isNotFound e then
           bindE (setIPAddressClaimedCondition E ConditionFalse WaitingForIPAddressReason) (\<lambda>_.
           throwE ErrWaitingForIPAddress)
         else throwE e
     | Inr address \<Rightarrow>
         (case hardwareAddressFromIPAddress address of
            Inl e \<Rightarrow>
              bindE (setIPAddressClaimedCondition E ConditionFalse IPAddressClaimInvalidReason) (\<lambda>_. throwE e)
          | Inr ip \<Rightarrow>
              bindE (catchE (ensureHardwareAddress E hw (lookup0 (Annotations claim) AnnotationMACAddress) ip)
                (\<lambda>e. if e = ErrHardwareInterfaceNotFound
                     then bindE (setIPAddressClaimedCondition E ConditionFalse IPAddressClaimInvalidReason) (\<lambda>_. throwE e)
                     else throwE e)) (\<lambda>hw'.
              bindE (set_reserved ip) (\<lambda>_.
              bindE (setIPAddressClaimedCondition E ConditionTrue IPAddressClaimedReason) (\<lambda>_.
              returnE hw')))))"

definition reconcileIPAM :: "('e) kube_scheme \<Rightarrow> hardware \<Rightarrow> hardware io" where
  "reconcileIPAM E hw =
     bindE (getsE (\<lambda>s. AddressFromPool (tmSpec (tinkerbellMachine s)))) (\<lambda>p.
     case p of
       None \<Rightarrow> returnE hw
     | Some pool \<Rightarrow>
         (case primaryInterfaceMAC E hw of
            Inl e \<Rightarrow>
              bindE (setIPAddressClaimedCondition E ConditionFalse IPAddressClaimInvalidReason) (\<lambda>_. throwE e)
          | Inr mac \<Rightarrow>
              bindE (ensureIPAddressClaim E hw mac pool) (\<lambda>claim.
              if being_deleted claim then
                bindE (setIPAddressClaimedCondition E ConditionFalse IPAddressClaimDeletingReason) (\<lambda>_.
                throwE ErrWaitingForIPAddress)
              else if claimAddressRef claim = '''' then
                bindE (setIPAddressClaimedCondition E ConditionFalse WaitingForIPAddressReason) (\<lambda>_.
                throwE ErrWaitingForIPAddress)
              else applyIPAddress E hw claim)))"

section \<open>Giving it back\<close>

definition removeClaimFinalizer :: "('e) kube_scheme \<Rightarrow> ip_claim \<Rightarrow> ip_claim io" where
  "removeClaimFinalizer E claim =
     (if containsFinalizer E (Finalizers claim) IPAddressClaimFinalizer
      then api (ansClaim E) (PatchClaim claim
             (claim\<lparr>Finalizers := removeFinalizer E (Finalizers claim) IPAddressClaimFinalizer\<rparr>) True)
      else returnE claim)"

definition deleteClaim :: "('e) kube_scheme \<Rightarrow> ip_claim \<Rightarrow> unit io" where
  "deleteClaim E claim =
     catchE (api (ansUnit E) (DeleteClaim (object_key claim)))
       (\<lambda>e. if isNotFound e then returnE () else throwE e)"

definition releaseIPAddressClaim :: "('e) kube_scheme \<Rightarrow> unit io" where
  "releaseIPAddressClaim E =
     bindE (getsE tinkerbellMachine) (\<lambda>tm.
     if AddressFromPool (tmSpec tm) = None \<or> HardwareName (tmSpec tm) = '''' then returnE ()
     else bindE (tryE (getIPAddressClaim E)) (\<lambda>r.
       case r of
         Inl e \<Rightarrow> if isNotFound e then returnE () else throwE e
       | Inr claim \<Rightarrow>
           if \<not> isControlledBy E (meta claim) (meta tm) then returnE ()
           else bindE (removeClaimFinalizer E claim) (deleteClaim E)))"

definition claimedFamily :: "('e) kube_scheme \<Rightarrow> ip_claim \<Rightarrow> nat io" where
  "claimedFamily E claim =
     (if claimAddressRef claim = '''' then returnE 0
      else bindE (tryE (api (ansIPAddress E) (GetIPAddress (NN (Namespace claim) (claimAddressRef claim))))) (\<lambda>r.
        case r of
          Inl e \<Rightarrow> if isNotFound e then returnE 0 else throwE e
        | Inr address \<Rightarrow>
            (case parse_addr (addrAddress address) of
               None \<Rightarrow> returnE 0
             | Some parsed \<Rightarrow> returnE (if unmap_is4 parsed then ipv4Family else ipv6Family))))"

text \<open>The MAC and the family the reservation was written under; an empty MAC when there is none.\<close>

definition ipamReservation :: "('e) kube_scheme \<Rightarrow> hardware \<Rightarrow> (string \<times> nat) io" where
  "ipamReservation E hw =
     (let primary = (case primaryInterfaceMAC E hw of Inl _ \<Rightarrow> ('''', 0) | Inr mac \<Rightarrow> (mac, 0)) in
      bindE (tryE (getIPAddressClaim E)) (\<lambda>r.
      case r of
        Inl e \<Rightarrow> if isNotFound e then returnE primary else throwE e
      | Inr claim \<Rightarrow>
          bindE (getsE tinkerbellMachine) (\<lambda>tm.
          let mac = lookup0 (Annotations claim) AnnotationMACAddress in
          if mac \<noteq> '''' \<and> isControlledBy E (meta claim) (meta tm)
          then bindE (claimedFamily E claim) (\<lambda>family. returnE (mac, family))
          else returnE primary)))"

definition withoutAddress :: "ip_config option \<Rightarrow> ip_config option" where
  "withoutAddress ip =
     (case ip of
        None \<Rightarrow> None
      | Some c \<Rightarrow>
          (let rest = c\<lparr>Address := '''', Prefix := '''', Gateway := ''''\<rparr> in
           if rest = zero_ip then None else Some rest))"

definition cleared_ipam :: "nat \<Rightarrow> ipam_config \<Rightarrow> ipam_config" where
  "cleared_ipam family ipam =
     \<lparr>IPv4 = (if family \<noteq> ipv6Family then withoutAddress (IPv4 ipam) else IPv4 ipam),
      IPv6 = (if family \<noteq> ipv4Family then withoutAddress (IPv6 ipam) else IPv6 ipam)\<rparr>"

definition cleared_interface :: "nat \<Rightarrow> net_interface \<Rightarrow> net_interface" where
  "cleared_interface family ni =
     (case IPAM ni of
        None \<Rightarrow> ni
      | Some ipam \<Rightarrow>
          (let ipam' = cleared_ipam family ipam in
           ni\<lparr>IPAM := (if IPv4 ipam' = None \<and> IPv6 ipam' = None then None else Some ipam')\<rparr>))"

definition clearHardwareAddress :: "hardware \<Rightarrow> string \<Rightarrow> nat \<Rightarrow> hardware" where
  "clearHardwareAddress hw mac family =
     (case interfaceKey hw mac of
        None \<Rightarrow> hw
      | Some key \<Rightarrow>
          (if IPAM (net_interface_of hw key) = None then hw
           else hw\<lparr>NetworkInterfaces :=
             AList.update key (cleared_interface family (net_interface_of hw key)) (NetworkInterfaces hw)\<rparr>))"

definition without_ownership :: "hardware \<Rightarrow> hardware" where
  "without_ownership hw =
     hw\<lparr>Labels := (Labels hw)(HardwareOwnerNameLabel := None, HardwareOwnerNamespaceLabel := None),
        Annotations := (Annotations hw)(HardwareProvisionedAnnotation := None),
        Instance := map_option (\<lambda>i. i\<lparr>Userdata := None\<rparr>) (Instance hw)\<rparr>"

definition without_finalizers :: "('e) env_scheme \<Rightarrow> hardware \<Rightarrow> hardware" where
  "without_finalizers E hw =
     hw\<lparr>Finalizers := removeFinalizer E (removeFinalizer E (Finalizers hw) MachineFinalizer) MachineLegacyFinalizer\<rparr>"

definition releaseHardware :: "('e) kube_scheme \<Rightarrow> hardware \<Rightarrow> hardware io" where
  "releaseHardware E base =
     bindE (getsE tinkerbellMachine) (\<lambda>tm.
     let hw = without_ownership base in
     bindE (if AddressFromPool (tmSpec tm) \<noteq> None
            then bindE (ipamReservation E hw) (\<lambda>(mac, family). returnE (clearHardwareAddress hw mac family))
            else returnE hw) (\<lambda>hw'.
     api (ansHardware E) (PatchHardware base (without_finalizers E hw') True)))"

section \<open>Which calls each operation makes\<close>

lemma adds_setCondition [adds_intros]: "adds calls P (setIPAddressClaimedCondition E st reason)"
  unfolding setIPAddressClaimedCondition_def by (rule adds_modify_machine)

lemma adds_getIPAddressClaim [adds_intros]: "(\<And>k. P (GetClaim k)) \<Longrightarrow> adds calls P (getIPAddressClaim E)"
  unfolding getIPAddressClaim_def by (intro adds_intros) simp

lemma adds_ensureIPAMAnnotations [adds_intros]:
  "(\<And>c. P (PatchClaim claim c False)) \<Longrightarrow> adds calls P (ensureIPAMAnnotations E claim hw mac)"
  unfolding ensureIPAMAnnotations_def by (intro adds_intros) simp

lemma adds_createIPAddressClaim [adds_intros]:
  "(\<And>c. P (CreateClaim c)) \<Longrightarrow> adds calls P (createIPAddressClaim E hw mac pool)"
  unfolding createIPAddressClaim_def by (intro adds_intros) simp

lemma adds_ensureIPAddressClaim [adds_intros]:
  assumes "\<And>k. P (GetClaim k)" "\<And>c. P (CreateClaim c)" "\<And>a b. P (PatchClaim a b False)"
  shows "adds calls P (ensureIPAddressClaim E hw mac pool)"
  unfolding ensureIPAddressClaim_def by (intro adds_intros) (simp_all add: assms)

lemma adds_ensureHardwareAddress [adds_intros]:
  "(\<And>key. P (PatchHardware hw (reserved_hardware hw key ip) True)) \<Longrightarrow> adds calls P (ensureHardwareAddress E hw mac ip)"
  unfolding ensureHardwareAddress_def by (intro adds_intros) simp

lemma adds_applyIPAddress [adds_intros]:
  assumes "\<And>k. P (GetIPAddress k)" "\<And>key ip. P (PatchHardware hw (reserved_hardware hw key ip) True)"
  shows "adds calls P (applyIPAddress E hw claim)"
  unfolding applyIPAddress_def by (intro adds_intros) (simp_all add: assms)

lemma adds_reconcileIPAM [adds_intros]:
  assumes "\<And>k. P (GetClaim k)" "\<And>c. P (CreateClaim c)" "\<And>a b. P (PatchClaim a b False)"
    "\<And>k. P (GetIPAddress k)" "\<And>key ip. P (PatchHardware hw (reserved_hardware hw key ip) True)"
  shows "adds calls P (reconcileIPAM E hw)"
  unfolding reconcileIPAM_def by (intro adds_intros) (simp_all add: assms)

lemma adds_releaseIPAddressClaim [adds_intros]:
  assumes "\<And>k. P (GetClaim k)" "\<And>a b. P (PatchClaim a b True)" "\<And>k. P (DeleteClaim k)"
  shows "adds calls P (releaseIPAddressClaim E)"
  unfolding releaseIPAddressClaim_def removeClaimFinalizer_def deleteClaim_def [abs_def]
  by (intro adds_intros) (simp_all add: assms)

lemma adds_removeClaimFinalizer [adds_intros]:
  "(\<And>c. P (PatchClaim claim c True)) \<Longrightarrow> adds calls P (removeClaimFinalizer E claim)"
  unfolding removeClaimFinalizer_def by (intro adds_intros) simp

lemma adds_deleteClaim [adds_intros]: "P (DeleteClaim (object_key claim)) \<Longrightarrow> adds calls P (deleteClaim E claim)"
  unfolding deleteClaim_def by (intro adds_intros)

lemma adds_claimedFamily [adds_intros]: "(\<And>k. P (GetIPAddress k)) \<Longrightarrow> adds calls P (claimedFamily E claim)"
  unfolding claimedFamily_def by (intro adds_intros) simp

lemma adds_ipamReservation [adds_intros]:
  "(\<And>k. P (GetClaim k)) \<Longrightarrow> (\<And>k. P (GetIPAddress k)) \<Longrightarrow> adds calls P (ipamReservation E hw)"
  unfolding ipamReservation_def by (intro adds_intros) simp_all

lemma adds_releaseHardware [adds_intros]:
  assumes "\<And>k. P (GetClaim k)" "\<And>k. P (GetIPAddress k)" "\<And>n. P (PatchHardware base n True)"
  shows "adds calls P (releaseHardware E base)"
  unfolding releaseHardware_def by (intro adds_intros) (simp_all add: assms)

section \<open>Addresses\<close>

lemma prefixLength_Inr:
  "prefixLength p family = Inr len \<longleftrightarrow>
     0 \<le> p \<and> p \<le> (if family = ipv6Family then ipv6Bits else ipv4Bits) \<and> len = itoa p"
  by (auto simp: prefixLength_def Let_def)

lemma hardwareAddressFromIPAddress_Inr:
  "hardwareAddressFromIPAddress addr = Inr ip \<longleftrightarrow>
     (\<exists>parsed. parse_addr (addrAddress addr) = Some parsed \<and>
        ip = \<lparr>haFamily = (if unmap_is4 parsed then ipv4Family else ipv6Family), haAddress = addrAddress addr,
              haPrefix = (case addrPrefix addr of None \<Rightarrow> '''' | Some p \<Rightarrow> itoa p), haGateway = addrGateway addr\<rparr> \<and>
        (case addrPrefix addr of
           None \<Rightarrow> \<not> unmap_is4 parsed
         | Some p \<Rightarrow> 0 \<le> p \<and> p \<le> (if unmap_is4 parsed then ipv4Bits else ipv6Bits)))"
  by (cases "parse_addr (addrAddress addr)"; cases "addrPrefix addr")
    (auto simp: hardwareAddressFromIPAddress_def Let_def prefixLength_def family_defs)

section \<open>Reserving and clearing\<close>

lemma net_interface_update [simp]:
  "net_interface_of (hw\<lparr>NetworkInterfaces := AList.update key ni (NetworkInterfaces hw)\<rparr>) key' =
     (if key' = key then ni else net_interface_of hw key')"
  by (simp add: net_interface_of_def)

lemma update_keys_same: "key \<in> set (map fst xs) \<Longrightarrow> map fst (AList.update key ni xs) = map fst xs"
  using update_same_keys [of key xs ni] by simp

lemma interfaceKey_update:
  "key \<in> set (interface_keys hw) \<Longrightarrow>
   interfaceKey (hw\<lparr>NetworkInterfaces := AList.update key ni (NetworkInterfaces hw)\<rparr>) mac = interfaceKey hw mac"
  unfolding interfaceKey_def interface_keys_def by (simp add: update_keys_same)

lemma interfaceKey_reserved:
  "interfaceKey hw mac = Some key \<Longrightarrow> interfaceKey (reserved_hardware hw key ip) mac' = interfaceKey hw mac'"
  unfolding reserved_hardware_def by (rule interfaceKey_update) (rule interfaceKey_in)

lemma heldBy_with_address: "heldBy ip (interfaceAddress (with_address ip ni) (haFamily ip))"
  by (auto simp: heldBy_def with_address_def interfaceAddress_def Let_def)

lemma update_update [simp]: "AList.update k v (AList.update k v' xs) = AList.update k v xs"
  by (induction xs) auto

lemma update_triv: "map_of xs k = Some v \<Longrightarrow> AList.update k v xs = xs"
  by (induction xs) auto

lemma withoutAddress_written:
  "withoutAddress (Some (c\<lparr>Address := a, Prefix := p, Gateway := g\<rparr>)) =
     withoutAddress (Some c)"
  by (simp add: withoutAddress_def Let_def)

lemma withoutAddress_zero [simp]: "withoutAddress (Some zero_ip) = None"
  by (simp add: withoutAddress_def zero_ip_def Let_def)

lemma withoutAddress_None [simp]: "withoutAddress None = None"
  by (simp add: withoutAddress_def)

lemma cleared_with_address:
  "cleared_interface (haFamily ip) (with_address ip ni) =
     cleared_interface (haFamily ip) (ni\<lparr>IPAM := Some (case IPAM ni of None \<Rightarrow> \<lparr>IPv4 = None, IPv6 = None\<rparr> | Some i \<Rightarrow> i)\<rparr>)"
  by (auto simp: cleared_interface_def with_address_def interfaceAddress_def Let_def cleared_ipam_def
      withoutAddress_written family_defs split: option.split)

lemma cleared_empty_ipam:
  "IPAM ni = None \<Longrightarrow> cleared_interface family (ni\<lparr>IPAM := Some \<lparr>IPv4 = None, IPv6 = None\<rparr>\<rparr>) = ni"
  by (cases ni) (simp add: cleared_interface_def cleared_ipam_def Let_def)

lemma net_interface_known: "key \<in> set (interface_keys hw) \<Longrightarrow> map_of (NetworkInterfaces hw) key = Some (net_interface_of hw key)"
  by (cases "map_of (NetworkInterfaces hw) key")
    (simp_all add: net_interface_of_def interface_keys_def map_of_eq_None_iff)

lemma ipam_same: "IPAM ni = Some i \<Longrightarrow> ni\<lparr>IPAM := Some i\<rparr> = ni"
  by (cases ni) simp

lemma clear_reserved:
  assumes "interfaceKey hw mac = Some key"
  shows "clearHardwareAddress (reserved_hardware hw key ip) mac (haFamily ip) = clearHardwareAddress hw mac (haFamily ip)"
proof -
  have key: "key \<in> set (interface_keys hw)" by (rule interfaceKey_in [OF assms])
  have k': "interfaceKey (reserved_hardware hw key ip) mac = Some key"
    using interfaceKey_reserved [OF assms] assms by simp
  have ni: "net_interface_of (reserved_hardware hw key ip) key = with_address ip (net_interface_of hw key)"
    by (simp add: reserved_hardware_def)
  have some: "IPAM (with_address ip ni) \<noteq> None" for ni by (simp add: with_address_def Let_def)
  have "clearHardwareAddress (reserved_hardware hw key ip) mac (haFamily ip) =
      hw\<lparr>NetworkInterfaces := AList.update key
        (cleared_interface (haFamily ip) (with_address ip (net_interface_of hw key))) (NetworkInterfaces hw)\<rparr>"
    by (simp add: clearHardwareAddress_def k' ni some) (simp add: reserved_hardware_def)
  also have "\<dots> = clearHardwareAddress hw mac (haFamily ip)"
  proof (cases "IPAM (net_interface_of hw key)")
    case None
    then show ?thesis
      using assms update_triv [OF net_interface_known [OF key]]
      by (simp add: clearHardwareAddress_def cleared_with_address cleared_empty_ipam)
  next
    case (Some i)
    show ?thesis using assms Some by (simp add: clearHardwareAddress_def cleared_with_address ipam_same [OF Some])
  qed
  finally show ?thesis .
qed

section \<open>Running the operations\<close>

definition claimed_condition :: "('e) env_scheme \<Rightarrow> condition_status \<Rightarrow> string \<Rightarrow> scope \<Rightarrow> scope" where
  "claimed_condition E st reason s =
     s\<lparr>tinkerbellMachine := (tinkerbellMachine s)\<lparr>tmStatus := (tmStatus (tinkerbellMachine s))\<lparr>Conditions :=
        conditionsSet E (Conditions (tmStatus (tinkerbellMachine s)))
          \<lparr>condType = IPAddressClaimedCondition, condStatus = st, condReason = reason\<rparr>\<rparr>\<rparr>\<rparr>"

lemma claimed_condition_sel [simp]:
  "calls (claimed_condition E st r s) = calls s" "reservedAddress (claimed_condition E st r s) = reservedAddress s"
  "tmSpec (tinkerbellMachine (claimed_condition E st r s)) = tmSpec (tinkerbellMachine s)"
  "Name (tinkerbellMachine (claimed_condition E st r s)) = Name (tinkerbellMachine s)"
  "Namespace (tinkerbellMachine (claimed_condition E st r s)) = Namespace (tinkerbellMachine s)"
  "TargetNamespace (tmStatus (tinkerbellMachine (claimed_condition E st r s))) = TargetNamespace (tmStatus (tinkerbellMachine s))"
  by (simp_all add: claimed_condition_def)

lemma run_setCondition [run_simps, inv_simps]:
  "setIPAddressClaimedCondition E st r s = (Inr (), claimed_condition E st r s)"
  by (simp add: setIPAddressClaimedCondition_def run_modify_machine claimed_condition_def)

lemma claimed_condition_find:
  "condition_laws E \<Longrightarrow>
   find (\<lambda>c. condType c = IPAddressClaimedCondition) (Conditions (tmStatus (tinkerbellMachine (claimed_condition E st r s)))) =
     Some \<lparr>condType = IPAddressClaimedCondition, condStatus = st, condReason = r\<rparr>"
  unfolding condition_laws_def claimed_condition_def by (drule spec, drule spec [of _ "\<lparr>condType = IPAddressClaimedCondition, condStatus = st, condReason = r\<rparr>"]) simp

lemma run_getIPAddressClaim:
  "ipAddressClaimKey (tinkerbellMachine s) = Inr key \<Longrightarrow>
   getIPAddressClaim E s = (map_sum Api id (ansClaim E (calls s @ [GetClaim key])), add_call (GetClaim key) s)"
  by (simp add: getIPAddressClaim_def run_simps)

lemma claim_key_pool: "AddressFromPool (tmSpec tm) = Some pool \<Longrightarrow> \<exists>key. ipAddressClaimKey tm = Inr key"
  by (simp add: ipAddressClaimKey_def)

lemma ensureHardwareAddress_Inr:
  "ensureHardwareAddress E hw mac ip s = (Inr hw', s') \<Longrightarrow>
   \<exists>key. interfaceKey hw mac = Some key \<and> (hw' = hw \<and> s' = s \<and> heldBy ip (interfaceAddress (net_interface_of hw key) (haFamily ip)) \<or>
     (\<exists>h. ansHardware E (h @ [PatchHardware hw (reserved_hardware hw key ip) True]) = Inr hw' \<and>
        s' = add_call (PatchHardware hw (reserved_hardware hw key ip) True) s))"
  by (cases "interfaceKey hw mac") (auto simp: ensureHardwareAddress_def inv_simps split: if_splits)

lemma applyIPAddress_Inr:
  assumes "applyIPAddress E hw claim s = (Inr hw', s')"
  shows "\<exists>addr ip key h s1. ansIPAddress E (h @ [GetIPAddress (NN (Namespace claim) (claimAddressRef claim))]) = Inr addr \<and>
     hardwareAddressFromIPAddress addr = Inr ip \<and>
     interfaceKey hw (lookup0 (Annotations claim) AnnotationMACAddress) = Some key \<and>
     (hw' = hw \<and> heldBy ip (interfaceAddress (net_interface_of hw key) (haFamily ip)) \<or>
      (\<exists>h'. ansHardware E (h' @ [PatchHardware hw (reserved_hardware hw key ip) True]) = Inr hw')) \<and>
     s' = claimed_condition E ConditionTrue IPAddressClaimedReason (s1\<lparr>reservedAddress := Some ip\<rparr>)"
proof -
  let ?get = "GetIPAddress (NN (Namespace claim) (claimAddressRef claim))"
  from assms obtain addr ip s1 where a: "ansIPAddress E (calls s @ [?get]) = Inr addr"
    "hardwareAddressFromIPAddress addr = Inr ip"
    and e: "ensureHardwareAddress E hw (lookup0 (Annotations claim) AnnotationMACAddress) ip (add_call ?get s) = (Inr hw', s1)"
    and s': "s' = claimed_condition E ConditionTrue IPAddressClaimedReason (s1\<lparr>reservedAddress := Some ip\<rparr>)"
    by (auto simp: applyIPAddress_def inv_simps split: sum.splits if_splits)
  from ensureHardwareAddress_Inr [OF e] a s' show ?thesis by blast
qed

lemma ensureIPAddressClaim_answer:
  "gives (\<lambda>claim. \<exists>h. ansClaim E h = Inr claim) (ensureIPAddressClaim E hw mac pool)"
  unfolding ensureIPAddressClaim_def
proof (rule gives_bindE_tryE)
  show "gives (\<lambda>claim. \<exists>h. ansClaim E h = Inr claim) (getIPAddressClaim E)"
    unfolding getIPAddressClaim_def by (intro gives_intros) blast
qed (unfold createIPAddressClaim_def ensureIPAMAnnotations_def sum.case, (intro gives_intros, auto)+)

section \<open>Properties\<close>

text \<open>
  C38: What an allocated IPAddress translates to, and exactly when it does: the address must parse,
  an IPv4 one must carry a prefix, and a prefix must be at most 32 or 128 by the address family,
  which counts an IPv4-mapped IPv6 address as IPv4.
\<close>

theorem hardwareAddress_iff:
  "hardwareAddressFromIPAddress addr = Inr ip \<longleftrightarrow>
     (\<exists>parsed. parse_addr (addrAddress addr) = Some parsed \<and>
        haAddress ip = addrAddress addr \<and> haGateway ip = addrGateway addr \<and>
        haFamily ip = (if unmap_is4 parsed then 4 else 6) \<and>
        (case addrPrefix addr of
           None \<Rightarrow> haFamily ip = 6 \<and> haPrefix ip = ''''
         | Some p \<Rightarrow> 0 \<le> p \<and> p \<le> (if haFamily ip = 4 then 32 else 128) \<and> haPrefix ip = itoa p))"
  unfolding hardwareAddressFromIPAddress_Inr by (cases ip; cases "addrPrefix addr") (auto simp: family_defs)

text \<open>
  Every dotted-quad address with a prefix of 0 to 32 is accepted, as IPv4, and its text is
  carried to the Hardware as it is.
\<close>

theorem hardwareAddress_dotted_quad:
  assumes "a \<le> 255" "b \<le> 255" "c \<le> 255" "d \<le> 255" and "0 \<le> p" "p \<le> 32"
    and "addrAddress addr = dotted_quad a b c d" "addrPrefix addr = Some p"
  shows "hardwareAddressFromIPAddress addr =
    Inr \<lparr>haFamily = 4, haAddress = dotted_quad a b c d, haPrefix = itoa p, haGateway = addrGateway addr\<rparr>"
  using parse_addr_dotted_quad [OF assms(1-4)] assms(5-8)
  by (simp add: hardwareAddressFromIPAddress_Inr family_defs unmap_is4_def)

definition example_address :: ip_address_obj where
  "example_address = objmeta.extend (new_meta ''addr'' ''ns'')
     \<lparr>addrAddress = dotted_quad 10 0 0 7, addrPrefix = Some 24, addrGateway = ''10.0.0.1''\<rparr>"

theorem hardwareAddress_dotted_quad_witness:
  "hardwareAddressFromIPAddress example_address =
     Inr \<lparr>haFamily = 4, haAddress = dotted_quad 10 0 0 7, haPrefix = itoa 24, haGateway = ''10.0.0.1''\<rparr>"
  using hardwareAddress_dotted_quad [of 10 0 0 7 24 example_address] by (simp add: example_address_def objmeta.defs)

text \<open>
  Clearing undoes a reservation: after the address is written to the interface, dropping it leaves
  the Hardware that dropping it beforehand would have left, so nothing of the reservation stays,
  and nothing that is not CAPT's is lost.
\<close>

theorem clear_after_reserve:
  assumes "interfaceKey hw mac = Some key"
  shows "clearHardwareAddress (reserved_hardware hw key ip) mac (haFamily ip) = clearHardwareAddress hw mac (haFamily ip)"
  by (rule clear_reserved [OF assms])

definition example_ip :: hardware_address where
  "example_ip = \<lparr>haFamily = 4, haAddress = ''10.0.0.7'', haPrefix = ''24'', haGateway = ''10.0.0.1''\<rparr>"

lemma example_interface: "interfaceKey (example_hw n ls) ''aa'' = Some ''aa''"
  by (simp add: interfaceKey_def interface_keys_def)

theorem clear_after_reserve_witness:
  "clearHardwareAddress (reserved_hardware (example_hw ''a'' Map.empty) ''aa'' example_ip) ''aa'' (haFamily example_ip) =
   clearHardwareAddress (example_hw ''a'' Map.empty) ''aa'' (haFamily example_ip)"
  by (rule clear_after_reserve [OF example_interface])

text \<open>
  A reservation is written to the interface that carries the claim's MAC, under the optimistic
  lock; there it sets the address, prefix and gateway of one IP configuration and keeps
  everything else of the Hardware. Applying it again to what was written makes no call.
\<close>

theorem ensureHardwareAddress_frame:
  assumes "interfaceKey hw mac = Some key"
  shows "set (issued calls (ensureHardwareAddress E hw mac ip) s) \<subseteq> {PatchHardware hw (reserved_hardware hw key ip) True} \<and>
    (let hw' = reserved_hardware hw key ip; c = interfaceAddress (net_interface_of hw key) (haFamily ip);
         c' = interfaceAddress (net_interface_of hw' key) (haFamily ip) in
     c' = Some ((case c of None \<Rightarrow> zero_ip | Some x \<Rightarrow> x)\<lparr>Address := haAddress ip, Prefix := haPrefix ip, Gateway := haGateway ip\<rparr>) \<and>
     interface_keys hw' = interface_keys hw \<and>
     (\<forall>k. k \<noteq> key \<longrightarrow> net_interface_of hw' k = net_interface_of hw k) \<and>
     hw'\<lparr>NetworkInterfaces := NetworkInterfaces hw\<rparr> = hw \<and>
     ensureHardwareAddress E hw' mac ip s = (Inr hw', s))"
proof -
  have "key \<in> set (interface_keys hw)" by (rule interfaceKey_in [OF assms])
  moreover have "ensureHardwareAddress E (reserved_hardware hw key ip) mac ip s = (Inr (reserved_hardware hw key ip), s)"
    using interfaceKey_reserved [OF assms] assms heldBy_with_address [of ip]
    by (simp add: ensureHardwareAddress_def run_simps) (simp add: reserved_hardware_def)
  moreover have "interfaceAddress (with_address ip ni) (haFamily ip) =
      Some ((case interfaceAddress ni (haFamily ip) of None \<Rightarrow> zero_ip | Some x \<Rightarrow> x)
        \<lparr>Address := haAddress ip, Prefix := haPrefix ip, Gateway := haGateway ip\<rparr>)" for ni
    by (cases "IPAM ni") (simp_all add: with_address_def interfaceAddress_def Let_def)
  moreover have "set (issued calls (ensureHardwareAddress E hw mac ip) s) \<subseteq> {PatchHardware hw (reserved_hardware hw key ip) True}"
    using assms by (auto simp: ensureHardwareAddress_def issued_def run_simps split: sum.splits)
  ultimately show ?thesis
    by (simp add: Let_def interface_keys_def reserved_hardware_def update_keys_same)
qed

theorem ensureHardwareAddress_frame_witness:
  "interface_keys (reserved_hardware (example_hw ''a'' Map.empty) ''aa'' example_ip) = [''aa'']"
  using ensureHardwareAddress_frame [OF example_interface [of "''a''" Map.empty],
    where E = base_kube and ip = example_ip and s = example_scope]
  by (simp add: Let_def interface_keys_def)

text \<open>
  C36: When \<open>reconcileIPAM\<close> succeeds for a machine with a pool, the address is in place: a claim that
  is not being deleted is bound, its IPAddress translates, the interface the claim's MAC names
  already holds it or the server accepted the locked patch that writes it, the scope carries it
  for the status, and the condition IPAddressClaimed is true.
\<close>

theorem reconcileIPAM_reserves:
  assumes "condition_laws E" and "AddressFromPool (tmSpec (tinkerbellMachine s)) = Some pool"
    and "reconcileIPAM E hw s = (Inr hw', s')"
  shows "\<exists>claim addr ip key. \<not> being_deleted claim \<and> claimAddressRef claim \<noteq> '''' \<and> (\<exists>h. ansClaim E h = Inr claim) \<and>
     (\<exists>h. ansIPAddress E (h @ [GetIPAddress (NN (Namespace claim) (claimAddressRef claim))]) = Inr addr) \<and>
     hardwareAddressFromIPAddress addr = Inr ip \<and>
     interfaceKey hw (lookup0 (Annotations claim) AnnotationMACAddress) = Some key \<and>
     (hw' = hw \<and> heldBy ip (interfaceAddress (net_interface_of hw key) (haFamily ip)) \<or>
      (\<exists>h. ansHardware E (h @ [PatchHardware hw (reserved_hardware hw key ip) True]) = Inr hw')) \<and>
     reservedAddress s' = Some ip \<and>
     find (\<lambda>c. condType c = IPAddressClaimedCondition) (Conditions (tmStatus (tinkerbellMachine s'))) =
       Some \<lparr>condType = IPAddressClaimedCondition, condStatus = ConditionTrue, condReason = IPAddressClaimedReason\<rparr>"
proof -
  from assms(2,3) obtain mac claim s1 where e: "ensureIPAddressClaim E hw mac pool s = (Inr claim, s1)"
    and c: "\<not> being_deleted claim" "claimAddressRef claim \<noteq> ''''"
    and a: "applyIPAddress E hw claim s1 = (Inr hw', s')"
    by (auto simp: reconcileIPAM_def inv_simps split: sum.splits if_splits)
  from givesD [OF ensureIPAddressClaim_answer e] c applyIPAddress_Inr [OF a]
  show ?thesis using claimed_condition_find [OF assms(1)] by fastforce
qed

definition pool_machine :: tinkerbell_machine where
  "pool_machine = example_machine\<lparr>tmSpec := example_spec\<lparr>HardwareName := ''a'',
     AddressFromPool := Some \<lparr>poolAPIGroup = ''g'', poolKind = ''InClusterIPPool'', poolName = ''p''\<rparr>\<rparr>\<rparr>"

lemma pool_machine_sel [simp]:
  "AddressFromPool (tmSpec pool_machine) = Some \<lparr>poolAPIGroup = ''g'', poolKind = ''InClusterIPPool'', poolName = ''p''\<rparr>"
  "HardwareName (tmSpec pool_machine) = ''a''" "Namespace pool_machine = ''ns''" "Name pool_machine = ''m1''"
  "UID pool_machine = ''''" "tmStatus pool_machine = example_status"
  "ipAddressClaimKey pool_machine = Inr (NN ''ns'' ''a-p'')"
  by (simp_all add: pool_machine_def ipAddressClaimKey_def)

definition pool_scope :: scope where
  "pool_scope = example_scope\<lparr>tinkerbellMachine := pool_machine\<rparr>"

lemma pool_scope_sel [simp]: "tinkerbellMachine pool_scope = pool_machine" "calls pool_scope = []"
  by (simp_all add: pool_scope_def)

definition example_claim :: ip_claim where
  "example_claim = objmeta.extend ((new_meta ''a-p'' ''ns'')\<lparr>
      Annotations := [AnnotationHardwareName \<mapsto> ''a'', AnnotationHardwareNamespace \<mapsto> ''ns'',
        AnnotationMACAddress \<mapsto> ''aa'', AnnotationIPAMMACAddress \<mapsto> ''aa'', AnnotationIPAMHostname \<mapsto> ''a''],
      OwnerReferences := [\<lparr>orKind = ''TinkerbellMachine'', orName = ''m1'', orUID = '''', orController = True\<rparr>]\<rparr>)
     \<lparr>claimClusterName = ''c'', claimPoolRef = \<lparr>poolAPIGroup = ''g'', poolKind = ''InClusterIPPool'', poolName = ''p''\<rparr>,
      claimAddressRef = ''addr''\<rparr>"

lemma example_claim_sel [simp]:
  "DeletionTimestamp example_claim = None" "claimAddressRef example_claim = ''addr''" "Namespace example_claim = ''ns''"
  "Annotations example_claim = [AnnotationHardwareName \<mapsto> ''a'', AnnotationHardwareNamespace \<mapsto> ''ns'',
        AnnotationMACAddress \<mapsto> ''aa'', AnnotationIPAMMACAddress \<mapsto> ''aa'', AnnotationIPAMHostname \<mapsto> ''a'']"
  "OwnerReferences (meta example_claim) =
     [\<lparr>orKind = ''TinkerbellMachine'', orName = ''m1'', orUID = '''', orController = True\<rparr>]"
  by (simp_all add: example_claim_def new_meta_def objmeta.defs)

definition pool_kube :: kube where
  "pool_kube = base_kube\<lparr>ansClaim := \<lambda>_. Inr example_claim, ansIPAddress := \<lambda>_. Inr example_address,
     ansHardware := \<lambda>_. Inr (reserved_hardware (example_hw ''a'' Map.empty) ''aa'' example_ip)\<rparr>"

lemma pool_kube_laws: "condition_laws pool_kube"
  by (simp add: condition_laws_def pool_kube_def base_defs)

lemma pool_kube_sel [simp]:
  "ansClaim pool_kube h = Inr example_claim" "ansIPAddress pool_kube h = Inr example_address"
  "ansHardware pool_kube h = Inr (reserved_hardware (example_hw ''a'' Map.empty) ''aa'' example_ip)"
  "isControlledBy pool_kube a b = list_ex (\<lambda>r. orController r \<and> orUID r = UID b) (OwnerReferences a)"
  "AnnotationV1Alpha1 pool_kube = ''conversion.tinkerbell.org/v1alpha1''"
  by (simp_all add: pool_kube_def base_defs)

lemma example_mac: "primaryInterfaceMAC pool_kube (example_hw n ls) = Inr ''aa''"
  by (simp add: primaryInterfaceMAC_def primaryInterface_def v1alpha1PrimaryInterface_def interfaceKey_def
      interface_keys_def equal_fold_def to_lower_def lower_char_def)

lemma example_translates: "\<exists>ip. hardwareAddressFromIPAddress example_address = Inr ip"
  by (simp add: hardwareAddressFromIPAddress_Inr example_address_def objmeta.defs parse_addr_dotted_quad unmap_is4_def family_defs)

lemma pool_reconciles: "\<exists>hw' s'. reconcileIPAM pool_kube (example_hw ''a'' Map.empty) pool_scope = (Inr hw', s')"
proof -
  have UIDm: "UID (meta pool_machine) = ''''" by (simp add: objmeta.defs)
  obtain ip where "hardwareAddressFromIPAddress example_address = Inr ip" using example_translates by blast
  then show ?thesis
    using example_mac [of "''a''" Map.empty] UIDm
    by (simp add: reconcileIPAM_def ensureIPAddressClaim_def getIPAddressClaim_def ensureIPAMAnnotations_def
        claim_is_ours_def being_deleted_def wanted_annotations_def applyIPAddress_def ensureHardwareAddress_def
        example_interface run_simps Let_def)
qed

theorem reconcileIPAM_reserves_witness:
  "\<exists>s' hw' ip. reconcileIPAM pool_kube (example_hw ''a'' Map.empty) pool_scope = (Inr hw', s') \<and> reservedAddress s' = Some ip"
proof -
  obtain hw' s' where r: "reconcileIPAM pool_kube (example_hw ''a'' Map.empty) pool_scope = (Inr hw', s')"
    using pool_reconciles by blast
  have "AddressFromPool (tmSpec (tinkerbellMachine pool_scope)) = Some \<lparr>poolAPIGroup = ''g'', poolKind = ''InClusterIPPool'', poolName = ''p''\<rparr>"
    by simp
  from reconcileIPAM_reserves [OF pool_kube_laws this r] r show ?thesis by blast
qed

lemma run_ensureIPAddressClaim_found:
  assumes "ipAddressClaimKey (tinkerbellMachine s) = Inr key" and "ansClaim E (calls s @ [GetClaim key]) = Inr claim"
  shows "ensureIPAddressClaim E hw mac pool s =
    (if being_deleted claim then (Inr claim, add_call (GetClaim key) s)
     else if \<not> claim_is_ours E (tinkerbellMachine s) hw claim then
       (Inl ErrIPAddressClaimConflict,
        claimed_condition E ConditionFalse IPAddressClaimInvalidReason (add_call (GetClaim key) s))
     else ensureIPAMAnnotations E claim hw mac (add_call (GetClaim key) s))"
  using assms by (simp add: ensureIPAddressClaim_def run_simps run_getIPAddressClaim)

text \<open>
  A claim that exists is never replaced, and one that is being deleted, belongs to another
  machine or was made for another Hardware is not even touched: \<open>reconcileIPAM\<close> then makes the one
  read and ends waiting, or with the conflict, and the machine's condition says so.
\<close>

theorem reconcileIPAM_existing_claim:
  assumes "AddressFromPool (tmSpec (tinkerbellMachine s)) = Some pool" and "primaryInterfaceMAC E hw = Inr mac"
    and "ipAddressClaimKey (tinkerbellMachine s) = Inr key" and "ansClaim E (calls s @ [GetClaim key]) = Inr claim"
  shows "(\<forall>c\<in>set (issued calls (reconcileIPAM E hw) s). \<forall>new k. c \<noteq> CreateClaim new \<and> c \<noteq> DeleteClaim k) \<and>
    (being_deleted claim \<or> \<not> claim_is_ours E (tinkerbellMachine s) hw claim \<longrightarrow>
       reconcileIPAM E hw s =
         (Inl (if being_deleted claim then ErrWaitingForIPAddress else ErrIPAddressClaimConflict),
          claimed_condition E ConditionFalse
            (if being_deleted claim then IPAddressClaimDeletingReason else IPAddressClaimInvalidReason)
            (add_call (GetClaim key) s)))"
proof
  show "being_deleted claim \<or> \<not> claim_is_ours E (tinkerbellMachine s) hw claim \<longrightarrow>
       reconcileIPAM E hw s =
         (Inl (if being_deleted claim then ErrWaitingForIPAddress else ErrIPAddressClaimConflict),
          claimed_condition E ConditionFalse
            (if being_deleted claim then IPAddressClaimDeletingReason else IPAddressClaimInvalidReason)
            (add_call (GetClaim key) s))"
    using assms(1,2) by (simp add: reconcileIPAM_def run_simps run_ensureIPAddressClaim_found [OF assms(3,4)])
  define P where "P = (\<lambda>c. \<forall>new k. c \<noteq> CreateClaim new \<and> c \<noteq> DeleteClaim k)"
  let ?s1 = "add_call (GetClaim key) s"
  define rest where "rest = (\<lambda>claim. if being_deleted claim then
                bindE (setIPAddressClaimedCondition E ConditionFalse IPAddressClaimDeletingReason) (\<lambda>_.
                throwE ErrWaitingForIPAddress)
              else if claimAddressRef claim = '''' then
                bindE (setIPAddressClaimedCondition E ConditionFalse WaitingForIPAddressReason) (\<lambda>_.
                throwE ErrWaitingForIPAddress)
              else applyIPAddress E hw claim)"
  have l: "adds calls P (rest c)" for c
    unfolding rest_def by (intro adds_intros) (simp_all add: P_def)
  have e: "logs calls (ensureIPAddressClaim E hw mac pool)" by (intro adds_intros) simp_all
  have a: "adds calls P (ensureIPAMAnnotations E claim hw mac)" by (intro adds_intros) (simp add: P_def)
  have r: "reconcileIPAM E hw s = bindE (ensureIPAddressClaim E hw mac pool) rest s"
    using assms(1,2) by (simp add: reconcileIPAM_def run_getsE run_bindE rest_def)
  have i: "issued calls (reconcileIPAM E hw) s = issued calls (bindE (ensureIPAddressClaim E hw mac pool) rest) s"
    using r by (simp add: issued_def)
  have ie: "\<forall>c\<in>set (issued calls (ensureIPAddressClaim E hw mac pool) s). P c"
  proof (cases "being_deleted claim \<or> \<not> claim_is_ours E (tinkerbellMachine s) hw claim")
    case True
    then show ?thesis by (auto simp: issued_def run_ensureIPAddressClaim_found [OF assms(3,4)] P_def)
  next
    case False
    then have "ensureIPAddressClaim E hw mac pool s = ensureIPAMAnnotations E claim hw mac ?s1"
      by (simp add: run_ensureIPAddressClaim_found [OF assms(3,4)])
    from issued_from [of "ensureIPAddressClaim E hw mac pool" s "ensureIPAMAnnotations E claim hw mac" ?s1 calls
        "[GetClaim key]", OF this _ adds_logs [OF a]]
    show ?thesis using addsD [OF a] by (simp add: P_def)
  qed
  show "\<forall>c\<in>set (issued calls (reconcileIPAM E hw) s). \<forall>new k. c \<noteq> CreateClaim new \<and> c \<noteq> DeleteClaim k"
  proof
    fix c
    assume "c \<in> set (issued calls (reconcileIPAM E hw) s)"
    from issued_bindE_in [OF e adds_logs [OF l] this [unfolded i]] have "P c"
      using ie addsD [OF l] by blast
    then show "\<forall>new k. c \<noteq> CreateClaim new \<and> c \<noteq> DeleteClaim k" by (simp add: P_def)
  qed
qed

theorem reconcileIPAM_existing_claim_witness:
  "\<forall>c. CreateClaim c \<notin> set (issued calls (reconcileIPAM pool_kube (example_hw ''a'' Map.empty)) pool_scope)"
  using reconcileIPAM_existing_claim [of pool_scope _ pool_kube "example_hw ''a'' Map.empty" "''aa''"
    "NN ''ns'' ''a-p''" example_claim] example_mac
  by auto

definition unfinalized_claim :: "('e) env_scheme \<Rightarrow> ip_claim \<Rightarrow> ip_claim" where
  "unfinalized_claim E claim = claim\<lparr>Finalizers := removeFinalizer E (Finalizers claim) IPAddressClaimFinalizer\<rparr>"

lemma issued_deleteClaim: "issued calls (deleteClaim E claim) s = [DeleteClaim (object_key claim)]"
  by (cases "ansUnit E (calls s @ [DeleteClaim (object_key claim)])") (simp_all add: deleteClaim_def issued_def run_simps)

lemma logs_deleteClaim: "logs calls (deleteClaim E claim)" "logs calls (removeClaimFinalizer E claim)"
  by (intro adds_intros; simp)+

lemma issued_remove_delete:
  "issued calls (bindE (removeClaimFinalizer E claim) (deleteClaim E)) s =
     (if containsFinalizer E (Finalizers claim) IPAddressClaimFinalizer then
        (let p = PatchClaim claim (unfinalized_claim E claim) True in
         case ansClaim E (calls s @ [p]) of
           Inl _ \<Rightarrow> [p]
         | Inr claim' \<Rightarrow> [p, DeleteClaim (object_key claim')])
      else [DeleteClaim (object_key claim)])"
  unfolding issued_bindE [OF logs_deleteClaim(2,1)]
  by (simp add: removeClaimFinalizer_def issued_api run_api issued_returnE run_returnE issued_deleteClaim
      unfinalized_claim_def Let_def split: sum.split)

text \<open>
  Giving the claim back touches only a claim this machine controls: CAPT's finalizer comes off
  first, in a patch under the optimistic lock that changes nothing else, then the claim is
  deleted; a claim that is missing or controlled by another machine is only read.
\<close>

theorem releaseIPAddressClaim_calls:
  "issued calls (releaseIPAddressClaim E) s = [] \<or>
   (\<exists>key. ipAddressClaimKey (tinkerbellMachine s) = Inr key \<and>
     (issued calls (releaseIPAddressClaim E) s = [GetClaim key] \<or>
      (\<exists>claim. ansClaim E (calls s @ [GetClaim key]) = Inr claim \<and> isControlledBy E (meta claim) (meta (tinkerbellMachine s)) \<and>
        (if containsFinalizer E (Finalizers claim) IPAddressClaimFinalizer then
           (let p = PatchClaim claim (unfinalized_claim E claim) True in
            issued calls (releaseIPAddressClaim E) s = [GetClaim key, p] \<or>
            (\<exists>claim'. ansClaim E (calls s @ [GetClaim key, p]) = Inr claim' \<and>
               issued calls (releaseIPAddressClaim E) s = [GetClaim key, p, DeleteClaim (object_key claim')]))
         else issued calls (releaseIPAddressClaim E) s = [GetClaim key, DeleteClaim (object_key claim)]))))"
proof (cases "AddressFromPool (tmSpec (tinkerbellMachine s)) = None \<or> HardwareName (tmSpec (tinkerbellMachine s)) = ''''")
  case True
  then have "releaseIPAddressClaim E s = (Inr (), s)"
    by (simp add: releaseIPAddressClaim_def run_bindE run_getsE if_P [OF True] run_returnE)
  then show ?thesis by (simp add: issued_def)
next
  case pool: False
  then obtain key where key: "ipAddressClaimKey (tinkerbellMachine s) = Inr key"
    using claim_key_pool [of "tinkerbellMachine s"] by auto
  note run = releaseIPAddressClaim_def run_bindE [of "getsE f" for f] run_bindE [of "tryE m" for m]
    run_getsE run_tryE run_getIPAddressClaim [OF key] if_not_P [OF pool]
  show ?thesis
  proof (cases "ansClaim E (calls s @ [GetClaim key])")
    case (Inl a)
    then have "issued calls (releaseIPAddressClaim E) s = [GetClaim key]"
      by (simp add: run issued_def run_returnE run_throwE)
    with key show ?thesis by blast
  next
    case claim: (Inr claim)
    show ?thesis
    proof (cases "isControlledBy E (meta claim) (meta (tinkerbellMachine s))")
      case False
      with claim have "issued calls (releaseIPAddressClaim E) s = [GetClaim key]"
        by (simp add: run issued_def run_returnE)
      with key show ?thesis by blast
    next
      case True
      let ?rest = "bindE (removeClaimFinalizer E claim) (deleteClaim E)"
      have r: "releaseIPAddressClaim E s = ?rest (add_call (GetClaim key) s)"
        using claim True by (simp add: run)
      have "issued calls (releaseIPAddressClaim E) s = [GetClaim key] @ issued calls ?rest (add_call (GetClaim key) s)"
        by (rule issued_from [of "releaseIPAddressClaim E" s ?rest "add_call (GetClaim key) s", OF r])
          (simp, rule adds_bindE [OF logs_deleteClaim(2,1)])
      then show ?thesis
        using key claim True unfolding issued_remove_delete Let_def by (auto split: sum.splits)
    qed
  qed
qed

lemma clear_frame:
  "Labels (clearHardwareAddress hw mac f) = Labels hw" "Annotations (clearHardwareAddress hw mac f) = Annotations hw"
  "Instance (clearHardwareAddress hw mac f) = Instance hw" "Finalizers (clearHardwareAddress hw mac f) = Finalizers hw"
  by (simp_all add: clearHardwareAddress_def split: option.split)

text \<open>
  Releasing a Hardware writes it once, under the optimistic lock, and what is written carries no
  owner labels, no provisioned mark, no user data and neither of CAPT's finalizers: no machine
  sees it as another's, and the user data of the old machine cannot be served again.
\<close>

theorem releaseHardware_writes:
  assumes "finalizer_laws E"
  shows "\<forall>c\<in>set (issued calls (releaseHardware E base) s). is_hardware_patch c \<longrightarrow>
    (\<exists>n. c = PatchHardware base n True \<and> (\<forall>tm. \<not> owned_by_other tm n) \<and>
       Labels n HardwareOwnerNameLabel = None \<and> Labels n HardwareOwnerNamespaceLabel = None \<and>
       Annotations n HardwareProvisionedAnnotation = None \<and> hardwareUserData n = None \<and>
       MachineFinalizer \<notin> set (Finalizers n) \<and> MachineLegacyFinalizer \<notin> set (Finalizers n))"
proof -
  define Q where "Q = (\<lambda>n. (\<forall>tm. \<not> owned_by_other tm n) \<and>
       Labels n HardwareOwnerNameLabel = None \<and> Labels n HardwareOwnerNamespaceLabel = None \<and>
       Annotations n HardwareProvisionedAnnotation = None \<and> hardwareUserData n = None \<and>
       MachineFinalizer \<notin> set (Finalizers n) \<and> MachineLegacyFinalizer \<notin> set (Finalizers n))"
  have q: "Q (without_finalizers E (clearHardwareAddress (without_ownership base) mac f))"
    "Q (without_finalizers E (without_ownership base))" for mac f
    using assms
    by (simp_all add: Q_def without_finalizers_def without_ownership_def owned_by_other_def hardwareUserData_def
        clear_frame finalizer_laws_def split: option.split)
  let ?hw = "without_ownership base"
  let ?P = "\<lambda>c. is_hardware_patch c \<longrightarrow> (\<exists>n. c = PatchHardware base n True \<and> Q n)"
  have last: "adds calls ?P (api (ansHardware E) (PatchHardware base (without_finalizers E h) True))"
    if "\<exists>mac f. h = clearHardwareAddress ?hw mac f \<or> h = ?hw" for h
    using that q by (intro adds_intros) auto
  have "adds calls ?P (releaseHardware E base)"
    unfolding releaseHardware_def Let_def
  proof (rule adds_bindE [OF adds_getsE], rule adds_bindE_with [OF _ _ last])
    fix tm
    show "gives (\<lambda>h. \<exists>mac f. h = clearHardwareAddress ?hw mac f \<or> h = ?hw)
      (if AddressFromPool (tmSpec tm) \<noteq> None
       then bindE (ipamReservation E ?hw) (\<lambda>(mac, family). returnE (clearHardwareAddress ?hw mac family))
       else returnE ?hw)"
      by (intro gives_intros) auto
  qed (intro adds_intros, simp_all add: is_hardware_patch_def)
  from addsD [OF this] show ?thesis unfolding Q_def by blast
qed

theorem releaseHardware_writes_witness:
  "\<exists>n. issued calls (releaseHardware base_kube own_hw) example_scope = [PatchHardware own_hw n True] \<and>
     hardwareUserData n = None \<and> MachineFinalizer \<notin> set (Finalizers n)"
proof -
  let ?E = "base_kube\<lparr>ansHardware := \<lambda>_. Inl NotFound\<rparr>"
  have E: "base_kube = ?E" by (simp add: base_kube_def env.defs)
  obtain n where n: "issued calls (releaseHardware base_kube own_hw) example_scope = [PatchHardware own_hw n True]"
    by (simp add: releaseHardware_def issued_def run_simps Let_def)
  from releaseHardware_writes [OF finalizer_laws_base, of "\<lambda>_. Inl NotFound" own_hw example_scope]
  show ?thesis unfolding E [symmetric] n by auto
qed

end
