(* ===== verification/Ownership.thy ===== *)
theory Ownership
  imports Ipam
begin

text \<open>
  The helpers of \<open>controller/machine/scope.go\<close> and \<open>template.go\<close> that every object the controller
  creates goes through: where it is created (\<open>tinkerbellNamespace\<close>), how it is marked as the machine's
  (\<open>setResourceOwnership\<close>, \<open>ownsResource\<close>), and the writes to the TinkerbellMachine itself
  (\<open>patch\<close>, \<open>addFinalizer\<close>, \<open>removeFinalizer\<close>).
\<close>

definition tinkerbellNamespace :: "tinkerbell_machine \<Rightarrow> string" where
  "tinkerbellNamespace tm = TargetNamespace (tmStatus tm)"

definition machine_key :: "tinkerbell_machine \<Rightarrow> nsname" where
  "machine_key tm = NN (tinkerbellNamespace tm) (Name tm)"

definition owner_labels :: "tinkerbell_machine \<Rightarrow> 'a objmeta_scheme \<Rightarrow> 'a objmeta_scheme" where
  "owner_labels tm obj =
     obj\<lparr>Labels := (Labels obj)(LabelMachineName \<mapsto> Name tm, LabelMachineNamespace \<mapsto> Namespace tm)\<rparr>"

definition setResourceOwnership ::
    "('e) env_scheme \<Rightarrow> tinkerbell_machine \<Rightarrow> bool \<Rightarrow> 'a objmeta_scheme \<Rightarrow> goerr + 'a objmeta_scheme" where
  "setResourceOwnership E tm isExternal obj =
     (let obj' = owner_labels tm obj in
      if \<not> isExternal \<and> Namespace obj = Namespace tm then
        (case setControllerReference E (meta tm) (meta obj') of
           Inl e \<Rightarrow> Inl (ErrOwnership e)
         | Inr refs \<Rightarrow> Inr (obj'\<lparr>OwnerReferences := refs\<rparr>))
      else Inr obj')"

definition ownsResource :: "tinkerbell_machine \<Rightarrow> 'a objmeta_scheme \<Rightarrow> bool" where
  "ownsResource tm obj \<longleftrightarrow>
     lookup0 (Labels obj) LabelMachineName = Name tm \<and>
     lookup0 (Labels obj) LabelMachineNamespace = Namespace tm"

text \<open>Whether Tinkerbell is on another cluster than the machine.\<close>

definition isExternal :: "scope \<Rightarrow> bool" where
  [simp]: "isExternal s = externalTinkerbell s"

text \<open>An object on its way to being created: the ownership of the current machine is put on it.\<close>

definition owned :: "('e) env_scheme \<Rightarrow> 'a objmeta_scheme \<Rightarrow> 'a objmeta_scheme io" where
  "owned E obj =
     bindE (getsE (\<lambda>s. (tinkerbellMachine s, isExternal s))) (\<lambda>(tm, ext).
     liftE (setResourceOwnership E tm ext obj))"

definition patch_machine :: "('e) kube_scheme \<Rightarrow> unit io" where
  "patch_machine E =
     bindE (getsE tinkerbellMachine) (\<lambda>tm. api (ansUnit E) (PatchTinkerbellMachine tm))"

definition with_finalizer :: "('e) env_scheme \<Rightarrow> tinkerbell_machine \<Rightarrow> tinkerbell_machine" where
  "with_finalizer E tm =
     tm\<lparr>Finalizers := addFinalizer E (removeFinalizer E (Finalizers tm) MachineLegacyFinalizer) MachineFinalizer\<rparr>"

definition without_finalizer :: "('e) env_scheme \<Rightarrow> tinkerbell_machine \<Rightarrow> tinkerbell_machine" where
  "without_finalizer E tm =
     tm\<lparr>Finalizers := removeFinalizer E (removeFinalizer E (Finalizers tm) MachineFinalizer) MachineLegacyFinalizer\<rparr>"

definition addFinalizer_machine :: "('e) kube_scheme \<Rightarrow> unit io" where
  "addFinalizer_machine E = bindE (modify_machine (with_finalizer E)) (\<lambda>_. patch_machine E)"

definition removeFinalizer_machine :: "('e) kube_scheme \<Rightarrow> unit io" where
  "removeFinalizer_machine E = bindE (modify_machine (without_finalizer E)) (\<lambda>_. patch_machine E)"

section \<open>Lemmas\<close>

lemma setResourceOwnership_owns:
  "setResourceOwnership E tm ext obj = Inr obj' \<Longrightarrow> ownsResource tm obj'"
  by (auto simp: setResourceOwnership_def ownsResource_def owner_labels_def Let_def split: if_splits sum.splits)

lemma setResourceOwnership_frame:
  assumes "setResourceOwnership E tm ext obj = Inr obj'"
  shows "Name obj' = Name obj" "Namespace obj' = Namespace obj" "Annotations obj' = Annotations obj"
    "ext \<or> Namespace obj \<noteq> Namespace tm \<Longrightarrow> OwnerReferences obj' = OwnerReferences obj"
    "objmeta.more obj' = objmeta.more obj"
  using assms by (auto simp: setResourceOwnership_def owner_labels_def Let_def split: if_splits sum.splits)

lemma setResourceOwnership_remote:
  "ext \<or> Namespace obj \<noteq> Namespace tm \<Longrightarrow> setResourceOwnership E tm ext obj = Inr (owner_labels tm obj)"
  by (auto simp: setResourceOwnership_def Let_def)

lemma run_owned [run_simps, inv_simps]:
  "owned E obj s = (setResourceOwnership E (tinkerbellMachine s) (externalTinkerbell s) obj, s)"
  by (simp add: owned_def run_simps)

text \<open>Ownership is the current machine's: what is created with it carries the machine's labels.\<close>

lemma adds_inv_owned [adds_inv_intros]:
  assumes "\<And>s. I s \<Longrightarrow> tinkerbellMachine s = tm" and "\<And>obj'. ownsResource tm obj' \<Longrightarrow> adds_inv I log P (f obj')"
  shows "adds_inv I log P (bindE (owned E obj) f)"
  unfolding adds_inv_def run_bindE run_owned
proof (intro allI impI)
  fix s
  assume "I s"
  then show "I (snd (case (setResourceOwnership E (tinkerbellMachine s) (externalTinkerbell s) obj, s) of
      (Inl e, s') \<Rightarrow> (Inl e, s') | (Inr x, s') \<Rightarrow> f x s')) \<and>
    (\<exists>new. log (snd (case (setResourceOwnership E (tinkerbellMachine s) (externalTinkerbell s) obj, s) of
      (Inl e, s') \<Rightarrow> (Inl e, s') | (Inr x, s') \<Rightarrow> f x s')) = log s @ new \<and> (\<forall>c\<in>set new. P c))"
    using assms(1) [of s] assms(2) setResourceOwnership_owns [of E "tinkerbellMachine s" "externalTinkerbell s" obj]
    by (cases "setResourceOwnership E (tinkerbellMachine s) (externalTinkerbell s) obj") (auto simp: adds_inv_def)
qed

lemma adds_owned [adds_intros]: "adds calls P (owned E obj)"
  unfolding owned_def by (intro adds_intros)

lemma keeps_owned [keeps_intros]: "keeps obs (owned E obj)"
  unfolding owned_def by (intro keeps_intros)

lemma run_patch_machine [run_simps, inv_simps]:
  "patch_machine E s = (map_sum Api id (ansUnit E (calls s @ [PatchTinkerbellMachine (tinkerbellMachine s)])),
     add_call (PatchTinkerbellMachine (tinkerbellMachine s)) s)"
  by (simp add: patch_machine_def run_simps)

lemma adds_patch_machine [adds_intros]: "(\<And>tm. P (PatchTinkerbellMachine tm)) \<Longrightarrow> adds calls P (patch_machine E)"
  unfolding patch_machine_def by (intro adds_intros) simp

lemma issued_patch_machine [issued_simps]:
  "issued calls (patch_machine E) s = [PatchTinkerbellMachine (tinkerbellMachine s)]"
  by (simp add: issued_def run_patch_machine)

lemma run_addFinalizer_machine:
  "addFinalizer_machine E s =
     patch_machine E (s\<lparr>tinkerbellMachine := with_finalizer E (tinkerbellMachine s)\<rparr>)"
  by (simp add: addFinalizer_machine_def run_bindE run_modify_machine)

lemma run_removeFinalizer_machine:
  "removeFinalizer_machine E s =
     patch_machine E (s\<lparr>tinkerbellMachine := without_finalizer E (tinkerbellMachine s)\<rparr>)"
  by (simp add: removeFinalizer_machine_def run_bindE run_modify_machine)

lemma adds_addFinalizer_machine [adds_intros]:
  "(\<And>tm. P (PatchTinkerbellMachine tm)) \<Longrightarrow> adds calls P (addFinalizer_machine E)"
  unfolding addFinalizer_machine_def by (intro adds_intros) simp

lemma adds_removeFinalizer_machine [adds_intros]:
  "(\<And>tm. P (PatchTinkerbellMachine tm)) \<Longrightarrow> adds calls P (removeFinalizer_machine E)"
  unfolding removeFinalizer_machine_def by (intro adds_intros) simp

lemma with_finalizer_mem:
  "finalizer_laws E \<Longrightarrow> set (Finalizers (with_finalizer E tm)) = insert MachineFinalizer (set (Finalizers tm) - {MachineLegacyFinalizer})"
  by (auto simp: with_finalizer_def finalizer_laws_def)

lemma without_finalizer_mem:
  "finalizer_laws E \<Longrightarrow> set (Finalizers (without_finalizer E tm)) = set (Finalizers tm) - {MachineFinalizer, MachineLegacyFinalizer}"
  by (auto simp: without_finalizer_def finalizer_laws_def)

end
