(* ===== verification/Bmc.thy ===== *)
theory Bmc
  imports Ownership
begin

text \<open>
  \<open>controller/machine/bmc.go\<close> and \<open>inplace_recovery.go\<close>: the Jobs the controller gives Rufio. Powering the
  machine off gates its deletion; a power cycle is the one remedy for an in-place update whose
  node did not come back.
\<close>

definition newBMCJob :: "tinkerbell_machine \<Rightarrow> string \<Rightarrow> hardware \<Rightarrow> power_action list \<Rightarrow> bmc_job" where
  "newBMCJob tm n hw ops = objmeta.extend (new_meta n (tinkerbellNamespace tm))
     \<lparr>jobHardwareRef = NN (Namespace hw) (Name hw), jobOperations = ops, jobConditions = []\<rparr>"

definition poweroff_name :: "tinkerbell_machine \<Rightarrow> string" where
  "poweroff_name tm = Name tm @ ''-poweroff''"

definition recovery_name :: "tinkerbell_machine \<Rightarrow> string" where
  "recovery_name tm = Name tm @ ''-inplace-recovery''"

text \<open>A created Job is not completed yet: it ends the reconcile with an error, to be retried.\<close>

definition createPowerOffJob :: "('e) kube_scheme \<Rightarrow> hardware \<Rightarrow> unit io" where
  "createPowerOffJob E hw =
     bindE (getsE tinkerbellMachine) (\<lambda>tm.
     bindE (owned E (newBMCJob tm (poweroff_name tm) hw [PowerActionHardOff])) (\<lambda>job.
     bindE (api (ansJob E) (CreateJob job)) (\<lambda>created.
     throwE (ErrBMCJobCreated (object_key created)))))"

definition getJob :: "('e) kube_scheme \<Rightarrow> string \<Rightarrow> bmc_job io" where
  "getJob E n =
     bindE (getsE tinkerbellMachine) (\<lambda>tm. api (ansJob E) (GetJob (NN (tinkerbellNamespace tm) n)))"

definition ensureBMCJobCompletionForDelete :: "('e) kube_scheme \<Rightarrow> hardware \<Rightarrow> unit io" where
  "ensureBMCJobCompletionForDelete E hw =
     bindE (getsE tinkerbellMachine) (\<lambda>tm.
     bindE (tryE (getJob E (poweroff_name tm))) (\<lambda>r.
     case r of
       Inl e \<Rightarrow> if isNotFound e then createPowerOffJob E hw else throwE e
     | Inr job \<Rightarrow>
         if hasConditionStatus E (jobConditions job) ConditionTypeCompleted ConditionStatusTrue then returnE ()
         else if hasConditionStatus E (jobConditions job) ConditionTypeFailed ConditionStatusTrue
           then throwE (ErrBMCJobFailed (object_key job))
         else throwE (ErrBMCJobNotCompleted (object_key job))))"

section \<open>In-place update recovery\<close>

text \<open>Twenty minutes, in nanoseconds.\<close>

definition DefaultInPlaceRecoveryTimeout :: int where
  "DefaultInPlaceRecoveryTimeout = 20 * 60 * second_ns"

text \<open>The first condition that says the Machine is not up to date; a zero time is \<open>None\<close>.\<close>

definition inPlaceUpdateStartedAt :: "('e) env_scheme \<Rightarrow> capi_machine \<Rightarrow> int option" where
  "inPlaceUpdateStartedAt E machine =
     (case find (\<lambda>c. mcType c = MachineUpToDateCondition E \<and> mcStatus c = ConditionFalse) (mConditions machine) of
        None \<Rightarrow> None
      | Some c \<Rightarrow> mcLastTransition c)"

definition inPlaceUpdateStalledFor :: "('e) env_scheme \<Rightarrow> int \<Rightarrow> capi_machine \<Rightarrow> int \<Rightarrow> int \<times> bool" where
  "inPlaceUpdateStalledFor E now machine timeout =
     (case inPlaceUpdateStartedAt E machine of
        None \<Rightarrow> (0, False)
      | Some started \<Rightarrow> (now - started, timeout \<le> now - started))"

definition createPowerCycleJob :: "('e) kube_scheme \<Rightarrow> hardware \<Rightarrow> unit io" where
  "createPowerCycleJob E hw =
     bindE (getsE tinkerbellMachine) (\<lambda>tm.
     bindE (owned E (newBMCJob tm (recovery_name tm) hw [PowerActionHardOff, PowerActionOn])) (\<lambda>job.
     catchE (bindE (api (ansJob E) (CreateJob job)) (\<lambda>_. returnE ()))
       (\<lambda>e. if isAlreadyExists e then returnE () else throwE e)))"

text \<open>The client's patch leaves the server's answer in the scope's machine.\<close>

definition patch_annotations ::
    "('e) kube_scheme \<Rightarrow> ((string \<rightharpoonup> string) \<Rightarrow> (string \<rightharpoonup> string)) \<Rightarrow> unit io" where
  "patch_annotations E f =
     bindE (getsE tinkerbellMachine) (\<lambda>tm.
     bindE (api (ansTinkerbellMachine E) (PatchMachineObject tm (tm\<lparr>Annotations := f (Annotations tm)\<rparr>))) (\<lambda>tm'.
     modify_machine (\<lambda>_. tm')))"

definition markRecoveryAttempted :: "('e) kube_scheme \<Rightarrow> unit io" where
  "markRecoveryAttempted E =
     bindE (getsE (\<lambda>s. timeFormat E (clock E (calls s)))) (\<lambda>now.
     patch_annotations E (\<lambda>anns. anns(InPlaceRecoveryAttemptedAnnotation \<mapsto> now)))"

definition clearRecoveryAttempted :: "('e) kube_scheme \<Rightarrow> unit io" where
  "clearRecoveryAttempted E = patch_annotations E (\<lambda>anns. anns(InPlaceRecoveryAttemptedAnnotation := None))"

definition getOwningMachine :: "('e) kube_scheme \<Rightarrow> capi_machine option io" where
  "getOwningMachine E =
     bindE (getsE tinkerbellMachine) (\<lambda>tm.
     case find (\<lambda>r. orKind r = ''Machine'') (OwnerReferences tm) of
       None \<Rightarrow> returnE None
     | Some ref \<Rightarrow>
         bindE (tryE (api (ansMachine E) (GetMachine (NN (Namespace tm) (orName ref))))) (\<lambda>r.
         case r of
           Inl e \<Rightarrow> if isNotFound e then returnE None else throwE e
         | Inr machine \<Rightarrow> returnE (Some machine)))"

text \<open>\<open>reconcileInPlaceRecovery\<close> once the owning Machine is found.\<close>

definition recoverMachine :: "('e) kube_scheme \<Rightarrow> hardware \<Rightarrow> int \<Rightarrow> capi_machine \<Rightarrow> unit io" where
  "recoverMachine E hw timeout machine =
     bindE (getsE tinkerbellMachine) (\<lambda>tm.
     let updating = Annotations machine (UpdateInProgressAnnotation E) \<noteq> None;
         attempted = Annotations tm InPlaceRecoveryAttemptedAnnotation \<noteq> None
     in if \<not> updating then (if attempted then clearRecoveryAttempted E else returnE ())
        else bindE (getsE (\<lambda>s. inPlaceUpdateStalledFor E (clock E (calls s)) machine timeout)) (\<lambda>(_, stalled).
          if attempted \<or> \<not> stalled then returnE ()
          else if \<not> hasBMC E (Some hw) then returnE ()
          else bindE (createPowerCycleJob E hw) (\<lambda>_. markRecoveryAttempted E)))"

definition reconcileInPlaceRecovery :: "('e) kube_scheme \<Rightarrow> hardware \<Rightarrow> int \<Rightarrow> unit io" where
  "reconcileInPlaceRecovery E hw timeout =
     bindE (getOwningMachine E) (\<lambda>m.
     case m of None \<Rightarrow> returnE () | Some machine \<Rightarrow> recoverMachine E hw timeout machine)"

section \<open>Which calls each operation makes\<close>

lemma adds_createPowerOffJob [adds_intros]: "(\<And>j. P (CreateJob j)) \<Longrightarrow> adds calls P (createPowerOffJob E hw)"
  unfolding createPowerOffJob_def by (intro adds_intros) simp

lemma adds_getJob [adds_intros]: "(\<And>k. P (GetJob k)) \<Longrightarrow> adds calls P (getJob E n)"
  unfolding getJob_def by (intro adds_intros) simp

lemma adds_ensureBMCJob [adds_intros]:
  "(\<And>k. P (GetJob k)) \<Longrightarrow> (\<And>j. P (CreateJob j)) \<Longrightarrow> adds calls P (ensureBMCJobCompletionForDelete E hw)"
  unfolding ensureBMCJobCompletionForDelete_def by (intro adds_intros) simp_all

lemma adds_createPowerCycleJob [adds_intros]: "(\<And>j. P (CreateJob j)) \<Longrightarrow> adds calls P (createPowerCycleJob E hw)"
  unfolding createPowerCycleJob_def by (intro adds_intros) simp

lemma adds_patch_annotations [adds_intros]:
  "(\<And>a b. P (PatchMachineObject a b)) \<Longrightarrow> adds calls P (patch_annotations E f)"
  unfolding patch_annotations_def by (intro adds_intros) simp

lemma adds_markRecoveryAttempted [adds_intros]:
  "(\<And>a b. P (PatchMachineObject a b)) \<Longrightarrow> adds calls P (markRecoveryAttempted E)"
  unfolding markRecoveryAttempted_def by (intro adds_intros) simp

lemma adds_clearRecoveryAttempted [adds_intros]:
  "(\<And>a b. P (PatchMachineObject a b)) \<Longrightarrow> adds calls P (clearRecoveryAttempted E)"
  unfolding clearRecoveryAttempted_def by (intro adds_intros) simp

lemma adds_getOwningMachine [adds_intros]: "(\<And>k. P (GetMachine k)) \<Longrightarrow> adds calls P (getOwningMachine E)"
  unfolding getOwningMachine_def by (intro adds_intros) simp

lemma adds_reconcileInPlaceRecovery [adds_intros]:
  assumes "\<And>k. P (GetMachine k)" "\<And>a b. P (PatchMachineObject a b)" "\<And>j. P (CreateJob j)"
  shows "adds calls P (reconcileInPlaceRecovery E hw timeout)"
  unfolding reconcileInPlaceRecovery_def recoverMachine_def by (intro adds_intros) (simp_all add: assms)

lemma adds_recoverMachine:
  assumes "\<And>a b. P (PatchMachineObject a b)" "\<And>j. P (CreateJob j)"
  shows "adds calls P (recoverMachine E hw timeout machine)"
  unfolding recoverMachine_def by (intro adds_intros) (simp_all add: assms)

lemma keeps_getOwningMachine [keeps_intros]:
  "(\<And>c s. obs (add_call c s) = obs s) \<Longrightarrow> keeps obs (getOwningMachine E)"
  unfolding getOwningMachine_def by (intro keeps_intros) simp

section \<open>Properties\<close>

text \<open>
  The power-off Job gates deletion: \<open>ensureBMCJobCompletionForDelete\<close> succeeds exactly when the
  Job of that name exists and has completed, and it makes no other call then. Without one it
  creates the Job, for this Hardware and in the machine's name, and ends with an error.
\<close>

theorem power_off_gates:
  "ensureBMCJobCompletionForDelete E hw s = (Inr (), s') \<longleftrightarrow>
     (let k = NN (tinkerbellNamespace (tinkerbellMachine s)) (Name (tinkerbellMachine s) @ ''-poweroff'') in
      s' = add_call (GetJob k) s \<and>
      (\<exists>job. ansJob E (calls s @ [GetJob k]) = Inr job \<and>
         hasConditionStatus E (jobConditions job) ConditionTypeCompleted ConditionStatusTrue))"
  by (cases "ansJob E (calls s @ [GetJob (NN (tinkerbellNamespace (tinkerbellMachine s)) (Name (tinkerbellMachine s) @ ''-poweroff''))])")
    (auto simp: ensureBMCJobCompletionForDelete_def getJob_def createPowerOffJob_def run_simps Let_def poweroff_name_def
      split: sum.splits if_splits)

lemma inPlace_stalled:
  "snd (inPlaceUpdateStalledFor E now machine timeout) \<longleftrightarrow>
     (\<exists>t. inPlaceUpdateStartedAt E machine = Some t \<and> timeout \<le> now - t)"
  by (simp add: inPlaceUpdateStalledFor_def split: option.split)

lemma issued_createPowerCycleJob:
  "issued calls (createPowerCycleJob E hw) s =
     (case setResourceOwnership E (tinkerbellMachine s) (externalTinkerbell s)
         (newBMCJob (tinkerbellMachine s) (recovery_name (tinkerbellMachine s)) hw [PowerActionHardOff, PowerActionOn]) of
        Inl _ \<Rightarrow> [] | Inr job \<Rightarrow> [CreateJob job])"
  by (auto simp: createPowerCycleJob_def issued_def run_simps split: sum.split)

lemma power_cycle_job:
  "setResourceOwnership E tm ext (newBMCJob tm n hw ops) = Inr job \<Longrightarrow> jobOperations job = ops \<and> jobHardwareRef job = NN (Namespace hw) (Name hw)"
  by (auto simp: setResourceOwnership_def owner_labels_def newBMCJob_def Let_def objmeta.defs split: if_splits sum.splits)

definition marked :: "tinkerbell_machine \<Rightarrow> string \<Rightarrow> tinkerbell_machine" where
  "marked tm now = tm\<lparr>Annotations := (Annotations tm)(InPlaceRecoveryAttemptedAnnotation \<mapsto> now)\<rparr>"

lemma issued_markRecoveryAttempted:
  "issued calls (markRecoveryAttempted E) s =
     [PatchMachineObject (tinkerbellMachine s) (marked (tinkerbellMachine s) (timeFormat E (clock E (calls s))))]"
  by (auto simp: markRecoveryAttempted_def patch_annotations_def issued_def run_simps marked_def split: sum.split)

lemma recover_power_cycle:
  assumes "CreateJob j \<in> set (issued calls (recoverMachine E hw timeout machine) s)"
  shows "Annotations machine (UpdateInProgressAnnotation E) \<noteq> None"
    "Annotations (tinkerbellMachine s) InPlaceRecoveryAttemptedAnnotation = None"
    "snd (inPlaceUpdateStalledFor E (clock E (calls s)) machine timeout)" "hasBMC E (Some hw)"
    "jobOperations j = [PowerActionHardOff, PowerActionOn]"
    "\<exists>now. issued calls (recoverMachine E hw timeout machine) s =
       CreateJob j # (if \<exists>e. fst (createPowerCycleJob E hw s) = Inl e then []
                      else [PatchMachineObject (tinkerbellMachine s) (marked (tinkerbellMachine s) now)])"
proof -
  let ?tm = "tinkerbellMachine s"
  let ?cycle = "bindE (createPowerCycleJob E hw) (\<lambda>_. markRecoveryAttempted E)"
  obtain d stalled where st: "inPlaceUpdateStalledFor E (clock E (calls s)) machine timeout = (d, stalled)" by fastforce
  have run: "recoverMachine E hw timeout machine s =
      (if Annotations machine (UpdateInProgressAnnotation E) = None then
         (if Annotations ?tm InPlaceRecoveryAttemptedAnnotation \<noteq> None then clearRecoveryAttempted E s else (Inr (), s))
       else if Annotations ?tm InPlaceRecoveryAttemptedAnnotation \<noteq> None \<or> \<not> stalled \<or> \<not> hasBMC E (Some hw) then (Inr (), s)
       else ?cycle s)"
    by (simp add: recoverMachine_def run_bindE [of "getsE f" for f] run_getsE run_returnE st Let_def)
  have issued_same: "issued calls (recoverMachine E hw timeout machine) s = issued calls m s"
    if "recoverMachine E hw timeout machine s = m s" for m :: "unit io"
    using that by (simp add: issued_def)
  have "adds calls (\<lambda>c. \<forall>j. c \<noteq> CreateJob j) (clearRecoveryAttempted E)" by (intro adds_intros) simp
  then have clear: "CreateJob j \<notin> set (issued calls (clearRecoveryAttempted E) s)" by (auto dest: addsD)
  have guard: "Annotations machine (UpdateInProgressAnnotation E) \<noteq> None \<and>
      Annotations ?tm InPlaceRecoveryAttemptedAnnotation = None \<and> stalled \<and> hasBMC E (Some hw)"
  proof (rule ccontr)
    assume n: "\<not> ?thesis"
    then have "recoverMachine E hw timeout machine s = clearRecoveryAttempted E s \<or>
        recoverMachine E hw timeout machine s = returnE () s"
      unfolding run run_returnE by (auto split: if_splits)
    then show False
    proof
      assume "recoverMachine E hw timeout machine s = clearRecoveryAttempted E s"
      from issued_same [of "clearRecoveryAttempted E", OF this] clear assms show False by metis
    next
      assume "recoverMachine E hw timeout machine s = returnE () s"
      from issued_same [of "returnE ()", OF this] assms show False by (simp add: issued_returnE)
    qed
  qed
  then have cyc: "recoverMachine E hw timeout machine s = ?cycle s" unfolding run by auto
  have l: "logs calls (createPowerCycleJob E hw)" "logs calls (markRecoveryAttempted E)"
    by (intro adds_intros; simp)+
  obtain r s1 where c: "createPowerCycleJob E hw s = (r, s1)" by fastforce
  have "keeps tinkerbellMachine (createPowerCycleJob E hw)"
    unfolding createPowerCycleJob_def by (intro keeps_intros) simp
  from keepsD [OF this c] have tm1: "tinkerbellMachine s1 = ?tm" .
  have i: "issued calls (recoverMachine E hw timeout machine) s = issued calls (createPowerCycleJob E hw) s @
      (case r of Inl _ \<Rightarrow> [] | Inr _ \<Rightarrow> [PatchMachineObject ?tm (marked ?tm (timeFormat E (clock E (calls s1))))])"
    unfolding issued_same [of ?cycle, OF cyc] issued_bindE [OF l] c prod.case issued_markRecoveryAttempted tm1
    by (simp split: sum.split)
  with assms obtain job where own: "setResourceOwnership E ?tm (externalTinkerbell s)
      (newBMCJob ?tm (recovery_name ?tm) hw [PowerActionHardOff, PowerActionOn]) = Inr job" and j: "job = j"
    unfolding issued_createPowerCycleJob by (auto split: sum.splits)
  show "jobOperations j = [PowerActionHardOff, PowerActionOn]" using power_cycle_job [OF own] j by simp
  show "Annotations machine (UpdateInProgressAnnotation E) \<noteq> None"
    "Annotations ?tm InPlaceRecoveryAttemptedAnnotation = None" "hasBMC E (Some hw)"
    "snd (inPlaceUpdateStalledFor E (clock E (calls s)) machine timeout)"
    using guard st by simp_all
  show "\<exists>now. issued calls (recoverMachine E hw timeout machine) s =
       CreateJob j # (if \<exists>e. fst (createPowerCycleJob E hw s) = Inl e then []
                      else [PatchMachineObject ?tm (marked ?tm now)])"
    unfolding i issued_createPowerCycleJob own j c by (cases r) auto
qed

lemma getOwningMachine_Inr:
  "getOwningMachine E s = (Inr (Some machine), s') \<Longrightarrow>
   ansMachine E (calls s') = Inr machine \<and> tinkerbellMachine s' = tinkerbellMachine s"
  by (auto simp: getOwningMachine_def inv_simps split: option.splits sum.split_asm if_split_asm)


definition stalled_machine :: capi_machine where
  "stalled_machine = objmeta.extend ((new_meta ''owner'' ''ns'')\<lparr>Annotations := [''in-progress'' \<mapsto> '''']\<rparr>)
     \<lparr>DataSecretName = None, Version = ''v1'', ClusterName = ''c'', mInfraRefName = '''',
      mConditions = [\<lparr>mcType = ''UpToDate'', mcStatus = ConditionFalse, mcLastTransition = Some 0\<rparr>]\<rparr>"

lemma stalled_machine_sel [simp]:
  "Annotations stalled_machine = [''in-progress'' \<mapsto> '''']" "ClusterName stalled_machine = ''c''"
  "mConditions stalled_machine = [\<lparr>mcType = ''UpToDate'', mcStatus = ConditionFalse, mcLastTransition = Some 0\<rparr>]"
  by (simp_all add: stalled_machine_def new_meta_def objmeta.defs)

definition stalled_kube :: kube where
  "stalled_kube = base_kube\<lparr>ansMachine := \<lambda>_. Inr stalled_machine, clock := \<lambda>_. DefaultInPlaceRecoveryTimeout\<rparr>"

lemma stalled_kube_sel [simp]:
  "ansMachine stalled_kube h = Inr stalled_machine" "clock stalled_kube h = DefaultInPlaceRecoveryTimeout"
  "UpdateInProgressAnnotation stalled_kube = ''in-progress''" "MachineUpToDateCondition stalled_kube = ''UpToDate''"
  "ansJob stalled_kube h = Inl NotFound" "hardwareBMCRef stalled_kube hw = None"
  by (simp_all add: stalled_kube_def base_defs)

definition bmc_hw :: hardware where
  "bmc_hw = (example_hw ''a'' Map.empty)\<lparr>BMC := Some \<lparr>Connection = Some ''bmc.example''\<rparr>\<rparr>"

definition stalled_scope :: scope where
  "stalled_scope = example_scope\<lparr>tinkerbellMachine := example_machine\<lparr>OwnerReferences :=
     [\<lparr>orKind = ''Machine'', orName = ''owner'', orUID = ''u'', orController = True\<rparr>]\<rparr>\<rparr>"

lemma stalled_recovers:
  "\<exists>j. CreateJob j \<in> set (issued calls (reconcileInPlaceRecovery stalled_kube bmc_hw DefaultInPlaceRecoveryTimeout) stalled_scope)"
proof -
  have "setResourceOwnership stalled_kube (tinkerbellMachine stalled_scope) (externalTinkerbell stalled_scope) obj =
      Inr (owner_labels (tinkerbellMachine stalled_scope) obj)" if "Namespace obj = ''''" for obj :: bmc_job
    by (rule setResourceOwnership_remote) (simp add: that stalled_scope_def)
  then show ?thesis
    by (simp add: reconcileInPlaceRecovery_def getOwningMachine_def recoverMachine_def run_simps issued_def Let_def
        inPlaceUpdateStalledFor_def inPlaceUpdateStartedAt_def hasBMC_def bmc_hw_def createPowerCycleJob_def
        stalled_scope_def newBMCJob_def tinkerbellNamespace_def new_meta_def objmeta.defs)
qed


text \<open>
  A Job left from an earlier update answers \<open>AlreadyExists\<close>, which counts as a power cycle issued:
  nothing deletes these Jobs while the machine lives, so a second update is not power cycled.
\<close>

lemma power_cycle_existing_job:
  assumes "setResourceOwnership E (tinkerbellMachine s) (externalTinkerbell s)
      (newBMCJob (tinkerbellMachine s) (recovery_name (tinkerbellMachine s)) hw [PowerActionHardOff, PowerActionOn]) = Inr job"
    and "ansJob E (calls s @ [CreateJob job]) = Inl AlreadyExists"
  shows "createPowerCycleJob E hw s = (Inr (), add_call (CreateJob job) s)"
  using assms by (simp add: createPowerCycleJob_def run_simps)

end
