(* ===== verification/Templates.thy ===== *)
theory Templates
  imports Bmc
begin

text \<open>
  \<open>controller/machine/template.go\<close>: where a machine's template comes from, and the Template and Tasks
  the controller keeps for it. The Template is what a Workflow runs in v1alpha1 compatibility mode,
  the Tasks what a native one runs.
\<close>

section \<open>Where the template comes from\<close>

definition fetchTemplateRefData :: "('e) kube_scheme \<Rightarrow> string \<Rightarrow> string \<Rightarrow> string io" where
  "fetchTemplateRefData E n ns =
     bindE (getsE tinkerbellMachine) (\<lambda>tm.
     bindE (tryE (api (ansTemplate E) (GetTemplate (NN (cmp_or ns (tinkerbellNamespace tm)) n)))) (\<lambda>r.
     case r of
       Inl e \<Rightarrow> if isNoMatch e then throwE ErrTemplatesNotServed else throwE e
     | Inr tpl \<Rightarrow>
         (case templateSpecData tpl of
            None \<Rightarrow> throwE ErrTemplateRefNoData
          | Some data \<Rightarrow> returnE data)))"

definition templateExists :: "('e) kube_scheme \<Rightarrow> bool io" where
  "templateExists E =
     bindE (getsE tinkerbellMachine) (\<lambda>tm.
     bindE (tryE (api (ansTemplate E) (GetTemplate (machine_key tm)))) (\<lambda>r.
     case r of
       Inr _ \<Rightarrow> returnE True
     | Inl e \<Rightarrow> if \<not> isNotFound e \<and> \<not> isNoMatch e then throwE e else returnE False))"

definition clusterTemplate :: "('e) kube_scheme \<Rightarrow> string io" where
  "clusterTemplate E =
     bindE (getsE tinkerbellCluster) (\<lambda>c.
     case c of
       None \<Rightarrow> throwE ErrNilDereference
     | Some cluster \<Rightarrow>
         if ClusterTemplateInline (tcSpec cluster) \<noteq> '''' then returnE (ClusterTemplateInline (tcSpec cluster))
         else (case ClusterTemplateRef (tcSpec cluster) of
             Some ref \<Rightarrow> fetchTemplateRefData E (refName ref) (refNamespace ref)
           | None \<Rightarrow> returnE ''''))"

definition templateFromAnnotation :: "('e) kube_scheme \<Rightarrow> hardware \<Rightarrow> string io" where
  "templateFromAnnotation E hw =
     (case Annotations hw HardwareTemplateOverrideAnnotation of
        None \<Rightarrow> returnE ''''
      | Some templateName \<Rightarrow> fetchTemplateRefData E templateName (Namespace hw))"

definition resolveTemplateData :: "('e) kube_scheme \<Rightarrow> hardware \<Rightarrow> string io" where
  "resolveTemplateData E hw =
     bindE (getsE tinkerbellMachine) (\<lambda>tm.
     if TemplateInline (tmSpec tm) \<noteq> '''' then returnE (TemplateInline (tmSpec tm))
     else (case TemplateRef (tmSpec tm) of
         Some ref \<Rightarrow> fetchTemplateRefData E (refName ref) (refNamespace ref)
       | None \<Rightarrow>
           bindE (templateFromAnnotation E hw) (\<lambda>data.
           if data \<noteq> '''' then returnE data else clusterTemplate E)))"

definition templateData :: "('e) kube_scheme \<Rightarrow> hardware \<Rightarrow> string io" where
  "templateData E hw =
     (if StorageDevices hw = [] then throwE ErrHardwareMissingDiskConfiguration
      else bindE (resolveTemplateData E hw) (\<lambda>data.
        if data = '''' then throwE ErrNoTemplateFound else returnE data))"

section \<open>The machine's Template\<close>

definition templateObject :: "tinkerbell_machine \<Rightarrow> string \<Rightarrow> v1_template" where
  "templateObject tm data = objmeta.extend (new_meta (Name tm) (tinkerbellNamespace tm))
     \<lparr>templateSpecData = Some data\<rparr>"

definition createTemplate :: "('e) kube_scheme \<Rightarrow> string \<Rightarrow> unit io" where
  "createTemplate E data =
     bindE (getsE tinkerbellMachine) (\<lambda>tm.
     bindE (owned E (templateObject tm data)) (\<lambda>tpl.
     catchE (bindE (api (ansTemplate E) (CreateTemplate tpl)) (\<lambda>_. returnE ()))
       (\<lambda>e. if isNoMatch e then throwE ErrTemplatesNotServed else throwE e)))"

definition removeTemplate :: "('e) kube_scheme \<Rightarrow> unit io" where
  "removeTemplate E =
     bindE (getsE tinkerbellMachine) (\<lambda>tm.
     bindE (tryE (api (ansTemplate E) (GetTemplate (machine_key tm)))) (\<lambda>r.
     case r of
       Inl e \<Rightarrow> if isNotFound e \<or> isNoMatch e then returnE () else throwE e
     | Inr tpl \<Rightarrow> api (ansUnit E) (DeleteTemplate (object_key tpl))))"

section \<open>The machine's Tasks\<close>

text \<open>The first Task of one of the names that exists and is not the machine's; empty if there is none.\<close>

fun taskConflict :: "('e) kube_scheme \<Rightarrow> task list \<Rightarrow> nsname option io" where
  "taskConflict E [] = returnE None"
| "taskConflict E (t # ts) =
     bindE (tryE (api (ansTask E) (GetTask (object_key t)))) (\<lambda>r.
     case r of
       Inl e \<Rightarrow> if isNotFound e then taskConflict E ts else throwE e
     | Inr existing \<Rightarrow>
         bindE (getsE tinkerbellMachine) (\<lambda>tm.
         if \<not> ownsResource tm existing then returnE (Some (object_key t)) else taskConflict E ts))"

definition deleteTask :: "('e) kube_scheme \<Rightarrow> task \<Rightarrow> unit io" where
  "deleteTask E t =
     catchE (api (ansUnit E) (DeleteTask (object_key t)))
       (\<lambda>e. if isNotFound e then returnE () else throwE e)"

definition removeTasks :: "('e) kube_scheme \<Rightarrow> string set \<Rightarrow> unit io" where
  "removeTasks E keep =
     bindE (getsE tinkerbellMachine) (\<lambda>tm.
     bindE (api (ansTaskList E) (ListTasks (tinkerbellNamespace tm) (Name tm) (Namespace tm))) (\<lambda>items.
     forE (\<lambda>t. if Name t \<in> keep then returnE () else deleteTask E t) items))"

definition ensureTask :: "('e) kube_scheme \<Rightarrow> task \<Rightarrow> unit io" where
  "ensureTask E t =
     bindE (tryE (api (ansTask E) (GetTask (object_key t)))) (\<lambda>r.
     case r of
       Inl e \<Rightarrow> if isNotFound e then bindE (api (ansTask E) (CreateTask t)) (\<lambda>_. returnE ()) else throwE e
     | Inr existing \<Rightarrow>
         if equalTaskSpecs E (taskSpec existing) (taskSpec t) \<and> equalAnnotations E (Annotations existing) (Annotations t)
         then returnE ()
         else bindE (api (ansTask E) (UpdateTask (existing\<lparr>Annotations := Annotations t, taskSpec := taskSpec t\<rparr>)))
                (\<lambda>_. returnE ()))"

definition ensureTasks :: "('e) kube_scheme \<Rightarrow> task list \<Rightarrow> unit io" where
  "ensureTasks E tasks = bindE (forE (ensureTask E) tasks) (\<lambda>_. removeTasks E (set (map Name tasks)))"

section \<open>Which calls each operation makes\<close>

lemma adds_fetch [adds_intros]: "(\<And>k. P (GetTemplate k)) \<Longrightarrow> adds calls P (fetchTemplateRefData E n ns)"
  unfolding fetchTemplateRefData_def by (intro adds_intros) simp

lemma adds_templateExists [adds_intros]: "(\<And>k. P (GetTemplate k)) \<Longrightarrow> adds calls P (templateExists E)"
  unfolding templateExists_def by (intro adds_intros) simp

lemma adds_clusterTemplate [adds_intros]: "(\<And>k. P (GetTemplate k)) \<Longrightarrow> adds calls P (clusterTemplate E)"
  unfolding clusterTemplate_def by (intro adds_intros) simp

lemma adds_templateFromAnnotation [adds_intros]:
  "(\<And>k. P (GetTemplate k)) \<Longrightarrow> adds calls P (templateFromAnnotation E hw)"
  unfolding templateFromAnnotation_def by (intro adds_intros) simp

lemma adds_templateData [adds_intros]: "(\<And>k. P (GetTemplate k)) \<Longrightarrow> adds calls P (templateData E hw)"
  unfolding templateData_def resolveTemplateData_def by (intro adds_intros) simp_all

lemma adds_createTemplate [adds_intros]: "(\<And>t. P (CreateTemplate t)) \<Longrightarrow> adds calls P (createTemplate E data)"
  unfolding createTemplate_def by (intro adds_intros) simp

lemma adds_removeTemplate [adds_intros]:
  "(\<And>k. P (GetTemplate k)) \<Longrightarrow> (\<And>k. P (DeleteTemplate k)) \<Longrightarrow> adds calls P (removeTemplate E)"
  unfolding removeTemplate_def by (intro adds_intros) simp_all

lemma adds_taskConflict [adds_intros]: "(\<And>k. P (GetTask k)) \<Longrightarrow> adds calls P (taskConflict E ts)"
  by (induction ts) (auto intro!: adds_intros)

lemma adds_deleteTask [adds_intros]: "P (DeleteTask (object_key t)) \<Longrightarrow> adds calls P (deleteTask E t)"
  unfolding deleteTask_def by (intro adds_intros)

lemma adds_removeTasks [adds_intros]:
  "(\<And>a b c. P (ListTasks a b c)) \<Longrightarrow> (\<And>k. P (DeleteTask k)) \<Longrightarrow> adds calls P (removeTasks E keep)"
  unfolding removeTasks_def by (intro adds_intros) simp_all

lemma adds_ensureTask [adds_intros]:
  "(\<And>k. P (GetTask k)) \<Longrightarrow> (\<And>t. P (CreateTask t)) \<Longrightarrow> (\<And>t. P (UpdateTask t)) \<Longrightarrow> adds calls P (ensureTask E t)"
  unfolding ensureTask_def by (intro adds_intros) simp_all

lemma adds_ensureTasks [adds_intros]:
  assumes "\<And>k. P (GetTask k)" "\<And>t. P (CreateTask t)" "\<And>t. P (UpdateTask t)"
    "\<And>a b c. P (ListTasks a b c)" "\<And>k. P (DeleteTask k)"
  shows "adds calls P (ensureTasks E ts)"
  unfolding ensureTasks_def by (intro adds_intros) (simp_all add: assms)

section \<open>Removing an object by the machine's name\<close>

text \<open>
  The contract \<open>removeTemplate\<close> and \<open>removeWorkflow\<close> share: one read of the object named after the
  machine, and a delete of what was found unless it is gone.
\<close>

locale object_remover =
  fixes remove :: "unit io" and getc delc :: "nsname \<Rightarrow> call" and found :: "call list \<Rightarrow> apierr + nsname"
    and deleted :: "call list \<Rightarrow> apierr + unit" and gone :: "apierr \<Rightarrow> bool"
  assumes run_remove: "remove s =
    (let s' = add_call (getc (machine_key (tinkerbellMachine s))) s in
     case found (calls s') of
       Inl a \<Rightarrow> (if gone a then Inr () else Inl (Api a), s')
     | Inr k \<Rightarrow> (map_sum Api id (deleted (calls s' @ [delc k])), add_call (delc k) s'))"
begin

lemma issued_remove:
  "issued calls remove s = getc (machine_key (tinkerbellMachine s)) #
     (case found (calls s @ [getc (machine_key (tinkerbellMachine s))]) of Inl _ \<Rightarrow> [] | Inr k \<Rightarrow> [delc k])"
  by (auto simp: issued_def run_remove Let_def split: sum.split)

lemma adds_remove: "(\<And>k. P (getc k)) \<Longrightarrow> (\<And>k. P (delc k)) \<Longrightarrow> adds calls P remove"
  by (auto simp: adds_def run_remove Let_def split: sum.split)

lemma keeps_remove: "(\<And>c s. obs (add_call c s) = obs s) \<Longrightarrow> keeps obs remove"
  by (auto simp: keeps_def run_remove Let_def split: sum.split)

lemma remove_Inr:
  "remove s = (Inr (), s') \<longleftrightarrow>
     (\<exists>a. found (calls s @ [getc (machine_key (tinkerbellMachine s))]) = Inl a \<and> gone a \<and>
        s' = add_call (getc (machine_key (tinkerbellMachine s))) s) \<or>
     (\<exists>k. found (calls s @ [getc (machine_key (tinkerbellMachine s))]) = Inr k \<and>
        deleted (calls s @ [getc (machine_key (tinkerbellMachine s)), delc k]) = Inr () \<and>
        s' = add_call (delc k) (add_call (getc (machine_key (tinkerbellMachine s))) s))"
  by (cases "found (calls s @ [getc (machine_key (tinkerbellMachine s))])") (auto simp: run_remove Let_def)

end

interpretation template_remover: object_remover "removeTemplate E" GetTemplate DeleteTemplate
    "\<lambda>h. map_sum id object_key (ansTemplate E h)" "ansUnit E" "\<lambda>a. a = NotFound \<or> a = NoMatch" for E
proof
  fix s
  let ?s = "add_call (GetTemplate (machine_key (tinkerbellMachine s))) s"
  show "removeTemplate E s = (let s' = ?s in
     case map_sum id object_key (ansTemplate E (calls s')) of
       Inl a \<Rightarrow> (if a = NotFound \<or> a = NoMatch then Inr () else Inl (Api a), s')
     | Inr k \<Rightarrow> (map_sum Api id (ansUnit E (calls s' @ [DeleteTemplate k])), add_call (DeleteTemplate k) s'))"
    by (cases "ansTemplate E (calls ?s)") (simp_all add: removeTemplate_def run_simps Let_def)
qed

section \<open>Lemmas\<close>

lemma run_fetch:
  "fetchTemplateRefData E n ns s =
     (let k = NN (cmp_or ns (tinkerbellNamespace (tinkerbellMachine s))) n in
      (case ansTemplate E (calls s @ [GetTemplate k]) of
         Inl a \<Rightarrow> Inl (if a = NoMatch then ErrTemplatesNotServed else Api a)
       | Inr tpl \<Rightarrow> (case templateSpecData tpl of None \<Rightarrow> Inl ErrTemplateRefNoData | Some d \<Rightarrow> Inr d),
       add_call (GetTemplate k) s))"
  by (auto simp: fetchTemplateRefData_def run_simps Let_def split: sum.split option.split)

text \<open>
  What the template resolution promises: the sources in order of preference, each unset or with
  what it gives, when the Templates the servers hold do not change meanwhile.
\<close>

definition ref_data :: "(nsname \<Rightarrow> apierr + v1_template) \<Rightarrow> nsname \<Rightarrow> goerr + string" where
  "ref_data tpls k =
     (case tpls k of
        Inl a \<Rightarrow> Inl (if a = NoMatch then ErrTemplatesNotServed else Api a)
      | Inr tpl \<Rightarrow> (case templateSpecData tpl of None \<Rightarrow> Inl ErrTemplateRefNoData | Some d \<Rightarrow> Inr d))"

definition unless_empty :: "goerr + string \<Rightarrow> (goerr + string) option" where
  "unless_empty r = (if r = Inr '''' then None else Some r)"

definition template_sources ::
    "(nsname \<Rightarrow> apierr + v1_template) \<Rightarrow> tinkerbell_machine \<Rightarrow> tinkerbell_cluster \<Rightarrow> hardware \<Rightarrow> (goerr + string) option list" where
  "template_sources tpls tm cl hw =
     (let ref = (\<lambda>r. ref_data tpls (NN (cmp_or (refNamespace r) (tinkerbellNamespace tm)) (refName r))) in
      [unless_empty (Inr (TemplateInline (tmSpec tm))),
       map_option ref (TemplateRef (tmSpec tm)),
       (case Annotations hw HardwareTemplateOverrideAnnotation of
          None \<Rightarrow> None
        | Some n \<Rightarrow> unless_empty (ref_data tpls (NN (cmp_or (Namespace hw) (tinkerbellNamespace tm)) n))),
       unless_empty (Inr (ClusterTemplateInline (tcSpec cl))),
       map_option ref (ClusterTemplateRef (tcSpec cl))])"

fun first_set :: "'a option list \<Rightarrow> 'a option" where
  "first_set [] = None"
| "first_set (None # xs) = first_set xs"
| "first_set (Some x # xs) = Some x"

section \<open>Properties\<close>

text \<open>
  Template resolution: the template is what the first source that is set gives, in the order
  inline on the machine, reference of the machine, the Hardware's override annotation (unless its
  Template is empty), inline on the cluster, reference of the cluster; an error of that source is
  the result, and later sources are not consulted. A machine whose Hardware has no disk, or whose
  template is empty, gets an error instead.
\<close>

theorem templateData_refines:
  assumes "\<forall>h k. ansTemplate E (h @ [GetTemplate k]) = tpls k" and "tinkerbellCluster s = Some cl"
  shows "fst (templateData E hw s) =
    (if StorageDevices hw = [] then Inl ErrHardwareMissingDiskConfiguration
     else case first_set (template_sources tpls (tinkerbellMachine s) cl hw) of
        None \<Rightarrow> Inl ErrNoTemplateFound
      | Some (Inl e) \<Rightarrow> Inl e
      | Some (Inr d) \<Rightarrow> if d = '''' then Inl ErrNoTemplateFound else Inr d)"
proof (cases "StorageDevices hw = []")
  case True
  then show ?thesis by (simp add: templateData_def run_simps)
next
  case False
  let ?tm = "tinkerbellMachine s"
  have fetch: "fetchTemplateRefData E n ns t =
      (ref_data tpls (NN (cmp_or ns (tinkerbellNamespace (tinkerbellMachine t))) n),
       add_call (GetTemplate (NN (cmp_or ns (tinkerbellNamespace (tinkerbellMachine t))) n)) t)" for n ns t
    by (simp add: run_fetch assms(1) ref_data_def Let_def)
  have r: "fst (resolveTemplateData E hw s) =
      (case first_set (template_sources tpls ?tm cl hw) of None \<Rightarrow> Inr '''' | Some r \<Rightarrow> r)"
  proof (cases "TemplateInline (tmSpec ?tm) \<noteq> ''''")
    case True
    then show ?thesis by (simp add: resolveTemplateData_def run_simps template_sources_def unless_empty_def Let_def)
  next
    case inline: False
    show ?thesis
    proof (cases "TemplateRef (tmSpec ?tm)")
      case (Some ref)
      with inline show ?thesis
        by (simp add: resolveTemplateData_def run_simps template_sources_def unless_empty_def Let_def fetch)
    next
      case None
      have cl: "fst (clusterTemplate E t) =
          (case first_set [unless_empty (Inr (ClusterTemplateInline (tcSpec cl))),
             map_option (\<lambda>r. ref_data tpls (NN (cmp_or (refNamespace r) (tinkerbellNamespace ?tm)) (refName r)))
               (ClusterTemplateRef (tcSpec cl))] of None \<Rightarrow> Inr '''' | Some r \<Rightarrow> r)"
        if "tinkerbellCluster t = Some cl" "tinkerbellMachine t = ?tm" for t
        using that by (auto simp: clusterTemplate_def run_simps unless_empty_def fetch split: option.split)
      show ?thesis
      proof (cases "Annotations hw HardwareTemplateOverrideAnnotation")
        case None: None
        then show ?thesis
          using inline \<open>TemplateRef (tmSpec ?tm) = None\<close> cl [of s] assms(2)
          by (simp add: resolveTemplateData_def run_simps templateFromAnnotation_def template_sources_def unless_empty_def Let_def)
      next
        case (Some n)
        let ?k = "NN (cmp_or (Namespace hw) (tinkerbellNamespace ?tm)) n"
        show ?thesis
          using inline \<open>TemplateRef (tmSpec ?tm) = None\<close> Some cl [of "add_call (GetTemplate ?k) s"] assms(2)
          by (cases "ref_data tpls ?k")
            (simp_all add: resolveTemplateData_def run_simps templateFromAnnotation_def template_sources_def unless_empty_def Let_def fetch)
      qed
    qed
  qed
  have "fst (templateData E hw s) =
      (case fst (resolveTemplateData E hw s) of Inl e \<Rightarrow> Inl e | Inr d \<Rightarrow> if d = '''' then Inl ErrNoTemplateFound else Inr d)"
    using False by (auto simp: templateData_def run_simps split: prod.split sum.split)
  then show ?thesis unfolding r using False by (auto split: option.split sum.split)
qed

definition example_cluster :: tinkerbell_cluster where
  "example_cluster = objmeta.extend (new_meta ''c'' ''ns'')
     \<lparr>tcSpec = \<lparr>ControlPlaneEndpoint = None, ClusterTemplateInline = ''tpl'', ClusterTemplateRef = None\<rparr>,
      tcStatus = \<lparr>ClusterReady = True, ClusterInitialization = None, ClusterConditions = []\<rparr>\<rparr>"

lemma example_cluster_sel [simp]:
  "tcSpec example_cluster = \<lparr>ControlPlaneEndpoint = None, ClusterTemplateInline = ''tpl'', ClusterTemplateRef = None\<rparr>"
  "tcStatus example_cluster = \<lparr>ClusterReady = True, ClusterInitialization = None, ClusterConditions = []\<rparr>"
  by (simp_all add: example_cluster_def objmeta.defs)

definition disk_hw :: hardware where
  "disk_hw = (example_hw ''a'' Map.empty)\<lparr>StorageDevices := [''/dev/sda'']\<rparr>"

theorem templateData_refines_witness:
  "fst (templateData base_kube disk_hw (example_scope\<lparr>tinkerbellCluster := Some example_cluster\<rparr>)) = Inr ''tpl''"
  by (subst templateData_refines [where tpls = "\<lambda>_. Inl NotFound" and cl = example_cluster])
    (simp_all add: template_sources_def unless_empty_def disk_hw_def Let_def)

lemma run_deleteTask:
  "deleteTask E t s = (Inr (), s') \<Longrightarrow> calls s' = calls s @ [DeleteTask (object_key t)]"
  by (auto simp: deleteTask_def run_simps split: sum.splits if_splits)

lemma forE_deleteTask:
  "forE (\<lambda>t. if Name t \<in> keep then returnE () else deleteTask E t) items s = (Inr (), s') \<Longrightarrow>
   calls s' = calls s @ map (\<lambda>t. DeleteTask (object_key t)) (filter (\<lambda>t. Name t \<notin> keep) items)"
  by (induction items arbitrary: s) (auto simp: inv_simps dest: run_deleteTask split: if_splits)

text \<open>
  \<open>removeTasks\<close> deletes what it should and nothing else: after one list of the machine's Tasks it
  deletes, in the order listed, each Task that is not to be kept; when it succeeds all of them
  have been deleted or were gone.
\<close>

theorem removeTasks_exact:
  assumes "removeTasks E keep s = (Inr (), s')"
  shows "\<exists>items. let tm = tinkerbellMachine s; l = ListTasks (tinkerbellNamespace tm) (Name tm) (Namespace tm) in
    ansTaskList E (calls s @ [l]) = Inr items \<and>
    calls s' = calls s @ l # map (\<lambda>t. DeleteTask (object_key t)) (filter (\<lambda>t. Name t \<notin> keep) items)"
proof -
  let ?tm = "tinkerbellMachine s"
  let ?l = "ListTasks (tinkerbellNamespace ?tm) (Name ?tm) (Namespace ?tm)"
  from assms obtain items where "ansTaskList E (calls s @ [?l]) = Inr items"
    "forE (\<lambda>t. if Name t \<in> keep then returnE () else deleteTask E t) items (add_call ?l s) = (Inr (), s')"
    by (auto simp: removeTasks_def inv_simps)
  with forE_deleteTask [OF this(2)] show ?thesis by auto
qed

definition example_task :: "string \<Rightarrow> task" where
  "example_task n = objmeta.extend (new_meta n ''ns'') \<lparr>taskSpec = ''spec''\<rparr>"

theorem removeTasks_exact_witness:
  "\<exists>s'. removeTasks (base_kube\<lparr>ansTaskList := \<lambda>_. Inr [example_task ''a'', example_task ''b'']\<rparr>) {''a''} example_scope = (Inr (), s') \<and>
     calls s' = [ListTasks '''' ''m1'' ''ns'', DeleteTask (NN ''ns'' ''b'')]"
proof -
  let ?E = "base_kube\<lparr>ansTaskList := \<lambda>_. Inr [example_task ''a'', example_task ''b'']\<rparr>"
  have n: "Name (example_task n) = n" "object_key (example_task n) = NN ''ns'' n" for n
    by (simp_all add: example_task_def new_meta_def objmeta.defs object_key_def)
  obtain s' where r: "removeTasks ?E {''a''} example_scope = (Inr (), s')"
    by (simp add: removeTasks_def deleteTask_def run_simps n)
  from removeTasks_exact [OF r] have "calls s' = [ListTasks '''' ''m1'' ''ns'', DeleteTask (NN ''ns'' ''b'')]"
    by (auto simp: n tinkerbellNamespace_def Let_def)
  with r show ?thesis by blast
qed

end
