(* ===== verification/WorkflowOps.thy ===== *)
theory WorkflowOps
  imports Templates
begin

text \<open>
  \<open>controller/machine/workflow.go\<close>: the Workflow that installs a machine. It is built in the v1alpha1
  form and converted; when the machine's template converts to Tasks the Workflow is rewritten to
  run those natively, otherwise it runs the v1alpha1 Template in compatibility mode. With it
  \<open>ensureWorkflow\<close> of \<open>scope.go\<close>.
\<close>

section \<open>Building the Workflow\<close>

definition workflowTemplateData :: "hardware \<Rightarrow> (string \<rightharpoonup> string)" where
  "workflowTemplateData hw = [''device_1'' \<mapsto> hardwareLookupID hw]"

text \<open>The ISO URL with the machine's lookup ID as the last directory of its path.\<close>

definition iso_url :: "('e) env_scheme \<Rightarrow> hardware \<Rightarrow> go_url \<Rightarrow> string" where
  "iso_url E hw u =
     (let (dir, file) = path_split (urlPath u) in
      urlString E (u\<lparr>urlPath := path_join [dir, replace_char_n (hardwareLookupID hw) (CHR '':'') (CHR ''-'') 5, file]\<rparr>))"

definition workflow_boot_options ::
    "('e) env_scheme \<Rightarrow> boot_options \<Rightarrow> hardware \<Rightarrow> v1_boot_options \<Rightarrow> goerr + v1_boot_options" where
  "workflow_boot_options E opts hw b =
     (case BootMode opts of
        BootModeNetboot \<Rightarrow> Inr (b\<lparr>v1BootMode := BootModeNetboot\<rparr>)
      | BootModeCustomboot \<Rightarrow>
          Inr (b\<lparr>v1CustombootConfig := CustombootConfig opts, v1BootMode := BootModeCustomboot\<rparr>)
      | BootModeUnset \<Rightarrow> Inr b
      | BootModeOther _ \<Rightarrow> Inr b
      | mode \<Rightarrow>
          if ISOURL opts = '''' then Inl ErrISOBootURLRequired
          else (case urlParse E (ISOURL opts) of
              Inl e \<Rightarrow> Inl (ErrURLParse e)
            | Inr u \<Rightarrow> Inr (b\<lparr>v1ISOURL := iso_url E hw u, v1BootMode := mode\<rparr>)))"

definition v1alpha1Workflow :: "('e) kube_scheme \<Rightarrow> hardware \<Rightarrow> v1_workflow io" where
  "v1alpha1Workflow E hw =
     bindE (getsE tinkerbellMachine) (\<lambda>tm.
     let workflow = objmeta.extend (new_meta (Name tm) (tinkerbellNamespace tm))
           \<lparr>v1TemplateRef = Name tm, v1HardwareRef = Name hw, v1HardwareMap = workflowTemplateData hw,
            v1BootOptions = \<lparr>ToggleAllowNetboot = True, v1BootMode = BootModeUnset, v1ISOURL = '''',
              v1CustombootConfig = ''''\<rparr>\<rparr>
     in bindE (owned E workflow) (\<lambda>flow.
        if hasBMC E (Some hw) then
          bindE (liftE (workflow_boot_options E (BootOptions (tmSpec tm)) hw (v1BootOptions flow))) (\<lambda>b.
          returnE (flow\<lparr>v1BootOptions := b\<rparr>))
        else returnE flow))"

definition newWorkflow :: "('e) kube_scheme \<Rightarrow> hardware \<Rightarrow> workflow io" where
  "newWorkflow E hw =
     bindE (v1alpha1Workflow E hw) (\<lambda>v1wf.
     case workflowToV1Alpha2 E v1wf of
       Inl e \<Rightarrow> throwE (ErrConversion e)
     | Inr flow \<Rightarrow> returnE (flow\<lparr>Annotations := (Annotations flow)(AnnotationV1Alpha1 E := None), wfState := StateNone\<rparr>))"

section \<open>Native or compatibility mode\<close>

definition templatedBootOptions :: "('e) env_scheme \<Rightarrow> workflow \<Rightarrow> bool" where
  "templatedBootOptions E flow =
     list_ex (\<lambda>t. case taskBootOptions t of
         None \<Rightarrow> False
       | Some b \<Rightarrow> (case bootOptionsJSON E b of Inl _ \<Rightarrow> True | Inr json \<Rightarrow> contains json ''{{''))
       (wfTasks flow)"

fun owned_tasks :: "('e) env_scheme \<Rightarrow> task list \<Rightarrow> task list io" where
  "owned_tasks E [] = returnE []"
| "owned_tasks E (t # ts) =
     bindE (owned E t) (\<lambda>t'. bindE (owned_tasks E ts) (\<lambda>ts'. returnE (t' # ts')))"

text \<open>Either the reason why the Workflow cannot run natively, or the rewritten Workflow and its Tasks.\<close>

text \<open>
  Why a conversion was refused; and the functions a template is parsed with: those of Sprig that are hermetic, and
  stand-ins for Tinkerbell's own, which return an error when they are called.
\<close>

fun notConvertibleReason :: "conversion_error \<Rightarrow> string" where
  "notConvertibleReason (NotConvertible reason) = reason"
| "notConvertibleReason (ConversionError msg) = msg"

definition templateFuncs :: "('e) env_scheme \<Rightarrow> (string \<rightharpoonup> template_func)" where
  "templateFuncs E =
     fold (\<lambda>name funcs. funcs(name \<mapsto> NotRendered)) [''formatPartition'', ''netmaskToPrefixLength'', ''toYaml'', ''fromYaml'']
       (sprigFuncs E)"

definition nativeWorkflow :: "('e) kube_scheme \<Rightarrow> workflow \<Rightarrow> string \<Rightarrow> (string + workflow \<times> task list) io" where
  "nativeWorkflow E flow data =
     (case convertTemplate E (templateFuncs E) data of
        Inl r \<Rightarrow> returnE (Inl (''the template does not convert to v1alpha2 Tasks: '' @ notConvertibleReason r))
      | Inr conv \<Rightarrow>
          if templatedBootOptions E flow
          then returnE (Inl ''its boot options are templated, with v1alpha1 Hardware data'')
          else bindE (getsE tinkerbellMachine) (\<lambda>tm.
            let tpl = templateObject tm '''' in
            case rewriteWorkflowToTasks E flow tpl conv of
              Inl r \<Rightarrow> returnE (Inl (''the Workflow cannot run the template's Tasks: '' @ notConvertibleReason r))
            | Inr native \<Rightarrow>
                bindE (owned_tasks E (templateTasks E tpl conv)) (\<lambda>tasks.
                bindE (taskConflict E tasks) (\<lambda>conflict.
                returnE (case conflict of
                    Some key \<Rightarrow> Inl (''Task '' @ nsNamespace key @ ''/'' @ nsName key @
                      '' already exists and does not belong to this machine'')
                  | None \<Rightarrow> Inr (native, tasks))))))"

definition createCompatibilityWorkflow :: "('e) kube_scheme \<Rightarrow> workflow \<Rightarrow> string \<Rightarrow> string \<Rightarrow> unit io" where
  "createCompatibilityWorkflow E flow data reason =
     bindE (api (\<lambda>_. Inr ()) (RecordEvent reason)) (\<lambda>_.
     bindE (if data \<noteq> '''' then createTemplate E data else returnE ()) (\<lambda>_.
     bindE (removeTasks E {}) (\<lambda>_.
     bindE (api (ansWorkflow E) (CreateWorkflow (flow\<lparr>Annotations := (Annotations flow)(AnnotationCompatibilityMode \<mapsto> reason)\<rparr>))) (\<lambda>_.
     returnE ()))))"

definition createNativeWorkflow :: "('e) kube_scheme \<Rightarrow> workflow \<Rightarrow> task list \<Rightarrow> unit io" where
  "createNativeWorkflow E native tasks =
     bindE (ensureTasks E tasks) (\<lambda>_.
     bindE (api (ansWorkflow E) (CreateWorkflow native)) (\<lambda>_. returnE ()))"

definition createWorkflow :: "('e) kube_scheme \<Rightarrow> hardware \<Rightarrow> unit io" where
  "createWorkflow E hw =
     bindE (newWorkflow E hw) (\<lambda>flow.
     bindE (templateExists E) (\<lambda>exists.
     if exists then createCompatibilityWorkflow E flow '''' ''the machine's Template already exists''
     else bindE (templateData E hw) (\<lambda>data.
       bindE (nativeWorkflow E flow data) (\<lambda>r.
       case r of
         Inl reason \<Rightarrow> createCompatibilityWorkflow E flow data reason
       | Inr (native, tasks) \<Rightarrow> createNativeWorkflow E native tasks))))"

definition getWorkflow :: "('e) kube_scheme \<Rightarrow> workflow io" where
  "getWorkflow E =
     bindE (getsE tinkerbellMachine) (\<lambda>tm. api (ansWorkflow E) (GetWorkflow (machine_key tm)))"

definition removeWorkflow :: "('e) kube_scheme \<Rightarrow> unit io" where
  "removeWorkflow E =
     bindE (getsE tinkerbellMachine) (\<lambda>tm.
     bindE (tryE (api (ansWorkflow E) (GetWorkflow (machine_key tm)))) (\<lambda>r.
     case r of
       Inl e \<Rightarrow> if isNotFound e then returnE () else throwE e
     | Inr flow \<Rightarrow> api (ansUnit E) (DeleteWorkflow (object_key flow))))"

text \<open>\<open>ensureWorkflow\<close>: a Workflow just created asks for a requeue.\<close>

definition ensureWorkflow :: "('e) kube_scheme \<Rightarrow> hardware \<Rightarrow> workflow io" where
  "ensureWorkflow E hw =
     bindE (tryE (getWorkflow E)) (\<lambda>r.
     case r of
       Inr flow \<Rightarrow> returnE flow
     | Inl e \<Rightarrow>
         if isNotFound e then bindE (createWorkflow E hw) (\<lambda>_. throwE ErrRequeueRequested)
         else throwE e)"

interpretation workflow_remover: object_remover "removeWorkflow E" GetWorkflow DeleteWorkflow
    "\<lambda>h. map_sum id object_key (ansWorkflow E h)" "ansUnit E" "\<lambda>a. a = NotFound" for E
proof
  fix s
  let ?s = "add_call (GetWorkflow (machine_key (tinkerbellMachine s))) s"
  show "removeWorkflow E s = (let s' = ?s in
     case map_sum id object_key (ansWorkflow E (calls s')) of
       Inl a \<Rightarrow> (if a = NotFound then Inr () else Inl (Api a), s')
     | Inr k \<Rightarrow> (map_sum Api id (ansUnit E (calls s' @ [DeleteWorkflow k])), add_call (DeleteWorkflow k) s'))"
    by (cases "ansWorkflow E (calls ?s)") (simp_all add: removeWorkflow_def run_simps Let_def)
qed

section \<open>Which calls each operation makes\<close>

lemma adds_v1alpha1Workflow [adds_intros]: "adds calls P (v1alpha1Workflow E hw)"
  unfolding v1alpha1Workflow_def by (intro adds_intros)

lemma adds_newWorkflow [adds_intros]: "adds calls P (newWorkflow E hw)"
  unfolding newWorkflow_def by (intro adds_intros)

lemma adds_owned_tasks [adds_intros]: "adds calls P (owned_tasks E ts)"
  by (induction ts) (auto intro!: adds_intros)

lemma adds_nativeWorkflow [adds_intros]: "(\<And>k. P (GetTask k)) \<Longrightarrow> adds calls P (nativeWorkflow E flow data)"
  unfolding nativeWorkflow_def by (intro adds_intros) simp

lemma adds_createCompatibilityWorkflow [adds_intros]:
  assumes "\<And>r. P (RecordEvent r)" "\<And>t. P (CreateTemplate t)" "\<And>a b c. P (ListTasks a b c)"
    "\<And>k. P (DeleteTask k)" "\<And>w. P (CreateWorkflow w)"
  shows "adds calls P (createCompatibilityWorkflow E flow data reason)"
  unfolding createCompatibilityWorkflow_def by (intro adds_intros) (simp_all add: assms)

lemma adds_createNativeWorkflow [adds_intros]:
  assumes "\<And>k. P (GetTask k)" "\<And>t. P (CreateTask t)" "\<And>t. P (UpdateTask t)" "\<And>a b c. P (ListTasks a b c)"
    "\<And>k. P (DeleteTask k)" "\<And>w. P (CreateWorkflow w)"
  shows "adds calls P (createNativeWorkflow E native tasks)"
  unfolding createNativeWorkflow_def by (intro adds_intros) (simp_all add: assms)

lemma adds_createWorkflow [adds_intros]:
  assumes "\<And>r. P (RecordEvent r)" "\<And>k. P (GetTemplate k)" "\<And>t. P (CreateTemplate t)"
    "\<And>k. P (GetTask k)" "\<And>t. P (CreateTask t)" "\<And>t. P (UpdateTask t)" "\<And>a b c. P (ListTasks a b c)"
    "\<And>k. P (DeleteTask k)" "\<And>w. P (CreateWorkflow w)"
  shows "adds calls P (createWorkflow E hw)"
  unfolding createWorkflow_def by (intro adds_intros) (simp_all add: assms)

lemma adds_getWorkflow [adds_intros]: "(\<And>k. P (GetWorkflow k)) \<Longrightarrow> adds calls P (getWorkflow E)"
  unfolding getWorkflow_def by (intro adds_intros) simp

lemma adds_ensureWorkflow [adds_intros]:
  assumes "\<And>r. P (RecordEvent r)" "\<And>k. P (GetTemplate k)" "\<And>t. P (CreateTemplate t)"
    "\<And>k. P (GetTask k)" "\<And>t. P (CreateTask t)" "\<And>t. P (UpdateTask t)" "\<And>a b c. P (ListTasks a b c)"
    "\<And>k. P (DeleteTask k)" "\<And>w. P (CreateWorkflow w)" "\<And>k. P (GetWorkflow k)"
  shows "adds calls P (ensureWorkflow E hw)"
  unfolding ensureWorkflow_def by (intro adds_intros) (simp_all add: assms)

section \<open>Paths\<close>

text \<open>An element of a path that cleaning keeps as it is.\<close>

definition plain :: "string \<Rightarrow> bool" where
  "plain x \<longleftrightarrow> x \<noteq> '''' \<and> x \<noteq> ''.'' \<and> x \<noteq> ''..'' \<and> CHR ''/'' \<notin> set x"

lemma split_slash_nonempty [simp]: "split_slash a \<noteq> []"
  by (induction a) (auto split: list.splits)

lemma split_slash_append: "split_slash (a @ CHR ''/'' # b) = split_slash a @ split_slash b"
  by (induction a) (auto split: list.split)

lemma split_slash_plain: "CHR ''/'' \<notin> set x \<Longrightarrow> split_slash x = [x]"
  by (induction x) auto

lemma split_join: "\<forall>x\<in>set xs. CHR ''/'' \<notin> set x \<Longrightarrow> xs \<noteq> [] \<Longrightarrow> split_slash (join_slash xs) = xs"
  by (induction xs rule: join_slash.induct) (auto simp: split_slash_plain split_slash_append)

lemma clean_segs_plain:
  "\<forall>x\<in>set xs. x = '''' \<or> plain x \<Longrightarrow> clean_segs rooted out xs = rev out @ filter (\<lambda>x. x \<noteq> '''') xs"
  by (induction xs arbitrary: out) (auto simp: plain_def)

lemma join_slash_snoc: "xs \<noteq> [] \<Longrightarrow> join_slash (xs @ [y]) = join_slash xs @ CHR ''/'' # y"
  by (induction xs rule: join_slash.induct) auto

lemma path_split_snoc:
  "CHR ''/'' \<notin> set file \<Longrightarrow> path_split (d @ CHR ''/'' # file) = (d @ ''/'', file)"
proof -
  assume "CHR ''/'' \<notin> set file"
  then have "takeWhile (\<lambda>c. c \<noteq> CHR ''/'') (rev (d @ CHR ''/'' # file)) = rev file"
    by (subst rev_append) (simp add: takeWhile_append takeWhile_eq_all_conv [THEN iffD2])
  then show ?thesis unfolding path_split_def Let_def by simp
qed

lemma rooted_snoc:
  "CHR ''/'' # join_slash (segs @ [file]) = (if segs = [] then '''' else CHR ''/'' # join_slash segs) @ CHR ''/'' # file"
  by (cases "segs = []") (simp_all add: join_slash_snoc)

lemma iso_path:
  assumes "\<forall>x\<in>set segs. plain x" "plain file" "plain idd"
  shows "path_join [fst (path_split (CHR ''/'' # join_slash (segs @ [file]))), idd,
      snd (path_split (CHR ''/'' # join_slash (segs @ [file])))] = CHR ''/'' # join_slash (segs @ [idd, file])"
proof -
  define d where "d = (if segs = [] then '''' else CHR ''/'' # join_slash segs)"
  have ns: "CHR ''/'' \<notin> set file" using assms(2) by (simp add: plain_def)
  have ps: "path_split (CHR ''/'' # join_slash (segs @ [file])) = (d @ ''/'', file)"
    unfolding rooted_snoc d_def [symmetric] by (rule path_split_snoc [OF ns])
  have ne: "filter (\<lambda>e. e \<noteq> '''') [d @ ''/'', idd, file] = [d @ ''/'', idd, file]"
    using assms by (simp add: plain_def)
  have sd: "split_slash (d @ ''/'') = '''' # (if segs = [] then [''''] else segs @ [''''])"
    using assms(1) split_slash_append [of d "''''"] split_slash_append [of "''''" "join_slash segs"] split_join [of segs]
    by (auto simp: d_def plain_def)
  have "split_slash ((d @ ''/'') @ CHR ''/'' # idd @ CHR ''/'' # file) = split_slash (d @ ''/'') @ [idd, file]"
    using assms(2,3) by (simp only: split_slash_append) (simp add: split_slash_plain plain_def)
  then have sp: "split_slash (join_slash [d @ ''/'', idd, file]) =
      '''' # (if segs = [] then [''''] else segs @ ['''']) @ [idd, file]"
    unfolding sd by simp
  have "has_prefix ''/'' (join_slash [d @ ''/'', idd, file])" by (simp add: d_def)
  moreover have "clean_segs True [] (split_slash (join_slash [d @ ''/'', idd, file])) = segs @ [idd, file]"
    unfolding sp using assms by (subst clean_segs_plain) (auto simp: plain_def)
  ultimately show ?thesis
    unfolding ps fst_conv snd_conv path_join_def ne by (simp add: path_clean_def Let_def)
qed

section \<open>A call that is made at most once, and last\<close>

definition only_last :: "('c \<Rightarrow> bool) \<Rightarrow> ('s \<Rightarrow> 'c list) \<Rightarrow> ('s, 'e, 'a) em \<Rightarrow> bool" where
  "only_last P log m \<longleftrightarrow> logs log m \<and> (\<forall>s. \<forall>c\<in>set (butlast (issued log m s)). \<not> P c)"

named_theorems only_last_intros \<open>a call made at most once, and last\<close>

lemma only_last_adds: "adds log (\<lambda>c. \<not> P c) m \<Longrightarrow> only_last P log m"
  unfolding only_last_def by (metis adds_logs addsD in_set_butlastD)

lemma only_last_bindE [only_last_intros]:
  assumes "adds log (\<lambda>c. \<not> P c) m" and "\<And>x. only_last P log (f x)"
  shows "only_last P log (bindE m f)"
  unfolding only_last_def
proof (intro conjI allI ballI)
  have l: "logs log m" "\<And>x. logs log (f x)" using assms by (auto simp: only_last_def intro: adds_logs)
  show "logs log (bindE m f)" by (rule adds_bindE [OF l])
  fix s c
  assume "c \<in> set (butlast (issued log (bindE m f) s))"
  then consider "c \<in> set (issued log m s)" | x s' where "c \<in> set (butlast (issued log (f x) s'))"
    unfolding issued_bindE [OF l] by (auto simp: butlast_append split: prod.splits sum.splits if_splits dest: in_set_butlastD)
  then show "\<not> P c" using addsD [OF assms(1)] assms(2) unfolding only_last_def by cases blast+
qed

lemma only_last_api [only_last_intros]: "only_last P calls (api f c)"
  unfolding only_last_def issued_api by (auto intro: adds_intros)

lemma only_last_silent [only_last_intros]:
  assumes "only_last P log m" and "\<And>x s. log (snd (f x s)) = log s"
  shows "only_last P log (bindE m f)"
proof -
  have l: "logs log m" "\<And>x. logs log (f x)" using assms by (auto simp: only_last_def adds_def)
  have "issued log (bindE m f) s = issued log m s" for s
    unfolding issued_bindE [OF l] by (simp add: issued_empty assms(2) split: prod.split sum.split)
  with assms(1) adds_bindE [OF l] show ?thesis unfolding only_last_def by simp
qed

lemma only_last_if [only_last_intros]:
  "(b \<Longrightarrow> only_last P log m) \<Longrightarrow> (\<not> b \<Longrightarrow> only_last P log n) \<Longrightarrow> only_last P log (if b then m else n)"
  by simp

lemma only_last_case_sum [only_last_intros]:
  "(\<And>e. x = Inl e \<Longrightarrow> only_last P log (g e)) \<Longrightarrow> (\<And>y. x = Inr y \<Longrightarrow> only_last P log (f y)) \<Longrightarrow>
   only_last P log (case x of Inl e \<Rightarrow> g e | Inr y \<Rightarrow> f y)"
  by (cases x) simp_all

lemma only_last_case_prod [only_last_intros]:
  "(\<And>a b. x = (a, b) \<Longrightarrow> only_last P log (f a b)) \<Longrightarrow> only_last P log (case x of (a, b) \<Rightarrow> f a b)"
  by (cases x) simp_all

definition is_create_workflow :: "call \<Rightarrow> bool" where
  "is_create_workflow c = (case c of CreateWorkflow _ \<Rightarrow> True | _ \<Rightarrow> False)"

lemma is_create_workflow_simps [simp]:
  "is_create_workflow (CreateWorkflow w)" "\<not> is_create_workflow (RecordEvent r)"
  "\<not> is_create_workflow (CreateTemplate t)" "\<not> is_create_workflow (ListTasks a b c)"
  "\<not> is_create_workflow (DeleteTask k)" "\<not> is_create_workflow (GetTask k)" "\<not> is_create_workflow (CreateTask t')"
  "\<not> is_create_workflow (UpdateTask t')" "\<not> is_create_workflow (GetTemplate k)" "\<not> is_create_workflow (GetWorkflow k)"
  by (simp_all add: is_create_workflow_def)

lemma only_last_compat [only_last_intros]:
  "only_last is_create_workflow calls (createCompatibilityWorkflow E flow data reason)"
  unfolding createCompatibilityWorkflow_def
  by (rule only_last_bindE, (intro adds_intros; simp; fail)[1])+ (rule only_last_silent [OF only_last_api], simp add: run_simps)

lemma only_last_native [only_last_intros]:
  "only_last is_create_workflow calls (createNativeWorkflow E native tasks)"
  unfolding createNativeWorkflow_def
  by (rule only_last_bindE, (intro adds_intros; simp; fail)[1])+ (rule only_last_silent [OF only_last_api], simp add: run_simps)

lemma only_last_createWorkflow: "only_last is_create_workflow calls (createWorkflow E hw)"
  unfolding createWorkflow_def
  by (intro only_last_if only_last_case_sum only_last_case_prod only_last_compat only_last_native
      only_last_bindE [where m = "newWorkflow E hw"] only_last_bindE [where m = "templateExists E"]
      only_last_bindE [where m = "templateData E hw"] only_last_bindE [where m = "nativeWorkflow E w d" for w d];
      (intro adds_intros)?; simp?)

text \<open>Writing a Task, and what only compatibility mode does.\<close>

definition writes_task :: "call \<Rightarrow> bool" where
  "writes_task c = (case c of CreateTask _ \<Rightarrow> True | UpdateTask _ \<Rightarrow> True | _ \<Rightarrow> False)"

definition compat_call :: "call \<Rightarrow> bool" where
  "compat_call c = (case c of CreateTemplate _ \<Rightarrow> True | RecordEvent _ \<Rightarrow> True | _ \<Rightarrow> False)"

lemma call_kinds [simp]:
  "\<not> writes_task (CreateTemplate a)" "\<not> writes_task (ListTasks x y z)" "\<not> writes_task (DeleteTask k)"
  "\<not> writes_task (RecordEvent r)" "\<not> writes_task (GetTemplate k)" "\<not> writes_task (GetTask k)"
  "\<not> compat_call (ListTasks x y z)" "\<not> compat_call (DeleteTask k)" "\<not> compat_call (GetTask k)"
  "\<not> compat_call (CreateTask t)" "\<not> compat_call (UpdateTask t)" "\<not> compat_call (GetTemplate k)"
  by (simp_all add: writes_task_def compat_call_def)

lemma compat_Inr:
  assumes "createCompatibilityWorkflow E flow data reason s = (Inr (), s')"
  shows "\<exists>w pre. calls s' = calls s @ RecordEvent reason # pre @ [CreateWorkflow w] \<and>
    Annotations w AnnotationCompatibilityMode = Some reason \<and> (\<forall>c\<in>set pre. \<not> writes_task c)"
proof -
  let ?w = "flow\<lparr>Annotations := (Annotations flow)(AnnotationCompatibilityMode \<mapsto> reason)\<rparr>"
  let ?P = "\<lambda>c. \<not> writes_task c"
  let ?s0 = "add_call (RecordEvent reason) s"
  let ?tpl = "if data \<noteq> [] then createTemplate E data else returnE ()"
  from assms obtain s1 s2 where a: "?tpl ?s0 = (Inr (), s1)" "removeTasks E {} s1 = (Inr (), s2)"
    "s' = add_call (CreateWorkflow ?w) s2"
    by (auto simp: createCompatibilityWorkflow_def inv_simps simp del: if_split)
  have 1: "adds calls ?P ?tpl" by (intro adds_intros) auto
  have 2: "adds calls ?P (removeTasks E {})" by (intro adds_intros) auto
  have "calls s' = calls s @ RecordEvent reason # (issued calls ?tpl ?s0 @ issued calls (removeTasks E {}) s1) @ [CreateWorkflow ?w]"
    using log_runD [OF adds_logs [OF 1] a(1)] log_runD [OF adds_logs [OF 2] a(2)] a(3) by simp
  moreover have "\<forall>c\<in>set (issued calls ?tpl ?s0 @ issued calls (removeTasks E {}) s1). ?P c"
    using addsD [OF 1] addsD [OF 2] by (metis Un_iff set_append)
  ultimately show ?thesis by (intro exI [of _ ?w] exI conjI) auto
qed

lemma native_Inr:
  assumes "createNativeWorkflow E native tasks s = (Inr (), s')"
  shows "\<exists>pre. calls s' = calls s @ pre @ [CreateWorkflow native] \<and> (\<forall>c\<in>set pre. \<not> compat_call c)"
proof -
  from assms obtain s1 where a: "ensureTasks E tasks s = (Inr (), s1)" "s' = add_call (CreateWorkflow native) s1"
    by (auto simp: createNativeWorkflow_def inv_simps)
  have 1: "adds calls (\<lambda>c. \<not> compat_call c) (ensureTasks E tasks)" by (intro adds_intros) auto
  show ?thesis using log_runD [OF adds_logs [OF 1] a(1)] a(2) addsD [OF 1] by auto
qed

lemma nativeWorkflow_Inr:
  "nativeWorkflow E flow data s = (Inr (Inr (native, tasks)), s') \<Longrightarrow>
   \<exists>conv. convertTemplate E (templateFuncs E) data = Inr conv \<and> \<not> templatedBootOptions E flow \<and>
      rewriteWorkflowToTasks E flow (templateObject (tinkerbellMachine s) '''') conv = Inr native"
  by (auto simp: nativeWorkflow_def inv_simps Let_def split: sum.splits if_splits option.splits)

lemma keeps_newWorkflow [keeps_intros]: "keeps obs (newWorkflow E hw)"
  unfolding newWorkflow_def v1alpha1Workflow_def by (intro keeps_intros)

lemma createWorkflow_Inr:
  assumes "createWorkflow E hw s = (Inr (), s')"
  shows "\<exists>pre w. calls s' = calls s @ pre @ [CreateWorkflow w] \<and>
    ((\<exists>reason. Annotations w AnnotationCompatibilityMode = Some reason \<and> RecordEvent reason \<in> set pre \<and>
        (\<forall>c\<in>set pre. \<not> writes_task c)) \<or>
     (\<exists>flow tm conv data. convertTemplate E (templateFuncs E) data = Inr conv \<and> \<not> templatedBootOptions E flow \<and>
        rewriteWorkflowToTasks E flow (templateObject tm '''') conv = Inr w \<and>
        (\<forall>c\<in>set pre. \<not> compat_call c)))"
proof -
  define NW where "NW = (\<lambda>c. \<not> writes_task c \<and> \<not> compat_call c)"
  obtain flow s1 ex s2 where a: "newWorkflow E hw s = (Inr flow, s1)" "templateExists E s1 = (Inr ex, s2)"
    and r: "(if ex then createCompatibilityWorkflow E flow '''' ''the machine's Template already exists''
     else bindE (templateData E hw) (\<lambda>data.
       bindE (nativeWorkflow E flow data) (\<lambda>r.
       case r of Inl reason \<Rightarrow> createCompatibilityWorkflow E flow data reason
       | Inr (native, tasks) \<Rightarrow> createNativeWorkflow E native tasks))) s2 = (Inr (), s')"
    using assms unfolding createWorkflow_def bindE_Inr by blast
  have n1: "adds calls NW (newWorkflow E hw)" "adds calls NW (templateExists E)"
    by (intro adds_intros; simp add: NW_def)+
  have "calls s2 = calls s @ issued calls (newWorkflow E hw) s @ issued calls (templateExists E) s1"
    using log_runD [OF adds_logs [OF n1(1)] a(1)] log_runD [OF adds_logs [OF n1(2)] a(2)] by simp
  then obtain p1 where p1: "calls s2 = calls s @ p1" "\<forall>c\<in>set p1. NW c"
    using addsD [OF n1(1)] addsD [OF n1(2)] by (metis Un_iff set_append)
  show ?thesis
  proof (cases ex)
    case True
    with r compat_Inr obtain w pre where
      c: "calls s' = calls s2 @ RecordEvent ''the machine's Template already exists'' # pre @ [CreateWorkflow w]"
      "Annotations w AnnotationCompatibilityMode = Some ''the machine's Template already exists''"
      "\<forall>c\<in>set pre. \<not> writes_task c"
      by fastforce
    show ?thesis
      by (rule exI [of _ "p1 @ RecordEvent ''the machine's Template already exists'' # pre"], rule exI [of _ w])
        (use c p1 in \<open>auto simp: NW_def\<close>)
  next
    case False
    with r obtain data s3 nat s4 where b: "templateData E hw s2 = (Inr data, s3)" "nativeWorkflow E flow data s3 = (Inr nat, s4)"
      and r': "(case nat of Inl reason \<Rightarrow> createCompatibilityWorkflow E flow data reason
       | Inr (native, tasks) \<Rightarrow> createNativeWorkflow E native tasks) s4 = (Inr (), s')"
      by (auto simp: bindE_Inr)
    have n2: "adds calls NW (templateData E hw)" "adds calls NW (nativeWorkflow E flow data)"
      by (intro adds_intros; simp add: NW_def)+
    have "calls s4 = calls s2 @ issued calls (templateData E hw) s2 @ issued calls (nativeWorkflow E flow data) s3"
      using log_runD [OF adds_logs [OF n2(1)] b(1)] log_runD [OF adds_logs [OF n2(2)] b(2)] by simp
    then obtain p2 where p2: "calls s4 = calls s2 @ p2" "\<forall>c\<in>set p2. NW c"
      using addsD [OF n2(1)] addsD [OF n2(2)] by (metis Un_iff set_append)
    show ?thesis
    proof (cases nat)
      case (Inl reason)
      with r' compat_Inr [of E flow data reason s4 s'] obtain w pre where
        c: "calls s' = calls s4 @ RecordEvent reason # pre @ [CreateWorkflow w]"
        "Annotations w AnnotationCompatibilityMode = Some reason"
        "\<forall>c\<in>set pre. \<not> writes_task c"
        by fastforce
      show ?thesis
        by (rule exI [of _ "p1 @ p2 @ RecordEvent reason # pre"], rule exI [of _ w])
          (use c p1 p2 in \<open>auto simp: NW_def\<close>)
    next
      case (Inr p)
      then obtain native tasks where p: "nat = Inr (native, tasks)" by (cases p) auto
      with r' native_Inr [of E native tasks s4 s'] obtain pre where
        c: "calls s' = calls s4 @ pre @ [CreateWorkflow native]"
        "\<forall>c\<in>set pre. \<not> compat_call c"
        by fastforce
      from nativeWorkflow_Inr b(2) p obtain conv where "convertTemplate E (templateFuncs E) data = Inr conv" "\<not> templatedBootOptions E flow"
        "rewriteWorkflowToTasks E flow (templateObject (tinkerbellMachine s3) '''') conv = Inr native" by blast
      then have n: "\<exists>flow tm conv data. convertTemplate E (templateFuncs E) data = Inr conv \<and> \<not> templatedBootOptions E flow \<and>
        rewriteWorkflowToTasks E flow (templateObject tm '''') conv = Inr native" by blast
      have "\<forall>c\<in>set (p1 @ p2 @ pre). \<not> compat_call c"
        using c(2) p1(2) p2(2) by (auto simp: NW_def)
      then show ?thesis
        using c(1) p1(1) p2(1) n by (intro exI [of _ "p1 @ p2 @ pre"] exI [of _ native]) simp
    qed
  qed
qed

text \<open>What the Tasks and the Template of a machine carry when they are created: its ownership.\<close>

definition created_owned :: "tinkerbell_machine \<Rightarrow> call \<Rightarrow> bool" where
  "created_owned tm c =
     (case c of CreateTemplate t \<Rightarrow> ownsResource tm t | CreateTask t \<Rightarrow> ownsResource tm t | _ \<Rightarrow> True)"

lemma keeps_simple [keeps_intros]:
  assumes "\<And>c s. obs (add_call c s) = obs s"
  shows "keeps obs (templateExists E)" "keeps obs (templateData E hw)" "keeps obs (removeTasks E keep)"
    "keeps obs (ensureTask E t)" "keeps obs (taskConflict E ts)"
  unfolding templateExists_def templateData_def resolveTemplateData_def fetchTemplateRefData_def templateFromAnnotation_def
    clusterTemplate_def removeTasks_def deleteTask_def ensureTask_def
  by (intro keeps_intros; simp add: assms)+ (induction ts; auto intro!: keeps_intros simp: assms)

abbreviation of_machine :: "tinkerbell_machine \<Rightarrow> scope \<Rightarrow> bool" where
  "of_machine tm \<equiv> (\<lambda>s. tinkerbellMachine s = tm)"

lemma owned_tasks_owned:
  assumes "\<And>ts'. \<forall>t\<in>set ts'. ownsResource tm t \<Longrightarrow> adds_inv (of_machine tm) calls P (f ts')"
  shows "adds_inv (of_machine tm) calls P (bindE (owned_tasks E ts) f)"
  using assms
proof (induction ts arbitrary: f)
  case (Cons t ts)
  show ?case
    unfolding owned_tasks.simps bindE_assoc bindE_returnE
    by (rule adds_inv_owned, simp, rule Cons.IH, rule Cons.prems) auto
qed simp

lemma createTemplate_owned: "adds_inv (of_machine tm) calls (created_owned tm) (createTemplate E data)"
proof -
  have "adds_inv (of_machine tm) calls (created_owned tm)
      (catchE (bindE (api (ansTemplate E) (CreateTemplate tpl)) (\<lambda>_. returnE ()))
       (\<lambda>e. if isNoMatch e then throwE ErrTemplatesNotServed else throwE e))" if "ownsResource tm tpl" for tpl
    using that by (intro adds_inv_of adds_intros keeps_intros) (simp_all add: created_owned_def)
  then show ?thesis unfolding createTemplate_def by (intro adds_inv_intros) auto
qed

lemma ensureTasks_owned:
  assumes "\<forall>t\<in>set ts. ownsResource tm t"
  shows "adds_inv (of_machine tm) calls (created_owned tm) (ensureTasks E ts)"
proof -
  have "adds_inv (of_machine tm) calls (created_owned tm) (ensureTask E t)" if "ownsResource tm t" for t
    using that unfolding ensureTask_def
    by (intro adds_inv_of [where obs = tinkerbellMachine] adds_intros keeps_intros) (simp_all add: created_owned_def)
  then have "adds_inv (of_machine tm) calls (created_owned tm) (forE (ensureTask E) ts)"
    using assms by (induction ts) (auto intro: adds_inv_intros)
  moreover have "adds_inv (of_machine tm) calls (created_owned tm) (removeTasks E keep)" for keep
    by (intro adds_inv_of adds_intros keeps_intros) (simp_all add: created_owned_def)
  ultimately show ?thesis unfolding ensureTasks_def by (rule adds_inv_bindE)
qed

lemma nativeWorkflow_owned:
  assumes f: "\<And>r. (case r of Inl _ \<Rightarrow> True | Inr (n, ts) \<Rightarrow> \<forall>t\<in>set ts. ownsResource tm t) \<Longrightarrow>
      adds_inv (of_machine tm) calls (created_owned tm) (f r)"
  shows "adds_inv (of_machine tm) calls (created_owned tm) (bindE (nativeWorkflow E flow data) f)"
proof (cases "convertTemplate E (templateFuncs E) data")
  case (Inl r)
  then show ?thesis by (simp add: nativeWorkflow_def f)
next
  case (Inr conv)
  show ?thesis
  proof (cases "templatedBootOptions E flow")
    case True
    with Inr show ?thesis by (simp add: nativeWorkflow_def f)
  next
    case False
    show ?thesis
    proof (cases "rewriteWorkflowToTasks E flow (templateObject tm []) conv")
      case (Inl r)
      have "adds_inv (of_machine tm) calls (created_owned tm) (f (Inl (''the Workflow cannot run the template's Tasks: '' @ notConvertibleReason r)))"
        by (rule f) simp
      with Inl Inr False show ?thesis
        unfolding nativeWorkflow_def by (simp add: bindE_assoc Let_def) (rule adds_inv_getsE, simp)
    next
      case native: (Inr native)
      have "adds_inv (of_machine tm) calls (created_owned tm) (bindE (bindE (taskConflict E ts) (\<lambda>conflict.
                returnE (case conflict of
                    Some key \<Rightarrow> Inl (''Task '' @ nsNamespace key @ ''/'' @ nsName key @
                      '' already exists and does not belong to this machine'')
                  | None \<Rightarrow> Inr (native, ts)))) f)" if "\<forall>t\<in>set ts. ownsResource tm t" for ts
        unfolding bindE_assoc bindE_returnE
      proof (rule adds_inv_bindE)
        show "adds_inv (of_machine tm) calls (created_owned tm) (taskConflict E ts)"
          by (intro adds_inv_of [where obs = tinkerbellMachine] adds_intros keeps_intros) (simp_all add: created_owned_def)
      qed (use that in \<open>auto intro: f split: option.split\<close>)
      with Inr False native show ?thesis
        unfolding nativeWorkflow_def
        by (auto simp: bindE_assoc Let_def intro!: adds_inv_getsE owned_tasks_owned)
    qed
  qed
qed

lemma createWorkflow_owned: "adds_inv (of_machine tm) calls (created_owned tm) (createWorkflow E hw)"
proof -
  note simple = adds_inv_of [where obs = tinkerbellMachine]
  have 1: "adds_inv (of_machine tm) calls (created_owned tm) (newWorkflow E hw)"
    "adds_inv (of_machine tm) calls (created_owned tm) (templateExists E)"
    "adds_inv (of_machine tm) calls (created_owned tm) (templateData E hw)"
    "adds_inv (of_machine tm) calls (created_owned tm) (removeTasks E keep)"
    "adds_inv (of_machine tm) calls (created_owned tm) (api (\<lambda>_. Inr ()) (RecordEvent reason))"
    "adds_inv (of_machine tm) calls (created_owned tm) (api (ansWorkflow E) (CreateWorkflow w))" for keep reason w
    by (rule simple; (intro adds_intros keeps_intros; simp add: created_owned_def))+
  have 2: "adds_inv (of_machine tm) calls (created_owned tm) (createCompatibilityWorkflow E flow data reason)"
    for flow data reason
    unfolding createCompatibilityWorkflow_def by (intro adds_inv_intros 1 createTemplate_owned)
  have 3: "adds_inv (of_machine tm) calls (created_owned tm) (createNativeWorkflow E native ts)"
    if "\<forall>t\<in>set ts. ownsResource tm t" for native ts
    unfolding createNativeWorkflow_def by (intro adds_inv_intros 1 ensureTasks_owned that)
  show ?thesis
    unfolding createWorkflow_def
    by (rule adds_inv_bindE [OF 1(1)], rule adds_inv_bindE [OF 1(2)], rule adds_inv_if, rule 2,
        rule adds_inv_bindE [OF 1(3)], rule nativeWorkflow_owned, rule adds_inv_case_sum, rule 2, rule adds_inv_case_prod)
      (auto intro!: 3)
qed

section \<open>Properties\<close>


definition flow_kube :: kube where
  "flow_kube = base_kube\<lparr>ansWorkflow := \<lambda>h. case List.last h of CreateWorkflow w \<Rightarrow> Inr w | _ \<Rightarrow> Inl NotFound,
     ansTemplate := \<lambda>h. case List.last h of CreateTemplate t \<Rightarrow> Inr t | _ \<Rightarrow> Inl NotFound\<rparr>"

definition flow_scope :: scope where
  "flow_scope = example_scope\<lparr>tinkerbellCluster := Some example_cluster\<rparr>"

lemma remote_owned:
  "Namespace obj = [] \<Longrightarrow> setResourceOwnership E example_machine ext obj = Inr (owner_labels example_machine obj)"
  by (simp add: setResourceOwnership_remote)

lemma flow_kube_sel [simp]:
  "ansWorkflow flow_kube h = (case List.last h of CreateWorkflow w \<Rightarrow> Inr w | _ \<Rightarrow> Inl NotFound)"
  "ansTemplate flow_kube h = (case List.last h of CreateTemplate t \<Rightarrow> Inr t | _ \<Rightarrow> Inl NotFound)"
  "ansTaskList flow_kube h = Inr []"
  "hardwareBMCRef flow_kube hw = None" "convertTemplate flow_kube fm d = Inl (NotConvertible ''not convertible'')"
  "workflowToV1Alpha2 flow_kube v = Inr (objmeta.extend (meta v) \<lparr>wfTasks = [], wfState = StateNone, wfRest = []\<rparr>)"
  by (simp_all add: flow_kube_def)

lemma flow_scope_sel [simp]:
  "tinkerbellMachine flow_scope = example_machine" "tinkerbellCluster flow_scope = Some example_cluster"
  "calls flow_scope = []"
  by (simp_all add: flow_scope_def)

lemma flow_new: "\<exists>flow. newWorkflow flow_kube disk_hw flow_scope = (Inr flow, flow_scope)"
  by (simp add: newWorkflow_def v1alpha1Workflow_def remote_owned run_simps Let_def new_meta_def objmeta.defs
      tinkerbellNamespace_def hasBMC_def disk_hw_def)

lemma flow_compat:
  assumes "tinkerbellMachine s = example_machine"
  shows "\<exists>s'. createCompatibilityWorkflow flow_kube flow ''tpl'' reason s = (Inr (), s')"
  using assms
  by (simp add: createCompatibilityWorkflow_def createTemplate_def removeTasks_def remote_owned run_simps
      templateObject_def tinkerbellNamespace_def new_meta_def objmeta.defs)

lemma flow_creates: "\<exists>s'. createWorkflow flow_kube disk_hw flow_scope = (Inr (), s')"
proof -
  obtain flow where n: "newWorkflow flow_kube disk_hw flow_scope = (Inr flow, flow_scope)" using flow_new by blast
  let ?s = "add_call (GetTemplate (machine_key example_machine)) flow_scope"
  have e: "templateExists flow_kube flow_scope = (Inr False, ?s)" by (simp add: templateExists_def run_simps)
  have d: "templateData flow_kube disk_hw ?s = (Inr ''tpl'', ?s)"
    by (simp add: templateData_def resolveTemplateData_def templateFromAnnotation_def clusterTemplate_def run_simps disk_hw_def)
  obtain s' where "createCompatibilityWorkflow flow_kube flow ''tpl''
      (''the template does not convert to v1alpha2 Tasks: '' @ ''not convertible'') ?s = (Inr (), s')"
    using flow_compat [of ?s] by auto
  then show ?thesis by (simp add: createWorkflow_def run_simps n e d nativeWorkflow_def)
qed


text \<open>
  In every run, failed ones included, a Workflow is created at most once and as the last call,
  and every Template or Task that is created carries the machine's ownership labels.
\<close>

theorem createWorkflow_order_and_ownership:
  "(\<forall>c\<in>set (butlast (issued calls (createWorkflow E hw) s)). \<not> is_create_workflow c) \<and>
   (\<forall>c\<in>set (issued calls (createWorkflow E hw) s). created_owned (tinkerbellMachine s) c)"
  using only_last_createWorkflow [of E hw] adds_invD [OF createWorkflow_owned refl] unfolding only_last_def by blast

theorem createWorkflow_order_and_ownership_witness:
  "filter is_create_workflow (butlast (issued calls (createWorkflow flow_kube disk_hw) flow_scope)) = [] \<and>
   list_all (created_owned example_machine) (issued calls (createWorkflow flow_kube disk_hw) flow_scope) \<and>
   issued calls (createWorkflow flow_kube disk_hw) flow_scope \<noteq> []"
proof -
  obtain s' where c: "createWorkflow flow_kube disk_hw flow_scope = (Inr (), s')" using flow_creates by blast
  then have "calls s' \<noteq> []" using createWorkflow_Inr [OF c] by auto
  with c have "issued calls (createWorkflow flow_kube disk_hw) flow_scope \<noteq> []" by (simp add: issued_def)
  with createWorkflow_order_and_ownership [of flow_kube disk_hw flow_scope] show ?thesis
    by (simp add: filter_empty_conv list_all_iff)
qed

text \<open>
  The boot options of the Workflow. Without a BMC there are none; with one, the mode is the
  machine's, an ISO mode needs an ISO URL that parses, and gets it with the machine's lookup ID
  spliced in; every Workflow allows netboot, runs the machine's Template on its Hardware and is
  given the lookup ID as device_1.
\<close>

theorem v1alpha1Workflow_spec:
  assumes "v1alpha1Workflow E hw s = (Inr w, s')"
  shows "let opts = BootOptions (tmSpec (tinkerbellMachine s)); b = v1BootOptions w in
    s' = s \<and> ownsResource (tinkerbellMachine s) w \<and> object_key w = machine_key (tinkerbellMachine s) \<and>
    v1TemplateRef w = Name (tinkerbellMachine s) \<and> v1HardwareRef w = Name hw \<and>
    v1HardwareMap w = [''device_1'' \<mapsto> hardwareLookupID hw] \<and> ToggleAllowNetboot b \<and>
    v1BootMode b = (if hasBMC E (Some hw) then (case BootMode opts of BootModeOther _ \<Rightarrow> BootModeUnset | m \<Rightarrow> m) else BootModeUnset) \<and>
    (if v1BootMode b \<in> {BootModeISO, BootModeIsoboot}
     then ISOURL opts \<noteq> '''' \<and> (\<exists>u. urlParse E (ISOURL opts) = Inr u \<and> v1ISOURL b = iso_url E hw u)
     else v1ISOURL b = '''') \<and>
    v1CustombootConfig b = (if v1BootMode b = BootModeCustomboot then CustombootConfig opts else '''')"
proof -
  let ?tm = "tinkerbellMachine s" and ?opts = "BootOptions (tmSpec (tinkerbellMachine s))"
  let ?b0 = "\<lparr>ToggleAllowNetboot = True, v1BootMode = BootModeUnset, v1ISOURL = '''', v1CustombootConfig = ''''\<rparr>"
  let ?w0 = "objmeta.extend (new_meta (Name ?tm) (tinkerbellNamespace ?tm))
     \<lparr>v1TemplateRef = Name ?tm, v1HardwareRef = Name hw, v1HardwareMap = workflowTemplateData hw, v1BootOptions = ?b0\<rparr>"
  note run = v1alpha1Workflow_def run_bindE run_getsE Let_def run_owned run_returnE run_liftE
  obtain w1 where o: "setResourceOwnership E ?tm (externalTinkerbell s) ?w0 = Inr w1"
    using assms by (cases "setResourceOwnership E ?tm (externalTinkerbell s) ?w0") (simp_all add: run)
  have s': "s' = s" and w: "if hasBMC E (Some hw)
      then \<exists>b. workflow_boot_options E ?opts hw (v1BootOptions w1) = Inr b \<and> w = w1\<lparr>v1BootOptions := b\<rparr> else w = w1"
    using assms o
    by (cases "hasBMC E (Some hw)"; cases "workflow_boot_options E ?opts hw (v1BootOptions w1)"; simp add: run)+
  have "objmeta.more w1 = objmeta.more ?w0" by (rule setResourceOwnership_frame(5) [OF o])
  then have w1: "v1TemplateRef w1 = Name ?tm" "v1HardwareRef w1 = Name hw" "v1HardwareMap w1 = workflowTemplateData hw"
    "v1BootOptions w1 = ?b0"
    by (cases w1, simp add: new_meta_def objmeta.defs)+
  have k: "object_key w1 = machine_key ?tm"
    using setResourceOwnership_frame(1,2) [OF o] by (simp add: object_key_def machine_key_def new_meta_def objmeta.defs)
  have own: "ownsResource ?tm w1" by (rule setResourceOwnership_owns [OF o])
  show ?thesis
  proof (cases "hasBMC E (Some hw)")
    case False
    with w w1 k own s' show ?thesis by (simp add: Let_def workflowTemplateData_def)
  next
    case True
    with w obtain b where b: "workflow_boot_options E ?opts hw ?b0 = Inr b" and wb: "w = w1\<lparr>v1BootOptions := b\<rparr>"
      by (auto simp: w1)
    have "ToggleAllowNetboot b \<and> v1BootMode b = (case BootMode ?opts of BootModeOther _ \<Rightarrow> BootModeUnset | m \<Rightarrow> m) \<and>
      (if v1BootMode b \<in> {BootModeISO, BootModeIsoboot}
       then ISOURL ?opts \<noteq> '''' \<and> (\<exists>u. urlParse E (ISOURL ?opts) = Inr u \<and> v1ISOURL b = iso_url E hw u)
       else v1ISOURL b = '''') \<and>
      v1CustombootConfig b = (if v1BootMode b = BootModeCustomboot then CustombootConfig ?opts else '''')"
      using b by (cases "BootMode ?opts"; cases "urlParse E (ISOURL ?opts)") (auto simp: workflow_boot_options_def split: if_splits)
    with True wb w1 k own s' show ?thesis
      by (simp add: Let_def workflowTemplateData_def ownsResource_def object_key_def)
  qed
qed

theorem v1alpha1Workflow_spec_witness:
  "\<exists>w. v1alpha1Workflow flow_kube disk_hw flow_scope = (Inr w, flow_scope) \<and> v1TemplateRef w = ''m1''"
proof -
  obtain w where w: "v1alpha1Workflow flow_kube disk_hw flow_scope = (Inr w, flow_scope)"
    by (simp add: v1alpha1Workflow_def remote_owned run_simps Let_def new_meta_def objmeta.defs
        tinkerbellNamespace_def hasBMC_def disk_hw_def)
  from v1alpha1Workflow_spec [OF w] w show ?thesis by (auto simp: Let_def)
qed

text \<open>
  The path of a per-machine ISO URL: for an absolute path of plain segments it is the same path
  with one directory more before the file, the lookup ID with its first five colons turned to
  dashes.
\<close>

theorem iso_url_path:
  assumes "urlPath u = CHR ''/'' # join_slash (segs @ [file])" and "\<forall>x\<in>set segs. plain x" and "plain file"
    and "plain (replace_char_n (hardwareLookupID hw) (CHR '':'') (CHR ''-'') 5)"
  shows "iso_url E hw u = urlString E (u\<lparr>urlPath := CHR ''/'' # join_slash
      (segs @ [replace_char_n (hardwareLookupID hw) (CHR '':'') (CHR ''-'') 5, file])\<rparr>)"
  using iso_path [OF assms(2,3,4)] unfolding iso_url_def assms(1) by (simp add: case_prod_beta)

definition mac_hw :: hardware where
  "mac_hw = (example_hw ''a'' Map.empty)\<lparr>AgentID := ''aa:bb''\<rparr>"

theorem iso_url_path_witness:
  "iso_url base_kube mac_hw \<lparr>urlPath = ''/iso/hook.iso'', urlRest = ''''\<rparr> = ''/iso/aa-bb/hook.iso''"
proof -
  have "hardwareLookupID mac_hw = ''aa:bb''" by (simp add: hardwareLookupID_def mac_hw_def cmp_or_def)
  moreover have "replace_char_n ''aa:bb'' (CHR '':'') (CHR ''-'') 5 = ''aa-bb''" by code_simp
  ultimately have id: "replace_char_n (hardwareLookupID mac_hw) (CHR '':'') (CHR ''-'') 5 = ''aa-bb''" by simp
  have "iso_url base_kube mac_hw \<lparr>urlPath = ''/iso/hook.iso'', urlRest = ''''\<rparr> =
      urlString base_kube (\<lparr>urlPath = ''/iso/hook.iso'', urlRest = ''''\<rparr>\<lparr>urlPath := CHR ''/'' # join_slash
      ([''iso''] @ [replace_char_n (hardwareLookupID mac_hw) (CHR '':'') (CHR ''-'') 5, ''hook.iso''])\<rparr>)"
    by (rule iso_url_path) (simp_all add: plain_def id)
  then show ?thesis unfolding id by (simp add: base_defs)
qed

text \<open>
  A Workflow is created only when the server has none: when it answers with one, or with any
  error but NotFound, that read is the only call of \<open>ensureWorkflow\<close>; and once it has created one it
  asks for a requeue instead of returning it.
\<close>

theorem ensureWorkflow_creates_only_when_absent:
  "case ansWorkflow E (calls s @ [GetWorkflow (machine_key (tinkerbellMachine s))]) of
     Inr w \<Rightarrow> ensureWorkflow E hw s = (Inr w, add_call (GetWorkflow (machine_key (tinkerbellMachine s))) s)
   | Inl NotFound \<Rightarrow> \<exists>e s'. ensureWorkflow E hw s = (Inl e, s') \<and>
       (case createWorkflow E hw (add_call (GetWorkflow (machine_key (tinkerbellMachine s))) s) of
          (Inr _, t) \<Rightarrow> e = ErrRequeueRequested \<and> s' = t
        | (Inl e', t) \<Rightarrow> e = e' \<and> s' = t)
   | Inl a \<Rightarrow> ensureWorkflow E hw s = (Inl (Api a), add_call (GetWorkflow (machine_key (tinkerbellMachine s))) s)"
  by (cases "ansWorkflow E (calls s @ [GetWorkflow (machine_key (tinkerbellMachine s))])")
    (auto simp: ensureWorkflow_def getWorkflow_def run_simps split: apierr.split prod.split sum.split)

end
