(* ===== verification/Scope.thy ===== *)
theory Scope
  imports WorkflowOps
begin

text \<open>
  The rest of \<open>controller/machine/scope.go\<close>: one reconcile of a machine that is to exist
  (\<open>Reconcile\<close>) and of one that is to go (\<open>DeleteMachineWithDependencies\<close>), and the checks
  the controller makes before it starts either.
\<close>

section \<open>Reporting the machine's status\<close>

definition machineAddress :: "('e) env_scheme \<Rightarrow> hardware \<Rightarrow> string io" where
  "machineAddress E hw =
     bindE (getsE reservedAddress) (\<lambda>r.
     case r of
       Some a \<Rightarrow> returnE (haAddress a)
     | None \<Rightarrow> liftE (hardwareIP E (Some hw)))"

definition set_addresses :: "string \<Rightarrow> tinkerbell_machine \<Rightarrow> tinkerbell_machine" where
  "set_addresses ip tm =
     tm\<lparr>tmStatus := (tmStatus tm)\<lparr>Addresses := [\<lparr>naType = NodeInternalIP, naAddress = ip\<rparr>]\<rparr>\<rparr>"

definition setStatus :: "('e) kube_scheme \<Rightarrow> hardware option \<Rightarrow> unit io" where
  "setStatus E hw =
     bindE (case hw of None \<Rightarrow> getHardwareForMachine E | Some h \<Rightarrow> returnE h) (\<lambda>h.
     bindE (machineAddress E h) (\<lambda>ip.
     bindE (modify_machine (set_addresses ip)) (\<lambda>_. patch_machine E)))"

section \<open>Reconciling a machine\<close>

text \<open>Both fields of the contract, for both of its versions.\<close>

definition mark_ready :: "tinkerbell_machine \<Rightarrow> tinkerbell_machine" where
  "mark_ready tm =
     tm\<lparr>tmStatus := (tmStatus tm)\<lparr>Ready := True, Initialization := Some \<lparr>Provisioned = Some True\<rparr>\<rparr>\<rparr>"

definition is_provisioned :: "hardware \<Rightarrow> bool" where
  "is_provisioned hw \<longleftrightarrow> Annotations hw HardwareProvisionedAnnotation = Some ''true''"

text \<open>What the state of the Workflow means for the machine.\<close>

definition reconcileWorkflowState :: "('e) kube_scheme \<Rightarrow> hardware \<Rightarrow> workflow_state \<Rightarrow> unit io" where
  "reconcileWorkflowState E hw st =
     (case st of
        StateFailed \<Rightarrow> throwE ErrWorkflowFailed
      | StateTimeout \<Rightarrow> throwE ErrWorkflowTimeout
      | StatePreparing \<Rightarrow> returnE ()
      | StatePending \<Rightarrow> returnE ()
      | StateRunning \<Rightarrow> returnE ()
      | StatePost \<Rightarrow> returnE ()
      | StateSuccess \<Rightarrow>
          bindE (modify_machine mark_ready) (\<lambda>_.
          bindE (patchHardwareAnnotations E hw [HardwareProvisionedAnnotation \<mapsto> ''true'']) (\<lambda>_.
          returnE ()))
      | StateNone \<Rightarrow> returnE ()
      | StateOther _ \<Rightarrow> returnE ())"

text \<open>
  \<open>errors.Is(err, &errRequeueRequested{})\<close> compares two pointers to zero-size values, so what
  happens to the requeue error is \<open>zeroSizePointersEqual\<close>.
\<close>

definition reconcile :: "('e) kube_scheme \<Rightarrow> hardware \<Rightarrow> unit io" where
  "reconcile E hw =
     (if is_provisioned hw then
        bindE (modify_machine mark_ready) (\<lambda>_.
        reconcileInPlaceRecovery E hw DefaultInPlaceRecoveryTimeout)
      else
        bindE (tryE (ensureWorkflow E hw)) (\<lambda>r.
        case r of
          Inl e \<Rightarrow> if e = ErrRequeueRequested \<and> zeroSizePointersEqual E then returnE () else throwE e
        | Inr flow \<Rightarrow> reconcileWorkflowState E hw (wfState flow)))"

definition reconcileHardware :: "('e) kube_scheme \<Rightarrow> unit io" where
  "reconcileHardware E =
     bindE (ensureHardware E) (\<lambda>hw.
     bindE (reconcileIPAM E hw) (\<lambda>hw'.
     bindE (setStatus E (Some hw')) (\<lambda>_.
     reconcile E hw')))"

text \<open>The finalizer is added last, whatever happened, and its own failure is only logged.\<close>

definition Reconcile :: "('e) kube_scheme \<Rightarrow> unit io" where
  "Reconcile E = deferE (reconcileHardware E) (addFinalizer_machine E)"

section \<open>Deleting a machine\<close>

definition MachineScheduledForDeletion :: "tinkerbell_machine \<Rightarrow> bool" where
  "MachineScheduledForDeletion tm \<longleftrightarrow> being_deleted tm"

definition unless_not_found :: "unit io \<Rightarrow> unit io" where
  "unless_not_found m = catchE m (\<lambda>e. if isNotFound e then returnE () else throwE e)"

definition removeDependencies :: "('e) kube_scheme \<Rightarrow> unit io" where
  "removeDependencies E =
     bindE (unless_not_found (removeTemplate E)) (\<lambda>_.
     bindE (removeTasks E {}) (\<lambda>_.
     unless_not_found (removeWorkflow E)))"

definition releaseClaimAndFinalizer :: "('e) kube_scheme \<Rightarrow> unit io" where
  "releaseClaimAndFinalizer E = bindE (releaseIPAddressClaim E) (\<lambda>_. removeFinalizer_machine E)"

definition default_namespace :: "tinkerbell_machine \<Rightarrow> tinkerbell_machine" where
  "default_namespace tm =
     (if TargetNamespace (tmStatus tm) = ''''
      then tm\<lparr>tmStatus := (tmStatus tm)\<lparr>TargetNamespace := Namespace tm\<rparr>\<rparr> else tm)"

definition DeleteMachineWithDependencies :: "('e) kube_scheme \<Rightarrow> unit io" where
  "DeleteMachineWithDependencies E =
     bindE (modify_machine default_namespace) (\<lambda>_.
     bindE (tryE (getHardwareForMachine E)) (\<lambda>r.
     case r of
       Inl e \<Rightarrow>
         if isNotFound e
         then bindE (removeDependencies E) (\<lambda>_. releaseClaimAndFinalizer E)
         else throwE e
     | Inr hw \<Rightarrow>
         bindE (removeDependencies E) (\<lambda>_.
         if \<not> hasBMC E (Some hw)
         then bindE (releaseHardware E hw) (\<lambda>_. releaseClaimAndFinalizer E)
         else
           bindE (ensureBMCJobCompletionForDelete E hw) (\<lambda>_.
           bindE (releaseHardware E hw) (\<lambda>_. releaseClaimAndFinalizer E)))))"

section \<open>Before either\<close>

definition isMachineReady :: "capi_machine option \<Rightarrow> goerr + string" where
  "isMachineReady machine =
     (case machine of
        None \<Rightarrow> Inr ''Machine Controller has not yet set OwnerRef''
      | Some m \<Rightarrow>
          if DataSecretName m = None
          then Inr ''retrieving bootstrap data: linked Machine's bootstrap.dataSecretName is not available yet''
          else if Version m = '''' then Inl ErrMachineVersionEmpty
          else Inr '''')"

definition getReadyBootstrapCloudConfig :: "('e) kube_scheme \<Rightarrow> capi_machine \<Rightarrow> string io" where
  "getReadyBootstrapCloudConfig E machine =
     (case DataSecretName machine of
        None \<Rightarrow> throwE ErrNilDereference
      | Some n \<Rightarrow>
          bindE (api (ansSecret E) (GetSecret (NN (Namespace machine) n))) (\<lambda>secret.
          case secretData secret ''value'' of
            None \<Rightarrow> throwE ErrMissingBootstrapDataSecretValueKey
          | Some d \<Rightarrow> if d = '''' then throwE ErrBootstrapUserDataEmpty else returnE d))"

definition cluster_ready :: "tinkerbell_cluster \<Rightarrow> bool" where
  "cluster_ready tc \<longleftrightarrow>
     ClusterReady (tcStatus tc) \<or>
     (case ClusterInitialization (tcStatus tc) of
        None \<Rightarrow> False
      | Some i \<Rightarrow> ClusterProvisioned i = Some True)"

definition getReadyTinkerbellCluster :: "('e) kube_scheme \<Rightarrow> capi_machine \<Rightarrow> tinkerbell_cluster option io" where
  "getReadyTinkerbellCluster E machine =
     bindE (api (ansCluster E) (GetClusterFromMetadata (meta machine))) (\<lambda>cluster.
     bindE (getsE tinkerbellMachine) (\<lambda>tm.
     bindE (api (ansTinkerbellCluster E) (GetTinkerbellCluster (NN (Namespace tm) (clInfraRefName cluster)))) (\<lambda>tc.
     returnE (if cluster_ready tc then Some tc else None))))"

section \<open>Which calls each operation makes\<close>

text \<open>What a reconcile and a deletion may ask of the servers.\<close>

definition reconcile_call :: "call \<Rightarrow> bool" where
  "reconcile_call c \<longleftrightarrow>
     (case c of DeleteWorkflow _ \<Rightarrow> False | DeleteTemplate _ \<Rightarrow> False | DeleteClaim _ \<Rightarrow> False | _ \<Rightarrow> True)"

definition delete_call :: "call \<Rightarrow> bool" where
  "delete_call c \<longleftrightarrow>
     (case c of CreateClaim _ \<Rightarrow> False | CreateWorkflow _ \<Rightarrow> False | CreateTemplate _ \<Rightarrow> False
      | CreateTask _ \<Rightarrow> False | UpdateTask _ \<Rightarrow> False | PatchMachineObject _ _ \<Rightarrow> False | _ \<Rightarrow> True)"

lemma adds_machineAddress [adds_intros]: "adds calls P (machineAddress E hw)"
  unfolding machineAddress_def by (intro adds_intros)

lemma adds_setStatus [adds_intros]:
  assumes "\<And>k. hw = None \<Longrightarrow> P (GetHardware k)" "\<And>tm. P (PatchTinkerbellMachine tm)"
  shows "adds calls P (setStatus E hw)"
  unfolding setStatus_def by (intro adds_intros) (simp_all add: assms)

lemma adds_unless_not_found [adds_intros]: "adds calls P m \<Longrightarrow> adds calls P (unless_not_found m)"
  unfolding unless_not_found_def by (intro adds_intros)

lemma adds_removeDependencies [adds_intros]:
  assumes "\<And>k. P (GetTemplate k)" "\<And>k. P (DeleteTemplate k)" "\<And>a b c. P (ListTasks a b c)" "\<And>k. P (DeleteTask k)"
    "\<And>k. P (GetWorkflow k)" "\<And>k. P (DeleteWorkflow k)"
  shows "adds calls P (removeDependencies E)"
  unfolding removeDependencies_def by (intro adds_intros workflow_remover.adds_remove) (simp_all add: assms)

lemma adds_reconcileWorkflowState [adds_intros]:
  "(\<And>b. P (PatchHardware hw b False)) \<Longrightarrow> adds calls P (reconcileWorkflowState E hw st)"
  unfolding reconcileWorkflowState_def patchHardwareAnnotations_def by (cases st) (auto intro!: adds_intros)

lemma keeps_unless_not_found [keeps_intros]: "keeps obs m \<Longrightarrow> keeps obs (unless_not_found m)"
  unfolding unless_not_found_def by (intro keeps_intros)

lemma keeps_machineAddress [keeps_intros]: "keeps obs (machineAddress E hw)"
  unfolding machineAddress_def by (intro keeps_intros)

lemma keeps_setResourceless [keeps_intros]: "(\<And>c s. obs (add_call c s) = obs s) \<Longrightarrow> keeps obs (patch_machine E)"
  unfolding patch_machine_def by (intro keeps_intros) simp

lemma keeps_removeDependencies [keeps_intros]:
  "(\<And>c s. obs (add_call c s) = obs s) \<Longrightarrow> keeps obs (removeDependencies E)"
  unfolding removeDependencies_def
  by (intro keeps_intros template_remover.keeps_remove workflow_remover.keeps_remove) simp_all

text \<open>The flag the conditions and the addresses leave alone.\<close>

abbreviation machine_ready :: "scope \<Rightarrow> bool" where
  "machine_ready s \<equiv> Ready (tmStatus (tinkerbellMachine s))"

lemma keeps_setCondition_ready [keeps_intros]: "keeps machine_ready (setIPAddressClaimedCondition E st reason)"
  unfolding setIPAddressClaimedCondition_def by (rule keeps_modify_machine) simp

lemma keeps_ensureHardware_ready [keeps_intros]: "keeps machine_ready (ensureHardware E)"
  unfolding ensureHardware_def by (intro keeps_intros) (simp_all add: record_hardware_def)

lemma keeps_reconcileIPAM_ready [keeps_intros]: "keeps machine_ready (reconcileIPAM E hw)"
  unfolding reconcileIPAM_def ensureIPAddressClaim_def getIPAddressClaim_def createIPAddressClaim_def
    ensureIPAMAnnotations_def applyIPAddress_def ensureHardwareAddress_def Let_def
  by (intro keeps_intros) simp_all

lemma keeps_setStatus_ready [keeps_intros]: "keeps machine_ready (setStatus E (Some hw))"
  unfolding setStatus_def option.case by (intro keeps_intros) (simp_all add: set_addresses_def)

lemma adds_reconcile: "adds calls reconcile_call (reconcile E hw)"
  unfolding reconcile_def by (intro adds_intros) (simp_all add: reconcile_call_def)

lemma adds_reconcileHardware: "adds calls reconcile_call (reconcileHardware E)"
  unfolding reconcileHardware_def
  by (intro adds_intros adds_reconcile) (simp_all add: reconcile_call_def)

lemma adds_addFinalizer: "adds calls reconcile_call (addFinalizer_machine E)"
  by (intro adds_intros) (simp add: reconcile_call_def)

lemma adds_Reconcile: "adds calls reconcile_call (Reconcile E)"
  unfolding Reconcile_def by (intro adds_intros adds_reconcileHardware adds_addFinalizer)

lemma adds_Delete: "adds calls delete_call (DeleteMachineWithDependencies E)"
  unfolding DeleteMachineWithDependencies_def releaseClaimAndFinalizer_def
  by (intro adds_intros) (simp_all add: delete_call_def)

section \<open>How far a reconcile gets\<close>

text \<open>The Hardware is claimed, its address reserved and reported: what is left is \<open>reconcile\<close>.\<close>

definition reconciled_to :: "('e) kube_scheme \<Rightarrow> scope \<Rightarrow> hardware \<Rightarrow> scope \<Rightarrow> bool" where
  "reconciled_to E s hw t \<longleftrightarrow>
     (\<exists>h s1 s2. ensureHardware E s = (Inr h, s1) \<and> reconcileIPAM E h s1 = (Inr hw, s2) \<and>
        setStatus E (Some hw) s2 = (Inr (), t))"

lemma reconcileHardware_cases:
  obtains (early) e t where "reconcileHardware E s = (Inl e, t)" "machine_ready t = machine_ready s"
  | (late) hw t where "reconciled_to E s hw t" "reconcileHardware E s = reconcile E hw t"
proof -
  obtain r1 s1 where 1: "ensureHardware E s = (r1, s1)" by fastforce
  have k1: "machine_ready s1 = machine_ready s" by (rule keepsD [OF keeps_ensureHardware_ready 1])
  note run = reconcileHardware_def run_bindE
  show ?thesis
  proof (cases r1)
    case (Inl e)
    with 1 k1 show ?thesis by (intro early [of e s1]) (simp_all add: run)
  next
    case (Inr h)
    obtain r2 s2 where 2: "reconcileIPAM E h s1 = (r2, s2)" by fastforce
    have k2: "machine_ready s2 = machine_ready s1" by (rule keepsD [OF keeps_reconcileIPAM_ready 2])
    show ?thesis
    proof (cases r2)
      case (Inl e)
      with 1 2 k1 k2 \<open>r1 = Inr h\<close> show ?thesis by (intro early [of e s2]) (simp_all add: run)
    next
      case (Inr hw)
      obtain r3 s3 where 3: "setStatus E (Some hw) s2 = (r3, s3)" by fastforce
      have k3: "machine_ready s3 = machine_ready s2" by (rule keepsD [OF keeps_setStatus_ready 3])
      show ?thesis
      proof (cases r3)
        case (Inl e)
        with 1 2 3 k1 k2 k3 Inr \<open>r1 = Inr h\<close> show ?thesis by (intro early [of e s3]) (simp_all add: run)
      next
        case (Inr u)
        with 1 2 3 \<open>r1 = Inr h\<close> \<open>r2 = Inr hw\<close> show ?thesis
          by (intro late [of hw s3]) (auto simp: run reconciled_to_def)
      qed
    qed
  qed
qed

lemma reconcileIPAM_reserved:
  assumes "reconcileIPAM E hw s = (Inr hw', s')" and "AddressFromPool (tmSpec (tinkerbellMachine s)) \<noteq> None"
  shows "reservedAddress s' \<noteq> None"
proof -
  from assms obtain claim t where "applyIPAddress E hw claim t = (Inr hw', s')"
    by (auto simp: reconcileIPAM_def inv_simps split: sum.splits if_splits)
  from applyIPAddress_Inr [OF this] show ?thesis by auto
qed

lemma keeps_ensureHardware_pool: "keeps (\<lambda>s. AddressFromPool (tmSpec (tinkerbellMachine s))) (ensureHardware E)"
  unfolding ensureHardware_def by (intro keeps_intros) (simp_all add: record_hardware_def)

lemma run_machineAddress [run_simps, inv_simps]:
  "machineAddress E hw s =
     (case reservedAddress s of None \<Rightarrow> hardwareIP E (Some hw) | Some a \<Rightarrow> Inr (haAddress a), s)"
  by (simp add: machineAddress_def run_simps split: option.split)

lemma setStatus_Inr:
  "setStatus E (Some hw) s = (Inr (), t) \<longleftrightarrow>
     (\<exists>ip. fst (machineAddress E hw s) = Inr ip \<and>
        t = add_call (PatchTinkerbellMachine (set_addresses ip (tinkerbellMachine s)))
              (s\<lparr>tinkerbellMachine := set_addresses ip (tinkerbellMachine s)\<rparr>) \<and>
        ansUnit E (calls s @ [PatchTinkerbellMachine (set_addresses ip (tinkerbellMachine s))]) = Inr ())"
  by (cases "reservedAddress s") (auto simp: setStatus_def inv_simps)

text \<open>What holds when a reconcile gets to \<open>reconcile\<close>.\<close>

lemma reconciled_to_published:
  assumes "reconciled_to E s hw t"
  shows "\<exists>ip. Addresses (tmStatus (tinkerbellMachine t)) = [\<lparr>naType = NodeInternalIP, naAddress = ip\<rparr>] \<and>
     (case reservedAddress t of Some a \<Rightarrow> ip = haAddress a | None \<Rightarrow> hardwareIP E (Some hw) = Inr ip) \<and>
     (AddressFromPool (tmSpec (tinkerbellMachine s)) \<noteq> None \<longrightarrow> reservedAddress t \<noteq> None) \<and>
     List.last (calls t) = PatchTinkerbellMachine (tinkerbellMachine t)"
proof -
  from assms obtain h s1 s2 where 1: "ensureHardware E s = (Inr h, s1)" and 2: "reconcileIPAM E h s1 = (Inr hw, s2)"
    and 3: "setStatus E (Some hw) s2 = (Inr (), t)"
    unfolding reconciled_to_def by blast
  from keepsD [OF keeps_ensureHardware_pool 1] reconcileIPAM_reserved [OF 2]
  have p: "AddressFromPool (tmSpec (tinkerbellMachine s)) \<noteq> None \<Longrightarrow> reservedAddress s2 \<noteq> None" by simp
  from 3 obtain ip where ip: "fst (machineAddress E hw s2) = Inr ip"
    and t: "t = add_call (PatchTinkerbellMachine (set_addresses ip (tinkerbellMachine s2)))
              (s2\<lparr>tinkerbellMachine := set_addresses ip (tinkerbellMachine s2)\<rparr>)"
    unfolding setStatus_Inr by blast
  from ip have "case reservedAddress s2 of Some a \<Rightarrow> ip = haAddress a | None \<Rightarrow> hardwareIP E (Some hw) = Inr ip"
    by (cases "reservedAddress s2") (simp_all add: run_machineAddress)
  with p t show ?thesis by (intro exI [of _ ip]) (simp add: set_addresses_def)
qed

lemma keeps_nativeWorkflow [keeps_intros]:
  assumes "\<And>c s. obs (add_call c s) = obs s"
  shows "keeps obs (nativeWorkflow E flow data)"
proof -
  have "keeps obs (owned_tasks E ts)" for ts by (induction ts) (auto intro!: keeps_intros)
  then show ?thesis unfolding nativeWorkflow_def by (intro keeps_intros keeps_simple) (simp_all add: assms)
qed

lemma keeps_ensureWorkflow [keeps_intros]:
  assumes "\<And>c s. obs (add_call c s) = obs s"
  shows "keeps obs (ensureWorkflow E hw)"
proof -
  have "keeps obs (createTemplate E data)" for data
    unfolding createTemplate_def by (intro keeps_intros) (simp_all add: assms)
  then have "keeps obs (createCompatibilityWorkflow E flow data reason)" for flow data reason
    unfolding createCompatibilityWorkflow_def by (intro keeps_intros keeps_simple) (simp_all add: assms)
  moreover have "keeps obs (forE (ensureTask E) ts)" for ts
    by (intro keeps_intros keeps_simple) (simp_all add: assms)
  then have "keeps obs (createNativeWorkflow E native ts)" for native ts
    unfolding createNativeWorkflow_def ensureTasks_def by (intro keeps_intros keeps_simple) (simp_all add: assms)
  ultimately show ?thesis
    unfolding ensureWorkflow_def getWorkflow_def createWorkflow_def
    by (intro keeps_intros keeps_simple) (simp_all add: assms)
qed

lemma reconciled_to_ready: "reconciled_to E s hw t \<Longrightarrow> machine_ready t = machine_ready s"
  unfolding reconciled_to_def
  by (metis keepsD [OF keeps_ensureHardware_ready] keepsD [OF keeps_reconcileIPAM_ready] keepsD [OF keeps_setStatus_ready])

lemma reconciled_to_run: "reconciled_to E s hw t \<Longrightarrow> reconcileHardware E s = reconcile E hw t"
  by (auto simp: reconciled_to_def reconcileHardware_def run_bindE)

text \<open>A call that only \<open>reconcile\<close> makes is made from a state that got to it.\<close>

definition early_call :: "call \<Rightarrow> bool" where
  "early_call c \<longleftrightarrow>
     (case c of ListAssignedHardware _ _ \<Rightarrow> True | ListHardware _ \<Rightarrow> True | PatchHardware _ _ _ \<Rightarrow> True
      | CallEnsureWatch _ \<Rightarrow> True | GetClaim _ \<Rightarrow> True | CreateClaim _ \<Rightarrow> True | PatchClaim _ _ _ \<Rightarrow> True
      | GetIPAddress _ \<Rightarrow> True | PatchTinkerbellMachine _ \<Rightarrow> True | _ \<Rightarrow> False)"

lemma issued_by_reconcile:
  assumes c: "c \<in> set (issued calls (reconcileHardware E) s)" and not_early: "\<not> early_call c"
  shows "\<exists>hw t. reconciled_to E s hw t \<and> c \<in> set (issued calls (reconcile E hw) t)"
proof -
  note rc = adds_reconcile [THEN adds_logs]
  have not: "adds calls early_call (ensureHardware E)" "adds calls early_call (reconcileIPAM E h)"
    "adds calls early_call (setStatus E (Some h))" for h
    by (intro adds_intros; simp add: early_call_def)+
  note log = not [THEN adds_logs]
  have l2: "logs calls (bindE (setStatus E (Some hw)) (\<lambda>_. reconcile E hw))" for hw
    by (rule adds_bindE [OF log(3) rc])
  have l1: "logs calls (bindE (reconcileIPAM E h) (\<lambda>hw'. bindE (setStatus E (Some hw')) (\<lambda>_. reconcile E hw')))" for h
    by (rule adds_bindE [OF log(2) l2])
  obtain h s1 where 1: "ensureHardware E s = (Inr h, s1)"
    and c1: "c \<in> set (issued calls (bindE (reconcileIPAM E h) (\<lambda>hw'. bindE (setStatus E (Some hw')) (\<lambda>_. reconcile E hw'))) s1)"
    using issued_bindE_later [OF not(1) l1 c [unfolded reconcileHardware_def] not_early] by blast
  obtain hw s2 where 2: "reconcileIPAM E h s1 = (Inr hw, s2)"
    and c2: "c \<in> set (issued calls (bindE (setStatus E (Some hw)) (\<lambda>_. reconcile E hw)) s2)"
    using issued_bindE_later [OF not(2) l2 c1 not_early] by blast
  obtain t where 3: "setStatus E (Some hw) s2 = (Inr (), t)" and c3: "c \<in> set (issued calls (reconcile E hw) t)"
    using issued_bindE_later [OF not(3) rc c2 not_early] by auto
  from 1 2 3 c3 show ?thesis unfolding reconciled_to_def by blast
qed

lemma issued_addFinalizer_machine:
  "issued calls (addFinalizer_machine E) s = [PatchTinkerbellMachine (with_finalizer E (tinkerbellMachine s))]"
  by (simp add: issued_def run_addFinalizer_machine run_patch_machine)

lemma issued_Reconcile:
  "issued calls (Reconcile E) s = issued calls (reconcileHardware E) s @
     [PatchTinkerbellMachine (with_finalizer E (tinkerbellMachine (snd (reconcileHardware E s))))]"
  unfolding Reconcile_def
  by (simp add: issued_deferE [OF adds_reconcileHardware [THEN adds_logs] adds_addFinalizer [THEN adds_logs]]
      issued_addFinalizer_machine)

lemma machine_Reconcile:
  "tinkerbellMachine (snd (Reconcile E s)) = with_finalizer E (tinkerbellMachine (snd (reconcileHardware E s)))"
  by (simp add: Reconcile_def run_deferE run_addFinalizer_machine run_patch_machine split: prod.split)

lemma with_finalizer_sel [simp]: "tmStatus (with_finalizer E tm) = tmStatus tm" "tmSpec (with_finalizer E tm) = tmSpec tm"
  by (simp_all add: with_finalizer_def)

lemma run_getWorkflow [run_simps, inv_simps]:
  "getWorkflow E s = (let c = GetWorkflow (machine_key (tinkerbellMachine s)) in
     (map_sum Api id (ansWorkflow E (calls s @ [c])), add_call c s))"
  by (simp add: getWorkflow_def run_simps Let_def)

lemma ensureWorkflow_Inr:
  "ensureWorkflow E hw t = (Inr flow, u) \<longleftrightarrow>
     ansWorkflow E (calls t @ [GetWorkflow (machine_key (tinkerbellMachine t))]) = Inr flow \<and>
     u = add_call (GetWorkflow (machine_key (tinkerbellMachine t))) t"
  by (cases "ansWorkflow E (calls t @ [GetWorkflow (machine_key (tinkerbellMachine t))])")
    (auto simp: ensureWorkflow_def inv_simps Let_def split: if_splits)

section \<open>Properties of a reconcile\<close>



text \<open>
  C4: No machine is installed before its address is settled and published. A Workflow is only created
  once a Hardware is claimed and not provisioned yet, the machine has been patched with exactly one
  address - the reserved one, which exists whenever a pool is configured, or else the primary
  interface's - and the server has just answered that there is no Workflow.
\<close>

theorem workflow_only_after_address:
  assumes "CreateWorkflow w \<in> set (issued calls (Reconcile E) s)"
  shows "\<exists>hw t ip. reconciled_to E s hw t \<and> \<not> is_provisioned hw \<and>
     List.last (calls t) = PatchTinkerbellMachine (tinkerbellMachine t) \<and>
     Addresses (tmStatus (tinkerbellMachine t)) = [\<lparr>naType = NodeInternalIP, naAddress = ip\<rparr>] \<and>
     (case reservedAddress t of
        Some a \<Rightarrow> ip = haAddress a
      | None \<Rightarrow> AddressFromPool (tmSpec (tinkerbellMachine s)) = None \<and> hardwareIP E (Some hw) = Inr ip) \<and>
     ansWorkflow E (calls t @ [GetWorkflow (machine_key (tinkerbellMachine t))]) = Inl NotFound"
proof -
  let ?c = "CreateWorkflow w"
  from assms have "?c \<in> set (issued calls (reconcileHardware E) s)" unfolding issued_Reconcile by simp
  from issued_by_reconcile [OF this] obtain hw t where r: "reconciled_to E s hw t"
    and c: "?c \<in> set (issued calls (reconcile E hw) t)"
    by (auto simp: early_call_def)
  have "adds calls (\<lambda>c. \<forall>w. c \<noteq> CreateWorkflow w) (reconcileInPlaceRecovery E hw d)" for d
    by (intro adds_intros) simp_all
  then have "adds calls (\<lambda>c. \<forall>w. c \<noteq> CreateWorkflow w) (reconcile E hw)" if "is_provisioned hw"
    using that unfolding reconcile_def by (simp add: adds_bindE adds_modify_machine)
  with c have np: "\<not> is_provisioned hw" by (auto dest: addsD)
  have "ansWorkflow E (calls t @ [GetWorkflow (machine_key (tinkerbellMachine t))]) = Inl NotFound"
  proof (rule ccontr)
    assume n: "\<not> ?thesis"
    let ?f = "case_sum (\<lambda>e. if e = ErrRequeueRequested \<and> zeroSizePointersEqual E then returnE () else throwE e)
      (\<lambda>flow. reconcileWorkflowState E hw (wfState flow))"
    have "adds calls (\<lambda>c. \<forall>w. c \<noteq> CreateWorkflow w) (?f r)" for r
      by (cases r) (auto intro!: adds_intros)
    moreover have "logs calls (tryE (ensureWorkflow E hw))" by (intro adds_intros) simp_all
    ultimately have "?c \<in> set (issued calls (tryE (ensureWorkflow E hw)) t)"
      using c np issued_bindE_earlier [of calls "tryE (ensureWorkflow E hw)" _ ?f ?c t] unfolding reconcile_def by auto
    moreover have "issued calls (ensureWorkflow E hw) t = [GetWorkflow (machine_key (tinkerbellMachine t))]"
      using n by (cases "ansWorkflow E (calls t @ [GetWorkflow (machine_key (tinkerbellMachine t))])")
        (auto simp: issued_def ensureWorkflow_def run_simps Let_def)
    ultimately show False by (simp add: issued_tryE)
  qed
  with r np reconciled_to_published [OF r] show ?thesis
    by (cases "reservedAddress t") (auto intro!: exI [of _ hw] exI [of _ t])
qed

text \<open>A run that installs a machine: its Hardware is claimed already, its template the cluster's.\<close>

definition run_hw :: hardware where
  "run_hw = own_hw\<lparr>StorageDevices := [''/dev/sda'']\<rparr>"

definition run_kube :: kube where
  "run_kube = flow_kube\<lparr>ansHardwareList := \<lambda>_. Inr [run_hw], ansHardware := \<lambda>_. Inr run_hw\<rparr>"

definition run_scope :: scope where
  "run_scope = flow_scope\<lparr>externalTinkerbell := True\<rparr>"

lemma run_hw_sel [simp]:
  "Annotations run_hw = Map.empty" "Name run_hw = ''a''" "Namespace run_hw = ''ns''" "BMC run_hw = None"
  "StorageDevices run_hw = [''/dev/sda'']" "NetworkInterfaces run_hw = NetworkInterfaces (example_hw ''a'' Map.empty)"
  by (simp_all add: run_hw_def own_hw_def with_userdata_def claimed_hardware_def)

lemma run_kube_sel [simp]:
  "ansHardwareList run_kube h = Inr [run_hw]" "ansHardware run_kube h = Inr run_hw" "ansUnit run_kube h = Inr ()"
  "ansWorkflow run_kube h = ansWorkflow flow_kube h" "ansTemplate run_kube h = ansTemplate flow_kube h"
  "ansTaskList run_kube h = Inr []" "hardwareBMCRef run_kube hw = None" "convertTemplate run_kube fm d = Inl (NotConvertible ''not convertible'')"
  "workflowToV1Alpha2 run_kube v = Inr (objmeta.extend (meta v) \<lparr>wfTasks = [], wfState = StateNone, wfRest = []\<rparr>)"
  by (simp_all add: run_kube_def) (simp add: flow_kube_def)

lemma run_scope_sel [simp]:
  "tinkerbellMachine run_scope = example_machine" "tinkerbellCluster run_scope = Some example_cluster"
  "externalTinkerbell run_scope" "reservedAddress run_scope = None" "watchManager run_scope = None"
  "bootstrapCloudConfig run_scope = ''cfg PROVIDER_ID''" "calls run_scope = []"
  by (simp_all add: run_scope_def flow_scope_def)

lemma run_hw_claimed: "hardwareAlreadyClaimed run_kube example_machine run_hw"
  using own_hw_claimed
  by (simp add: hardwareAlreadyClaimed_def run_hw_def run_kube_def flow_kube_def own_kube_def base_defs)

lemma run_address: "hardwareIP run_kube (Some run_hw) = Inr ''10.0.0.9''"
  by (simp add: hardwareIP_def primaryInterface_def v1alpha1PrimaryInterface_def interface_keys_def interfaceKey_def
      net_interface_of_def run_kube_def flow_kube_def base_defs)

definition run_to_reconcile :: "scope \<Rightarrow> bool" where
  "run_to_reconcile t \<longleftrightarrow> tinkerbellCluster t = Some example_cluster \<and> externalTinkerbell t \<and>
     TemplateInline (tmSpec (tinkerbellMachine t)) = '''' \<and> TemplateRef (tmSpec (tinkerbellMachine t)) = None"

lemma run_reconciled_any:
  assumes [simp]: "\<And>h. ansHardwareList E h = Inr [run_hw]" "\<And>h. ansHardware E h = Inr run_hw" "\<And>h. ansUnit E h = Inr ()"
    and claimed: "hardwareAlreadyClaimed E example_machine run_hw" and addr: "hardwareIP E (Some run_hw) = Inr ''10.0.0.9''"
  shows "\<exists>t. reconciled_to E run_scope run_hw t \<and> run_to_reconcile t"
proof -
  let ?s = "add_call (ListAssignedHardware ''m1'' ''ns'') run_scope"
  have "hardwareForMachine E run_scope = (Inr run_hw, ?s)"
    by (simp add: hardwareForMachine_def assignedHardware_def run_simps)
  moreover have "takeHardwareOwnership E run_hw ?s = (Inr run_hw, ?s)"
    by (rule take_already_claimed) (use claimed in \<open>simp\<close>)
  moreover have "fst (ensureHardwareUserData E run_hw pid s) = Inr run_hw" for pid s
    by (simp add: ensureHardwareUserData_def run_simps Let_def)
  ultimately obtain s1 pid s0 where 1: "ensureHardware E run_scope = (Inr run_hw, s1)"
    and u: "ensureHardwareUserData E run_hw pid s0 = (Inr run_hw, s1)"
    and s0: "s0 = ?s\<lparr>tinkerbellMachine := record_hardware run_hw example_machine\<rparr>"
    by (simp add: ensureHardware_def run_bindE run_modify_machine ensure_watch_def) (metis prod.collapse)
  let ?obs = "\<lambda>s. (tinkerbellMachine s, tinkerbellCluster s, externalTinkerbell s, reservedAddress s)"
  have "?obs s1 = ?obs s0" by (rule keepsD [OF keeps_ensureHardwareUserData u]) simp
  then have s1: "tinkerbellMachine s1 = record_hardware run_hw example_machine" "tinkerbellCluster s1 = Some example_cluster"
      "externalTinkerbell s1" "reservedAddress s1 = None"
    by (simp_all add: s0)
  have "reconcileIPAM E run_hw s1 = (Inr run_hw, s1)"
    by (simp add: s1 reconcileIPAM_def run_simps record_hardware_def)
  with 1 s1 show ?thesis
    by (simp add: reconciled_to_def setStatus_def run_simps addr run_to_reconcile_def set_addresses_def record_hardware_def)
qed

lemma run_reconciled: "\<exists>t. reconciled_to run_kube run_scope run_hw t \<and> run_to_reconcile t"
  by (rule run_reconciled_any) (simp_all add: run_hw_claimed run_address)

lemma run_compat:
  assumes "externalTinkerbell s"
  shows "\<exists>s' w. createCompatibilityWorkflow run_kube flow ''tpl'' reason s = (Inr (), s') \<and> List.last (calls s') = CreateWorkflow w"
  using assms
  by (simp add: createCompatibilityWorkflow_def createTemplate_def removeTasks_def setResourceOwnership_remote run_simps
      templateObject_def new_meta_def objmeta.defs)

lemma run_creates:
  assumes "run_to_reconcile s"
  shows "\<exists>s' w. createWorkflow run_kube run_hw s = (Inr (), s') \<and> List.last (calls s') = CreateWorkflow w"
proof -
  from assms have x: "externalTinkerbell s" "tinkerbellCluster s = Some example_cluster"
    "TemplateInline (tmSpec (tinkerbellMachine s)) = ''''" "TemplateRef (tmSpec (tinkerbellMachine s)) = None"
    by (simp_all add: run_to_reconcile_def)
  obtain flow where n: "newWorkflow run_kube run_hw s = (Inr flow, s)"
    using x by (simp add: newWorkflow_def v1alpha1Workflow_def setResourceOwnership_remote run_simps Let_def
        new_meta_def objmeta.defs hasBMC_def)
  let ?s = "add_call (GetTemplate (machine_key (tinkerbellMachine s))) s"
  have e: "templateExists run_kube s = (Inr False, ?s)" by (simp add: templateExists_def run_simps)
  have d: "templateData run_kube run_hw ?s = (Inr ''tpl'', ?s)"
    using x by (simp add: templateData_def resolveTemplateData_def templateFromAnnotation_def clusterTemplate_def run_simps)
  have "externalTinkerbell ?s" using x by simp
  from run_compat [OF this, of flow "''the template does not convert to v1alpha2 Tasks: '' @ ''not convertible''"]
  show ?thesis by (auto simp: createWorkflow_def run_simps n e d nativeWorkflow_def)
qed

lemma run_installs: "\<exists>w. CreateWorkflow w \<in> set (issued calls (Reconcile run_kube) run_scope)"
proof -
  obtain t where r: "reconciled_to run_kube run_scope run_hw t" and rt: "run_to_reconcile t"
    using run_reconciled by blast
  let ?t = "add_call (GetWorkflow (machine_key (tinkerbellMachine t))) t"
  have "run_to_reconcile ?t" using rt by (simp add: run_to_reconcile_def)
  from run_creates [OF this] obtain s' w where c: "createWorkflow run_kube run_hw ?t = (Inr (), s')"
    and w: "List.last (calls s') = CreateWorkflow w" by blast
  have "calls s' \<noteq> []" using createWorkflow_Inr [OF c] by auto
  with w have w': "CreateWorkflow w \<in> set (calls s')" by (metis last_in_set)
  have "ansWorkflow run_kube (calls t @ [GetWorkflow (machine_key (tinkerbellMachine t))]) = Inl NotFound" by simp
  then have "snd (reconcile run_kube run_hw t) = s'"
    using c by (simp add: reconcile_def is_provisioned_def ensureWorkflow_def run_simps Let_def)
  with reconciled_to_run [OF r] have "CreateWorkflow w \<in> set (calls (snd (reconcileHardware run_kube run_scope)))"
    using w' by simp
  then show ?thesis
    unfolding issued_Reconcile log_run [OF adds_reconcileHardware [THEN adds_logs]] by auto
qed

theorem workflow_only_after_address_witness:
  "\<exists>(t :: scope) ip. Addresses (tmStatus (tinkerbellMachine t)) = [\<lparr>naType = NodeInternalIP, naAddress = ip\<rparr>] \<and>
     List.last (calls t) = PatchTinkerbellMachine (tinkerbellMachine t)"
proof -
  obtain w where "CreateWorkflow w \<in> set (issued calls (Reconcile run_kube) run_scope)" using run_installs by blast
  from workflow_only_after_address [OF this] show ?thesis by blast
qed

definition workflow_succeeded :: "('e) kube_scheme \<Rightarrow> scope \<Rightarrow> bool" where
  "workflow_succeeded E t \<longleftrightarrow>
     (\<exists>flow. ansWorkflow E (calls t @ [GetWorkflow (machine_key (tinkerbellMachine t))]) = Inr flow \<and> wfState flow = StateSuccess)"

lemma reconcile_ready:
  assumes np: "\<not> is_provisioned hw" and nr: "\<not> machine_ready t"
  shows "machine_ready (snd (reconcile E hw t)) \<longleftrightarrow> workflow_succeeded E t"
proof -
  obtain r u where w: "ensureWorkflow E hw t = (r, u)" by fastforce
  have k: "machine_ready u = machine_ready t" by (rule keepsD [OF keeps_ensureWorkflow w]) simp
  show ?thesis
  proof (cases r)
    case (Inl e)
    with w have "\<nexists>flow. ansWorkflow E (calls t @ [GetWorkflow (machine_key (tinkerbellMachine t))]) = Inr flow"
      using ensureWorkflow_Inr [of E hw t] by force
    with Inl w np nr k show ?thesis by (auto simp: reconcile_def run_simps workflow_succeeded_def)
  next
    case (Inr flow)
    with w have a: "ansWorkflow E (calls t @ [GetWorkflow (machine_key (tinkerbellMachine t))]) = Inr flow"
      using ensureWorkflow_Inr [of E hw t flow u] by simp
    have "machine_ready (snd (reconcileWorkflowState E hw (wfState flow) u)) \<longleftrightarrow> wfState flow = StateSuccess"
      using k nr by (cases "wfState flow")
        (auto simp: reconcileWorkflowState_def run_simps mark_ready_def patchHardwareAnnotations_def split: prod.splits sum.splits)
    with a Inr w np show ?thesis by (simp add: reconcile_def run_simps workflow_succeeded_def)
  qed
qed

text \<open>
  C17: A machine is reported ready only when it is installed. When a machine that was not ready is
  ready at the end of a reconcile, its Hardware was claimed, its address published, and either the
  Hardware carries the provisioned mark or its Workflow has just been read as successful; and for
  a Hardware without the mark a successful Workflow is also enough.
\<close>

theorem ready_only_when_installed:
  assumes "\<not> machine_ready s"
  shows "(machine_ready (snd (Reconcile E s)) \<longrightarrow>
       (\<exists>hw t. reconciled_to E s hw t \<and> (is_provisioned hw \<or> workflow_succeeded E t))) \<and>
     (\<forall>hw t. reconciled_to E s hw t \<and> \<not> is_provisioned hw \<and> workflow_succeeded E t \<longrightarrow> machine_ready (snd (Reconcile E s)))"
proof -
  have m: "machine_ready (snd (Reconcile E s)) = machine_ready (snd (reconcileHardware E s))"
    unfolding machine_Reconcile by simp
  have "\<exists>hw t. reconciled_to E s hw t \<and> (is_provisioned hw \<or> workflow_succeeded E t)" if "machine_ready (snd (Reconcile E s))"
  proof (cases E s rule: reconcileHardware_cases)
    case (early e t)
    with assms m that show ?thesis by simp
  next
    case (late hw t)
    with assms m that reconcile_ready [of hw t E] reconciled_to_ready [OF late(1)] show ?thesis by auto
  qed
  moreover have "machine_ready (snd (Reconcile E s))"
    if "reconciled_to E s hw t" "\<not> is_provisioned hw" "workflow_succeeded E t" for hw t
    using that assms m reconcile_ready [of hw t E] reconciled_to_ready [OF that(1)] reconciled_to_run [OF that(1)] by auto
  ultimately show ?thesis by blast
qed

definition done_flow :: workflow where
  "done_flow = objmeta.extend (new_meta ''m1'' ''ns'') \<lparr>wfTasks = [], wfState = StateSuccess, wfRest = ''''\<rparr>"

definition done_kube :: kube where
  "done_kube = run_kube\<lparr>ansWorkflow := \<lambda>_. Inr done_flow\<rparr>"

lemma done_reconciled: "\<exists>t. reconciled_to done_kube run_scope run_hw t"
proof -
  have "hardwareAlreadyClaimed done_kube example_machine run_hw"
    using run_hw_claimed by (simp add: done_kube_def hardwareAlreadyClaimed_def)
  moreover have "hardwareIP done_kube (Some run_hw) = Inr ''10.0.0.9''"
    using run_address by (simp add: done_kube_def hardwareIP_def primaryInterface_def v1alpha1PrimaryInterface_def)
  ultimately show ?thesis using run_reconciled_any [of done_kube] by (auto simp: done_kube_def)
qed

theorem ready_only_when_installed_witness: "machine_ready (snd (Reconcile done_kube run_scope))"
proof -
  obtain t where t: "reconciled_to done_kube run_scope run_hw t" using done_reconciled by blast
  have nr: "\<not> machine_ready run_scope" by simp
  have "workflow_succeeded done_kube t" by (simp add: workflow_succeeded_def done_kube_def done_flow_def objmeta.defs new_meta_def)
  moreover have "\<not> is_provisioned run_hw" by (simp add: is_provisioned_def)
  ultimately show ?thesis using ready_only_when_installed [OF nr, of done_kube] t by blast
qed

end
