(* ===== verification/Deletion.thy ===== *)
theory Deletion
  imports Scope
begin

text \<open>
  What holds of \<open>DeleteMachineWithDependencies\<close> of \<open>controller/machine/scope.go\<close>: the order in which a
  machine that is to go gives up what it holds, and that it can always finish.
\<close>

section \<open>How far a deletion gets\<close>

text \<open>The state after a deletion has asked for the machine's Hardware.\<close>

definition hardware_read :: "scope \<Rightarrow> scope" where
  "hardware_read s =
     (let tm = default_namespace (tinkerbellMachine s) in
      add_call (GetHardware (NN (TargetNamespace (tmStatus tm)) (HardwareName (tmSpec tm)))) (s\<lparr>tinkerbellMachine := tm\<rparr>))"

lemma run_Delete:
  "DeleteMachineWithDependencies E s =
     (let s1 = hardware_read s; release = releaseClaimAndFinalizer E in
      case ansHardware E (calls s1) of
        Inl a \<Rightarrow>
          if a = NotFound then bindE (removeDependencies E) (\<lambda>_. release) s1 else (Inl (Api a), s1)
      | Inr hw \<Rightarrow>
          bindE (removeDependencies E) (\<lambda>_.
          if \<not> hasBMC E (Some hw) then bindE (releaseHardware E hw) (\<lambda>_. release)
          else bindE (ensureBMCJobCompletionForDelete E hw) (\<lambda>_. bindE (releaseHardware E hw) (\<lambda>_. release))) s1)"
  by (cases "ansHardware E (calls (hardware_read s))")
    (simp_all add: DeleteMachineWithDependencies_def hardware_read_def getHardwareForMachine_def run_bindE
      run_modify_machine run_tryE run_getsE run_api run_throwE Let_def)

text \<open>The calls made before anything is released.\<close>

definition before_release :: "call \<Rightarrow> bool" where
  "before_release c \<longleftrightarrow>
     (case c of GetHardware _ \<Rightarrow> True | GetTemplate _ \<Rightarrow> True | DeleteTemplate _ \<Rightarrow> True | ListTasks _ _ _ \<Rightarrow> True
      | DeleteTask _ \<Rightarrow> True | GetWorkflow _ \<Rightarrow> True | DeleteWorkflow _ \<Rightarrow> True | GetJob _ \<Rightarrow> True | CreateJob _ \<Rightarrow> True
      | _ \<Rightarrow> False)"

lemma adds_before_release:
  "adds calls before_release (removeDependencies E)" "adds calls before_release (ensureBMCJobCompletionForDelete E hw)"
  by (intro adds_intros; simp add: before_release_def)+

lemma logs_release:
  "logs calls (releaseClaimAndFinalizer E)" "logs calls (releaseHardware E hw)"
  "logs calls (bindE (releaseHardware E hw) (\<lambda>_. releaseClaimAndFinalizer E))"
  unfolding releaseClaimAndFinalizer_def by (intro adds_intros; simp)+

lemma issued_from_read:
  assumes "DeleteMachineWithDependencies E s = m (hardware_read s)" and "logs calls m"
    and "c \<in> set (issued calls (DeleteMachineWithDependencies E) s)"
    and "\<not> before_release c"
  shows "c \<in> set (issued calls m (hardware_read s))"
proof -
  have "calls (hardware_read s) = calls s @ [List.last (calls (hardware_read s))]"
    by (simp add: hardware_read_def Let_def)
  from issued_from [of "DeleteMachineWithDependencies E" s m "hardware_read s" calls _, OF assms(1) this assms(2)] assms(3,4)
  show ?thesis by (auto simp: hardware_read_def Let_def before_release_def)
qed

text \<open>How far a deletion got when it made a call that is not one of these.\<close>

lemma release_reached:
  assumes c: "c \<in> set (issued calls (DeleteMachineWithDependencies E) s)" and late: "\<not> before_release c"
  shows "\<exists>s2. removeDependencies E (hardware_read s) = (Inr (), s2) \<and>
    (ansHardware E (calls (hardware_read s)) = Inl NotFound \<and>
       DeleteMachineWithDependencies E s = releaseClaimAndFinalizer E s2 \<and> c \<in> set (issued calls (releaseClaimAndFinalizer E) s2) \<or>
     (\<exists>hw sb. ansHardware E (calls (hardware_read s)) = Inr hw \<and>
       (if hasBMC E (Some hw) then ensureBMCJobCompletionForDelete E hw s2 = (Inr (), sb) else sb = s2) \<and>
       (let m = bindE (releaseHardware E hw) (\<lambda>_. releaseClaimAndFinalizer E) in
        DeleteMachineWithDependencies E s = m sb \<and> c \<in> set (issued calls m sb))))"
proof -
  let ?rel = "releaseClaimAndFinalizer E" and ?h = "hardware_read s"
  let ?hrel = "\<lambda>hw. bindE (releaseHardware E hw) (\<lambda>_. ?rel)"
  let ?brel = "\<lambda>hw. if \<not> hasBMC E (Some hw) then ?hrel hw else bindE (ensureBMCJobCompletionForDelete E hw) (\<lambda>_. ?hrel hw)"
  have deps: "\<exists>s2. removeDependencies E ?h = (Inr (), s2) \<and> DeleteMachineWithDependencies E s = m s2 \<and> c \<in> set (issued calls m s2)"
    if m: "DeleteMachineWithDependencies E s = bindE (removeDependencies E) (\<lambda>_. m) ?h" and l: "logs calls m" for m :: "unit io"
  proof -
    have "c \<in> set (issued calls (bindE (removeDependencies E) (\<lambda>_. m)) ?h)"
      by (rule issued_from_read [OF m adds_bindE [OF adds_logs [OF adds_before_release(1)] l] c late])
    from issued_bindE_later [OF adds_before_release(1) l this late] m show ?thesis by (auto simp: run_bindE)
  qed
  show ?thesis
  proof (cases "ansHardware E (calls ?h)")
    case (Inl a)
    show ?thesis
    proof (cases "a = NotFound")
      case False
      with Inl have "DeleteMachineWithDependencies E s = throwE (Api a) ?h" by (simp add: run_Delete run_throwE)
      from issued_from_read [OF this adds_throwE c late] show ?thesis by (simp add: issued_throwE)
    next
      case True
      with Inl have "DeleteMachineWithDependencies E s = bindE (removeDependencies E) (\<lambda>_. ?rel) ?h" by (simp add: run_Delete)
      from deps [OF this logs_release(1)] Inl True show ?thesis by auto
    qed
  next
    case (Inr hw)
    then have "DeleteMachineWithDependencies E s = bindE (removeDependencies E) (\<lambda>_. ?brel hw) ?h" by (simp add: run_Delete)
    moreover have "logs calls (?brel hw)"
      by (intro adds_if adds_bindE logs_release adds_logs [OF adds_before_release(2)])
    ultimately obtain s2 where d: "removeDependencies E ?h = (Inr (), s2)" "DeleteMachineWithDependencies E s = ?brel hw s2"
      and c2: "c \<in> set (issued calls (?brel hw) s2)" using deps by blast
    show ?thesis
    proof (cases "hasBMC E (Some hw)")
      case False
      with d c2 Inr show ?thesis by auto
    next
      case True
      with c2 have "c \<in> set (issued calls (bindE (ensureBMCJobCompletionForDelete E hw) (\<lambda>_. ?hrel hw)) s2)" by simp
      from issued_bindE_later [OF adds_before_release(2) logs_release(3) this late] obtain sb where
        "ensureBMCJobCompletionForDelete E hw s2 = (Inr (), sb)" "c \<in> set (issued calls (?hrel hw) sb)" by auto
      with d True Inr show ?thesis by (auto simp: run_bindE Let_def)
    qed
  qed
qed

lemma finalizer_patch:
  assumes "PatchTinkerbellMachine tm \<in> set (issued calls (releaseClaimAndFinalizer E) s)"
  shows "\<exists>s4. releaseIPAddressClaim E s = (Inr (), s4) \<and> tm = without_finalizer E (tinkerbellMachine s4) \<and>
    calls (snd (releaseClaimAndFinalizer E s)) = calls s4 @ [PatchTinkerbellMachine tm]"
proof -
  have l: "logs calls (removeFinalizer_machine E)" by (intro adds_intros) simp
  have "adds calls (\<lambda>c. \<forall>tm. c \<noteq> PatchTinkerbellMachine tm) (releaseIPAddressClaim E)" by (intro adds_intros) simp_all
  from issued_bindE_later [OF this l assms [unfolded releaseClaimAndFinalizer_def]]
  obtain s4 where r: "releaseIPAddressClaim E s = (Inr (), s4)"
    and c: "PatchTinkerbellMachine tm \<in> set (issued calls (removeFinalizer_machine E) s4)" by auto
  from c have "tm = without_finalizer E (tinkerbellMachine s4)"
    by (simp add: issued_def run_removeFinalizer_machine run_patch_machine)
  with r show ?thesis
    by (simp add: releaseClaimAndFinalizer_def run_bindE run_removeFinalizer_machine run_patch_machine)
qed

text \<open>What a deletion has done when it gets to \<open>releaseClaimAndFinalizer\<close> in state \<open>s3\<close>.\<close>

definition released_to :: "('e) kube_scheme \<Rightarrow> scope \<Rightarrow> scope \<Rightarrow> bool" where
  "released_to E s s3 \<longleftrightarrow>
     (\<exists>s2. removeDependencies E (hardware_read s) = (Inr (), s2) \<and>
       (ansHardware E (calls (hardware_read s)) = Inl NotFound \<and> s3 = s2 \<or>
        (\<exists>hw hw' sb. ansHardware E (calls (hardware_read s)) = Inr hw \<and>
           (if hasBMC E (Some hw) then ensureBMCJobCompletionForDelete E hw s2 = (Inr (), sb) else sb = s2) \<and>
           releaseHardware E hw sb = (Inr hw', s3))))"

text \<open>
  C5: The finalizer is the last thing a deletion gives up, and only when nothing is left behind. When
  the machine is patched at all, that patch is the last call and takes both finalizers off; before
  it the Template, Tasks and Workflow were removed, the Hardware was gone or released - after its
  power-off Job completed, when it has a BMC - and the claim was released.
\<close>

theorem delete_gates_finalizer:
  assumes "finalizer_laws E" and "PatchTinkerbellMachine tm \<in> set (issued calls (DeleteMachineWithDependencies E) s)"
  shows "\<exists>s3 s4. released_to E s s3 \<and> releaseIPAddressClaim E s3 = (Inr (), s4) \<and>
    calls (snd (DeleteMachineWithDependencies E s)) = calls s4 @ [PatchTinkerbellMachine tm] \<and>
    MachineFinalizer \<notin> set (Finalizers tm) \<and> MachineLegacyFinalizer \<notin> set (Finalizers tm)"
proof -
  let ?c = "PatchTinkerbellMachine tm" and ?rel = "releaseClaimAndFinalizer E"
  have late: "\<not> before_release ?c" by (simp add: before_release_def)
  have "\<exists>s3. released_to E s s3 \<and> DeleteMachineWithDependencies E s = ?rel s3 \<and> ?c \<in> set (issued calls ?rel s3)"
  proof -
    from release_reached [OF assms(2) late] consider s2 where "removeDependencies E (hardware_read s) = (Inr (), s2)"
        "ansHardware E (calls (hardware_read s)) = Inl NotFound" "DeleteMachineWithDependencies E s = ?rel s2" "?c \<in> set (issued calls ?rel s2)"
      | s2 hw sb where "removeDependencies E (hardware_read s) = (Inr (), s2)" "ansHardware E (calls (hardware_read s)) = Inr hw"
        "if hasBMC E (Some hw) then ensureBMCJobCompletionForDelete E hw s2 = (Inr (), sb) else sb = s2"
        "DeleteMachineWithDependencies E s = bindE (releaseHardware E hw) (\<lambda>_. ?rel) sb"
        "?c \<in> set (issued calls (bindE (releaseHardware E hw) (\<lambda>_. ?rel)) sb)"
      unfolding Let_def by blast
    then show ?thesis
    proof cases
      case 1
      then show ?thesis unfolding released_to_def by blast
    next
      case 2
      have "adds calls (\<lambda>c. \<forall>tm. c \<noteq> PatchTinkerbellMachine tm) (releaseHardware E hw)" by (intro adds_intros) simp_all
      from issued_bindE_later [OF this logs_release(1) 2(5)] obtain hw' s3 where
        h: "releaseHardware E hw sb = (Inr hw', s3)" and "?c \<in> set (issued calls ?rel s3)" by auto
      moreover from h 2(4) have "DeleteMachineWithDependencies E s = ?rel s3" by (simp add: run_bindE)
      ultimately show ?thesis using 2(1-3) unfolding released_to_def by blast
    qed
  qed
  then obtain s3 where "released_to E s s3" "DeleteMachineWithDependencies E s = ?rel s3" "?c \<in> set (issued calls ?rel s3)" by blast
  with finalizer_patch [OF this(3)] without_finalizer_mem [OF assms(1)] show ?thesis by auto
qed

text \<open>A machine whose Hardware is gone, with nothing left on the servers.\<close>

lemma bare_delete:
  assumes "ansHardware E (calls (hardware_read s)) = Inl NotFound"
    and "\<And>h. ansTemplate E h = Inl NotFound" "\<And>h. ansTaskList E h = Inr []" "\<And>h. ansWorkflow E h = Inl NotFound"
    and "\<And>h. ansUnit E h = Inr ()"
    and "AddressFromPool (tmSpec (tinkerbellMachine s)) = None \<or> HardwareName (tmSpec (tinkerbellMachine s)) = ''''"
  shows "\<exists>s'. DeleteMachineWithDependencies E s = (Inr (), s') \<and>
    calls s' = calls (hardware_read s) @
      (let tm = default_namespace (tinkerbellMachine s) in
       [GetTemplate (machine_key tm), ListTasks (tinkerbellNamespace tm) (Name tm) (Namespace tm), GetWorkflow (machine_key tm),
        PatchTinkerbellMachine (without_finalizer E tm)])"
proof -
  have m: "tinkerbellMachine (hardware_read s) = default_namespace (tinkerbellMachine s)"
    by (simp add: hardware_read_def Let_def)
  have sp: "tmSpec (default_namespace tm) = tmSpec tm" for tm by (simp add: default_namespace_def)
  show ?thesis
    using assms
    by (simp add: run_Delete removeDependencies_def unless_not_found_def run_bindE run_catchE template_remover.run_remove
        workflow_remover.run_remove removeTasks_def run_getsE run_api run_returnE m sp Let_def
        releaseClaimAndFinalizer_def releaseIPAddressClaim_def run_removeFinalizer_machine run_patch_machine)
qed

text \<open>
  A deletion can always finish: once the servers have neither the machine's Hardware, Template,
  Tasks nor Workflow, and it holds no address, the next deletion succeeds after four reads, its
  only write being the patch that lets the machine go.
\<close>

theorem delete_completes:
  assumes "finalizer_laws E" "ansHardware E (calls (hardware_read s)) = Inl NotFound"
    and "\<And>h. ansTemplate E h = Inl NotFound" "\<And>h. ansTaskList E h = Inr []" "\<And>h. ansWorkflow E h = Inl NotFound"
    and "\<And>h. ansUnit E h = Inr ()"
    and "AddressFromPool (tmSpec (tinkerbellMachine s)) = None \<or> HardwareName (tmSpec (tinkerbellMachine s)) = ''''"
  shows "\<exists>s' reads tm. DeleteMachineWithDependencies E s = (Inr (), s') \<and>
    calls s' = calls s @ reads @ [PatchTinkerbellMachine tm] \<and> length reads = 4 \<and>
    MachineFinalizer \<notin> set (Finalizers tm) \<and> MachineLegacyFinalizer \<notin> set (Finalizers tm)"
  using bare_delete [OF assms(2-7)] without_finalizer_mem [OF assms(1)]
  by (auto simp: Let_def hardware_read_def)

theorem delete_completes_witness:
  "\<exists>s'. DeleteMachineWithDependencies (base_kube\<lparr>ansHardware := \<lambda>_. Inl NotFound\<rparr>) example_scope = (Inr (), s') \<and>
     length (calls s') = 5"
proof -
  have "AddressFromPool (tmSpec (tinkerbellMachine example_scope)) = None \<or> HardwareName (tmSpec (tinkerbellMachine example_scope)) = ''''"
    by simp
  from delete_completes [OF finalizer_laws_base _ _ _ _ _ this] show ?thesis by fastforce
qed

theorem delete_gates_finalizer_witness:
  "\<exists>tm s3. released_to (base_kube\<lparr>ansHardware := \<lambda>_. Inl NotFound\<rparr>) example_scope s3 \<and>
     MachineFinalizer \<notin> set (Finalizers (tm :: tinkerbell_machine))"
proof -
  let ?E = "base_kube\<lparr>ansHardware := \<lambda>_. Inl NotFound\<rparr>"
  obtain tm where "PatchTinkerbellMachine tm \<in> set (issued calls (DeleteMachineWithDependencies ?E) example_scope)"
    using bare_delete [of ?E example_scope] by (auto simp: issued_def hardware_read_def Let_def)
  from delete_gates_finalizer [OF finalizer_laws_base this] show ?thesis by blast
qed

lemma ensureBMCJob_completed:
  "ensureBMCJobCompletionForDelete E hw s = (Inr (), t) \<Longrightarrow>
   \<exists>job. ansJob E (calls s @ [GetJob (NN (tinkerbellNamespace (tinkerbellMachine s)) (poweroff_name (tinkerbellMachine s)))]) = Inr job \<and>
     hasConditionStatus E (jobConditions job) ConditionTypeCompleted ConditionStatusTrue"
  by (cases "ansJob E (calls s @ [GetJob (NN (tinkerbellNamespace (tinkerbellMachine s)) (poweroff_name (tinkerbellMachine s)))])")
    (auto simp: ensureBMCJobCompletionForDelete_def getJob_def createPowerOffJob_def run_simps split: sum.splits if_splits)



end
