(* ===== verification/Api.thy ===== *)
theory Api
  imports Objects
begin

text \<open>
  The kinds of the two API versions the controllers do not reconcile: the templates of \<open>api/v1beta2\<close>
  and, with the prefix \<open>s\<close> of the spoke version, all the kinds of \<open>api/v1beta1\<close>. The zero values are those
  of objects just allocated.
\<close>

section \<open>The templates of v1beta2\<close>

text \<open>\<open>clusterv1.ObjectMeta\<close>: the labels and annotations of what is made from a template.\<close>

record template_meta =
  TemplateLabels :: "string \<rightharpoonup> string"
  TemplateAnnotations :: "string \<rightharpoonup> string"

record machine_template_resource =
  mtrMeta :: template_meta
  mtrSpec :: machine_config

record machine_template_spec =
  mtsTemplate :: machine_template_resource

record machine_template = objmeta +
  mtSpec :: machine_template_spec

record cluster_template_resource =
  ctrMeta :: template_meta
  ctrSpec :: cluster_spec

record cluster_template_spec =
  ctsTemplate :: cluster_template_resource

record cluster_template = objmeta +
  ctSpec :: cluster_template_spec

definition GetConditions :: "tinkerbell_machine \<Rightarrow> condition list" where
  "GetConditions m = Conditions (tmStatus m)"

definition SetConditions :: "condition list \<Rightarrow> tinkerbell_machine \<Rightarrow> tinkerbell_machine" where
  "SetConditions cs m = m\<lparr>tmStatus := (tmStatus m)\<lparr>Conditions := cs\<rparr>\<rparr>"

definition GetClusterConditions :: "tinkerbell_cluster \<Rightarrow> condition list" where
  "GetClusterConditions c = ClusterConditions (tcStatus c)"

definition SetClusterConditions :: "condition list \<Rightarrow> tinkerbell_cluster \<Rightarrow> tinkerbell_cluster" where
  "SetClusterConditions cs c = c\<lparr>tcStatus := (tcStatus c)\<lparr>ClusterConditions := cs\<rparr>\<rparr>"

section \<open>The kinds of v1beta1\<close>

record s_object_ref =
  sRefName :: string
  sRefNamespace :: string

record s_boot_options =
  sISOURL :: string
  sBootMode :: boot_mode
  sCustombootConfig :: customboot_config

record s_affinity_term =
  sLabelSelector :: label_selector

record s_weighted_term =
  sWeight :: int
  sAffinityTerm :: s_affinity_term

record s_hardware_affinity =
  sRequired :: "s_affinity_term list"
  sPreferred :: "s_weighted_term list"

text \<open>The four fields of both specs that nothing reads.\<close>

record s_image_lookup =
  ImageLookupFormat :: string
  ImageLookupBaseRegistry :: string
  ImageLookupOSDistro :: string
  ImageLookupOSVersion :: string

record s_machine_spec = s_image_lookup +
  sTemplateOverride :: string
  sHardwareAffinity :: "s_hardware_affinity option"
  sBootOptions :: s_boot_options
  sHardwareName :: string
  sProviderID :: string

record s_machine_init_status =
  sProvisioned :: "bool option"

record s_machine_status =
  sReady :: bool
  sInitialization :: "s_machine_init_status option"
  sAddresses :: "node_address list"
  sInstanceStatus :: "int option"
  sTargetNamespace :: string
  sConditions :: "condition list"
  sErrorReason :: "string option"
  sErrorMessage :: "string option"

record s_machine = objmeta +
  sMachineSpec :: s_machine_spec
  sMachineStatus :: s_machine_status

record s_template_resource =
  strSpec :: s_machine_spec

record s_template_spec =
  stsTemplate :: s_template_resource

record s_machine_template = objmeta +
  sTemplateSpec :: s_template_spec

record s_cluster_spec = s_image_lookup +
  sControlPlaneEndpoint :: "api_endpoint option"
  sClusterTemplateOverride :: string
  sTemplateOverrideRef :: "s_object_ref option"

record s_cluster_init_status =
  sClusterProvisioned :: "bool option"

record s_cluster_status =
  sClusterReady :: bool
  sClusterInitialization :: "s_cluster_init_status option"
  sClusterConditions :: "condition list"

record s_cluster = objmeta +
  sClusterSpec :: s_cluster_spec
  sClusterStatus :: s_cluster_status

definition sGetConditions :: "s_machine \<Rightarrow> condition list" where
  "sGetConditions m = sConditions (sMachineStatus m)"

definition sSetConditions :: "condition list \<Rightarrow> s_machine \<Rightarrow> s_machine" where
  "sSetConditions cs m = m\<lparr>sMachineStatus := (sMachineStatus m)\<lparr>sConditions := cs\<rparr>\<rparr>"

definition sGetClusterConditions :: "s_cluster \<Rightarrow> condition list" where
  "sGetClusterConditions c = sClusterConditions (sClusterStatus c)"

definition sSetClusterConditions :: "condition list \<Rightarrow> s_cluster \<Rightarrow> s_cluster" where
  "sSetClusterConditions cs c = c\<lparr>sClusterStatus := (sClusterStatus c)\<lparr>sClusterConditions := cs\<rparr>\<rparr>"

section \<open>Zero values\<close>

definition zero_boot :: boot_options where
  "zero_boot = \<lparr>ISOURL = '''', BootMode = BootModeUnset, CustombootConfig = ''''\<rparr>"

definition zero_config :: machine_config where
  "zero_config = \<lparr>TemplateInline = '''', TemplateRef = None, HardwareAffinity = None, BootOptions = zero_boot, AddressFromPool = None\<rparr>"

definition zero_spec :: machine_spec where
  "zero_spec = machine_config.extend zero_config \<lparr>HardwareName = '''', ProviderID = ''''\<rparr>"

definition zero_status :: machine_status where
  "zero_status = \<lparr>Ready = False, Initialization = None, Addresses = [], State = None, TargetNamespace = '''',
     Conditions = [], ErrorReason = None, ErrorMessage = None\<rparr>"

definition zero_machine :: tinkerbell_machine where
  "zero_machine = objmeta.extend (new_meta '''' '''') \<lparr>tmSpec = zero_spec, tmStatus = zero_status\<rparr>"

definition zero_template_meta :: template_meta where
  "zero_template_meta = \<lparr>TemplateLabels = Map.empty, TemplateAnnotations = Map.empty\<rparr>"

definition zero_machine_template :: machine_template where
  "zero_machine_template = objmeta.extend (new_meta '''' '''') \<lparr>mtSpec = \<lparr>mtsTemplate = \<lparr>mtrMeta = zero_template_meta, mtrSpec = zero_config\<rparr>\<rparr>\<rparr>"

definition zero_cluster :: tinkerbell_cluster where
  "zero_cluster = objmeta.extend (new_meta '''' '''')
     \<lparr>tcSpec = \<lparr>ControlPlaneEndpoint = None, ClusterTemplateInline = '''', ClusterTemplateRef = None\<rparr>,
      tcStatus = \<lparr>ClusterReady = False, ClusterInitialization = None, ClusterConditions = []\<rparr>\<rparr>"

definition zero_lookup :: s_image_lookup where
  "zero_lookup = \<lparr>ImageLookupFormat = '''', ImageLookupBaseRegistry = '''', ImageLookupOSDistro = '''', ImageLookupOSVersion = ''''\<rparr>"

definition zero_s_spec :: s_machine_spec where
  "zero_s_spec = s_image_lookup.extend zero_lookup
     \<lparr>sTemplateOverride = '''', sHardwareAffinity = None,
      sBootOptions = \<lparr>sISOURL = '''', sBootMode = BootModeUnset, sCustombootConfig = ''''\<rparr>, sHardwareName = '''', sProviderID = ''''\<rparr>"

definition zero_s_machine :: s_machine where
  "zero_s_machine = objmeta.extend (new_meta '''' '''')
     \<lparr>sMachineSpec = zero_s_spec,
      sMachineStatus = \<lparr>sReady = False, sInitialization = None, sAddresses = [], sInstanceStatus = None, sTargetNamespace = '''',
        sConditions = [], sErrorReason = None, sErrorMessage = None\<rparr>\<rparr>"

definition zero_s_machine_template :: s_machine_template where
  "zero_s_machine_template = objmeta.extend (new_meta '''' '''') \<lparr>sTemplateSpec = \<lparr>stsTemplate = \<lparr>strSpec = zero_s_spec\<rparr>\<rparr>\<rparr>"

definition zero_s_cluster :: s_cluster where
  "zero_s_cluster = objmeta.extend (new_meta '''' '''')
     \<lparr>sClusterSpec = s_image_lookup.extend zero_lookup
        \<lparr>sControlPlaneEndpoint = None, sClusterTemplateOverride = '''', sTemplateOverrideRef = None\<rparr>,
      sClusterStatus = \<lparr>sClusterReady = False, sClusterInitialization = None, sClusterConditions = []\<rparr>\<rparr>"

lemmas zero_defs = zero_boot_def zero_config_def zero_spec_def zero_status_def zero_machine_def zero_template_meta_def
  zero_machine_template_def zero_cluster_def zero_lookup_def zero_s_spec_def zero_s_machine_def zero_s_machine_template_def
  zero_s_cluster_def

end
