(* ===== verification/MachineController.thy ===== *)
theory MachineController
  imports Deletion Api
begin

text \<open>
  \<open>controller/machine/tinkerbellmachine.go\<close>: the reconciler of TinkerbellMachines. It reads the machine,
  its owner and its cluster, decides whether to install it, to delete it or to wait, and turns the
  errors of the reconcile into requeues. With it the mappers that wake a machine up and the watches
  that use them.
\<close>

section \<open>The reconciler\<close>

text \<open>The clients and the scheme by whether they are set; the watch manager as a state.\<close>

record machine_reconciler =
  hasClient :: bool
  hasTinkerbellClient :: bool
  ExternalTinkerbell :: bool
  WatchManager :: "watch_manager option"
  hasScheme :: bool

definition validate :: "machine_reconciler option \<Rightarrow> goerr + machine_reconciler" where
  "validate r =
     (case r of
        None \<Rightarrow> Inl ErrConfigurationNil
      | Some rec \<Rightarrow>
          if \<not> hasClient rec then Inl ErrMissingClient
          else if \<not> hasTinkerbellClient rec then Inl ErrMissingTinkerbellClient
          else if \<not> hasScheme rec then Inl ErrMissingScheme
          else Inr rec)"

text \<open>The scope of a new reconcile; the calls already made are those of the history.\<close>

definition new_scope :: "machine_reconciler \<Rightarrow> call list \<Rightarrow> scope" where
  "new_scope rec h = \<lparr>tinkerbellMachine = zero_machine, ownerMachine = None, tinkerbellCluster = None,
     bootstrapCloudConfig = '''', externalTinkerbell = ExternalTinkerbell rec, reservedAddress = None,
     watchManager = WatchManager rec, calls = h\<rparr>"

record ctrl_result =
  RequeueAfter :: int

definition no_requeue :: ctrl_result where
  "no_requeue = \<lparr>RequeueAfter = 0\<rparr>"

definition IPAddressRequeueAfter :: int where
  "IPAddressRequeueAfter = 30 * second_ns"

definition is_claim_requeue :: "goerr \<Rightarrow> bool" where
  "is_claim_requeue e \<longleftrightarrow> (case e of ErrHardwareClaimRequeue _ \<Rightarrow> True | _ \<Rightarrow> False)"

text \<open>The two errors of a reconcile that are a wait and not a failure.\<close>

definition requeue_error :: "goerr \<Rightarrow> ctrl_result io" where
  "requeue_error e =
     (if is_claim_requeue e then returnE \<lparr>RequeueAfter = second_ns\<rparr>
      else if e = ErrWaitingForIPAddress then returnE \<lparr>RequeueAfter = IPAddressRequeueAfter\<rparr>
      else throwE e)"

definition start_reconcile :: "capi_machine \<Rightarrow> string \<Rightarrow> tinkerbell_cluster \<Rightarrow> unit io" where
  "start_reconcile m cfg tc =
     modifyE (\<lambda>s. s\<lparr>ownerMachine := Some m, bootstrapCloudConfig := cfg, tinkerbellCluster := Some tc\<rparr>)"

definition installMachine :: "('e) kube_scheme \<Rightarrow> capi_machine \<Rightarrow> ctrl_result io" where
  "installMachine E m =
     bindE (getReadyBootstrapCloudConfig E m) (\<lambda>cfg.
     if cfg = '''' then returnE \<lparr>RequeueAfter = 30 * second_ns\<rparr>
     else
       bindE (getReadyTinkerbellCluster E m) (\<lambda>cluster.
       case cluster of
         None \<Rightarrow> returnE no_requeue
       | Some tc \<Rightarrow>
           bindE (start_reconcile m cfg tc) (\<lambda>_.
           catchE (bindE (Reconcile E) (\<lambda>_. returnE no_requeue)) requeue_error)))"

definition reconcileReadyMachine :: "('e) kube_scheme \<Rightarrow> capi_machine \<Rightarrow> ctrl_result io" where
  "reconcileReadyMachine E m =
     bindE (getsE tinkerbellMachine) (\<lambda>tm.
     if MachineScheduledForDeletion tm
     then bindE (DeleteMachineWithDependencies E) (\<lambda>_. returnE no_requeue)
     else installMachine E m)"

text \<open>The owner's cluster, when there is an owner and a cluster.\<close>

definition machineCluster :: "('e) kube_scheme \<Rightarrow> capi_machine option \<Rightarrow> capi_cluster option io" where
  "machineCluster E machine =
     (case machine of
        None \<Rightarrow> returnE None
      | Some m \<Rightarrow>
          bindE (tryE (api (ansCluster E) (GetClusterFromMetadata (meta m)))) (\<lambda>r.
          case r of
            Inl e \<Rightarrow> if isNotFound e then returnE None else throwE e
          | Inr cluster \<Rightarrow> returnE (Some cluster)))"

text \<open>\<open>paused.EnsurePausedCondition\<close> also sets the condition on the machine in memory.\<close>

definition ensurePaused :: "('e) kube_scheme \<Rightarrow> capi_cluster option \<Rightarrow> bool io" where
  "ensurePaused E cluster =
     bindE (getsE tinkerbellMachine) (\<lambda>tm.
     bindE (api (ansPaused E) (EnsurePausedCondition cluster tm)) (\<lambda>(paused, conds).
     bindE (modify_machine (\<lambda>tm. tm\<lparr>tmStatus := (tmStatus tm)\<lparr>Conditions := conds\<rparr>\<rparr>)) (\<lambda>_.
     returnE paused)))"

definition reconcileUnpaused :: "('e) kube_scheme \<Rightarrow> capi_machine option \<Rightarrow> ctrl_result io" where
  "reconcileUnpaused E machine =
     bindE (liftE (isMachineReady machine)) (\<lambda>reason.
     if reason \<noteq> '''' then returnE no_requeue
     else (case machine of None \<Rightarrow> throwE ErrNilDereference | Some m \<Rightarrow> reconcileReadyMachine E m))"

definition reconcileMachine :: "('e) kube_scheme \<Rightarrow> tinkerbell_machine \<Rightarrow> ctrl_result io" where
  "reconcileMachine E tm =
     bindE (modify_machine (\<lambda>_. tm)) (\<lambda>_.
     bindE (liftE (map_sum ErrPatchHelper id (newPatchHelper E (meta tm)))) (\<lambda>_.
     bindE (api (ansOwnerMachine E) (GetOwnerMachine (meta tm))) (\<lambda>machine.
     bindE (machineCluster E machine) (\<lambda>cluster.
     bindE (ensurePaused E cluster) (\<lambda>paused.
     if paused then returnE no_requeue else reconcileUnpaused E machine)))))"

text \<open>\<open>Reconcile\<close>; an error of \<open>validate\<close> is a panic.\<close>

definition reconcileRequest :: "('e) kube_scheme \<Rightarrow> nsname \<Rightarrow> ctrl_result io" where
  "reconcileRequest E req =
     bindE (tryE (api (ansTinkerbellMachine E) (GetTinkerbellMachine req))) (\<lambda>r.
     case r of
       Inl e \<Rightarrow> if isNotFound e then returnE no_requeue else throwE e
     | Inr tm \<Rightarrow> reconcileMachine E tm)"

definition TinkerbellMachineReconcile ::
    "('e) kube_scheme \<Rightarrow> machine_reconciler option \<Rightarrow> nsname \<Rightarrow> ctrl_result io" where
  "TinkerbellMachineReconcile E r req =
     bindE (liftE (validate r)) (\<lambda>rec.
     bindE (modifyE (\<lambda>s. new_scope rec (calls s))) (\<lambda>_.
     reconcileRequest E req))"

section \<open>What wakes a machine up\<close>

definition labelToMachineMapper :: "'a objmeta_scheme \<Rightarrow> nsname list" where
  "labelToMachineMapper o' =
     (let n = lookup0 (Labels o') LabelMachineName; ns = lookup0 (Labels o') LabelMachineNamespace
      in if n = '''' \<or> ns = '''' then [] else [NN ns n])"

text \<open>\<open>None\<close> is an object that is not a TinkerbellCluster; errors are only logged.\<close>

definition machineRequests :: "capi_machine list \<Rightarrow> nsname list" where
  "machineRequests ms =
     map (\<lambda>m. NN (Namespace m) (mInfraRefName m)) (filter (\<lambda>m. mInfraRefName m \<noteq> '''') ms)"

definition TinkerbellClusterToTinkerbellMachines ::
    "('e) kube_scheme \<Rightarrow> tinkerbell_cluster option \<Rightarrow> nsname list io" where
  "TinkerbellClusterToTinkerbellMachines E o' =
     (case o' of
        None \<Rightarrow> returnE []
      | Some c \<Rightarrow>
          if being_deleted c then returnE []
          else
            bindE (tryE (api (ansOwnerCluster E) (GetOwnerCluster (meta c)))) (\<lambda>r.
            case r of
              Inl e \<Rightarrow> returnE []
            | Inr None \<Rightarrow> returnE []
            | Inr (Some cluster) \<Rightarrow>
                bindE (tryE (api (ansMachineList E) (ListClusterMachines cluster))) (\<lambda>ms.
                case ms of
                  Inl e \<Rightarrow> returnE []
                | Inr machines \<Rightarrow> returnE (machineRequests machines))))"

datatype watched_kind = KMachine | KTinkerbellCluster | KCluster | KIPAddressClaim | KWorkflow | KTask | KJob

datatype watch_mapping =
    MapInfrastructureRef      \<comment> \<open>\<open>util.MachineToInfrastructureMapFunc\<close>\<close>
  | MapClusterInfrastructure  \<comment> \<open>\<open>util.ClusterToInfrastructureMapFunc\<close>\<close>
  | MapTinkerbellCluster      \<comment> \<open>\<open>TinkerbellClusterToTinkerbellMachines\<close>\<close>
  | MapCluster                \<comment> \<open>\<open>util.ClusterToTypedObjectsMapper\<close>\<close>
  | MapControllerOwner        \<comment> \<open>\<open>handler.EnqueueRequestForOwner\<close> with \<open>OnlyControllerOwner\<close>\<close>
  | MapOwnerLabels            \<comment> \<open>\<open>labelToMachineMapper\<close>\<close>

definition machineWatches :: "machine_reconciler \<Rightarrow> (watched_kind \<times> watch_mapping) list" where
  "machineWatches rec =
     [(KMachine, MapInfrastructureRef), (KTinkerbellCluster, MapTinkerbellCluster), (KCluster, MapCluster),
      (KIPAddressClaim, MapControllerOwner)] @
     (if ExternalTinkerbell rec then []
      else concat (map (\<lambda>k. [(k, MapControllerOwner), (k, MapOwnerLabels)]) [KWorkflow, KTask, KJob]))"

text \<open>
  \<open>SetupWithManager\<close>: \<open>mapper\<close> and \<open>build\<close> stand for the two calls of controller-runtime that may fail;
  the controller built is given to the watch manager. The event filters are left out.
\<close>

definition SetupWithManager ::
    "string + unit \<Rightarrow> ((watched_kind \<times> watch_mapping) list \<Rightarrow> string + string) \<Rightarrow> machine_reconciler \<Rightarrow>
     string + machine_reconciler" where
  "SetupWithManager mapper build rec =
     (case mapper of
        Inl e \<Rightarrow> Inl e
      | Inr _ \<Rightarrow>
          (case build (machineWatches rec) of
             Inl e \<Rightarrow> Inl e
           | Inr c \<Rightarrow> Inr (rec\<lparr>WatchManager := map_option (SetController c) (WatchManager rec)\<rparr>)))"

section \<open>Which calls each operation makes\<close>

text \<open>The calls made before it is known whether there is anything to do.\<close>

definition preflight_call :: "call \<Rightarrow> bool" where
  "preflight_call c \<longleftrightarrow>
     (case c of GetTinkerbellMachine _ \<Rightarrow> True | GetOwnerMachine _ \<Rightarrow> True | GetClusterFromMetadata _ \<Rightarrow> True
      | EnsurePausedCondition _ _ \<Rightarrow> True | _ \<Rightarrow> False)"

lemma adds_machineCluster: "adds calls preflight_call (machineCluster E m)"
  unfolding machineCluster_def by (intro adds_intros) (simp add: preflight_call_def)

lemma adds_ensurePaused: "adds calls preflight_call (ensurePaused E cluster)"
  unfolding ensurePaused_def by (intro adds_intros) (simp add: preflight_call_def)

lemma adds_start_reconcile [adds_intros]: "adds calls P (start_reconcile m cfg tc)"
  unfolding start_reconcile_def by (rule adds_modifyE) simp

lemma adds_requeue_error [adds_intros]: "adds calls P (requeue_error e)"
  unfolding requeue_error_def by (intro adds_intros)

lemma adds_getReadyBootstrapCloudConfig [adds_intros]:
  "(\<And>k. P (GetSecret k)) \<Longrightarrow> adds calls P (getReadyBootstrapCloudConfig E m)"
  unfolding getReadyBootstrapCloudConfig_def by (intro adds_intros) simp

lemma adds_getReadyTinkerbellCluster [adds_intros]:
  "(\<And>a. P (GetClusterFromMetadata a)) \<Longrightarrow> (\<And>k. P (GetTinkerbellCluster k)) \<Longrightarrow>
   adds calls P (getReadyTinkerbellCluster E m)"
  unfolding getReadyTinkerbellCluster_def by (intro adds_intros) simp_all

lemma adds_installMachine: "adds calls reconcile_call (installMachine E m)"
  unfolding installMachine_def by (intro adds_intros adds_Reconcile) (simp_all add: reconcile_call_def)

lemma logs_reconcileReadyMachine: "logs calls (reconcileReadyMachine E m)"
  unfolding reconcileReadyMachine_def
  by (intro adds_intros adds_logs [OF adds_installMachine] adds_logs [OF adds_Delete])

lemma keeps_machineCluster: "(\<And>c s. obs (add_call c s) = obs s) \<Longrightarrow> keeps obs (machineCluster E m)"
  unfolding machineCluster_def by (intro keeps_intros) simp

section \<open>When a reconcile gets to work\<close>

text \<open>
  The machine \<open>tm\<close> was read, it is not paused, its owner \<open>m\<close> is ready, and the reconcile goes on with
  \<open>reconcileReadyMachine\<close> from \<open>t\<close>.
\<close>

definition ready_to_work :: "('e) kube_scheme \<Rightarrow> nsname \<Rightarrow> scope \<Rightarrow> tinkerbell_machine \<Rightarrow> capi_machine \<Rightarrow> scope \<Rightarrow> bool" where
  "ready_to_work E req s tm m t \<longleftrightarrow>
     ansTinkerbellMachine E (calls s @ [GetTinkerbellMachine req]) = Inr tm \<and>
     ansOwnerMachine E (calls s @ [GetTinkerbellMachine req, GetOwnerMachine (meta tm)]) = Inr (Some m) \<and>
     (\<exists>cluster h conds. ansPaused E (h @ [EnsurePausedCondition cluster tm]) = Inr (False, conds)) \<and>
     DataSecretName m \<noteq> None \<and> Version m \<noteq> '''' \<and> being_deleted (tinkerbellMachine t) = being_deleted tm"

lemma isMachineReady_Inr:
  "isMachineReady machine = Inr '''' \<longleftrightarrow> (\<exists>m. machine = Some m \<and> DataSecretName m \<noteq> None \<and> Version m \<noteq> '''')"
  by (cases machine) (auto simp: isMachineReady_def)

lemma work_reached:
  assumes c: "c \<in> set (issued calls (reconcileRequest E req) s)" and late: "\<not> preflight_call c"
  shows "\<exists>tm m t. ready_to_work E req s tm m t \<and> reconcileRequest E req s = reconcileReadyMachine E m t \<and>
    c \<in> set (issued calls (reconcileReadyMachine E m) t)"
proof -
  let ?s1 = "add_call (GetTinkerbellMachine req) s"
  have pre: "preflight_call (GetTinkerbellMachine req)" "\<And>a. preflight_call (GetOwnerMachine a)"
    by (simp_all add: preflight_call_def)
  let ?after = "\<lambda>machine paused. if paused then returnE no_requeue else reconcileUnpaused E machine"
  let ?paused = "\<lambda>machine cluster. bindE (ensurePaused E cluster) (?after machine)"
  let ?cluster = "\<lambda>machine. bindE (machineCluster E machine) (?paused machine)"
  let ?owner = "\<lambda>tm. bindE (api (ansOwnerMachine E) (GetOwnerMachine (meta tm))) ?cluster"
  have la: "logs calls (?after machine paused)" for machine paused
    unfolding reconcileUnpaused_def by (intro adds_intros logs_reconcileReadyMachine)
  have lp: "logs calls (?paused machine cluster)" for machine cluster
    by (rule adds_bindE [OF adds_logs [OF adds_ensurePaused] la])
  have lc: "logs calls (?cluster machine)" for machine
    by (rule adds_bindE [OF adds_logs [OF adds_machineCluster] lp])
  have lo: "logs calls (?owner tm)" for tm by (rule adds_bindE [OF adds_api lc]) simp
  have lm: "logs calls (reconcileMachine E tm)" for tm
    unfolding reconcileMachine_def by (intro adds_bindE [OF adds_modify_machine] adds_bindE [OF adds_liftE] lo)
  have lh: "logs calls (bindE (liftE (map_sum ErrPatchHelper id (newPatchHelper E (meta tm)))) (\<lambda>_. ?owner tm))" for tm
    by (rule adds_bindE [OF adds_liftE lo])
  have ao: "adds calls preflight_call (api (ansOwnerMachine E) (GetOwnerMachine (meta tm)))" for tm :: tinkerbell_machine
    by (rule adds_api) (rule pre)
  note am = adds_modify_machine [where P = preflight_call] and al = adds_liftE [where log = calls and P = preflight_call]
  let ?read = "\<lambda>r. case r of Inl e \<Rightarrow> if isNotFound e then returnE no_requeue else throwE e | Inr tm \<Rightarrow> reconcileMachine E tm"
  have q: "adds calls preflight_call (tryE (api (ansTinkerbellMachine E) (GetTinkerbellMachine req)))"
    by (intro adds_intros) (simp add: pre)
  have lr: "logs calls (?read r)" for r by (cases r) (auto intro!: adds_intros lm)
  obtain r where r: "map_sum Api id (ansTinkerbellMachine E (calls s @ [GetTinkerbellMachine req])) = r"
    and "c \<in> set (issued calls (?read r) ?s1)"
    using issued_bindE_later [OF q lr c [unfolded reconcileRequest_def] late] by (fastforce simp: run_tryE run_api)
  then obtain tm where tm: "ansTinkerbellMachine E (calls s @ [GetTinkerbellMachine req]) = Inr tm"
    and c1: "c \<in> set (issued calls (reconcileMachine E tm) ?s1)"
    by (cases "ansTinkerbellMachine E (calls s @ [GetTinkerbellMachine req])")
      (auto simp: issued_returnE issued_throwE split: if_splits)
  let ?s2 = "?s1\<lparr>tinkerbellMachine := tm\<rparr>" and ?own = "GetOwnerMachine (meta tm)"
  have "c \<in> set (issued calls (bindE (liftE (map_sum ErrPatchHelper id (newPatchHelper E (meta tm)))) (\<lambda>_. ?owner tm)) ?s2)"
    using issued_bindE_later [OF am lh c1 [unfolded reconcileMachine_def] late]
    by (simp add: run_modify_machine)
  from issued_bindE_later [OF al lo this late] have ph: "newPatchHelper E (meta tm) = Inr ()" and c2: "c \<in> set (issued calls (?owner tm) ?s2)"
    by (cases "newPatchHelper E (meta tm)"; simp add: run_liftE)+
  from issued_bindE_later [OF ao lc c2 late] obtain machine where
    own: "ansOwnerMachine E (calls s @ [GetTinkerbellMachine req, ?own]) = Inr machine"
    and c3: "c \<in> set (issued calls (?cluster machine) (add_call ?own ?s2))"
    by (auto simp: run_api)
  from issued_bindE_later [OF adds_machineCluster lp c3 late] obtain cluster s4 where
    cl: "machineCluster E machine (add_call ?own ?s2) = (Inr cluster, s4)" and c4: "c \<in> set (issued calls (?paused machine cluster) s4)"
    by blast
  have tm4: "tinkerbellMachine s4 = tm" using keepsD [OF keeps_machineCluster cl, of tinkerbellMachine] by simp
  from issued_bindE_later [OF adds_ensurePaused la c4 late] obtain paused t where
    pz: "ensurePaused E cluster s4 = (Inr paused, t)" and c5: "c \<in> set (issued calls (?after machine paused) t)"
    by blast
  from c5 have np: "\<not> paused" and c6: "c \<in> set (issued calls (reconcileUnpaused E machine) t)"
    by (cases paused; simp add: issued_returnE)+
  from pz np tm4 have an: "\<exists>conds. ansPaused E (calls s4 @ [EnsurePausedCondition cluster tm]) = Inr (False, conds)"
    and del: "being_deleted (tinkerbellMachine t) = being_deleted tm"
    by (auto simp: ensurePaused_def inv_simps being_deleted_def)
  have lk: "logs calls (if reason \<noteq> '''' then returnE no_requeue else case machine of None \<Rightarrow> throwE ErrNilDereference | Some m \<Rightarrow> reconcileReadyMachine E m)" for reason
    by (intro adds_intros logs_reconcileReadyMachine)
  from issued_bindE_later [OF al lk c6 [unfolded reconcileUnpaused_def] late] obtain m where
    m: "machine = Some m" "isMachineReady machine = Inr ''''" and c7: "c \<in> set (issued calls (reconcileReadyMachine E m) t)"
    by (cases machine) (auto simp: run_liftE issued_returnE issued_throwE split: if_splits)
  have "reconcileRequest E req s = reconcileReadyMachine E m t"
    using tm ph own cl pz np m
    by (simp add: reconcileRequest_def reconcileMachine_def reconcileUnpaused_def run_simps)
  moreover have "ready_to_work E req s tm m t"
    using tm own m an del unfolding ready_to_work_def isMachineReady_Inr by auto
  ultimately show ?thesis using c7 by blast
qed

section \<open>Properties\<close>

lemma issued_reconcileReadyMachine:
  assumes c: "c \<in> set (issued calls (reconcileReadyMachine E m) t)"
  shows "if being_deleted (tinkerbellMachine t) then delete_call c else reconcile_call c"
proof (cases "being_deleted (tinkerbellMachine t)")
  case True
  let ?del = "bindE (DeleteMachineWithDependencies E) (\<lambda>_. returnE no_requeue)"
  have e: "reconcileReadyMachine E m t = ?del t"
    using True by (simp add: reconcileReadyMachine_def run_bindE [of "getsE f" for f] run_getsE MachineScheduledForDeletion_def)
  have "adds calls delete_call ?del" by (intro adds_intros adds_Delete)
  from addsD [OF this c [unfolded issued_same_run [of "reconcileReadyMachine E m" t ?del, OF e]]] True show ?thesis by simp
next
  case False
  then have e: "reconcileReadyMachine E m t = installMachine E m t"
    by (simp add: reconcileReadyMachine_def run_bindE [of "getsE f" for f] run_getsE MachineScheduledForDeletion_def)
  from addsD [OF adds_installMachine c [unfolded issued_same_run [of "reconcileReadyMachine E m" t "installMachine E m", OF e]]] False show ?thesis by simp
qed


definition example_reconciler :: machine_reconciler where
  "example_reconciler = \<lparr>hasClient = True, hasTinkerbellClient = True, ExternalTinkerbell = False, WatchManager = None,
     hasScheme = True\<rparr>"

lemma example_reconciler_sel [simp]:
  "hasClient example_reconciler" "hasTinkerbellClient example_reconciler" "hasScheme example_reconciler"
  by (simp_all add: example_reconciler_def)

definition example_owner :: capi_machine where
  "example_owner = objmeta.extend (new_meta ''m'' ''ns'')
     \<lparr>DataSecretName = Some ''boot'', Version = ''v1'', ClusterName = ''c'', mInfraRefName = ''m1'', mConditions = []\<rparr>"

lemma example_owner_sel [simp]:
  "DataSecretName example_owner = Some ''boot''" "Version example_owner = ''v1''" "Namespace example_owner = ''ns''"
  by (simp_all add: example_owner_def new_meta_def objmeta.defs)

definition owned_kube :: kube where
  "owned_kube = base_kube\<lparr>ansTinkerbellMachine := \<lambda>_. Inr example_machine, ansOwnerMachine := \<lambda>_. Inr (Some example_owner)\<rparr>"

lemma owned_kube_sel [simp]:
  "ansTinkerbellMachine owned_kube h = Inr example_machine" "ansOwnerMachine owned_kube h = Inr (Some example_owner)"
  "ansCluster owned_kube h = Inl NotFound" "ansPaused owned_kube h = Inr (False, [])" "ansSecret owned_kube h = Inl NotFound"
  "newPatchHelper owned_kube x = Inr ()"
  by (simp_all add: owned_kube_def)

lemma owned_reconcile:
  "\<exists>s. reconcileRequest owned_kube req s0 = reconcileReadyMachine owned_kube example_owner s \<and>
     DeletionTimestamp (tinkerbellMachine s) = None \<and> (\<exists>new. calls s = calls s0 @ new)"
  by (simp add: reconcileRequest_def reconcileMachine_def machineCluster_def ensurePaused_def reconcileUnpaused_def
      isMachineReady_def run_simps, rule exI, rule conjI, rule refl) simp


lemma is_claim_requeue_simps [simp]:
  "is_claim_requeue (ErrHardwareClaimRequeue c)" "\<not> is_claim_requeue (Api a)" "\<not> is_claim_requeue ErrNilDereference"
  "\<not> is_claim_requeue ErrMissingBootstrapDataSecretValueKey" "\<not> is_claim_requeue ErrBootstrapUserDataEmpty"
  "\<not> is_claim_requeue ErrWaitingForIPAddress"
  by (simp_all add: is_claim_requeue_def)

lemma run_bootstrap:
  "getReadyBootstrapCloudConfig E m s =
     (case DataSecretName m of
        None \<Rightarrow> (Inl ErrNilDereference, s)
      | Some n \<Rightarrow>
          (let c = GetSecret (NN (Namespace m) n) in
           (case ansSecret E (calls s @ [c]) of
              Inl a \<Rightarrow> Inl (Api a)
            | Inr sec \<Rightarrow> (case secretData sec ''value'' of
                None \<Rightarrow> Inl ErrMissingBootstrapDataSecretValueKey
              | Some d \<Rightarrow> if d = '''' then Inl ErrBootstrapUserDataEmpty else Inr d),
            add_call c s)))"
  by (simp add: getReadyBootstrapCloudConfig_def run_bindE run_api run_throwE run_returnE Let_def split: option.split sum.split)

lemma run_ready_cluster:
  "getReadyTinkerbellCluster E m s =
     (let c1 = GetClusterFromMetadata (meta m) in
      case ansCluster E (calls s @ [c1]) of
        Inl a \<Rightarrow> (Inl (Api a), add_call c1 s)
      | Inr cl \<Rightarrow>
          (let c2 = GetTinkerbellCluster (NN (Namespace (tinkerbellMachine s)) (clInfraRefName cl)) in
           (case ansTinkerbellCluster E (calls s @ [c1, c2]) of
              Inl a \<Rightarrow> Inl (Api a) | Inr tc \<Rightarrow> Inr (if cluster_ready tc then Some tc else None),
            add_call c2 (add_call c1 s))))"
  by (simp add: getReadyTinkerbellCluster_def run_bindE run_api run_getsE run_returnE Let_def split: sum.split)

lemma readiness_errors:
  "getReadyBootstrapCloudConfig E m s = (Inl e, t) \<Longrightarrow> \<not> is_claim_requeue e \<and> e \<noteq> ErrWaitingForIPAddress"
  "getReadyTinkerbellCluster E m s = (Inl e, t) \<Longrightarrow> \<not> is_claim_requeue e \<and> e \<noteq> ErrWaitingForIPAddress"
  unfolding run_bootstrap run_ready_cluster Let_def
  by (auto split: option.splits sum.splits if_splits)

lemma bootstrap_not_empty: "getReadyBootstrapCloudConfig E m s = (Inr cfg, t) \<Longrightarrow> cfg \<noteq> ''''"
  unfolding run_bootstrap Let_def by (auto split: option.splits sum.splits if_splits)

lemma requeue_error_run:
  "requeue_error e s =
     (if is_claim_requeue e then Inr \<lparr>RequeueAfter = second_ns\<rparr>
      else if e = ErrWaitingForIPAddress then Inr \<lparr>RequeueAfter = 30 * second_ns\<rparr> else Inl e, s)"
  by (simp add: requeue_error_def run_simps IPAddressRequeueAfter_def)


definition lost_kube :: kube where
  "lost_kube = base_kube\<lparr>ansSecret := \<lambda>_. Inr (objmeta.extend (new_meta ''boot'' ''ns'') \<lparr>secretData = [''value'' \<mapsto> ''cfg'']\<rparr>),
     ansCluster := \<lambda>_. Inr (objmeta.extend (new_meta ''c'' ''ns'')
       \<lparr>clEndpoint = \<lparr>Host = '''', Port = 0\<rparr>, clInfraRefName = ''c''\<rparr>),
     ansTinkerbellCluster := \<lambda>_. Inr example_cluster, ansHardwareList := \<lambda>_. Inr [other_hw]\<rparr>"

lemma lost_kube_sel [simp]:
  "ansHardwareList lost_kube h = Inr [other_hw]" "ansTinkerbellCluster lost_kube h = Inr example_cluster"
  by (simp_all add: lost_kube_def objmeta.defs)

lemma lost_kube_ex:
  "\<exists>sec. ansSecret lost_kube h = Inr sec \<and> secretData sec ''value'' = Some ''cfg''"
  "\<exists>cl. ansCluster lost_kube h = Inr cl"
  by (simp_all add: lost_kube_def objmeta.defs)

lemma lost_reconcile:
  assumes "tinkerbellMachine t = example_machine"
  shows "fst (Reconcile lost_kube t) = Inl (ErrHardwareClaimRequeue None)"
proof -
  have "owned_by_other example_machine other_hw" by (simp add: owned_by_other_def other_hw_def)
  then show ?thesis
    using assms
    by (simp add: Reconcile_def run_deferE reconcileHardware_def ensureHardware_def hardwareForMachine_def assignedHardware_def
        takeHardwareOwnership_def run_bindE run_getsE run_api run_returnE run_throwE split: prod.split)
qed


text \<open>
  C25: What the controller creates wakes the machine it was created for. Whatever object it puts its
  ownership on, the mapper of the local watches maps back to exactly that machine, whatever the
  namespace and whether or not an owner reference could be set; the mapper of the per-namespace
  watches of an external cluster, with the same two label keys, agrees with it on every object.
\<close>

theorem owned_object_wakes_machine:
  assumes "setResourceOwnership E tm ext obj = Inr obj'" and "Name tm \<noteq> ''''" "Namespace tm \<noteq> ''''"
  shows "labelToMachineMapper obj' = [NN (Namespace tm) (Name tm)] \<and>
    labelMapper LabelMachineName LabelMachineNamespace obj' = labelToMachineMapper obj'"
  using setResourceOwnership_owns [OF assms(1)] assms(2,3)
  by (simp add: ownsResource_def labelToMachineMapper_def labelMapper_def Let_def)

theorem owned_object_wakes_machine_witness:
  "labelToMachineMapper (owner_labels example_machine (new_meta ''job'' ''other'')) = [NN ''ns'' ''m1'']"
proof -
  have "setResourceOwnership base_kube example_machine False (new_meta ''job'' ''other'')
      = Inr (owner_labels example_machine (new_meta ''job'' ''other''))"
    by (rule setResourceOwnership_remote) (simp add: new_meta_def)
  from owned_object_wakes_machine [OF this] show ?thesis by simp
qed

lemma setup_external:
  "SetupWithManager mapper build rec = Inr rec' \<Longrightarrow>
   \<exists>c. WatchManager rec' = map_option (SetController c) (WatchManager rec) \<and> build (machineWatches rec) = Inr c"
  by (auto simp: SetupWithManager_def split: sum.splits)

text \<open>The objects a machine's Workflow is made of are watched in local mode, and only there, by owner and by labels.\<close>

lemma machineWatches_local:
  "k \<in> {KWorkflow, KTask, KJob} \<Longrightarrow> (k, mp) \<in> set (machineWatches rec) \<longleftrightarrow>
     \<not> ExternalTinkerbell rec \<and> mp \<in> {MapControllerOwner, MapOwnerLabels}"
  by (auto simp: machineWatches_def)

end
