(* ===== verification/ClusterController.thy ===== *)
theory ClusterController
  imports Ownership
begin

text \<open>
  \<open>controller/cluster/tinkerbellcluster.go\<close>: the reconciler of TinkerbellClusters, which settles the control
  plane endpoint of a cluster and reports its infrastructure ready. It has no Tinkerbell client:
  its calls are those of the world it shares with the machine controller, on a log of its own.
\<close>

section \<open>The state of one reconcile\<close>

definition KubernetesAPIPort :: int where
  "KubernetesAPIPort = 6443"

text \<open>\<open>clusterReconcileContext\<close>, and the calls made so far.\<close>

record cluster_context =
  crcTinkerbellCluster :: "tinkerbell_cluster option"
  crcCluster :: "capi_cluster option"
  crcCalls :: "call list"

type_synonym 'a cio = "(cluster_context, goerr, 'a) em"

definition add_cluster_call :: "call \<Rightarrow> cluster_context \<Rightarrow> cluster_context" where
  "add_cluster_call c s = s\<lparr>crcCalls := crcCalls s @ [c]\<rparr>"

interpretation cluster_log: call_log crcCalls add_cluster_call
  by unfold_locales (simp add: add_cluster_call_def)

definition cluster_api :: "(call list \<Rightarrow> apierr + 'a) \<Rightarrow> call \<Rightarrow> 'a cio" where
  "cluster_api answer c = perform crcCalls add_cluster_call (\<lambda>h. map_sum Api id (answer h)) c"

lemma run_cluster_api [run_simps, inv_simps]:
  "cluster_api f c s = (map_sum Api id (f (crcCalls s @ [c])), add_cluster_call c s)"
  by (simp add: cluster_api_def cluster_log.run_perform)

lemma adds_cluster_api [adds_intros]: "P c \<Longrightarrow> adds crcCalls P (cluster_api f c)"
  unfolding cluster_api_def by (rule cluster_log.adds_perform)

lemma add_cluster_call_sel [simp]:
  "crcTinkerbellCluster (add_cluster_call c s) = crcTinkerbellCluster s" "crcCluster (add_cluster_call c s) = crcCluster s"
  "crcCalls (add_cluster_call c s) = crcCalls s @ [c]"
  by (simp_all add: add_cluster_call_def)

definition set_tinkerbell_cluster :: "tinkerbell_cluster \<Rightarrow> unit cio" where
  "set_tinkerbell_cluster tc = modifyE (\<lambda>s. s\<lparr>crcTinkerbellCluster := Some tc\<rparr>)"

definition set_cluster :: "capi_cluster option \<Rightarrow> unit cio" where
  "set_cluster cl = modifyE (\<lambda>s. s\<lparr>crcCluster := cl\<rparr>)"

lemma run_set_clusters [run_simps, inv_simps]:
  "set_tinkerbell_cluster tc s = (Inr (), s\<lparr>crcTinkerbellCluster := Some tc\<rparr>)"
  "set_cluster cl s = (Inr (), s\<lparr>crcCluster := cl\<rparr>)"
  by (simp_all add: set_tinkerbell_cluster_def set_cluster_def run_simps)

lemma adds_set_clusters [adds_intros]:
  "adds crcCalls P (set_tinkerbell_cluster tc)" "adds crcCalls P (set_cluster cl)"
  unfolding set_tinkerbell_cluster_def set_cluster_def by (rule adds_modifyE, simp)+

definition patch_cluster :: "('e) kube_scheme \<Rightarrow> tinkerbell_cluster \<Rightarrow> unit cio" where
  "patch_cluster E tc = cluster_api (ansUnit E) (PatchTinkerbellCluster tc)"

section \<open>The operations\<close>

text \<open>The reconciler, by whether its client is set.\<close>

record cluster_reconciler =
  clusterHasClient :: bool

definition validate_cluster :: "cluster_reconciler option \<Rightarrow> goerr + unit" where
  "validate_cluster tcr =
     (case tcr of
        None \<Rightarrow> Inl ErrConfigurationNil
      | Some r \<Rightarrow> if \<not> clusterHasClient r then Inl ErrMissingClient else Inr ())"

text \<open>An error of the lookup is not returned: the cluster is then nil.\<close>

definition findClusterOwnerByLabelAndAdopt :: "('e) kube_scheme \<Rightarrow> tinkerbell_cluster \<Rightarrow> capi_cluster option cio" where
  "findClusterOwnerByLabelAndAdopt E tc =
     bindE (tryE (cluster_api (ansCluster E) (GetClusterFromMetadata (meta tc)))) (\<lambda>r.
     case r of
       Inl _ \<Rightarrow> returnE None
     | Inr clusterByLabel \<Rightarrow>
         (case setControllerReference E (meta clusterByLabel) (meta tc) of
            Inl e \<Rightarrow> throwE (ErrOwnership e)
          | Inr refs \<Rightarrow>
              bindE (set_tinkerbell_cluster (tc\<lparr>OwnerReferences := refs\<rparr>)) (\<lambda>_.
              bindE (patch_cluster E (tc\<lparr>OwnerReferences := refs\<rparr>)) (\<lambda>_.
              returnE (Some clusterByLabel)))))"

definition ownerCluster :: "('e) kube_scheme \<Rightarrow> tinkerbell_cluster \<Rightarrow> capi_cluster option cio" where
  "ownerCluster E tc =
     bindE (tryE (cluster_api (ansOwnerCluster E) (GetOwnerCluster (meta tc)))) (\<lambda>r.
     case r of
       Inl e \<Rightarrow> if isNotFound e then findClusterOwnerByLabelAndAdopt E tc else throwE e
     | Inr None \<Rightarrow> findClusterOwnerByLabelAndAdopt E tc
     | Inr (Some cluster) \<Rightarrow> returnE (Some cluster))"

text \<open>\<open>False\<close> is the nil context of a TinkerbellCluster that does not exist.\<close>

definition newReconcileContext :: "('e) kube_scheme \<Rightarrow> cluster_reconciler option \<Rightarrow> nsname \<Rightarrow> bool cio" where
  "newReconcileContext E tcr req =
     bindE (liftE (validate_cluster tcr)) (\<lambda>_.
     bindE (tryE (cluster_api (ansTinkerbellCluster E) (GetTinkerbellCluster req))) (\<lambda>r.
     case r of
       Inl e \<Rightarrow> if isNotFound e then returnE False else throwE e
     | Inr tc \<Rightarrow>
         bindE (set_tinkerbell_cluster tc) (\<lambda>_.
         bindE (liftE (map_sum ErrPatchHelper id (newPatchHelper E (meta tc)))) (\<lambda>_.
         bindE (ownerCluster E tc) (\<lambda>cluster.
         bindE (set_cluster cluster) (\<lambda>_.
         returnE True))))))"

definition controlPlaneEndpoint ::
    "('e) env_scheme \<Rightarrow> tinkerbell_cluster \<Rightarrow> capi_cluster option \<Rightarrow> goerr + api_endpoint" where
  "controlPlaneEndpoint E tc cluster =
     (let tinkEP = ControlPlaneEndpoint (tcSpec tc) in
      case (case tinkEP of Some ep \<Rightarrow> if endpointIsValid E ep then Some ep else None | None \<Rightarrow> None) of
        Some ep \<Rightarrow> Inr ep
      | None \<Rightarrow>
          (case cluster of
             None \<Rightarrow> Inl ErrClusterNotReady
           | Some cl \<Rightarrow>
               if endpointIsValid E (clEndpoint cl) then Inr (clEndpoint cl)
               else
                 (let host = (case tinkEP of
                        Some ep \<Rightarrow> if Host (clEndpoint cl) = '''' then Host ep else Host (clEndpoint cl)
                      | None \<Rightarrow> Host (clEndpoint cl));
                      port = (case tinkEP of
                        Some ep \<Rightarrow> if Port (clEndpoint cl) = 0 then Port ep else Port (clEndpoint cl)
                      | None \<Rightarrow> Port (clEndpoint cl))
                  in if host = '''' then Inl ErrControlPlaneEndpointNotSet
                     else Inr \<lparr>Host = host, Port = (if port = 0 then KubernetesAPIPort else port)\<rparr>)))"

definition ready_cluster :: "api_endpoint \<Rightarrow> tinkerbell_cluster \<Rightarrow> tinkerbell_cluster" where
  "ready_cluster ep tc =
     tc\<lparr>tcSpec := (tcSpec tc)\<lparr>ControlPlaneEndpoint := Some \<lparr>Host = Host ep, Port = Port ep\<rparr>\<rparr>,
        tcStatus := (tcStatus tc)\<lparr>ClusterReady := True, ClusterInitialization := Some \<lparr>ClusterProvisioned = Some True\<rparr>\<rparr>\<rparr>"

definition reconcileCluster :: "('e) kube_scheme \<Rightarrow> tinkerbell_cluster \<Rightarrow> capi_cluster option \<Rightarrow> unit cio" where
  "reconcileCluster E tc cluster =
     bindE (liftE (controlPlaneEndpoint E tc cluster)) (\<lambda>ep.
     bindE (set_tinkerbell_cluster (ready_cluster ep tc)) (\<lambda>_.
     patch_cluster E (ready_cluster ep tc)))"

definition reconcileDelete :: "unit cio" where
  "reconcileDelete = returnE ()"

definition ensurePausedCluster :: "('e) kube_scheme \<Rightarrow> tinkerbell_cluster \<Rightarrow> capi_cluster option \<Rightarrow> (bool \<times> tinkerbell_cluster) cio" where
  "ensurePausedCluster E tc cluster =
     bindE (cluster_api (ansPaused E) (EnsurePausedCluster cluster tc)) (\<lambda>(paused, conds).
     let tc' = tc\<lparr>tcStatus := (tcStatus tc)\<lparr>ClusterConditions := conds\<rparr>\<rparr> in
     bindE (set_tinkerbell_cluster tc') (\<lambda>_. returnE (paused, tc')))"

definition reconcileFound :: "('e) kube_scheme \<Rightarrow> tinkerbell_cluster \<Rightarrow> capi_cluster option \<Rightarrow> unit cio" where
  "reconcileFound E tc cluster =
     bindE (ensurePausedCluster E tc cluster) (\<lambda>(paused, tc').
     if paused then returnE ()
     else if being_deleted tc' then reconcileDelete
     else if cluster = None then returnE ()
     else reconcileCluster E tc' cluster)"

text \<open>No result but the zero one is ever returned without an error.\<close>

definition TinkerbellClusterReconcile :: "('e) kube_scheme \<Rightarrow> cluster_reconciler option \<Rightarrow> nsname \<Rightarrow> unit cio" where
  "TinkerbellClusterReconcile E tcr req =
     bindE (newReconcileContext E tcr req) (\<lambda>found.
     if \<not> found then returnE ()
     else
       bindE (getsE (\<lambda>s. (crcTinkerbellCluster s, crcCluster s))) (\<lambda>(tc, cluster).
       case tc of
         None \<Rightarrow> throwE ErrNilDereference
       | Some tc' \<Rightarrow> reconcileFound E tc' cluster))"

section \<open>Lemmas\<close>

lemma run_patch_cluster [run_simps, inv_simps]:
  "patch_cluster E tc s = (map_sum Api id (ansUnit E (crcCalls s @ [PatchTinkerbellCluster tc])), add_cluster_call (PatchTinkerbellCluster tc) s)"
  by (simp add: patch_cluster_def run_simps)

lemma adds_patch_cluster [adds_intros]: "P (PatchTinkerbellCluster tc) \<Longrightarrow> adds crcCalls P (patch_cluster E tc)"
  unfolding patch_cluster_def by (intro adds_intros)

text \<open>The adoption patch changes the owner references alone.\<close>

definition adopted :: "('e) env_scheme \<Rightarrow> tinkerbell_cluster \<Rightarrow> tinkerbell_cluster \<Rightarrow> bool" where
  "adopted E tc tc' \<longleftrightarrow> (\<exists>(cl :: capi_cluster) refs. setControllerReference E (meta cl) (meta tc) = Inr refs \<and> tc' = tc\<lparr>OwnerReferences := refs\<rparr>)"

definition owner_call :: "('e) env_scheme \<Rightarrow> tinkerbell_cluster \<Rightarrow> call \<Rightarrow> bool" where
  "owner_call E tc c \<longleftrightarrow>
     (case c of GetOwnerCluster _ \<Rightarrow> True | GetClusterFromMetadata _ \<Rightarrow> True | PatchTinkerbellCluster tc' \<Rightarrow> adopted E tc tc' | _ \<Rightarrow> False)"

lemma adds_ownerCluster: "adds crcCalls (owner_call E tc) (ownerCluster E tc)"
proof -
  have "adds crcCalls (owner_call E tc) (findClusterOwnerByLabelAndAdopt E tc)"
    unfolding findClusterOwnerByLabelAndAdopt_def by (intro adds_intros) (auto simp: owner_call_def adopted_def)
  then show ?thesis unfolding ownerCluster_def by (intro adds_intros) (simp_all add: owner_call_def)
qed

lemma ownerCluster_state:
  assumes "ownerCluster E tc s = (Inr cluster, s')" and "crcTinkerbellCluster s = Some tc"
  shows "\<exists>tc'. crcTinkerbellCluster s' = Some tc' \<and> (tc' = tc \<or> adopted E tc tc')"
proof -
  have f: ?thesis if run: "findClusterOwnerByLabelAndAdopt E tc t = (Inr c, s')" and at: "crcTinkerbellCluster t = Some tc" for t c
  proof (cases "ansCluster E (crcCalls t @ [GetClusterFromMetadata (meta tc)])")
    case (Inl e)
    with run at show ?thesis by (auto simp: findClusterOwnerByLabelAndAdopt_def run_simps)
  next
    case (Inr cl)
    then obtain refs where "setControllerReference E (meta cl) (meta tc) = Inr refs"
      and "crcTinkerbellCluster s' = Some (tc\<lparr>OwnerReferences := refs\<rparr>)"
      using run at by (auto simp: findClusterOwnerByLabelAndAdopt_def run_simps split: sum.splits)
    then show ?thesis unfolding adopted_def by blast
  qed
  show ?thesis
  proof (cases "ansOwnerCluster E (crcCalls s @ [GetOwnerCluster (meta tc)])")
    case (Inl a)
    with assms f [of "add_cluster_call (GetOwnerCluster (meta tc)) s"] show ?thesis
      by (auto simp: ownerCluster_def run_simps split: if_splits)
  next
    case (Inr o')
    with assms f [of "add_cluster_call (GetOwnerCluster (meta tc)) s"] show ?thesis
      by (cases o') (auto simp: ownerCluster_def run_simps)
  qed
qed

text \<open>From the second call on, for a TinkerbellCluster that was found.\<close>

definition reconcileOwned :: "('e) kube_scheme \<Rightarrow> tinkerbell_cluster \<Rightarrow> unit cio" where
  "reconcileOwned E tc =
     bindE (ownerCluster E tc) (\<lambda>cluster.
     bindE (getsE crcTinkerbellCluster) (\<lambda>tc'.
     case tc' of None \<Rightarrow> throwE ErrNilDereference | Some t \<Rightarrow> reconcileFound E t cluster))"

text \<open>What a patch that is not the adoption may be: an endpoint settled for a cluster that is neither paused nor deleted.\<close>

definition settled :: "('e) kube_scheme \<Rightarrow> tinkerbell_cluster \<Rightarrow> capi_cluster option \<Rightarrow> tinkerbell_cluster \<Rightarrow> bool" where
  "settled E tc cluster tc' \<longleftrightarrow>
     (\<exists>h conds ep. cluster \<noteq> None \<and> \<not> being_deleted tc \<and> ansPaused E (h @ [EnsurePausedCluster cluster tc]) = Inr (False, conds)
        \<and> controlPlaneEndpoint E tc cluster = Inr ep
        \<and> tc' = ready_cluster ep (tc\<lparr>tcStatus := (tcStatus tc)\<lparr>ClusterConditions := conds\<rparr>\<rparr>))"

lemma controlPlaneEndpoint_conditions [simp]:
  "controlPlaneEndpoint E (tc\<lparr>tcStatus := st\<rparr>) cluster = controlPlaneEndpoint E tc cluster"
  by (simp add: controlPlaneEndpoint_def)

lemma run_reconcileFound:
  "reconcileFound E tc cluster s =
     (let s1 = add_cluster_call (EnsurePausedCluster cluster tc) s in
      case ansPaused E (crcCalls s1) of
        Inl e \<Rightarrow> (Inl (Api e), s1)
      | Inr (paused, conds) \<Rightarrow>
          (let tc1 = tc\<lparr>tcStatus := (tcStatus tc)\<lparr>ClusterConditions := conds\<rparr>\<rparr>; s2 = s1\<lparr>crcTinkerbellCluster := Some tc1\<rparr> in
           if paused \<or> being_deleted tc \<or> cluster = None then (Inr (), s2)
           else case controlPlaneEndpoint E tc cluster of
                  Inl e \<Rightarrow> (Inl e, s2)
                | Inr ep \<Rightarrow> patch_cluster E (ready_cluster ep tc1) (s2\<lparr>crcTinkerbellCluster := Some (ready_cluster ep tc1)\<rparr>)))"
  by (auto simp: reconcileFound_def ensurePausedCluster_def reconcileDelete_def reconcileCluster_def run_simps Let_def
        being_deleted_def split: sum.splits prod.splits)

lemma settled_ready: "settled E tc cluster tc' \<Longrightarrow> ClusterReady (tcStatus tc')"
  by (auto simp: settled_def ready_cluster_def)

lemma adds_reconcileFound:
  "adds crcCalls (\<lambda>c. (\<exists>cl t. c = EnsurePausedCluster cl t) \<or> (\<exists>tc'. c = PatchTinkerbellCluster tc' \<and> settled E tc cluster tc'))
     (reconcileFound E tc cluster)"
  unfolding adds_def
proof
  fix s
  let ?P = "\<lambda>c. (\<exists>cl t. c = EnsurePausedCluster cl t) \<or> (\<exists>tc'. c = PatchTinkerbellCluster tc' \<and> settled E tc cluster tc')"
  let ?p = "EnsurePausedCluster cluster tc"
  show "\<exists>new. crcCalls (snd (reconcileFound E tc cluster s)) = crcCalls s @ new \<and> (\<forall>c\<in>set new. ?P c)"
  proof (cases "\<exists>conds ep. ansPaused E (crcCalls s @ [?p]) = Inr (False, conds) \<and> \<not> being_deleted tc \<and> cluster \<noteq> None
      \<and> controlPlaneEndpoint E tc cluster = Inr ep")
    case True
    then obtain conds ep where a: "ansPaused E (crcCalls s @ [?p]) = Inr (False, conds)" "\<not> being_deleted tc" "cluster \<noteq> None"
      "controlPlaneEndpoint E tc cluster = Inr ep" by blast
    let ?t = "ready_cluster ep (tc\<lparr>tcStatus := (tcStatus tc)\<lparr>ClusterConditions := conds\<rparr>\<rparr>)"
    have "settled E tc cluster ?t" unfolding settled_def using a by blast
    moreover have "crcCalls (snd (reconcileFound E tc cluster s)) = crcCalls s @ [?p, PatchTinkerbellCluster ?t]"
      using a by (simp add: run_reconcileFound Let_def run_simps)
    ultimately show ?thesis by auto
  next
    case False
    then have "crcCalls (snd (reconcileFound E tc cluster s)) = crcCalls s @ [?p]"
      by (auto simp: run_reconcileFound Let_def split: sum.splits)
    then show ?thesis by auto
  qed
qed

lemma run_newReconcileContext:
  "newReconcileContext E tcr req s =
     (case validate_cluster tcr of
        Inl e \<Rightarrow> (Inl e, s)
      | Inr _ \<Rightarrow>
          (let s1 = add_cluster_call (GetTinkerbellCluster req) s in
           case ansTinkerbellCluster E (crcCalls s1) of
             Inl e \<Rightarrow> (if isNotFound (Api e) then Inr False else Inl (Api e), s1)
           | Inr tc \<Rightarrow>
               (let s2 = s1\<lparr>crcTinkerbellCluster := Some tc\<rparr> in
                case newPatchHelper E (meta tc) of
                  Inl e \<Rightarrow> (Inl (ErrPatchHelper e), s2)
                | Inr _ \<Rightarrow>
                    (case ownerCluster E tc s2 of
                       (Inl e, s3) \<Rightarrow> (Inl e, s3)
                     | (Inr cl, s3) \<Rightarrow> (Inr True, s3\<lparr>crcCluster := cl\<rparr>)))))"
  by (auto simp: newReconcileContext_def run_simps Let_def split: sum.splits prod.splits)

lemma run_TinkerbellClusterReconcile:
  "TinkerbellClusterReconcile E tcr req s =
     (case newReconcileContext E tcr req s of
        (Inl e, s') \<Rightarrow> (Inl e, s')
      | (Inr found, s') \<Rightarrow>
          (if \<not> found then (Inr (), s')
           else case crcTinkerbellCluster s' of
                  None \<Rightarrow> (Inl ErrNilDereference, s')
                | Some tc \<Rightarrow> reconcileFound E tc (crcCluster s') s'))"
  by (auto simp: TinkerbellClusterReconcile_def run_simps split: sum.splits prod.splits option.splits)

text \<open>What a patch of a cluster read as \<open>tc\<close> may write.\<close>

definition cluster_write :: "('e) kube_scheme \<Rightarrow> tinkerbell_cluster \<Rightarrow> tinkerbell_cluster \<Rightarrow> bool" where
  "cluster_write E tc tc' \<longleftrightarrow> adopted E tc tc' \<or> (\<exists>t cluster. (t = tc \<or> adopted E tc t) \<and> settled E t cluster tc')"

definition cluster_call :: "('e) kube_scheme \<Rightarrow> nsname \<Rightarrow> call \<Rightarrow> bool" where
  "cluster_call E req c \<longleftrightarrow>
     (case c of
        GetTinkerbellCluster n \<Rightarrow> n = req
      | GetOwnerCluster _ \<Rightarrow> True | GetClusterFromMetadata _ \<Rightarrow> True | EnsurePausedCluster _ _ \<Rightarrow> True
      | PatchTinkerbellCluster tc' \<Rightarrow> (\<exists>h tc. ansTinkerbellCluster E h = Inr tc \<and> cluster_write E tc tc')
      | _ \<Rightarrow> False)"

lemma cluster_call_simps [simp]:
  "cluster_call E req (GetTinkerbellCluster req)" "cluster_call E req (EnsurePausedCluster cl t)"
  by (simp_all add: cluster_call_def)

lemma owner_call_cluster_call:
  "owner_call E tc c \<Longrightarrow> ansTinkerbellCluster E h = Inr tc \<Longrightarrow> cluster_call E req c"
  by (auto simp: owner_call_def cluster_call_def cluster_write_def split: call.splits)

lemma settled_cluster_call:
  assumes "ansTinkerbellCluster E h = Inr tc" and "t = tc \<or> adopted E tc t" and "settled E t cluster tc'"
  shows "cluster_call E req (PatchTinkerbellCluster tc')"
proof -
  have "cluster_write E tc tc'" unfolding cluster_write_def using assms(2,3) by blast
  then show ?thesis unfolding cluster_call_def using assms(1) by fastforce
qed

lemma adds_TinkerbellClusterReconcile: "adds crcCalls (cluster_call E req) (TinkerbellClusterReconcile E tcr req)"
  unfolding adds_def
proof
  fix s
  let ?goal = "\<exists>new. crcCalls (snd (TinkerbellClusterReconcile E tcr req s)) = crcCalls s @ new \<and> (\<forall>c\<in>set new. cluster_call E req c)"
  let ?s1 = "add_cluster_call (GetTinkerbellCluster req) s"
  let ?h = "crcCalls s @ [GetTinkerbellCluster req]"
  show ?goal
  proof (cases "\<exists>tc. validate_cluster tcr = Inr () \<and> ansTinkerbellCluster E ?h = Inr tc \<and> newPatchHelper E (meta tc) = Inr ()")
    case False
    then have "crcCalls (snd (TinkerbellClusterReconcile E tcr req s)) \<in> {crcCalls s, ?h}"
      by (cases "validate_cluster tcr"; cases "ansTinkerbellCluster E ?h")
        (auto simp: run_TinkerbellClusterReconcile run_newReconcileContext Let_def split: sum.splits)
    then show ?thesis by auto
  next
    case True
    then obtain tc where tc: "validate_cluster tcr = Inr ()" "ansTinkerbellCluster E ?h = Inr tc"
      "newPatchHelper E (meta tc) = Inr ()" by blast
    let ?s2 = "?s1\<lparr>crcTinkerbellCluster := Some tc\<rparr>"
    obtain r s3 where 3: "ownerCluster E tc ?s2 = (r, s3)" by fastforce
    obtain new where new: "crcCalls s3 = crcCalls ?s2 @ new" "\<forall>c\<in>set new. owner_call E tc c"
      using adds_ownerCluster [of E tc] 3 unfolding adds_def by (metis snd_conv)
    have ok: "\<forall>c\<in>set new. cluster_call E req c" using new(2) tc(2) owner_call_cluster_call by blast
    show ?thesis
    proof (cases r)
      case (Inl e)
      then have "crcCalls (snd (TinkerbellClusterReconcile E tcr req s)) = ?h @ new"
        using tc 3 new(1) by (simp add: run_TinkerbellClusterReconcile run_newReconcileContext Let_def)
      then show ?thesis using ok by auto
    next
      case (Inr cl)
      obtain t where t: "crcTinkerbellCluster s3 = Some t" "t = tc \<or> adopted E tc t"
        using ownerCluster_state [OF 3 [unfolded Inr]] by auto
      let ?s4 = "s3\<lparr>crcCluster := cl\<rparr>"
      obtain new' where new': "crcCalls (snd (reconcileFound E t cl ?s4)) = crcCalls ?s4 @ new'"
        "\<forall>c\<in>set new'. (\<exists>cl t. c = EnsurePausedCluster cl t) \<or> (\<exists>tc'. c = PatchTinkerbellCluster tc' \<and> settled E t cl tc')"
        using adds_reconcileFound [of E t cl] unfolding adds_def by blast
      have "\<forall>c\<in>set new'. cluster_call E req c"
        using new'(2) settled_cluster_call [OF tc(2) t(2)] cluster_call_simps(2) by metis
      moreover have "crcCalls (snd (TinkerbellClusterReconcile E tcr req s)) = ?h @ new @ new'"
      proof -
        have "newReconcileContext E tcr req s = (Inr True, ?s4)"
          using tc 3 Inr by (simp add: run_newReconcileContext Let_def)
        then have "TinkerbellClusterReconcile E tcr req s = reconcileFound E t cl ?s4"
          using t(1) by (simp add: run_TinkerbellClusterReconcile)
        then show ?thesis using new'(1) new(1) by simp
      qed
      ultimately show ?thesis using ok by auto
    qed
  qed
qed

lemma controlPlaneEndpoint_valid:
  assumes "endpoint_laws E" and "controlPlaneEndpoint E tc cluster = Inr ep"
  shows "endpointIsValid E ep"
proof -
  have v: "endpointIsValid E e \<longleftrightarrow> Host e \<noteq> '''' \<and> Port e \<noteq> 0" for e
    using assms(1) by (simp add: endpoint_laws_def)
  show ?thesis
    using assms(2) by (auto simp: controlPlaneEndpoint_def v Let_def KubernetesAPIPort_def split: option.splits if_splits)
qed

section \<open>Properties\<close>

text \<open>
  The endpoint of a cluster is settled once. Whatever endpoint a reconcile settles on is valid, with a host
  and a port; an endpoint that is already valid on the TinkerbellCluster is the one; and once it is written
  back no later reconcile settles on another, whatever the owning Cluster says then.
\<close>

theorem endpoint_settled_once:
  assumes "endpoint_laws E" and "controlPlaneEndpoint E tc cluster = Inr ep"
  shows "endpointIsValid E ep \<and> controlPlaneEndpoint E (ready_cluster ep tc) cluster' = Inr ep \<and>
    (\<forall>own. ControlPlaneEndpoint (tcSpec tc) = Some own \<and> endpointIsValid E own \<longrightarrow> ep = own)"
proof -
  note valid = controlPlaneEndpoint_valid [OF assms]
  have "controlPlaneEndpoint E (ready_cluster ep tc) cluster' = Inr ep"
    using valid by (cases ep) (simp add: controlPlaneEndpoint_def ready_cluster_def)
  moreover have "\<forall>own. ControlPlaneEndpoint (tcSpec tc) = Some own \<and> endpointIsValid E own \<longrightarrow> ep = own"
    using assms(2) by (auto simp: controlPlaneEndpoint_def)
  ultimately show ?thesis using valid by blast
qed

definition example_tc :: tinkerbell_cluster where
  "example_tc = objmeta.extend (new_meta ''c'' ''ns'')
     \<lparr>tcSpec = \<lparr>ControlPlaneEndpoint = Some \<lparr>Host = '''', Port = 7443\<rparr>, ClusterTemplateInline = '''', ClusterTemplateRef = None\<rparr>,
      tcStatus = \<lparr>ClusterReady = False, ClusterInitialization = None, ClusterConditions = []\<rparr>\<rparr>"

definition example_capi_cluster :: capi_cluster where
  "example_capi_cluster = objmeta.extend (new_meta ''c'' ''ns'')
     \<lparr>clEndpoint = \<lparr>Host = ''10.0.0.1'', Port = 0\<rparr>, clInfraRefName = ''c''\<rparr>"

lemma example_cluster_sels [simp]:
  "tcSpec example_tc = \<lparr>ControlPlaneEndpoint = Some \<lparr>Host = '''', Port = 7443\<rparr>, ClusterTemplateInline = '''', ClusterTemplateRef = None\<rparr>"
  "tcStatus example_tc = \<lparr>ClusterReady = False, ClusterInitialization = None, ClusterConditions = []\<rparr>"
  "DeletionTimestamp example_tc = None" "meta example_tc = new_meta ''c'' ''ns''"
  "clEndpoint example_capi_cluster = \<lparr>Host = ''10.0.0.1'', Port = 0\<rparr>"
  by (simp_all add: example_tc_def example_capi_cluster_def new_meta_def objmeta.defs)

lemma example_endpoint:
  "controlPlaneEndpoint base_kube example_tc (Some example_capi_cluster) = Inr \<lparr>Host = ''10.0.0.1'', Port = 7443\<rparr>"
  by (simp add: controlPlaneEndpoint_def)

definition cluster_kube :: "(apierr + capi_cluster option) \<Rightarrow> kube" where
  "cluster_kube owner = base_kube\<lparr>ansTinkerbellCluster := \<lambda>_. Inr example_tc, ansOwnerCluster := \<lambda>_. owner\<rparr>"

lemma cluster_kube_sel [simp]:
  "ansTinkerbellCluster (cluster_kube ow) h = Inr example_tc" "ansOwnerCluster (cluster_kube ow) h = ow"
  "ansPaused (cluster_kube ow) h = Inr (False, [])" "newPatchHelper (cluster_kube ow) m = Inr ()"
  "ansCluster (cluster_kube ow) h = Inl NotFound" "ansUnit (cluster_kube ow) h = Inr ()"
  "endpointIsValid (cluster_kube ow) e \<longleftrightarrow> Host e \<noteq> '''' \<and> Port e \<noteq> 0"
  by (simp_all add: cluster_kube_def)

definition example_context :: cluster_context where
  "example_context = \<lparr>crcTinkerbellCluster = None, crcCluster = None, crcCalls = []\<rparr>"

definition example_cluster_reconciler :: cluster_reconciler where
  "example_cluster_reconciler = \<lparr>clusterHasClient = True\<rparr>"

lemma validate_example [simp]: "validate_cluster (Some example_cluster_reconciler) = Inr ()"
  by (simp add: validate_cluster_def example_cluster_reconciler_def)

lemma example_tc_status:
  "example_tc\<lparr>tcStatus := \<lparr>ClusterReady = False, ClusterInitialization = None, ClusterConditions = []\<rparr>\<rparr> = example_tc"
  by (simp add: example_tc_def objmeta.defs)

lemma example_cluster_run:
  "crcCalls (snd (TinkerbellClusterReconcile (cluster_kube (Inr (Some example_capi_cluster))) (Some example_cluster_reconciler) (NN ''ns'' ''c'') example_context))
   = [GetTinkerbellCluster (NN ''ns'' ''c''), GetOwnerCluster (meta example_tc), EnsurePausedCluster (Some example_capi_cluster) example_tc,
      PatchTinkerbellCluster (ready_cluster \<lparr>Host = ''10.0.0.1'', Port = 7443\<rparr> example_tc)]"
  by (simp add: run_TinkerbellClusterReconcile run_newReconcileContext ownerCluster_def run_simps run_reconcileFound Let_def
      being_deleted_def controlPlaneEndpoint_def example_context_def example_tc_status)

theorem endpoint_settled_once_witness:
  "endpoint_laws base_kube \<and>
   controlPlaneEndpoint base_kube (ready_cluster \<lparr>Host = ''10.0.0.1'', Port = 7443\<rparr> example_tc) None = Inr \<lparr>Host = ''10.0.0.1'', Port = 7443\<rparr>"
proof -
  have "endpoint_laws base_kube" by (simp add: endpoint_laws_def)
  with endpoint_settled_once [OF this example_endpoint, of None] show ?thesis by simp
qed



text \<open>
  A failed lookup of the owner by label is not reported. Where a cluster has no owner reference yet and the
  server fails to answer the lookup by label, however it fails, a reconcile of a live cluster returns neither
  an error nor a request to be called again and patches nothing: it ends as it does for a cluster
  that has no owner at all.
\<close>

theorem label_lookup_error_dropped:
  assumes "validate_cluster tcr = Inr ()" and "\<And>h. ansTinkerbellCluster E h = Inr tc" and "newPatchHelper E (meta tc) = Inr ()"
    and "\<And>h. ansOwnerCluster E h = Inr None" and "\<And>h. ansCluster E h = Inl err"
    and "\<And>h. ansPaused E h = Inr (p, conds)"
  shows "fst (TinkerbellClusterReconcile E tcr req s) = Inr () \<and>
    issued crcCalls (TinkerbellClusterReconcile E tcr req) s =
      [GetTinkerbellCluster req, GetOwnerCluster (meta tc), GetClusterFromMetadata (meta tc), EnsurePausedCluster None tc]"
  using assms
  by (simp add: run_TinkerbellClusterReconcile run_newReconcileContext ownerCluster_def findClusterOwnerByLabelAndAdopt_def run_simps
      run_reconcileFound Let_def issued_def)

theorem label_lookup_error_dropped_witness:
  "fst (TinkerbellClusterReconcile (cluster_kube (Inr None)) (Some example_cluster_reconciler) (NN ''ns'' ''c'') example_context) = Inr ()"
  using label_lookup_error_dropped [of "Some example_cluster_reconciler" "cluster_kube (Inr None)" example_tc NotFound False "[]"] by simp

text \<open>
  One reconcile makes an owned cluster ready. For a cluster that is owned, not paused and not being deleted,
  and for which an endpoint can be settled, a reconcile makes four calls, of which the last reports
  the cluster ready with that endpoint, and it fails only if that last call does.
\<close>

theorem owned_cluster_becomes_ready:
  assumes "validate_cluster tcr = Inr ()" and "\<And>h. ansTinkerbellCluster E h = Inr tc" and "newPatchHelper E (meta tc) = Inr ()"
    and "\<And>h. ansOwnerCluster E h = Inr (Some cl)" and "\<And>h. ansPaused E h = Inr (False, conds)"
    and "\<not> being_deleted tc" and "controlPlaneEndpoint E tc (Some cl) = Inr ep"
  shows "\<exists>tc'. issued crcCalls (TinkerbellClusterReconcile E tcr req) s =
      [GetTinkerbellCluster req, GetOwnerCluster (meta tc), EnsurePausedCluster (Some cl) tc, PatchTinkerbellCluster tc']
    \<and> ClusterReady (tcStatus tc') \<and> ClusterInitialization (tcStatus tc') = Some \<lparr>ClusterProvisioned = Some True\<rparr>
    \<and> ControlPlaneEndpoint (tcSpec tc') = Some ep
    \<and> (\<forall>e. fst (TinkerbellClusterReconcile E tcr req s) = Inl e \<longrightarrow> (\<exists>h a. ansUnit E (h @ [PatchTinkerbellCluster tc']) = Inl a \<and> e = Api a))"
proof -
  let ?t = "ready_cluster ep (tc\<lparr>tcStatus := (tcStatus tc)\<lparr>ClusterConditions := conds\<rparr>\<rparr>)"
  let ?before = "[GetTinkerbellCluster req, GetOwnerCluster (meta tc), EnsurePausedCluster (Some cl) tc]"
  have run: "\<exists>u. TinkerbellClusterReconcile E tcr req s =
      (map_sum Api id (ansUnit E ((crcCalls s @ ?before) @ [PatchTinkerbellCluster ?t])), u)
      \<and> crcCalls u = crcCalls s @ ?before @ [PatchTinkerbellCluster ?t]"
    using assms
    by (simp add: run_TinkerbellClusterReconcile run_newReconcileContext ownerCluster_def run_simps run_reconcileFound Let_def)
  then have "issued crcCalls (TinkerbellClusterReconcile E tcr req) s = ?before @ [PatchTinkerbellCluster ?t]"
    by (auto simp: issued_def)
  moreover have "\<forall>e. fst (TinkerbellClusterReconcile E tcr req s) = Inl e \<longrightarrow>
      (\<exists>h a. ansUnit E (h @ [PatchTinkerbellCluster ?t]) = Inl a \<and> e = Api a)"
  proof (intro allI impI)
    fix e
    assume "fst (TinkerbellClusterReconcile E tcr req s) = Inl e"
    with run have "map_sum Api id (ansUnit E ((crcCalls s @ ?before) @ [PatchTinkerbellCluster ?t])) = (Inl e :: goerr + unit)"
      by (elim exE conjE) (simp only: fst_conv)
    then show "\<exists>h a. ansUnit E (h @ [PatchTinkerbellCluster ?t]) = Inl a \<and> e = Api a"
      unfolding map_sum_id_Inl by blast
  qed
  ultimately show ?thesis
    by (intro exI [of _ ?t]) (simp add: ready_cluster_def)
qed

theorem owned_cluster_becomes_ready_witness:
  "\<exists>tc'. issued crcCalls (TinkerbellClusterReconcile (cluster_kube (Inr (Some example_capi_cluster))) (Some example_cluster_reconciler) (NN ''ns'' ''c''))
      example_context = [GetTinkerbellCluster (NN ''ns'' ''c''), GetOwnerCluster (meta example_tc),
        EnsurePausedCluster (Some example_capi_cluster) example_tc, PatchTinkerbellCluster tc'] \<and> ClusterReady (tcStatus tc')"
proof -
  let ?E = "cluster_kube (Inr (Some example_capi_cluster))"
  have ep: "controlPlaneEndpoint ?E example_tc (Some example_capi_cluster) = Inr \<lparr>Host = ''10.0.0.1'', Port = 7443\<rparr>"
    by (simp add: controlPlaneEndpoint_def)
  have nd: "\<not> being_deleted example_tc" by (simp add: being_deleted_def)
  show ?thesis
    using owned_cluster_becomes_ready [OF validate_example cluster_kube_sel(1,4,2,3) nd ep, of "NN ''ns'' ''c''" example_context]
    by blast
qed

end
