(* ===== verification/Conversion.thy ===== *)
theory Conversion
  imports Api
begin

text \<open>
  \<open>api/v1beta1/conversion.go\<close> and \<open>pkg/conversion\<close>: the conversion between the stored version v1beta2
  (the hub) and v1beta1 (the spoke). The JSON of an object without its metadata is a parameter, by what
  it may depend on. An object and the object its metadata was copied from share one annotations
  map, so what is removed from the one is gone from the other; the converted object is returned.
\<close>

section \<open>The stash\<close>

definition dataAnnotation :: string where
  "dataAnnotation = ''cluster.x-k8s.io/conversion-data''"

text \<open>\<open>json.Marshal\<close> and \<open>json.Unmarshal\<close> into a new object.\<close>

record 'a json =
  marshal :: "'a \<Rightarrow> string + string"
  unmarshal :: "string \<Rightarrow> string + 'a"

definition marshalData :: "'a json \<Rightarrow> 'a \<Rightarrow> 'b objmeta_scheme \<Rightarrow> string + 'b objmeta_scheme" where
  "marshalData J u dst =
     (case marshal J u of
        Inl e \<Rightarrow> Inl e
      | Inr data \<Rightarrow> Inr (dst\<lparr>Annotations := (Annotations dst)(dataAnnotation \<mapsto> data)\<rparr>))"

text \<open>The data found, and the annotations left.\<close>

definition unmarshalData :: "'a json \<Rightarrow> (string \<rightharpoonup> string) \<Rightarrow> string + 'a option \<times> (string \<rightharpoonup> string)" where
  "unmarshalData J annotations =
     (case annotations dataAnnotation of
        None \<Rightarrow> Inr (None, annotations)
      | Some data \<Rightarrow>
          (case unmarshal J data of
             Inl e \<Rightarrow> Inl e
           | Inr to \<Rightarrow> Inr (Some to, annotations(dataAnnotation := None))))"

section \<open>Parts the versions share\<close>

definition convertClusterInitToHub :: "s_cluster_init_status option \<Rightarrow> cluster_init_status option" where
  "convertClusterInitToHub i = map_option (\<lambda>x. \<lparr>ClusterProvisioned = sClusterProvisioned x\<rparr>) i"

definition convertClusterInitFromHub :: "cluster_init_status option \<Rightarrow> s_cluster_init_status option" where
  "convertClusterInitFromHub i = map_option (\<lambda>x. \<lparr>sClusterProvisioned = ClusterProvisioned x\<rparr>) i"

definition convertMachineInitToHub :: "s_machine_init_status option \<Rightarrow> machine_init_status option" where
  "convertMachineInitToHub i = map_option (\<lambda>x. \<lparr>Provisioned = sProvisioned x\<rparr>) i"

definition convertMachineInitFromHub :: "machine_init_status option \<Rightarrow> s_machine_init_status option" where
  "convertMachineInitFromHub i = map_option (\<lambda>x. \<lparr>sProvisioned = Provisioned x\<rparr>) i"

definition convertHardwareAffinityToHub :: "s_hardware_affinity option \<Rightarrow> hardware_affinity option" where
  "convertHardwareAffinityToHub i =
     map_option (\<lambda>a. \<lparr>Required = map (\<lambda>r. \<lparr>LabelSelector = sLabelSelector r\<rparr>) (sRequired a),
       Preferred = map (\<lambda>p. \<lparr>Weight = sWeight p, AffinityTerm = \<lparr>LabelSelector = sLabelSelector (sAffinityTerm p)\<rparr>\<rparr>) (sPreferred a)\<rparr>) i"

definition convertHardwareAffinityFromHub :: "hardware_affinity option \<Rightarrow> s_hardware_affinity option" where
  "convertHardwareAffinityFromHub i =
     map_option (\<lambda>a. \<lparr>sRequired = map (\<lambda>r. \<lparr>sLabelSelector = LabelSelector r\<rparr>) (Required a),
       sPreferred = map (\<lambda>p. \<lparr>sWeight = Weight p, sAffinityTerm = \<lparr>sLabelSelector = LabelSelector (AffinityTerm p)\<rparr>\<rparr>) (Preferred a)\<rparr>) i"

definition convertBootOptionsToHub :: "s_boot_options \<Rightarrow> boot_options" where
  "convertBootOptionsToHub b = \<lparr>ISOURL = sISOURL b, BootMode = sBootMode b, CustombootConfig = sCustombootConfig b\<rparr>"

definition convertBootOptionsFromHub :: "boot_options \<Rightarrow> s_boot_options" where
  "convertBootOptionsFromHub b = \<lparr>sISOURL = ISOURL b, sBootMode = BootMode b, sCustombootConfig = CustombootConfig b\<rparr>"

definition convertResourceStatusToHub :: "int option \<Rightarrow> int option" where
  "convertResourceStatusToHub i = map_option (\<lambda>x. x) i"

definition convertResourceStatusFromHub :: "int option \<Rightarrow> int option" where
  "convertResourceStatusFromHub i = map_option (\<lambda>x. x) i"

section \<open>The conversions\<close>

text \<open>\<open>dst.ObjectMeta = src.ObjectMeta\<close>.\<close>

definition with_meta :: "'a objmeta_scheme \<Rightarrow> 'b objmeta_scheme \<Rightarrow> 'b objmeta_scheme" where
  "with_meta src dst = objmeta.extend (meta src) (objmeta.more dst)"

text \<open>What the JSON of each hub kind holds: everything but the metadata.\<close>

type_synonym cluster_data = "cluster_spec \<times> cluster_status"
type_synonym machine_data = "machine_spec \<times> machine_status"

definition ConvertClusterToHub :: "cluster_data json \<Rightarrow> s_cluster \<Rightarrow> tinkerbell_cluster \<Rightarrow> string + tinkerbell_cluster" where
  "ConvertClusterToHub J src dst =
     (let sp = sClusterSpec src; st = sClusterStatus src;
          dst1 = (with_meta src dst)
            \<lparr>tcSpec := (tcSpec dst)
               \<lparr>ControlPlaneEndpoint := sControlPlaneEndpoint sp, ClusterTemplateInline := sClusterTemplateOverride sp,
                ClusterTemplateRef := (case sTemplateOverrideRef sp of
                    Some r \<Rightarrow> Some \<lparr>refName = sRefName r, refNamespace = sRefNamespace r\<rparr>
                  | None \<Rightarrow> ClusterTemplateRef (tcSpec dst))\<rparr>,
             tcStatus := (tcStatus dst)
               \<lparr>ClusterReady := sClusterReady st, ClusterInitialization := convertClusterInitToHub (sClusterInitialization st),
                ClusterConditions := sClusterConditions st\<rparr>\<rparr>
      in case unmarshalData J (Annotations src) of
           Inl e \<Rightarrow> Inl e
         | Inr (_, annotations) \<Rightarrow> Inr (dst1\<lparr>Annotations := annotations\<rparr>))"

definition ConvertClusterFromHub :: "cluster_data json \<Rightarrow> s_cluster \<Rightarrow> tinkerbell_cluster \<Rightarrow> string + s_cluster" where
  "ConvertClusterFromHub J dst src =
     (let sp = tcSpec src; st = tcStatus src;
          dst1 = (with_meta src dst)
            \<lparr>sClusterSpec := (sClusterSpec dst)
               \<lparr>sControlPlaneEndpoint := ControlPlaneEndpoint sp, sClusterTemplateOverride := ClusterTemplateInline sp,
                sTemplateOverrideRef := (case ClusterTemplateRef sp of
                    Some r \<Rightarrow> Some \<lparr>sRefName = refName r, sRefNamespace = refNamespace r\<rparr>
                  | None \<Rightarrow> sTemplateOverrideRef (sClusterSpec dst))\<rparr>,
             sClusterStatus := (sClusterStatus dst)
               \<lparr>sClusterReady := ClusterReady st, sClusterInitialization := convertClusterInitFromHub (ClusterInitialization st),
                sClusterConditions := ClusterConditions st\<rparr>\<rparr>
      in marshalData J (sp, st) dst1)"

definition ConvertMachineToHub :: "machine_data json \<Rightarrow> s_machine \<Rightarrow> tinkerbell_machine \<Rightarrow> string + tinkerbell_machine" where
  "ConvertMachineToHub J src dst =
     (let sp = sMachineSpec src; st = sMachineStatus src;
          spec1 = (tmSpec dst)
            \<lparr>TemplateInline := sTemplateOverride sp, HardwareAffinity := convertHardwareAffinityToHub (sHardwareAffinity sp),
             BootOptions := convertBootOptionsToHub (sBootOptions sp), HardwareName := sHardwareName sp, ProviderID := sProviderID sp\<rparr>;
          status1 = (tmStatus dst)
            \<lparr>Ready := sReady st, Initialization := convertMachineInitToHub (sInitialization st), Addresses := sAddresses st,
             State := convertResourceStatusToHub (sInstanceStatus st), TargetNamespace := sTargetNamespace st,
             Conditions := sConditions st, ErrorReason := sErrorReason st, ErrorMessage := sErrorMessage st\<rparr>
      in case unmarshalData J (Annotations src) of
           Inl e \<Rightarrow> Inl e
         | Inr (None, annotations) \<Rightarrow>
             Inr ((with_meta src dst)\<lparr>Annotations := annotations, tmSpec := spec1, tmStatus := status1\<rparr>)
         | Inr (Some (restored, _), annotations) \<Rightarrow>
             Inr ((with_meta src dst)
               \<lparr>Annotations := annotations,
                tmSpec := spec1\<lparr>TemplateRef := TemplateRef restored, AddressFromPool := AddressFromPool restored\<rparr>,
                tmStatus := status1\<rparr>))"

definition ConvertMachineFromHub :: "machine_data json \<Rightarrow> s_machine \<Rightarrow> tinkerbell_machine \<Rightarrow> string + s_machine" where
  "ConvertMachineFromHub J dst src =
     (let sp = tmSpec src; st = tmStatus src in
      marshalData J (sp, st)
        ((with_meta src dst)
          \<lparr>sMachineSpec := (sMachineSpec dst)
             \<lparr>sTemplateOverride := TemplateInline sp, sHardwareAffinity := convertHardwareAffinityFromHub (HardwareAffinity sp),
              sBootOptions := convertBootOptionsFromHub (BootOptions sp), sHardwareName := HardwareName sp, sProviderID := ProviderID sp\<rparr>,
           sMachineStatus := (sMachineStatus dst)
             \<lparr>sReady := Ready st, sInitialization := convertMachineInitFromHub (Initialization st), sAddresses := Addresses st,
              sInstanceStatus := convertResourceStatusFromHub (State st), sTargetNamespace := TargetNamespace st,
              sConditions := Conditions st, sErrorReason := ErrorReason st, sErrorMessage := ErrorMessage st\<rparr>\<rparr>))"

definition ConvertMachineTemplateToHub ::
    "machine_template_spec json \<Rightarrow> s_machine_template \<Rightarrow> machine_template \<Rightarrow> string + machine_template" where
  "ConvertMachineTemplateToHub J src dst =
     (let sp = strSpec (stsTemplate (sTemplateSpec src)); res = mtsTemplate (mtSpec dst);
          config1 = (mtrSpec res)
            \<lparr>TemplateInline := sTemplateOverride sp, HardwareAffinity := convertHardwareAffinityToHub (sHardwareAffinity sp),
             BootOptions := convertBootOptionsToHub (sBootOptions sp)\<rparr>;
          put = (\<lambda>m c annotations. (with_meta src dst)
            \<lparr>Annotations := annotations, mtSpec := (mtSpec dst)\<lparr>mtsTemplate := res\<lparr>mtrMeta := m, mtrSpec := c\<rparr>\<rparr>\<rparr>)
      in case unmarshalData J (Annotations src) of
           Inl e \<Rightarrow> Inl e
         | Inr (None, annotations) \<Rightarrow> Inr (put (mtrMeta res) config1 annotations)
         | Inr (Some restored, annotations) \<Rightarrow>
             (let old = mtsTemplate restored in
              Inr (put (mtrMeta old)
                (config1\<lparr>TemplateRef := TemplateRef (mtrSpec old), AddressFromPool := AddressFromPool (mtrSpec old)\<rparr>) annotations)))"

definition ConvertMachineTemplateFromHub ::
    "machine_template_spec json \<Rightarrow> s_machine_template \<Rightarrow> machine_template \<Rightarrow> string + s_machine_template" where
  "ConvertMachineTemplateFromHub J dst src =
     (let sp = mtrSpec (mtsTemplate (mtSpec src)); res = stsTemplate (sTemplateSpec dst) in
      marshalData J (mtSpec src)
        ((with_meta src dst)
          \<lparr>sTemplateSpec := (sTemplateSpec dst)\<lparr>stsTemplate := res
             \<lparr>strSpec := (strSpec res)
                \<lparr>sTemplateOverride := TemplateInline sp, sHardwareAffinity := convertHardwareAffinityFromHub (HardwareAffinity sp),
                 sBootOptions := convertBootOptionsFromHub (BootOptions sp)\<rparr>\<rparr>\<rparr>\<rparr>))"

text \<open>The converters of \<open>pkg/conversion\<close>, into an object just allocated.\<close>

record ('h, 's) converter =
  fromHub :: "'h \<Rightarrow> string + 's"
  toHub :: "'s \<Rightarrow> string + 'h"

definition NewTinkerbellClusterConverter :: "cluster_data json \<Rightarrow> (tinkerbell_cluster, s_cluster) converter" where
  "NewTinkerbellClusterConverter J =
     \<lparr>fromHub = (\<lambda>hub. ConvertClusterFromHub J zero_s_cluster hub), toHub = (\<lambda>spoke. ConvertClusterToHub J spoke zero_cluster)\<rparr>"

definition NewTinkerbellMachineConverter :: "machine_data json \<Rightarrow> (tinkerbell_machine, s_machine) converter" where
  "NewTinkerbellMachineConverter J =
     \<lparr>fromHub = (\<lambda>hub. ConvertMachineFromHub J zero_s_machine hub), toHub = (\<lambda>spoke. ConvertMachineToHub J spoke zero_machine)\<rparr>"

definition NewTinkerbellMachineTemplateConverter ::
    "machine_template_spec json \<Rightarrow> (machine_template, s_machine_template) converter" where
  "NewTinkerbellMachineTemplateConverter J =
     \<lparr>fromHub = (\<lambda>hub. ConvertMachineTemplateFromHub J zero_s_machine_template hub),
      toHub = (\<lambda>spoke. ConvertMachineTemplateToHub J spoke zero_machine_template)\<rparr>"

section \<open>Contracts of a conversion\<close>

text \<open>
  What a pair of conversions promises the storage: going down and up gives the hub object back but for the
  stash. \<open>strip\<close> removes the stash, which the conversion down does not look at.
\<close>

locale hub_spoke =
  fixes to_hub :: "'s \<Rightarrow> string + 'h" and from_hub :: "'h \<Rightarrow> string + 's" and strip :: "'h \<Rightarrow> 'h" and lawful :: bool
  assumes hub_back: "lawful \<Longrightarrow> from_hub h = Inr s \<Longrightarrow> to_hub s = Inr (strip h)"
    and from_strip: "from_hub (strip h) = from_hub h"
    and to_stripped: "to_hub s = Inr h \<Longrightarrow> strip h = h"
begin

lemma hub_stable: "lawful \<Longrightarrow> to_hub s = Inr h \<Longrightarrow> from_hub h = Inr s' \<Longrightarrow> to_hub s' = Inr h"
  using hub_back to_stripped by metis

lemma spoke_stable: "lawful \<Longrightarrow> from_hub h = Inr s \<Longrightarrow> to_hub s = Inr h' \<Longrightarrow> from_hub h' = Inr s"
  using hub_back from_strip by fastforce

lemma spoke_settles:
  "lawful \<Longrightarrow> to_hub s = Inr h \<Longrightarrow> from_hub h = Inr s1 \<Longrightarrow> to_hub s1 = Inr h1 \<Longrightarrow> from_hub h1 = Inr s2 \<Longrightarrow> h1 = h \<and> s2 = s1"
  by (metis hub_stable sum.inject(2))

end

text \<open>A spoke keeps its core, what the hub has a place for, on the way up and down.\<close>

locale lossy_spoke = hub_spoke +
  fixes core :: "'a \<Rightarrow> 'a" and stash :: "string \<Rightarrow> 'a \<Rightarrow> 'a"
  assumes up_down: "to_hub s = Inr h \<Longrightarrow> from_hub h = Inr s' \<Longrightarrow> \<exists>d. s' = stash d (core s)"
    and core_stash: "core (stash d (core s)) = core s"
begin

lemma core_kept: "to_hub s = Inr h \<Longrightarrow> from_hub h = Inr s' \<Longrightarrow> core s' = core s"
  using up_down core_stash by fastforce

lemma core_settles:
  "lawful \<Longrightarrow> to_hub s = Inr h \<Longrightarrow> from_hub h = Inr s1 \<Longrightarrow> to_hub s1 = Inr h1 \<Longrightarrow> from_hub h1 = Inr s2 \<Longrightarrow>
   h1 = h \<and> s2 = s1 \<and> (\<exists>d. s1 = stash d (core s))"
  using spoke_settles up_down by blast

end

section \<open>The conversions keep their contracts\<close>

definition json_laws :: "'a json \<Rightarrow> bool" where
  "json_laws J \<longleftrightarrow> (\<forall>x d. marshal J x = Inr d \<longrightarrow> unmarshal J d = Inr x)"

definition strip :: "'a objmeta_scheme \<Rightarrow> 'a objmeta_scheme" where
  "strip obj = obj\<lparr>Annotations := (Annotations obj)(dataAnnotation := None)\<rparr>"

lemma etas [simp]:
  "\<lparr>LabelSelector = LabelSelector t\<rparr> = t" "\<lparr>sLabelSelector = sLabelSelector t'\<rparr> = t'"
  "\<lparr>Weight = Weight w, AffinityTerm = AffinityTerm w\<rparr> = w" "\<lparr>sWeight = sWeight w', sAffinityTerm = sAffinityTerm w'\<rparr> = w'"
  "\<lparr>Required = Required a, Preferred = Preferred a\<rparr> = a" "\<lparr>sRequired = sRequired a', sPreferred = sPreferred a'\<rparr> = a'"
  "\<lparr>Provisioned = Provisioned p\<rparr> = p" "\<lparr>sProvisioned = sProvisioned p'\<rparr> = p'"
  "\<lparr>ClusterProvisioned = ClusterProvisioned c\<rparr> = c" "\<lparr>sClusterProvisioned = sClusterProvisioned c'\<rparr> = c'"
  by simp_all

lemma affinity_back [simp]:
  "convertHardwareAffinityToHub (convertHardwareAffinityFromHub a) = a"
  "convertHardwareAffinityFromHub (convertHardwareAffinityToHub b) = b"
  by (simp_all add: convertHardwareAffinityToHub_def convertHardwareAffinityFromHub_def option.map_comp comp_def option.map_ident)

lemma parts_back [simp]:
  "convertBootOptionsToHub (convertBootOptionsFromHub o1) = o1"
  "convertBootOptionsFromHub (convertBootOptionsToHub o2) = o2"
  "convertMachineInitToHub (convertMachineInitFromHub m1) = m1"
  "convertMachineInitFromHub (convertMachineInitToHub m2) = m2"
  "convertClusterInitToHub (convertClusterInitFromHub c1) = c1"
  "convertClusterInitFromHub (convertClusterInitToHub c2) = c2"
  "convertResourceStatusToHub i = i" "convertResourceStatusFromHub i = i"
  by (simp_all add: convertBootOptionsToHub_def convertBootOptionsFromHub_def convertMachineInitToHub_def
      convertMachineInitFromHub_def convertClusterInitToHub_def convertClusterInitFromHub_def convertResourceStatusToHub_def
      convertResourceStatusFromHub_def option.map_comp comp_def option.map_ident)

lemma marshalData_Inr:
  "marshalData J u dst = Inr obj \<longleftrightarrow> (\<exists>d. marshal J u = Inr d \<and> obj = dst\<lparr>Annotations := (Annotations dst)(dataAnnotation \<mapsto> d)\<rparr>)"
  by (auto simp: marshalData_def split: sum.splits)

lemma unmarshalData_Inr:
  "unmarshalData J an = Inr (r, an') \<longleftrightarrow>
     an' = an(dataAnnotation := None) \<and>
     (case an dataAnnotation of None \<Rightarrow> r = None | Some d \<Rightarrow> (\<exists>x. unmarshal J d = Inr x \<and> r = Some x))"
  by (auto simp: unmarshalData_def fun_upd_idem split: sum.splits option.splits)

text \<open>What was stashed is found again.\<close>

lemma unmarshal_stashed:
  "json_laws J \<Longrightarrow> marshal J u = Inr d \<Longrightarrow>
   unmarshalData J (an(dataAnnotation \<mapsto> d)) = Inr (Some u, an(dataAnnotation := None))"
  by (simp add: unmarshalData_def json_laws_def)

lemma machine_back:
  "json_laws J \<Longrightarrow> ConvertMachineFromHub J zero_s_machine h = Inr s \<Longrightarrow> ConvertMachineToHub J s zero_machine = Inr (strip h)"
  by (cases h; cases "tmSpec h"; cases "tmStatus h")
    (auto simp: ConvertMachineFromHub_def ConvertMachineToHub_def marshalData_Inr unmarshal_stashed Let_def strip_def with_meta_def
      zero_defs new_meta_def objmeta.defs machine_config.defs s_image_lookup.defs)

lemma template_back:
  "json_laws J \<Longrightarrow> ConvertMachineTemplateFromHub J zero_s_machine_template h = Inr s \<Longrightarrow>
   ConvertMachineTemplateToHub J s zero_machine_template = Inr (strip h)"
  by (cases h; cases "mtSpec h"; cases "mtsTemplate (mtSpec h)"; cases "mtrSpec (mtsTemplate (mtSpec h))")
    (auto simp: ConvertMachineTemplateFromHub_def ConvertMachineTemplateToHub_def marshalData_Inr unmarshal_stashed Let_def strip_def
      with_meta_def zero_defs new_meta_def objmeta.defs machine_config.defs s_image_lookup.defs)

lemma cluster_back:
  "json_laws J \<Longrightarrow> ConvertClusterFromHub J zero_s_cluster h = Inr s \<Longrightarrow> ConvertClusterToHub J s zero_cluster = Inr (strip h)"
  by (cases h; cases "tcSpec h"; cases "tcStatus h"; cases "ClusterTemplateRef (tcSpec h)")
    (auto simp: ConvertClusterFromHub_def ConvertClusterToHub_def marshalData_Inr unmarshal_stashed Let_def strip_def with_meta_def
      zero_defs new_meta_def objmeta.defs s_image_lookup.defs)

lemma from_strip:
  "ConvertMachineFromHub J s0 (strip m) = ConvertMachineFromHub J s0 m"
  "ConvertMachineTemplateFromHub JT t0 (strip t) = ConvertMachineTemplateFromHub JT t0 t"
  "ConvertClusterFromHub JC c0 (strip c) = ConvertClusterFromHub JC c0 c"
  by (simp_all add: ConvertMachineFromHub_def ConvertMachineTemplateFromHub_def ConvertClusterFromHub_def marshalData_def strip_def
      with_meta_def objmeta.defs Let_def split: sum.splits)

lemma to_stripped:
  "ConvertMachineToHub J s m0 = Inr m \<Longrightarrow> strip m = m"
  "ConvertMachineTemplateToHub JT st t0 = Inr t \<Longrightarrow> strip t = t"
  "ConvertClusterToHub JC sc c0 = Inr c \<Longrightarrow> strip c = c"
  by (auto simp: ConvertMachineToHub_def ConvertMachineTemplateToHub_def ConvertClusterToHub_def Let_def strip_def with_meta_def
      unmarshalData_Inr objmeta.defs split: sum.splits option.splits prod.splits)

text \<open>What the hub has no place for.\<close>

definition without_lookup :: "'a s_image_lookup_scheme \<Rightarrow> 'a s_image_lookup_scheme" where
  "without_lookup sp = s_image_lookup.extend zero_lookup (s_image_lookup.more sp)"

definition machine_core :: "s_machine \<Rightarrow> s_machine" where
  "machine_core s = (strip s)\<lparr>sMachineSpec := without_lookup (sMachineSpec s)\<rparr>"

definition template_core :: "s_machine_template \<Rightarrow> s_machine_template" where
  "template_core s = (strip s)\<lparr>sTemplateSpec := \<lparr>stsTemplate = \<lparr>strSpec =
     (without_lookup (strSpec (stsTemplate (sTemplateSpec s))))\<lparr>sHardwareName := '''', sProviderID := ''''\<rparr>\<rparr>\<rparr>\<rparr>"

definition cluster_core :: "s_cluster \<Rightarrow> s_cluster" where
  "cluster_core s = (strip s)\<lparr>sClusterSpec := without_lookup (sClusterSpec s)\<rparr>"

definition stashed :: "string \<Rightarrow> 'a objmeta_scheme \<Rightarrow> 'a objmeta_scheme" where
  "stashed d obj = obj\<lparr>Annotations := (Annotations obj)(dataAnnotation \<mapsto> d)\<rparr>"

lemma without_lookup_simps [simp]:
  "without_lookup (without_lookup sp) = without_lookup sp"
  "without_lookup (msp\<lparr>sHardwareName := n, sProviderID := i\<rparr>) = (without_lookup msp)\<lparr>sHardwareName := n, sProviderID := i\<rparr>"
  by (simp add: without_lookup_def s_image_lookup.defs, cases msp, simp add: without_lookup_def s_image_lookup.defs)

lemma core_stashed [simp]:
  "machine_core (stashed d (machine_core s)) = machine_core s"
  "template_core (stashed d (template_core t)) = template_core t"
  "cluster_core (stashed d (cluster_core c)) = cluster_core c"
  by (simp_all add: machine_core_def template_core_def cluster_core_def stashed_def strip_def)

lemma machine_up_down:
  "ConvertMachineToHub J s zero_machine = Inr h \<Longrightarrow> ConvertMachineFromHub J zero_s_machine h = Inr s' \<Longrightarrow>
   \<exists>d. s' = stashed d (machine_core s)"
  by (cases s; cases "sMachineSpec s"; cases "sMachineStatus s")
    (auto simp: ConvertMachineFromHub_def ConvertMachineToHub_def marshalData_Inr unmarshalData_Inr Let_def strip_def with_meta_def
      machine_core_def stashed_def without_lookup_def zero_defs new_meta_def objmeta.defs machine_config.defs s_image_lookup.defs
      split: sum.splits option.splits prod.splits)

lemma template_up_down:
  "ConvertMachineTemplateToHub J s zero_machine_template = Inr h \<Longrightarrow>
   ConvertMachineTemplateFromHub J zero_s_machine_template h = Inr s' \<Longrightarrow> \<exists>d. s' = stashed d (template_core s)"
  by (cases s; cases "sTemplateSpec s"; cases "stsTemplate (sTemplateSpec s)"; cases "strSpec (stsTemplate (sTemplateSpec s))")
    (auto simp: ConvertMachineTemplateFromHub_def ConvertMachineTemplateToHub_def marshalData_Inr unmarshalData_Inr Let_def strip_def
      with_meta_def template_core_def stashed_def without_lookup_def zero_defs new_meta_def objmeta.defs machine_config.defs
      s_image_lookup.defs split: sum.splits option.splits prod.splits)

lemma cluster_up_down:
  "ConvertClusterToHub J s zero_cluster = Inr h \<Longrightarrow> ConvertClusterFromHub J zero_s_cluster h = Inr s' \<Longrightarrow>
   \<exists>d. s' = stashed d (cluster_core s)"
  by (cases s; cases "sClusterSpec s"; cases "sClusterStatus s"; cases "sTemplateOverrideRef (sClusterSpec s)")
    (auto simp: ConvertClusterFromHub_def ConvertClusterToHub_def marshalData_Inr unmarshalData_Inr Let_def strip_def with_meta_def
      cluster_core_def stashed_def without_lookup_def zero_defs new_meta_def objmeta.defs s_image_lookup.defs
      split: sum.splits option.splits prod.splits)

interpretation machine_conv: lossy_spoke "\<lambda>s. ConvertMachineToHub J s zero_machine" "ConvertMachineFromHub J zero_s_machine" strip
    "json_laws J" machine_core stashed for J
  by unfold_locales (auto intro: machine_back machine_up_down simp: from_strip to_stripped)

interpretation template_conv: lossy_spoke "\<lambda>s. ConvertMachineTemplateToHub J s zero_machine_template"
    "ConvertMachineTemplateFromHub J zero_s_machine_template" strip "json_laws J" template_core stashed for J
  by unfold_locales (auto intro: template_back template_up_down simp: from_strip to_stripped)

interpretation cluster_conv: lossy_spoke "\<lambda>s. ConvertClusterToHub J s zero_cluster" "ConvertClusterFromHub J zero_s_cluster" strip
    "json_laws J" cluster_core stashed for J
  by unfold_locales (auto intro: cluster_back cluster_up_down simp: from_strip to_stripped)

section \<open>Properties\<close>

text \<open>
  C27: No stored object loses anything to an old client. Whatever v1beta2 object is served as v1beta1 and sent back
  unchanged, the object stored again is the one served, with every field of v1beta2 that v1beta1 has no
  place for (the template reference, the address pool, the metadata of a template), and with the
  stash removed. This holds of machines, machine templates and clusters, for any JSON codec whose decoder
  inverts its encoder.
\<close>

theorem hub_spoke_hub_lossless:
  assumes "json_laws JM" and "json_laws JT" and "json_laws JC"
    and "fromHub (NewTinkerbellMachineConverter JM) m = Inr m'"
    and "fromHub (NewTinkerbellMachineTemplateConverter JT) t = Inr t'"
    and "fromHub (NewTinkerbellClusterConverter JC) c = Inr c'"
  shows "toHub (NewTinkerbellMachineConverter JM) m' = Inr (m\<lparr>Annotations := (Annotations m)(dataAnnotation := None)\<rparr>) \<and>
    toHub (NewTinkerbellMachineTemplateConverter JT) t' = Inr (t\<lparr>Annotations := (Annotations t)(dataAnnotation := None)\<rparr>) \<and>
    toHub (NewTinkerbellClusterConverter JC) c' = Inr (c\<lparr>Annotations := (Annotations c)(dataAnnotation := None)\<rparr>)"
  using machine_conv.hub_back [OF assms(1)] template_conv.hub_back [OF assms(2)] cluster_conv.hub_back [OF assms(3)] assms(4-6)
  unfolding NewTinkerbellMachineConverter_def NewTinkerbellMachineTemplateConverter_def NewTinkerbellClusterConverter_def
    converter.simps strip_def by blast

text \<open>
  C28: What an upgrade loses. A v1beta1 object stored as v1beta2 and served as v1beta1 again is the same but for the
  stash and for the four image lookup fields, which are then empty, and on a machine template also the
  hardware name and the provider ID; from there on every further round trip, of either version,
  changes nothing at all.
\<close>

theorem spoke_loses_lookup_once:
  assumes "json_laws JM" and "toHub (NewTinkerbellMachineConverter JM) s = Inr h"
    and "fromHub (NewTinkerbellMachineConverter JM) h = Inr s1" and "toHub (NewTinkerbellMachineConverter JM) s1 = Inr h1"
    and "fromHub (NewTinkerbellMachineConverter JM) h1 = Inr s2"
    and "json_laws JT" and "toHub (NewTinkerbellMachineTemplateConverter JT) t = Inr u"
    and "fromHub (NewTinkerbellMachineTemplateConverter JT) u = Inr t1"
  shows "h1 = h \<and> s2 = s1 \<and>
    (\<exists>d. s1 = s\<lparr>sMachineSpec := without_lookup (sMachineSpec s), Annotations := (Annotations s)(dataAnnotation \<mapsto> d)\<rparr>) \<and>
    toHub (NewTinkerbellMachineTemplateConverter JT) t1 = Inr u \<and>
    (\<exists>d. t1 = t\<lparr>sTemplateSpec := \<lparr>stsTemplate = \<lparr>strSpec =
         (without_lookup (strSpec (stsTemplate (sTemplateSpec t))))\<lparr>sHardwareName := '''', sProviderID := ''''\<rparr>\<rparr>\<rparr>,
       Annotations := (Annotations t)(dataAnnotation \<mapsto> d)\<rparr>)"
proof -
  have m: "h1 = h \<and> s2 = s1 \<and> (\<exists>d. s1 = stashed d (machine_core s))"
    using machine_conv.core_settles [OF assms(1)] assms(2-5) unfolding NewTinkerbellMachineConverter_def converter.simps by blast
  have t: "toHub (NewTinkerbellMachineTemplateConverter JT) t1 = Inr u \<and> (\<exists>d. t1 = stashed d (template_core t))"
    using template_conv.hub_stable [OF assms(6)] template_conv.up_down assms(7,8)
    unfolding NewTinkerbellMachineTemplateConverter_def converter.simps by blast
  from m t show ?thesis by (simp add: stashed_def machine_core_def template_core_def strip_def)
qed

text \<open>
  A stash nobody can read blocks the conversion instead of losing what it holds. A v1beta1 machine is converted
  exactly unless its stash is there and cannot be decoded; the conversion then fails with the decoder's
  error. Of a readable stash only the template reference and the address pool are taken: every other
  field is the one the v1beta1 client sent, however old the stash.
\<close>

theorem machine_to_hub_stash:
  "(case Annotations s dataAnnotation of
      None \<Rightarrow> (\<exists>h. ConvertMachineToHub J s zero_machine = Inr h \<and> TemplateRef (tmSpec h) = None \<and> AddressFromPool (tmSpec h) = None)
    | Some data \<Rightarrow>
        (case unmarshal J data of
           Inl e \<Rightarrow> ConvertMachineToHub J s zero_machine = Inl e
         | Inr (sp, st) \<Rightarrow>
             (\<exists>h h0. ConvertMachineToHub J s zero_machine = Inr h
                \<and> ConvertMachineToHub J (s\<lparr>Annotations := (Annotations s)(dataAnnotation := None)\<rparr>) zero_machine = Inr h0
                \<and> h = h0\<lparr>tmSpec := (tmSpec h0)\<lparr>TemplateRef := TemplateRef sp, AddressFromPool := AddressFromPool sp\<rparr>\<rparr>)))"
proof (cases "Annotations s dataAnnotation")
  case None
  then show ?thesis
    by (simp add: ConvertMachineToHub_def unmarshalData_def Let_def with_meta_def zero_defs new_meta_def objmeta.defs machine_config.defs)
next
  case (Some data)
  show ?thesis
  proof (cases "unmarshal J data")
    case (Inl e)
    with Some show ?thesis by (simp add: ConvertMachineToHub_def unmarshalData_def Let_def)
  next
    case (Inr r)
    obtain sp st where "r = (sp, st)" by fastforce
    with Some Inr show ?thesis
      by (simp add: ConvertMachineToHub_def unmarshalData_def Let_def with_meta_def objmeta.defs)
  qed
qed

text \<open>A codec that knows one value, for the witnesses.\<close>

definition json_of :: "'a \<Rightarrow> 'a json" where
  "json_of v = \<lparr>marshal = (\<lambda>x. if x = v then Inr ''{}'' else Inl ''unknown value''), unmarshal = (\<lambda>_. Inr v)\<rparr>"

lemma json_of [simp]: "json_laws (json_of v)" "marshal (json_of v) v = Inr ''{}''" "unmarshal (json_of v) d = Inr v"
  by (auto simp: json_of_def json_laws_def split: if_splits)

definition pooled_machine :: tinkerbell_machine where
  "pooled_machine = zero_machine\<lparr>tmSpec := zero_spec\<lparr>TemplateRef := Some \<lparr>refName = ''t'', refNamespace = ''ns''\<rparr>,
     AddressFromPool := Some \<lparr>poolAPIGroup = ''ipam'', poolKind = ''Pool'', poolName = ''p''\<rparr>\<rparr>\<rparr>"

lemma down_ex:
  "\<exists>s. ConvertMachineFromHub (json_of (tmSpec m, tmStatus m)) s0 m = Inr s"
  "\<exists>s. ConvertMachineTemplateFromHub (json_of (mtSpec t)) t0 t = Inr s"
  "\<exists>s. ConvertClusterFromHub (json_of (tcSpec c, tcStatus c)) c0 c = Inr s"
  by (simp_all add: ConvertMachineFromHub_def ConvertMachineTemplateFromHub_def ConvertClusterFromHub_def marshalData_def Let_def)

theorem hub_spoke_hub_lossless_witness:
  "\<exists>m'. fromHub (NewTinkerbellMachineConverter (json_of (tmSpec pooled_machine, tmStatus pooled_machine))) pooled_machine = Inr m' \<and>
     toHub (NewTinkerbellMachineConverter (json_of (tmSpec pooled_machine, tmStatus pooled_machine))) m' = Inr pooled_machine"
proof -
  let ?m = pooled_machine and ?t = zero_machine_template and ?c = zero_cluster
  obtain m' t' c' where
    "fromHub (NewTinkerbellMachineConverter (json_of (tmSpec ?m, tmStatus ?m))) ?m = Inr m'"
    "fromHub (NewTinkerbellMachineTemplateConverter (json_of (mtSpec ?t))) ?t = Inr t'"
    "fromHub (NewTinkerbellClusterConverter (json_of (tcSpec ?c, tcStatus ?c))) ?c = Inr c'"
    using down_ex unfolding NewTinkerbellMachineConverter_def NewTinkerbellMachineTemplateConverter_def
      NewTinkerbellClusterConverter_def converter.simps by metis
  from hub_spoke_hub_lossless [OF json_of(1) json_of(1) json_of(1) this] this(1)
  show ?thesis by (simp add: pooled_machine_def zero_machine_def new_meta_def objmeta.defs)
qed

definition lookup_machine :: s_machine where
  "lookup_machine = zero_s_machine\<lparr>sMachineSpec := zero_s_spec\<lparr>ImageLookupFormat := ''fmt''\<rparr>\<rparr>"

theorem spoke_loses_lookup_once_witness:
  "\<exists>h s1 J. toHub (NewTinkerbellMachineConverter J) lookup_machine = Inr h \<and> fromHub (NewTinkerbellMachineConverter J) h = Inr s1 \<and>
     sMachineSpec s1 = zero_s_spec \<and> sMachineSpec lookup_machine \<noteq> zero_s_spec"
proof -
  let ?C = "\<lambda>h. NewTinkerbellMachineConverter (json_of (tmSpec h, tmStatus h))" and ?s = lookup_machine
  let ?T = "\<lambda>h. NewTinkerbellMachineTemplateConverter (json_of (mtSpec h))" and ?t = zero_s_machine_template
  have noAnn: "Annotations ?s = Map.empty" "Annotations ?t = Map.empty"
    by (simp_all add: lookup_machine_def zero_s_machine_def zero_s_machine_template_def new_meta_def objmeta.defs)
  obtain h where h: "\<And>J. ConvertMachineToHub J ?s zero_machine = Inr h"
    using noAnn(1) by (simp add: ConvertMachineToHub_def unmarshalData_def Let_def)
  obtain u where u: "\<And>J. ConvertMachineTemplateToHub J ?t zero_machine_template = Inr u"
    using noAnn(2) by (simp add: ConvertMachineTemplateToHub_def unmarshalData_def Let_def)
  obtain s1 t1 where d: "fromHub (?C h) h = Inr s1" "fromHub (?T u) u = Inr t1"
    using down_ex unfolding NewTinkerbellMachineConverter_def NewTinkerbellMachineTemplateConverter_def converter.simps by metis
  have up: "toHub (?C h) ?s = Inr h" "toHub (?T u) ?t = Inr u"
    by (simp_all add: NewTinkerbellMachineConverter_def NewTinkerbellMachineTemplateConverter_def h u)
  have again: "toHub (?C h) s1 = Inr h"
    using machine_conv.hub_stable [OF json_of(1) h] d(1) by (simp add: NewTinkerbellMachineConverter_def)
  from spoke_loses_lookup_once [OF json_of(1) up(1) d(1) again d(1) json_of(1) up(2) d(2)]
  have "sMachineSpec s1 = without_lookup (sMachineSpec ?s)" by auto
  then have "sMachineSpec s1 = zero_s_spec" "sMachineSpec ?s \<noteq> zero_s_spec"
    by (simp_all add: lookup_machine_def without_lookup_def zero_s_spec_def zero_lookup_def s_image_lookup.defs)
  with up(1) d(1) show ?thesis by blast
qed

end
