(* ===== verification/Webhooks.thy ===== *)
theory Webhooks
  imports HardwareOps Api
begin

text \<open>
  \<open>webhooks/\<close>: the admission of the four kinds of the API. A refusal is an error value; the object it names and its
  kind are left out, as are the warnings, which are always nil. \<open>admission.RequestFromContext\<close> and
  \<open>topology.IsDryRunRequest\<close> are parameters. The objects of this model do not tell a nil list or map
  from an empty one, so \<open>reflect.DeepEqual\<close> is equality, as is \<open>ptr.Equal\<close> on a pool reference.
\<close>

section \<open>Errors\<close>

text \<open>A path below the object, and the index it ends in.\<close>

datatype field_path = FieldPath "string list" "nat option"

datatype field_error = FieldInvalid field_path int string | FieldForbidden field_path string

datatype admission_error = AdmInvalid "field_error list" | AdmBadRequest string

definition aggregateObjErrors :: "field_error list \<Rightarrow> admission_error + unit" where
  "aggregateObjErrors allErrs = (if length allErrs = 0 then Inr () else Inl (AdmInvalid allErrs))"

section \<open>TinkerbellMachine\<close>

text \<open>The errors of the terms from index \<open>i\<close> on.\<close>

fun weight_errors :: "nat \<Rightarrow> weighted_affinity_term list \<Rightarrow> field_error list" where
  "weight_errors i [] = []"
| "weight_errors i (t # ts) =
     (if Weight t < 1 \<or> Weight t > 100
      then [FieldInvalid (FieldPath [''spec'', ''HardwareAffinity'', ''Preferred''] (Some i)) (Weight t) ''must be in the range [1,100]'']
      else []) @ weight_errors (Suc i) ts"

definition validateMachineSpec :: "machine_spec \<Rightarrow> field_error list" where
  "validateMachineSpec spec =
     (case HardwareAffinity spec of None \<Rightarrow> [] | Some a \<Rightarrow> weight_errors 0 (Preferred a))"

definition MachineValidateCreate :: "tinkerbell_machine \<Rightarrow> admission_error + unit" where
  "MachineValidateCreate obj = aggregateObjErrors (validateMachineSpec (tmSpec obj))"

definition frozen_errors :: "machine_spec \<Rightarrow> machine_spec \<Rightarrow> field_error list" where
  "frozen_errors old new =
     (if HardwareName old \<noteq> '''' \<and> HardwareName new \<noteq> HardwareName old
      then [FieldForbidden (FieldPath [''spec'', ''hardwareName''] None) ''is immutable once set''] else []) @
     (if ProviderID old \<noteq> '''' \<and> ProviderID new \<noteq> ProviderID old
      then [FieldForbidden (FieldPath [''spec'', ''providerID''] None) ''is immutable once set''] else []) @
     (if HardwareName old \<noteq> '''' \<and> AddressFromPool old \<noteq> AddressFromPool new
      then [FieldForbidden (FieldPath [''spec'', ''addressFromPool''] None) ''is immutable once hardware is selected''] else [])"

definition MachineValidateUpdate :: "tinkerbell_machine \<Rightarrow> tinkerbell_machine \<Rightarrow> admission_error + unit" where
  "MachineValidateUpdate old newTM =
     aggregateObjErrors (validateMachineSpec (tmSpec newTM) @ frozen_errors (tmSpec old) (tmSpec newTM))"

definition MachineValidateDelete :: "tinkerbell_machine \<Rightarrow> admission_error + unit" where
  "MachineValidateDelete _ = Inr ()"

section \<open>TinkerbellCluster\<close>

definition ClusterValidateCreate :: "tinkerbell_cluster \<Rightarrow> admission_error + unit" where
  "ClusterValidateCreate _ = Inr ()"

definition ClusterValidateUpdate :: "tinkerbell_cluster \<Rightarrow> tinkerbell_cluster \<Rightarrow> admission_error + unit" where
  "ClusterValidateUpdate _ _ = Inr ()"

definition ClusterValidateDelete :: "tinkerbell_cluster \<Rightarrow> admission_error + unit" where
  "ClusterValidateDelete _ = Inr ()"

section \<open>Templates\<close>

text \<open>The context of a request, by what the libraries find in it.\<close>

record 'r admission_env =
  RequestFromContext :: "string + 'r"
  IsDryRunRequest :: "'r \<Rightarrow> objmeta \<Rightarrow> bool"

definition validateTemplateSpecImmutable ::
    "('r, 'e) admission_env_scheme \<Rightarrow> string \<Rightarrow> 'o objmeta_scheme \<Rightarrow> 'a \<Rightarrow> 'a \<Rightarrow> admission_error + unit" where
  "validateTemplateSpecImmutable ctx kind newObj oldSpec newSpec =
     (case RequestFromContext ctx of
        Inl e \<Rightarrow> Inl (AdmBadRequest (''expected an admission.Request inside context: '' @ e))
      | Inr req \<Rightarrow>
          if IsDryRunRequest ctx req (meta newObj) then Inr ()
          else if oldSpec \<noteq> newSpec then Inl (AdmBadRequest (kind @ '' spec.template.spec is immutable''))
          else Inr ())"

definition MachineTemplateValidateCreate :: "machine_template \<Rightarrow> admission_error + unit" where
  "MachineTemplateValidateCreate _ = Inr ()"

definition MachineTemplateValidateUpdate ::
    "('r, 'e) admission_env_scheme \<Rightarrow> machine_template \<Rightarrow> machine_template \<Rightarrow> admission_error + unit" where
  "MachineTemplateValidateUpdate ctx oldTMT newTMT =
     validateTemplateSpecImmutable ctx ''TinkerbellMachineTemplate'' newTMT
       (mtrSpec (mtsTemplate (mtSpec oldTMT))) (mtrSpec (mtsTemplate (mtSpec newTMT)))"

definition MachineTemplateValidateDelete :: "machine_template \<Rightarrow> admission_error + unit" where
  "MachineTemplateValidateDelete _ = Inr ()"

definition ClusterTemplateValidateCreate :: "cluster_template \<Rightarrow> admission_error + unit" where
  "ClusterTemplateValidateCreate _ = Inr ()"

definition ClusterTemplateValidateUpdate ::
    "('r, 'e) admission_env_scheme \<Rightarrow> cluster_template \<Rightarrow> cluster_template \<Rightarrow> admission_error + unit" where
  "ClusterTemplateValidateUpdate ctx oldTCT newTCT =
     validateTemplateSpecImmutable ctx ''TinkerbellClusterTemplate'' newTCT
       (ctrSpec (ctsTemplate (ctSpec oldTCT))) (ctrSpec (ctsTemplate (ctSpec newTCT)))"

definition ClusterTemplateValidateDelete :: "cluster_template \<Rightarrow> admission_error + unit" where
  "ClusterTemplateValidateDelete _ = Inr ()"

section \<open>The contract of a frozen part\<close>

text \<open>
  A part of an object that admission keeps from some point on. The updates an object goes through in its life are
  a path of admitted updates, so the part is the same at both ends of any path.
\<close>

locale frozen_part =
  fixes admits :: "'o \<Rightarrow> 'o \<Rightarrow> bool" and frozen :: "'o \<Rightarrow> bool" and part :: "'o \<Rightarrow> 'p"
  assumes stays_frozen: "admits old new \<Longrightarrow> frozen old \<Longrightarrow> frozen new"
    and kept: "admits old new \<Longrightarrow> frozen old \<Longrightarrow> part new = part old"
begin

lemma kept_for_life: "admits\<^sup>*\<^sup>* old new \<Longrightarrow> frozen old \<Longrightarrow> frozen new \<and> part new = part old"
  by (induction rule: rtranclp_induct) (auto dest: stays_frozen kept)

end

text \<open>A valid object, which stays valid and which an update that changes nothing does not endanger.\<close>

locale admission =
  fixes create :: "'o \<Rightarrow> bool" and update :: "'o \<Rightarrow> 'o \<Rightarrow> bool"
  assumes unchanged: "create obj \<Longrightarrow> update obj obj"
    and valid_after: "update old new \<Longrightarrow> create new"
begin

lemma valid_for_life: "update\<^sup>*\<^sup>* obj obj' \<Longrightarrow> create obj \<Longrightarrow> create obj' \<and> update obj' obj'"
  by (induction rule: rtranclp_induct) (auto intro: unchanged valid_after)

end

section \<open>Lemmas\<close>

lemma aggregate_Inr [simp]: "aggregateObjErrors es = Inr () \<longleftrightarrow> es = []"
  by (simp add: aggregateObjErrors_def)

lemma weight_errors_nil [simp]: "weight_errors i ts = [] \<longleftrightarrow> (\<forall>t\<in>set ts. 1 \<le> Weight t \<and> Weight t \<le> 100)"
  by (induction ts arbitrary: i) auto

lemma set_weight_errors:
  "set (weight_errors i ts) =
     (\<lambda>k. FieldInvalid (FieldPath [''spec'', ''HardwareAffinity'', ''Preferred''] (Some (i + k))) (Weight (ts ! k)) ''must be in the range [1,100]'')
       ` {k. k < length ts \<and> \<not> (1 \<le> Weight (ts ! k) \<and> Weight (ts ! k) \<le> 100)}"
proof (induction ts arbitrary: i)
  case (Cons t ts)
  have split: "{k. k < length (t # ts) \<and> \<not> (1 \<le> Weight ((t # ts) ! k) \<and> Weight ((t # ts) ! k) \<le> 100)} =
      (if 1 \<le> Weight t \<and> Weight t \<le> 100 then {} else {0}) \<union>
      Suc ` {k. k < length ts \<and> \<not> (1 \<le> Weight (ts ! k) \<and> Weight (ts ! k) \<le> 100)}" (is "?l = ?r")
  proof (rule set_eqI)
    fix k
    show "k \<in> ?l \<longleftrightarrow> k \<in> ?r" by (cases k) auto
  qed
  show ?case unfolding split by (auto simp: Cons.IH image_Un image_image)
qed simp

lemma invalid_weight_iff:
  "(\<exists>d. FieldInvalid (FieldPath [''spec'', ''HardwareAffinity'', ''Preferred''] (Some k)) w d \<in> set (weight_errors 0 ts)) \<longleftrightarrow>
     k < length ts \<and> w = Weight (ts ! k) \<and> (w < 1 \<or> 100 < w)"
  by (auto simp: set_weight_errors image_iff)

lemma validateMachineSpec_nil [simp]:
  "validateMachineSpec spec = [] \<longleftrightarrow>
     (case HardwareAffinity spec of None \<Rightarrow> True | Some a \<Rightarrow> (\<forall>t\<in>set (Preferred a). 1 \<le> Weight t \<and> Weight t \<le> 100))"
  by (simp add: validateMachineSpec_def split: option.split)

lemma frozen_errors_nil [simp]:
  "frozen_errors old new = [] \<longleftrightarrow>
     (HardwareName old \<noteq> '''' \<longrightarrow> HardwareName new = HardwareName old \<and> AddressFromPool new = AddressFromPool old) \<and>
     (ProviderID old \<noteq> '''' \<longrightarrow> ProviderID new = ProviderID old)"
  by (auto simp: frozen_errors_def)

abbreviation machine_admits :: "tinkerbell_machine \<Rightarrow> tinkerbell_machine \<Rightarrow> bool" where
  "machine_admits old new \<equiv> MachineValidateUpdate old new = Inr ()"

interpretation machine_admission: admission "\<lambda>m. MachineValidateCreate m = Inr ()" machine_admits
  by unfold_locales (simp_all add: MachineValidateCreate_def MachineValidateUpdate_def)

interpretation hardware_frozen: frozen_part machine_admits "\<lambda>m. HardwareName (tmSpec m) \<noteq> ''''"
    "\<lambda>m. (HardwareName (tmSpec m), AddressFromPool (tmSpec m))"
  by unfold_locales (auto simp: MachineValidateUpdate_def)

interpretation provider_frozen: frozen_part machine_admits "\<lambda>m. ProviderID (tmSpec m) \<noteq> ''''" "\<lambda>m. ProviderID (tmSpec m)"
  by unfold_locales (auto simp: MachineValidateUpdate_def)

text \<open>An update that is not a dry run of the topology controller.\<close>

definition real_update :: "('r, 'e) admission_env_scheme \<Rightarrow> 'o objmeta_scheme \<Rightarrow> bool" where
  "real_update ctx obj \<longleftrightarrow> (\<forall>req. RequestFromContext ctx = Inr req \<longrightarrow> \<not> IsDryRunRequest ctx req (meta obj))"

lemma template_admitted:
  "validateTemplateSpecImmutable ctx kind obj a b = Inr () \<longleftrightarrow>
     (\<exists>req. RequestFromContext ctx = Inr req \<and> (IsDryRunRequest ctx req (meta obj) \<or> b = a))"
  by (auto simp: validateTemplateSpecImmutable_def split: sum.splits if_splits)

interpretation template_frozen: frozen_part
    "\<lambda>old new. \<exists>ctx :: ('r, 'e) admission_env_scheme. real_update ctx new \<and> MachineTemplateValidateUpdate ctx old new = Inr ()"
    "\<lambda>_. True" "\<lambda>t. mtrSpec (mtsTemplate (mtSpec t))"
  by unfold_locales (auto simp: MachineTemplateValidateUpdate_def template_admitted real_update_def)

interpretation cluster_template_frozen: frozen_part
    "\<lambda>old new. \<exists>ctx :: ('r, 'e) admission_env_scheme. real_update ctx new \<and> ClusterTemplateValidateUpdate ctx old new = Inr ()"
    "\<lambda>_. True" "\<lambda>t. ctrSpec (ctsTemplate (ctSpec t))"
  by unfold_locales (auto simp: ClusterTemplateValidateUpdate_def template_admitted real_update_def)

section \<open>Properties\<close>

text \<open>
  C30: What a machine is installed on does not change. Along any sequence of admitted updates, from the one after which
  a hardware name is set on, the hardware name and the address pool stay what they were, and from the one
  after which a provider ID is set on, so does the provider ID.
\<close>

theorem machine_identity_for_life:
  assumes "(\<lambda>old new. MachineValidateUpdate old new = Inr ())\<^sup>*\<^sup>* m m'"
  shows "(HardwareName (tmSpec m) \<noteq> '''' \<longrightarrow>
      HardwareName (tmSpec m') = HardwareName (tmSpec m) \<and> AddressFromPool (tmSpec m') = AddressFromPool (tmSpec m)) \<and>
    (ProviderID (tmSpec m) \<noteq> '''' \<longrightarrow> ProviderID (tmSpec m') = ProviderID (tmSpec m))"
  using hardware_frozen.kept_for_life [OF assms] provider_frozen.kept_for_life [OF assms] by auto

definition chosen_machine :: tinkerbell_machine where
  "chosen_machine = zero_machine\<lparr>tmSpec := zero_spec\<lparr>HardwareName := ''h''\<rparr>\<rparr>"

lemma chosen_machine_sel [simp]:
  "HardwareName (tmSpec chosen_machine) = ''h''" "ProviderID (tmSpec chosen_machine) = ''''"
  "HardwareAffinity (tmSpec chosen_machine) = None" "AddressFromPool (tmSpec chosen_machine) = None"
  by (simp_all add: chosen_machine_def zero_defs machine_config.defs)

definition provided_machine :: tinkerbell_machine where
  "provided_machine = chosen_machine\<lparr>tmSpec := (tmSpec chosen_machine)\<lparr>ProviderID := ''p''\<rparr>\<rparr>"

theorem machine_identity_for_life_witness:
  "MachineValidateUpdate chosen_machine provided_machine = Inr () \<and> HardwareName (tmSpec provided_machine) = ''h''"
proof -
  have a: "MachineValidateUpdate chosen_machine provided_machine = Inr ()"
    by (simp add: MachineValidateUpdate_def provided_machine_def)
  then have "(\<lambda>old new. MachineValidateUpdate old new = Inr ())\<^sup>*\<^sup>* chosen_machine provided_machine" by blast
  from machine_identity_for_life [OF this] a show ?thesis by simp
qed

text \<open>
  C31: Admission of a machine reports everything that is wrong with it and nothing else. An update is admitted exactly if every
  preferred weight is between 1 and 100 and no frozen field changes; if it is not, the error names the
  index and the weight of each preferred term out of range, and of no other.
\<close>

theorem machine_update_admitted_iff:
  "(MachineValidateUpdate old new = Inr () \<longleftrightarrow>
      list_all (\<lambda>t. 1 \<le> Weight t \<and> Weight t \<le> 100) (case HardwareAffinity (tmSpec new) of None \<Rightarrow> [] | Some a \<Rightarrow> Preferred a) \<and>
      (HardwareName (tmSpec old) = '''' \<or>
        HardwareName (tmSpec new) = HardwareName (tmSpec old) \<and> AddressFromPool (tmSpec new) = AddressFromPool (tmSpec old)) \<and>
      (ProviderID (tmSpec old) = '''' \<or> ProviderID (tmSpec new) = ProviderID (tmSpec old))) \<and>
   {(k, w). \<exists>es d. MachineValidateUpdate old new = Inl (AdmInvalid es) \<and>
        FieldInvalid (FieldPath [''spec'', ''HardwareAffinity'', ''Preferred''] (Some k)) w d \<in> set es} =
   {(k, w). \<exists>a. HardwareAffinity (tmSpec new) = Some a \<and> k < length (Preferred a) \<and> w = Weight (Preferred a ! k) \<and>
        (w < 1 \<or> 100 < w)}" (is "?iff \<and> ?reported = ?wrong")
proof
  show ?iff
    by (auto simp: MachineValidateUpdate_def list_all_iff split: option.splits)
  have none: "FieldInvalid p w d \<notin> set (frozen_errors o1 o2)" for p w d o1 o2
    by (simp add: frozen_errors_def)
  have es: "(\<exists>es. MachineValidateUpdate old new = Inl (AdmInvalid es) \<and> e \<in> set es) \<longleftrightarrow>
      e \<in> set (validateMachineSpec (tmSpec new) @ frozen_errors (tmSpec old) (tmSpec new))" for e
    by (cases "validateMachineSpec (tmSpec new) @ frozen_errors (tmSpec old) (tmSpec new)")
      (simp_all add: MachineValidateUpdate_def aggregateObjErrors_def del: validateMachineSpec_nil frozen_errors_nil append_is_Nil_conv)
  show "?reported = ?wrong"
  proof (intro set_eqI, clarify)
    fix k w
    let ?e = "\<lambda>d. FieldInvalid (FieldPath [''spec'', ''HardwareAffinity'', ''Preferred''] (Some k)) w d"
    have "(\<exists>es d. MachineValidateUpdate old new = Inl (AdmInvalid es) \<and> ?e d \<in> set es) \<longleftrightarrow>
      (\<exists>d es. MachineValidateUpdate old new = Inl (AdmInvalid es) \<and> ?e d \<in> set es)" by blast
    also have "\<dots> \<longleftrightarrow> (\<exists>d. ?e d \<in> set (validateMachineSpec (tmSpec new)))"
      unfolding es by (simp add: none)
    also have "\<dots> \<longleftrightarrow> (\<exists>a. HardwareAffinity (tmSpec new) = Some a \<and> k < length (Preferred a) \<and> w = Weight (Preferred a ! k) \<and> (w < 1 \<or> 100 < w))"
      using invalid_weight_iff by (cases "HardwareAffinity (tmSpec new)") (simp_all add: validateMachineSpec_def)
    finally show "((k, w) \<in> ?reported) = ((k, w) \<in> ?wrong)" by simp
  qed
qed

text \<open>
  The spec of a template never changes. Along any sequence of updates, each of them admitted as a real update and
  each with a request of its own, the spec that machines, or clusters, are made from stays the same; a
  dry run of the topology controller is always admitted, and a call outside a request never is.
\<close>

theorem template_specs_immutable:
  assumes "(\<lambda>old new. \<exists>ctx :: (nat, unit) admission_env_scheme. real_update ctx new \<and> MachineTemplateValidateUpdate ctx old new = Inr ())\<^sup>*\<^sup>* t t'"
    and "(\<lambda>old new. \<exists>ctx :: (nat, unit) admission_env_scheme. real_update ctx new \<and> ClusterTemplateValidateUpdate ctx old new = Inr ())\<^sup>*\<^sup>* c c'"
    and "RequestFromContext dry = Inr req" "IsDryRunRequest dry req (meta t2)" and "RequestFromContext out = Inl e"
  shows "mtrSpec (mtsTemplate (mtSpec t')) = mtrSpec (mtsTemplate (mtSpec t)) \<and>
    ctrSpec (ctsTemplate (ctSpec c')) = ctrSpec (ctsTemplate (ctSpec c)) \<and>
    MachineTemplateValidateUpdate dry t1 t2 = Inr () \<and> MachineTemplateValidateUpdate out t1 t2 \<noteq> Inr ()"
  using template_frozen.kept_for_life [OF assms(1)] cluster_template_frozen.kept_for_life [OF assms(2)] assms(3-5)
  by (simp add: MachineTemplateValidateUpdate_def validateTemplateSpecImmutable_def)

definition in_request :: "bool \<Rightarrow> (nat, unit) admission_env_scheme" where
  "in_request dry = \<lparr>RequestFromContext = Inr 0, IsDryRunRequest = (\<lambda>_ _. dry)\<rparr>"

definition no_request :: "(nat, unit) admission_env_scheme" where
  "no_request = \<lparr>RequestFromContext = Inl ''none'', IsDryRunRequest = (\<lambda>_ _. False)\<rparr>"

definition labelled_template :: machine_template where
  "labelled_template = zero_machine_template\<lparr>mtSpec := \<lparr>mtsTemplate = \<lparr>
     mtrMeta = \<lparr>TemplateLabels = [''a'' \<mapsto> ''b''], TemplateAnnotations = Map.empty\<rparr>, mtrSpec = zero_config\<rparr>\<rparr>\<rparr>"

theorem template_specs_immutable_witness:
  "MachineTemplateValidateUpdate (in_request False) zero_machine_template labelled_template = Inr () \<and>
   MachineTemplateValidateUpdate no_request zero_machine_template labelled_template \<noteq> Inr () \<and>
   mtrSpec (mtsTemplate (mtSpec labelled_template)) = zero_config"
proof -
  have step: "real_update (in_request False) labelled_template"
    "MachineTemplateValidateUpdate (in_request False) zero_machine_template labelled_template = Inr ()"
    by (simp_all add: real_update_def in_request_def MachineTemplateValidateUpdate_def validateTemplateSpecImmutable_def
        labelled_template_def zero_machine_template_def objmeta.defs)
  then have t: "(\<lambda>old new. \<exists>ctx :: (nat, unit) admission_env_scheme. real_update ctx new \<and> MachineTemplateValidateUpdate ctx old new = Inr ())\<^sup>*\<^sup>*
      zero_machine_template labelled_template" by blast
  have d: "RequestFromContext (in_request True) = Inr 0" "IsDryRunRequest (in_request True) 0 (meta labelled_template)"
    "RequestFromContext no_request = Inl ''none''"
    by (simp_all add: in_request_def no_request_def)
  from template_specs_immutable [OF t rtranclp.rtrancl_refl d, of "undefined" zero_machine_template] step(2)
  show ?thesis by (simp add: zero_machine_template_def objmeta.defs)
qed

text \<open>
  The controller's own record passes admission. For a valid machine, the update in which the controller records the
  hardware it selected is admitted exactly if no other hardware and no other provider ID was recorded
  before, and then it is admitted again, unchanged, by every later pass.
\<close>

theorem record_hardware_admitted_iff:
  assumes "MachineValidateCreate m = Inr ()"
  shows "(MachineValidateUpdate m (record_hardware hw m) = Inr () \<longleftrightarrow>
      HardwareName (tmSpec m) \<in> {'''', Name hw} \<and> ProviderID (tmSpec m) \<in> {'''', provider_id hw}) \<and>
    MachineValidateUpdate (record_hardware hw m) (record_hardware hw (record_hardware hw m)) = Inr ()"
  using assms by (auto simp: MachineValidateCreate_def MachineValidateUpdate_def record_hardware_def)

theorem record_hardware_admitted_iff_witness:
  "MachineValidateUpdate chosen_machine (record_hardware (objmeta.extend (new_meta ''other'' ''ns'') z) chosen_machine) \<noteq> Inr ()"
proof -
  have "MachineValidateCreate chosen_machine = Inr ()" by (simp add: MachineValidateCreate_def)
  from record_hardware_admitted_iff [OF this] show ?thesis by (simp add: new_meta_def objmeta.defs)
qed

end
