(* ===== verification/Build.thy ===== *)
theory Build
  imports GoStd
begin

text \<open>
  \<open>pkg/build/build.go\<close>: the version the manager reports, read off the pseudo-version of a Go module. The three
  regular expressions are anchored at both ends and every repetition is followed by a character it cannot match,
  so each matches in one way at most: a matcher that never backtracks finds it.
\<close>

section \<open>Matching\<close>

definition is_hex :: "char \<Rightarrow> bool" where
  "is_hex c \<longleftrightarrow> c \<in> set ''abcdef0123456789''"

text \<open>A matcher gives its group and the rest of the input: a text, \<open>\d+\<close>, and a class \<open>n\<close> times.\<close>

definition lit :: "string \<Rightarrow> string \<Rightarrow> string option" where
  "lit p s = (if take (length p) s = p then Some (drop (length p) s) else None)"

definition digits :: "string \<Rightarrow> (string \<times> string) option" where
  "digits s = (if takeWhile is_digit s = [] then None else Some (takeWhile is_digit s, dropWhile is_digit s))"

definition class_n :: "(char \<Rightarrow> bool) \<Rightarrow> nat \<Rightarrow> string \<Rightarrow> (string \<times> string) option" where
  "class_n p n s = (if length s \<ge> n \<and> list_all p (take n s) then Some (take n s, drop n s) else None)"

definition andThen :: "'a option \<Rightarrow> ('a \<Rightarrow> 'b option) \<Rightarrow> 'b option" where
  "andThen m f = (case m of None \<Rightarrow> None | Some x \<Rightarrow> f x)"

text \<open>\<open>(\d{8})(\d{6})-([a-f0-9]{12})(?:\+dirty)?$\<close>, which every pattern ends in: the commit hash.\<close>

definition stamp :: "string \<Rightarrow> string option" where
  "stamp s =
     andThen (class_n is_digit 8 s) (\<lambda>(_, s1).
     andThen (class_n is_digit 6 s1) (\<lambda>(_, s2).
     andThen (lit ''-'' s2) (\<lambda>s3.
     andThen (class_n is_hex 12 s3) (\<lambda>(h, s4).
     if s4 = '''' \<or> s4 = ''+dirty'' then Some h else None))))"

section \<open>Parsing and printing\<close>

record pseudo_version =
  BaseVersion :: string
  CommitHash :: string
  IsDirty :: bool

datatype form_type = noBaseForm | preReleaseForm | releaseForm

text \<open>The groups of a pattern: the numbers of the version, and the commit hash.\<close>

definition find_submatch :: "form_type \<Rightarrow> string \<Rightarrow> (string list \<times> string) option" where
  "find_submatch form s =
     andThen (lit ''v'' s) (\<lambda>s1.
     andThen (digits s1) (\<lambda>(x, s2).
     case form of
       noBaseForm \<Rightarrow> andThen (lit ''.0.0-'' s2) (\<lambda>s3. map_option (Pair [x]) (stamp s3))
     | _ \<Rightarrow>
         andThen (lit ''.'' s2) (\<lambda>s3.
         andThen (digits s3) (\<lambda>(y, s4).
         andThen (lit ''.'' s4) (\<lambda>s5.
         andThen (digits s5) (\<lambda>(z, s6).
         andThen (lit (if form = preReleaseForm then ''-pre.0.'' else ''-0.'') s6) (\<lambda>s7.
         map_option (Pair [x, y, z]) (stamp s7))))))))"

text \<open>\<open>strings.HasSuffix\<close>.\<close>

definition hasSuffix :: "string \<Rightarrow> string \<Rightarrow> bool" where
  "hasSuffix s suf \<longleftrightarrow> length suf \<le> length s \<and> drop (length s - length suf) s = suf"

definition base_version :: "form_type \<Rightarrow> string list \<Rightarrow> string" where
  "base_version form m =
     (case form of
        noBaseForm \<Rightarrow> ''v'' @ m ! 0 @ ''.0.0''
      | preReleaseForm \<Rightarrow> ''v'' @ m ! 0 @ ''.'' @ m ! 1 @ ''.'' @ m ! 2 @ ''-pre''
      | releaseForm \<Rightarrow> ''v'' @ m ! 0 @ ''.'' @ m ! 1 @ ''.'' @ m ! 2)"

fun parse_patterns :: "form_type list \<Rightarrow> string \<Rightarrow> pseudo_version option" where
  "parse_patterns [] s = None"
| "parse_patterns (form # forms) s =
     (case find_submatch form s of
        None \<Rightarrow> parse_patterns forms s
      | Some (m, h) \<Rightarrow>
          Some \<lparr>BaseVersion = base_version form m, CommitHash = take 8 h, IsDirty = hasSuffix s ''+dirty''\<rparr>)"

text \<open>\<open>None\<close> is the error of an invalid format.\<close>

definition parse :: "string \<Rightarrow> pseudo_version option" where
  "parse s = parse_patterns [noBaseForm, preReleaseForm, releaseForm] s"

definition pv_String :: "pseudo_version \<Rightarrow> string" where
  "pv_String pv =
     (let base = BaseVersion pv @ ''-'' @ CommitHash pv in if IsDirty pv then base @ ''+dirty'' else base)"

definition Version :: "string \<Rightarrow> string" where
  "Version raw = (case parse raw of Some v \<Rightarrow> pv_String v | None \<Rightarrow> raw)"

text \<open>\<open>None\<close> is a binary without build information.\<close>

definition GitRevision :: "string option \<Rightarrow> string" where
  "GitRevision info = (case info of None \<Rightarrow> ''unknown'' | Some v \<Rightarrow> Version v)"

section \<open>Lemmas\<close>

lemma andThen_Some: "andThen m f = Some y \<longleftrightarrow> (\<exists>x. m = Some x \<and> f x = Some y)"
  by (cases m) (simp_all add: andThen_def)

lemma andThen_simps [simp]: "andThen None f = None" "andThen (Some x) f = f x"
  by (simp_all add: andThen_def)

lemma lit_Some: "lit p s = Some r \<longleftrightarrow> s = p @ r"
  by (auto simp: lit_def) (metis append_take_drop_id)

lemma lit_append [simp]: "lit p (p @ r) = Some r"
  by (simp add: lit_Some)

definition number :: "string \<Rightarrow> bool" where
  "number x \<longleftrightarrow> x \<noteq> [] \<and> list_all is_digit x"

lemma digits_Some: "digits s = Some (x, r) \<longleftrightarrow> s = x @ r \<and> number x \<and> (r = [] \<or> \<not> is_digit (hd r))"
proof
  assume "digits s = Some (x, r)"
  then have x: "x = takeWhile is_digit s" "x \<noteq> []" and r: "r = dropWhile is_digit s"
    unfolding digits_def by (simp_all split: if_splits)
  have "s = x @ r" unfolding x r by (rule takeWhile_dropWhile_id [symmetric])
  moreover have "number x" using x by (auto simp: number_def list_all_iff dest: set_takeWhileD)
  moreover have "r = [] \<or> \<not> is_digit (hd r)" unfolding r using hd_dropWhile by blast
  ultimately show "s = x @ r \<and> number x \<and> (r = [] \<or> \<not> is_digit (hd r))" by blast
next
  assume a: "s = x @ r \<and> number x \<and> (r = [] \<or> \<not> is_digit (hd r))"
  then have all: "\<forall>c\<in>set x. is_digit c" by (simp add: number_def list_all_iff)
  have r: "takeWhile is_digit r = []" "dropWhile is_digit r = r" using a by (cases r; simp)+
  have "takeWhile is_digit s = x" "dropWhile is_digit s = r"
    using a all r by (simp_all add: takeWhile_append2 dropWhile_append2)
  with a show "digits s = Some (x, r)" by (simp add: digits_def number_def)
qed

lemma class_n_Some: "class_n p n s = Some (x, r) \<longleftrightarrow> s = x @ r \<and> length x = n \<and> list_all p x"
  by (auto simp: class_n_def)

definition stamped :: "string \<Rightarrow> string \<Rightarrow> string \<Rightarrow> bool" where
  "stamped s h dirty \<longleftrightarrow>
     (\<exists>d t. s = d @ t @ ''-'' @ h @ dirty \<and> length d = 8 \<and> list_all is_digit d \<and> length t = 6 \<and> list_all is_digit t \<and>
        length h = 12 \<and> list_all is_hex h \<and> (dirty = '''' \<or> dirty = ''+dirty''))"

lemma class_n_append: "length x = n \<Longrightarrow> list_all p x \<Longrightarrow> class_n p n (x @ r) = Some (x, r)"
  by (simp add: class_n_def)

lemma stampI: "stamped s h dirty \<Longrightarrow> stamp s = Some h"
  by (auto simp: stamped_def stamp_def class_n_append class_n_append [where r = "[]", simplified] lit_def)

lemma stampD:
  assumes "stamp s = Some h"
  shows "\<exists>dirty. stamped s h dirty"
proof -
  from assms obtain d s1 t s2 s3 s4 where 1: "class_n is_digit 8 s = Some (d, s1)" and 2: "class_n is_digit 6 s1 = Some (t, s2)"
    and 3: "lit ''-'' s2 = Some s3" and 4: "class_n is_hex 12 s3 = Some (h, s4)" and 5: "s4 = '''' \<or> s4 = ''+dirty''"
    by (auto simp: stamp_def andThen_Some split: if_splits)
  then have "stamped s h s4"
    unfolding stamped_def class_n_Some lit_Some by (metis append.assoc)
  then show ?thesis by blast
qed

lemma stamp_Some: "stamp s = Some h \<longleftrightarrow> (\<exists>dirty. stamped s h dirty)"
  using stampI stampD by blast

text \<open>The three forms, as texts.\<close>

definition version_of :: "form_type \<Rightarrow> string list \<Rightarrow> string \<Rightarrow> string" where
  "version_of form m st =
     (case form of
        noBaseForm \<Rightarrow> ''v'' @ m ! 0 @ ''.0.0-'' @ st
      | preReleaseForm \<Rightarrow> ''v'' @ m ! 0 @ ''.'' @ m ! 1 @ ''.'' @ m ! 2 @ ''-pre.0.'' @ st
      | releaseForm \<Rightarrow> ''v'' @ m ! 0 @ ''.'' @ m ! 1 @ ''.'' @ m ! 2 @ ''-0.'' @ st)"

definition numbers_of :: "form_type \<Rightarrow> string list \<Rightarrow> bool" where
  "numbers_of form m \<longleftrightarrow> length m = (if form = noBaseForm then 1 else 3) \<and> list_all number m"

lemma digits_number: "number x \<Longrightarrow> r = [] \<or> \<not> is_digit (hd r) \<Longrightarrow> digits (x @ r) = Some (x, r)"
  by (simp add: digits_Some)

lemma no_digit [simp]: "\<not> is_digit CHR ''.''" "\<not> is_digit CHR ''-''" "\<not> is_digit CHR ''p''" "\<not> is_digit CHR ''+''"
  by (simp_all add: is_digit_def)

lemma find_submatchI:
  assumes "numbers_of form m" and "stamped st h dirty"
  shows "find_submatch form (version_of form m st) = Some (m, h)"
proof (cases form)
  case noBaseForm
  with assms(1) obtain x where "m = [x]" "number x" by (auto simp: numbers_of_def length_Suc_conv)
  with noBaseForm stampI [OF assms(2)] show ?thesis
    by (simp add: find_submatch_def version_of_def lit_def digits_number)
next
  case preReleaseForm
  with assms(1) obtain x y z where "m = [x, y, z]" "number x" "number y" "number z"
    by (auto simp: numbers_of_def length_Suc_conv numeral_3_eq_3)
  with preReleaseForm stampI [OF assms(2)] show ?thesis
    by (simp add: find_submatch_def version_of_def lit_def digits_number)
next
  case releaseForm
  with assms(1) obtain x y z where "m = [x, y, z]" "number x" "number y" "number z"
    by (auto simp: numbers_of_def length_Suc_conv numeral_3_eq_3)
  with releaseForm stampI [OF assms(2)] show ?thesis
    by (simp add: find_submatch_def version_of_def lit_def digits_number)
qed

lemma find_submatchD:
  assumes "find_submatch form s = Some (m, h)"
  shows "numbers_of form m \<and> (\<exists>st dirty. stamped st h dirty \<and> s = version_of form m st)"
proof -
  from assms obtain s1 x s2 where 1: "lit ''v'' s = Some s1" "digits s1 = Some (x, s2)"
    by (auto simp: find_submatch_def andThen_Some)
  show ?thesis
  proof (cases form)
    case noBaseForm
    with assms 1 obtain s3 where "lit ''.0.0-'' s2 = Some s3" "stamp s3 = Some h" "m = [x]"
      by (auto simp: find_submatch_def andThen_Some)
    with 1 noBaseForm show ?thesis
      by (auto simp: lit_Some digits_Some stamp_Some numbers_of_def version_of_def)
  next
    case preReleaseForm
    with assms 1 obtain s3 y s4 s5 z s6 s7 where "lit ''.'' s2 = Some s3" "digits s3 = Some (y, s4)" "lit ''.'' s4 = Some s5"
      "digits s5 = Some (z, s6)" "lit ''-pre.0.'' s6 = Some s7" "stamp s7 = Some h" "m = [x, y, z]"
      by (auto simp: find_submatch_def andThen_Some)
    with 1 preReleaseForm show ?thesis
      by (auto simp: lit_Some digits_Some stamp_Some numbers_of_def version_of_def)
  next
    case releaseForm
    with assms 1 obtain s3 y s4 s5 z s6 s7 where "lit ''.'' s2 = Some s3" "digits s3 = Some (y, s4)" "lit ''.'' s4 = Some s5"
      "digits s5 = Some (z, s6)" "lit ''-0.'' s6 = Some s7" "stamp s7 = Some h" "m = [x, y, z]"
      by (auto simp: find_submatch_def andThen_Some)
    with 1 releaseForm show ?thesis
      by (auto simp: lit_Some digits_Some stamp_Some numbers_of_def version_of_def)
  qed
qed

text \<open>Every version in sight is three numbers and what follows the dash.\<close>

definition version_text :: "string \<Rightarrow> string \<Rightarrow> string \<Rightarrow> string \<Rightarrow> string" where
  "version_text x y z rest = ''v'' @ x @ ''.'' @ y @ ''.'' @ z @ ''-'' @ rest"

lemma zero_zero:
  assumes "number y" and "number z"
  shows "lit ''.0.0-'' (''.'' @ y @ ''.'' @ z @ ''-'' @ rest) = (if y = ''0'' \<and> z = ''0'' then Some rest else None)"
proof (cases "lit ''.0.0-'' (''.'' @ y @ ''.'' @ z @ ''-'' @ rest)")
  case None
  then show ?thesis by (auto simp: lit_def split: if_splits)
next
  case (Some r)
  have zero: "number ''0''" by (simp add: number_def is_digit_def)
  from Some have e: "y @ ''.'' @ z @ ''-'' @ rest = ''0'' @ ''.0-'' @ r" by (simp add: lit_Some)
  have "digits (y @ ''.'' @ z @ ''-'' @ rest) = Some (y, ''.'' @ z @ ''-'' @ rest)"
    by (rule digits_number) (simp_all add: assms)
  moreover have "digits (''0'' @ ''.0-'' @ r) = Some (''0'', ''.0-'' @ r)"
    by (rule digits_number) (simp_all add: zero)
  ultimately have y: "y = ''0''" and e2: "z @ ''-'' @ rest = ''0'' @ ''-'' @ r" unfolding e by auto
  have "digits (z @ ''-'' @ rest) = Some (z, ''-'' @ rest)"
    by (rule digits_number) (simp_all add: assms)
  moreover have "digits (''0'' @ ''-'' @ r) = Some (''0'', ''-'' @ r)"
    by (rule digits_number) (simp_all add: zero)
  ultimately have "z = ''0''" "rest = r" unfolding e2 by auto
  with y Some show ?thesis by simp
qed

lemma find_submatch_text:
  assumes "number x" and "number y" and "number z"
  shows "find_submatch form (version_text x y z rest) =
    (case form of
       noBaseForm \<Rightarrow> if y = ''0'' \<and> z = ''0'' then map_option (Pair [x]) (stamp rest) else None
     | preReleaseForm \<Rightarrow> andThen (lit ''pre.0.'' rest) (\<lambda>r. map_option (Pair [x, y, z]) (stamp r))
     | releaseForm \<Rightarrow> andThen (lit ''0.'' rest) (\<lambda>r. map_option (Pair [x, y, z]) (stamp r)))"
proof -
  let ?after = "''.'' @ y @ ''.'' @ z @ ''-'' @ rest"
  have x: "digits (x @ ?after) = Some (x, ?after)" by (rule digits_number) (simp_all add: assms)
  have y: "digits (y @ ''.'' @ z @ ''-'' @ rest) = Some (y, ''.'' @ z @ ''-'' @ rest)" by (rule digits_number) (simp_all add: assms)
  have z: "digits (z @ ''-'' @ rest) = Some (z, ''-'' @ rest)" by (rule digits_number) (simp_all add: assms)
  have l: "lit ''-pre.0.'' (''-'' @ rest) = lit ''pre.0.'' rest" "lit ''-0.'' (''-'' @ rest) = lit ''0.'' rest"
    by (simp_all add: lit_def)
  have "find_submatch form (version_text x y z rest) = andThen (digits (x @ ?after)) (\<lambda>(x, s2).
     case form of
       noBaseForm \<Rightarrow> andThen (lit ''.0.0-'' s2) (\<lambda>s3. map_option (Pair [x]) (stamp s3))
     | _ \<Rightarrow>
         andThen (lit ''.'' s2) (\<lambda>s3. andThen (digits s3) (\<lambda>(y, s4). andThen (lit ''.'' s4) (\<lambda>s5.
         andThen (digits s5) (\<lambda>(z, s6).
         andThen (lit (if form = preReleaseForm then ''-pre.0.'' else ''-0.'') s6) (\<lambda>s7.
         map_option (Pair [x, y, z]) (stamp s7)))))))"
    unfolding find_submatch_def version_text_def lit_append andThen_simps ..
  also have "\<dots> = (case form of
       noBaseForm \<Rightarrow> andThen (lit ''.0.0-'' ?after) (\<lambda>s3. map_option (Pair [x]) (stamp s3))
     | preReleaseForm \<Rightarrow> andThen (lit ''pre.0.'' rest) (\<lambda>r. map_option (Pair [x, y, z]) (stamp r))
     | releaseForm \<Rightarrow> andThen (lit ''0.'' rest) (\<lambda>r. map_option (Pair [x, y, z]) (stamp r)))"
    unfolding x andThen_simps prod.case lit_append y z l [symmetric] by (cases form) simp_all
  finally show ?thesis unfolding zero_zero [OF assms(2,3)] by (cases form) simp_all
qed

lemma stamp_None:
  "stamp (''pre'' @ r) = None" "stamp (''0.'' @ r) = None"
  "length h = 8 \<Longrightarrow> d = '''' \<or> d = ''+dirty'' \<Longrightarrow> stamp (h @ d) = None"
  by (auto simp: stamp_def class_n_def numeral_eq_Suc andThen_def split: option.splits)

lemma lit_hex:
  assumes "length h = 8" and "list_all is_hex h"
  shows "lit ''pre.0.'' (h @ d) = None" "lit ''0.'' (h @ d) = None"
proof -
  from assms(1) obtain a b h' where "h = a # b # h'" by (auto simp: length_Suc_conv numeral_eq_Suc)
  with assms(2) show "lit ''pre.0.'' (h @ d) = None" "lit ''0.'' (h @ d) = None"
    by (auto simp: lit_def is_hex_def)
qed

lemma number_zero [simp]: "number ''0''"
  by (simp add: number_def is_digit_def)

lemma version_of_text:
  assumes "numbers_of form m"
  obtains x y z where "number x" "number y" "number z"
    "base_version form m @ ''-'' @ r = version_text x y z (if form = preReleaseForm then ''pre-'' @ r else r)"
    "version_of form m st = version_text x y z ((case form of noBaseForm \<Rightarrow> '''' | preReleaseForm \<Rightarrow> ''pre.0.'' | releaseForm \<Rightarrow> ''0.'') @ st)"
proof (cases form)
  case noBaseForm
  with assms obtain x where "m = [x]" "number x" by (auto simp: numbers_of_def length_Suc_conv)
  with noBaseForm show ?thesis
    by (intro that [of x "''0''" "''0''"]) (simp_all add: version_of_def version_text_def base_version_def)
next
  case preReleaseForm
  with assms obtain x y z where "m = [x, y, z]" "number x" "number y" "number z"
    by (auto simp: numbers_of_def length_Suc_conv numeral_3_eq_3)
  with preReleaseForm show ?thesis
    by (intro that [of x y z]) (simp_all add: version_of_def version_text_def base_version_def)
next
  case releaseForm
  with assms obtain x y z where "m = [x, y, z]" "number x" "number y" "number z"
    by (auto simp: numbers_of_def length_Suc_conv numeral_3_eq_3)
  with releaseForm show ?thesis
    by (intro that [of x y z]) (simp_all add: version_of_def version_text_def base_version_def)
qed

lemma other_forms:
  assumes "numbers_of form m" and "stamped st h dirty" and "form' \<noteq> form" and "form' = noBaseForm \<or> form = releaseForm"
  shows "find_submatch form' (version_of form m st) = None"
proof -
  obtain d t where st: "st = d @ t" and d: "list_all is_digit d" "length d = 8" using assms(2) by (auto simp: stamped_def)
  have p: "lit ''pre.0.'' (''0.'' @ st) = None" by (simp add: lit_def)
  from assms(1) obtain x y z where "number x" "number y" "number z"
    "version_of form m st = version_text x y z ((case form of noBaseForm \<Rightarrow> '''' | preReleaseForm \<Rightarrow> ''pre.0.'' | releaseForm \<Rightarrow> ''0.'') @ st)"
    by (rule version_of_text)
  with assms(3,4) p stamp_None(1) [of "''.0.'' @ st"] stamp_None(2) [of st] show ?thesis
    by (cases form; cases form') (simp_all add: find_submatch_text)
qed

lemma parse_version_of:
  assumes "numbers_of form m" and "stamped st h dirty"
  shows "parse (version_of form m st) =
    Some \<lparr>BaseVersion = base_version form m, CommitHash = take 8 h, IsDirty = hasSuffix (version_of form m st) ''+dirty''\<rparr>"
  using find_submatchI [OF assms] other_forms [OF assms]
  by (cases form) (simp_all add: parse_def)

lemma hasSuffix_append: "hasSuffix (a @ b) b"
  by (simp add: hasSuffix_def)

lemma hasSuffix_hex:
  assumes "list_all is_hex h" and "length h = 12"
  shows "\<not> hasSuffix (a @ h) ''+dirty''"
proof
  assume "hasSuffix (a @ h) ''+dirty''"
  then have "drop (length (a @ h) - length ''+dirty'') (a @ h) = ''+dirty''" unfolding hasSuffix_def by blast
  then have "drop 6 h = ''+dirty''" using assms(2) by simp
  then have "CHR ''+'' \<in> set (drop 6 h)" by simp
  then have "CHR ''+'' \<in> set h" by (rule in_set_dropD)
  with assms(1) have "is_hex CHR ''+''" by (simp add: list_all_iff)
  then show False by (simp add: is_hex_def)
qed

lemma dirty_version_of:
  assumes "stamped st h dirty"
  shows "hasSuffix (version_of form m st) ''+dirty'' \<longleftrightarrow> dirty = ''+dirty''"
proof -
  obtain d t where st: "st = d @ t @ ''-'' @ h @ dirty" and h: "length h = 12" "list_all is_hex h"
    and di: "dirty = '''' \<or> dirty = ''+dirty''" using assms by (auto simp: stamped_def)
  obtain a where a: "version_of form m st = (a @ d @ t @ ''-'' @ h) @ dirty"
    unfolding version_of_def st by (cases form) (auto simp flip: append_assoc)
  show ?thesis
  proof (cases "dirty = ''''")
    case True
    with hasSuffix_hex [OF h(2,1), of "a @ d @ t @ ''-''"] show ?thesis unfolding a by simp
  next
    case False
    with di hasSuffix_append [of "a @ d @ t @ ''-'' @ h" "''+dirty''"] show ?thesis unfolding a by simp
  qed
qed

section \<open>Properties\<close>



text \<open>
  Reporting a version is idempotent. A text that is no pseudo-version is reported as it is, and what is reported
  of a pseudo-version is itself no pseudo-version: reporting again changes nothing.
\<close>

theorem Version_idempotent: "Version (Version s) = Version s"
proof (cases "parse s")
  case None
  then show ?thesis by (simp add: Version_def)
next
  case (Some pv)
  then obtain form m h where "find_submatch form s = Some (m, h)"
    by (auto simp: parse_def split: option.splits)
  from find_submatchD [OF this] obtain st dirty where m: "numbers_of form m" and st: "stamped st h dirty" "s = version_of form m st"
    by blast
  have dirty: "dirty = '''' \<or> dirty = ''+dirty''" and h: "length (take 8 h) = 8" "list_all is_hex (take 8 h)"
    using st(1) by (auto simp: stamped_def list_all_iff dest: in_set_takeD)
  have v: "Version s = base_version form m @ ''-'' @ take 8 h @ dirty"
    using dirty unfolding st(2) Version_def parse_version_of [OF m st(1)] dirty_version_of [OF st(1)] by (auto simp: pv_String_def)
  obtain x y z where n: "number x" "number y" "number z"
    and t: "Version s = version_text x y z (if form = preReleaseForm then ''pre-'' @ take 8 h @ dirty else take 8 h @ dirty)"
    using version_of_text [OF m, where r = "take 8 h @ dirty"] unfolding v by metis
  have pre: "lit ''pre.0.'' (''pre-'' @ r) = None" "lit ''0.'' (''pre-'' @ r) = None" "stamp (''pre-'' @ r) = None" for r
    using stamp_None(1) [of "''-'' @ r"] by (simp_all add: lit_def)
  have "find_submatch f (Version s) = None" for f
    unfolding t using stamp_None(3) [OF h(1) dirty] lit_hex [OF h] pre
    by (cases f) (simp_all add: find_submatch_text [OF n])
  then have "parse (Version s) = None" by (simp add: parse_def)
  then show ?thesis by (subst Version_def) simp
qed

end
