(* ===== verification/Runs.thy ===== *)
theory Runs
  imports Main
begin

text \<open>
  Runs of a labelled step relation, for the components whose operations interleave, and the invariant rule:
  what holds at the start and is kept by every step with an admissible event holds after every run
  whose events are admissible.
\<close>

inductive runs :: "('s \<Rightarrow> 'e \<Rightarrow> 's \<Rightarrow> bool) \<Rightarrow> 's \<Rightarrow> 'e list \<Rightarrow> 's \<Rightarrow> bool" for step :: "'s \<Rightarrow> 'e \<Rightarrow> 's \<Rightarrow> bool" and s0 :: 's where
  runs_nil [intro]: "runs step s0 [] s0"
| runs_snoc [intro]: "runs step s0 es s \<Longrightarrow> step s e s' \<Longrightarrow> runs step s0 (es @ [e]) s'"

inductive_cases runs_nilE [elim!]: "runs step s0 [] s"
inductive_cases runs_snocE [elim]: "runs step s0 (es @ [e]) s"

lemma runs_invariant:
  assumes "runs step s0 es s" and "I s0" and "\<And>s e s'. I s \<Longrightarrow> ok e \<Longrightarrow> step s e s' \<Longrightarrow> I s'" and "list_all ok es"
  shows "I s"
  using assms(1,4) by (induction rule: runs.induct) (auto intro: assms(2,3))

lemma runs_always:
  assumes "runs step s0 es s" and "I s0" and "\<And>s e s'. I s \<Longrightarrow> step s e s' \<Longrightarrow> I s'"
  shows "I s"
  using assms(1) by (induction rule: runs.induct) (auto intro: assms(2,3))

lemma runs_one: "step s e s' \<Longrightarrow> runs step s [e] s'"
  using runs_snoc [OF runs_nil, of step s e s'] by simp

lemma runs_append: "runs step s1 fs s2 \<Longrightarrow> runs step s0 es s1 \<Longrightarrow> runs step s0 (es @ fs) s2"
  by (induction rule: runs.induct) (simp, metis append.assoc runs_snoc)

lemma runs_two: "step s e s' \<Longrightarrow> runs step s' es s'' \<Longrightarrow> runs step s (e # es) s''"
  using runs_append [OF _ runs_one] by fastforce

end
