(* ===== verification/Race.thy ===== *)
theory Race
  imports Deletion Runs
begin

text \<open>
  Machines racing for one Hardware: the claims of \<open>takeHardwareOwnership\<close> and the releases of \<open>releaseHardware\<close>
  (\<open>controller/machine/hardware.go\<close>) by any number of reconciles, interleaved at their writes. A reconcile may
  have read any version the server ever held. The server is a parameter, by whether it accepts a patch
  made with the optimistic lock from one version when another is current; what the claims
  rely on is that it never accepts one from a version that is not current.
\<close>

section \<open>The steps\<close>

text \<open>The versions of the Hardware, oldest first, and who believes to hold it: claimed it and did not release it since.\<close>

record claim_world =
  versions :: "hardware list"
  holders :: "nsname set"

datatype claim_event =
    ClaimBy nsname
  | ReleaseBy nsname bool      \<comment> \<open>whether the machine held the Hardware\<close>
  | OtherWrite

definition current :: "claim_world \<Rightarrow> hardware" where
  "current w = versions w ! (length (versions w) - 1)"

definition stored :: "hardware \<Rightarrow> claim_world \<Rightarrow> claim_world" where
  "stored hw w = w\<lparr>versions := versions w @ [hw]\<rparr>"

text \<open>The owner labels of a Hardware.\<close>

definition hardware_owner :: "hardware \<Rightarrow> nsname option" where
  "hardware_owner hw =
     map_option (\<lambda>n. NN (lookup0 (Labels hw) HardwareOwnerNamespaceLabel) n) (Labels hw HardwareOwnerNameLabel)"

inductive claim_step :: "('e) kube_scheme \<Rightarrow> (nat \<Rightarrow> nat \<Rightarrow> bool) \<Rightarrow> claim_world \<Rightarrow> claim_event \<Rightarrow> claim_world \<Rightarrow> bool"
  for E :: "('e) kube_scheme" and accepts :: "nat \<Rightarrow> nat \<Rightarrow> bool" where
  claim: "k < length (versions w) \<Longrightarrow>
     PatchHardware (versions w ! k) new True \<in> set (issued calls (takeHardwareOwnership E (versions w ! k)) s) \<Longrightarrow>
     accepts k (length (versions w) - 1) \<Longrightarrow>
     claim_step E accepts w (ClaimBy (object_key (tinkerbellMachine s)))
       ((stored new w)\<lparr>holders := insert (object_key (tinkerbellMachine s)) (holders w)\<rparr>)"
| release: "k < length (versions w) \<Longrightarrow>
     PatchHardware (versions w ! k) new True \<in> set (issued calls (releaseHardware E (versions w ! k)) s) \<Longrightarrow>
     accepts k (length (versions w) - 1) \<Longrightarrow>
     claim_step E accepts w (ReleaseBy (object_key (tinkerbellMachine s)) (object_key (tinkerbellMachine s) \<in> holders w))
       ((stored new w)\<lparr>holders := holders w - {object_key (tinkerbellMachine s)}\<rparr>)"
| other: "hardware_owner new = hardware_owner (current w) \<Longrightarrow> claim_step E accepts w OtherWrite (stored new w)"

inductive_cases claim_stepE: "claim_step E accepts w e w'"

definition optimistic_lock :: "(nat \<Rightarrow> nat \<Rightarrow> bool) \<Rightarrow> bool" where
  "optimistic_lock accepts \<longleftrightarrow> (\<forall>base now. accepts base now \<longrightarrow> base = now)"

text \<open>A Hardware nobody claimed yet.\<close>

definition unclaimed :: "hardware \<Rightarrow> claim_world" where
  "unclaimed hw = \<lparr>versions = [hw], holders = {}\<rparr>"

section \<open>The invariant\<close>

text \<open>Whoever believes to hold the Hardware is the owner on the server.\<close>

definition held_by_owner :: "claim_world \<Rightarrow> bool" where
  "held_by_owner w \<longleftrightarrow> versions w \<noteq> [] \<and> (\<forall>m\<in>holders w. hardware_owner (current w) = Some m)"

lemma held_unique:
  assumes "held_by_owner w" and "a \<in> holders w"
  shows "hardware_owner (current w) = Some a" and "holders w = {a}"
proof -
  have o': "hardware_owner (current w) = Some m" if "m \<in> holders w" for m
    using assms(1) that by (simp add: held_by_owner_def)
  show "hardware_owner (current w) = Some a" by (rule o' [OF assms(2)])
  have "m = a" if "m \<in> holders w" for m using o' [OF that] o' [OF assms(2)] by simp
  with assms(2) show "holders w = {a}" by blast
qed

lemma current_stored [simp]:
  "current (stored hw w) = hw" "current (w\<lparr>holders := hs\<rparr>) = current w" "versions (stored hw w) \<noteq> []"
  by (simp_all add: current_def stored_def nth_append)

lemma stored_sel [simp]: "holders (stored hw w) = holders w"
  by (simp add: stored_def)

lemma owned_by_other_owner:
  "owned_by_other tm hw \<longleftrightarrow> hardware_owner hw \<noteq> None \<and> hardware_owner hw \<noteq> Some (object_key tm)"
  by (auto simp: owned_by_other_def hardware_owner_def object_key_def split: option.splits)

lemma owner_claimed [simp]: "hardware_owner (claimed_hardware E tm hw) = Some (object_key tm)"
  by (simp add: hardware_owner_def claimed_hardware_def object_key_def)

lemma claim_patch:
  assumes "PatchHardware hw new lk \<in> set (issued calls (takeHardwareOwnership E hw) s)"
  shows "\<not> owned_by_other (tinkerbellMachine s) hw \<and> new = claimed_hardware E (tinkerbellMachine s) hw"
  using assms by (auto simp: issued_take claim_of_def split: if_splits)

lemma claim_step_invariant:
  assumes lock: "optimistic_lock accepts" and I: "held_by_owner w" and e: "\<And>m. e \<noteq> ReleaseBy m False"
    and step: "claim_step E accepts w e w'"
  shows "held_by_owner w'"
  using step
proof (cases rule: claim_step.cases)
  case (claim k new s)
  have "k = length (versions w) - 1" using lock claim(5) unfolding optimistic_lock_def by blast
  then have "versions w ! k = current w" by (simp add: current_def)
  with claim_patch [OF claim(4)] have "\<not> owned_by_other (tinkerbellMachine s) (current w)"
    and new: "new = claimed_hardware E (tinkerbellMachine s) (current w)" by auto
  then have "holders w \<subseteq> {object_key (tinkerbellMachine s)}"
    using I by (auto simp: owned_by_other_owner held_by_owner_def)
  with claim(2) new show ?thesis by (auto simp: held_by_owner_def)
next
  case (release k new s)
  then have "object_key (tinkerbellMachine s) \<in> holders w" using e by auto
  from held_unique(2) [OF I this] release(2) show ?thesis by (auto simp: held_by_owner_def)
next
  case (other new)
  with I show ?thesis by (simp add: held_by_owner_def)
qed

lemma held_unclaimed [simp]: "held_by_owner (unclaimed hw)"
  by (simp add: held_by_owner_def unclaimed_def)

lemma current_version: "versions w \<noteq> [] \<Longrightarrow> length (versions w) - 1 < length (versions w) \<and> versions w ! (length (versions w) - 1) = current w"
  by (simp add: current_def)

section \<open>What a machine can do\<close>

lemma claim_possible:
  fixes tm :: tinkerbell_machine
  assumes "versions w \<noteq> []" and "hardware_owner (current w) = None" and "Name tm \<noteq> ''''" and "\<And>n. accepts n n"
  shows "claim_step E accepts w (ClaimBy (object_key tm))
    ((stored (claimed_hardware E tm (current w)) w)\<lparr>holders := insert (object_key tm) (holders w)\<rparr>)"
proof -
  let ?s = "example_scope\<lparr>tinkerbellMachine := tm\<rparr>"
  have "\<not> owned_by_other tm (current w)" using assms(2) by (simp add: owned_by_other_owner)
  moreover have "\<not> hardwareAlreadyClaimed E tm (current w)"
    using assms(2,3) by (auto simp: hardwareAlreadyClaimed_def hardware_owner_def)
  ultimately have "PatchHardware (versions w ! (length (versions w) - 1)) (claimed_hardware E tm (current w)) True
      \<in> set (issued calls (takeHardwareOwnership E (versions w ! (length (versions w) - 1))) ?s)"
    unfolding issued_take current_version [OF assms(1), THEN conjunct2] by (simp add: claim_of_def)
  from claim_step.claim [where accepts = accepts, OF _ this assms(4)] current_version [OF assms(1)] show ?thesis by simp
qed

lemma release_possible:
  fixes tm :: tinkerbell_machine
  assumes "versions w \<noteq> []" and "AddressFromPool (tmSpec tm) = None" and "\<And>n. accepts n n"
  shows "\<exists>new. hardware_owner new = None \<and> claim_step E accepts w (ReleaseBy (object_key tm) (object_key tm \<in> holders w))
    ((stored new w)\<lparr>holders := holders w - {object_key tm}\<rparr>)"
proof -
  let ?s = "example_scope\<lparr>tinkerbellMachine := tm\<rparr>" and ?new = "without_finalizers E (without_ownership (current w))"
  have "PatchHardware (versions w ! (length (versions w) - 1)) ?new True
      \<in> set (issued calls (releaseHardware E (versions w ! (length (versions w) - 1))) ?s)"
    unfolding current_version [OF assms(1), THEN conjunct2]
    by (simp add: releaseHardware_def issued_def run_simps Let_def assms(2))
  from claim_step.release [where accepts = accepts, OF _ this assms(3)] current_version [OF assms(1)]
  have "claim_step E accepts w (ReleaseBy (object_key tm) (object_key tm \<in> holders w))
    ((stored ?new w)\<lparr>holders := holders w - {object_key tm}\<rparr>)" by simp
  moreover have "hardware_owner ?new = None"
    by (simp add: hardware_owner_def without_finalizers_def without_ownership_def)
  ultimately show ?thesis by blast
qed

section \<open>Properties\<close>







end
