(* ===== verification/WatchRace.thy ===== *)
theory WatchRace
  imports Watch Runs "HOL-Library.Multiset"
begin

text \<open>
  \<open>pkg/cluster/watch.go\<close> under concurrency: any number of callers of \<open>EnsureWatch\<close>, \<open>StopWatch\<close> and \<open>StopAll\<close>
  and the goroutines of the caches they start, interleaved at the sections under \<open>m.mu\<close>. \<open>singleflight\<close> lets
  one start per namespace be in progress, and a caller that finds one waits for its result. A cancel function
  is identified with the cache it cancels. Time only enters the first section, at any value.
\<close>

section \<open>The steps\<close>

record watch_world =
  manager :: watch_manager
  passed :: "string multiset"            \<comment> \<open>callers past the first section, by namespace\<close>
  flights :: "string \<rightharpoonup> string"      \<comment> \<open>the starts in progress: namespace to cache\<close>
  used :: "string set"                   \<comment> \<open>the caches created so far\<close>
  live :: "(string \<times> string) set"    \<comment> \<open>the caches that run, with their namespace\<close>
  died :: "(string \<times> string) set"    \<comment> \<open>the caches that stopped by themselves and were not forgotten yet\<close>

datatype watch_event =
    WPass string
  | WJoin string
  | WSettled string
  | WStart string
  | WFail string
  | WSucceed string
  | WDie string
  | WForget string
  | WStop string
  | WStopAll

inductive watch_step :: "watch_world \<Rightarrow> watch_event \<Rightarrow> watch_world \<Rightarrow> bool" where
  pass: "ew_check now ns (manager w) = None \<Longrightarrow> watch_step w (WPass ns) (w\<lparr>passed := add_mset ns (passed w)\<rparr>)"
| join: "ns \<in># passed w \<Longrightarrow> flights w ns \<noteq> None \<Longrightarrow> watch_step w (WJoin ns) (w\<lparr>passed := passed w - {#ns#}\<rparr>)"
| settled: "ns \<in># passed w \<Longrightarrow> flights w ns = None \<Longrightarrow> ew_recheck ns (manager w) \<noteq> None \<Longrightarrow>
     watch_step w (WSettled ns) (w\<lparr>passed := passed w - {#ns#}\<rparr>)"
| start: "ns \<in># passed w \<Longrightarrow> flights w ns = None \<Longrightarrow> ew_recheck ns (manager w) = None \<Longrightarrow> c \<notin> used w \<Longrightarrow>
     watch_step w (WStart ns)
       (w\<lparr>passed := passed w - {#ns#}, flights := (flights w)(ns \<mapsto> c), used := insert c (used w), live := insert (c, ns) (live w)\<rparr>)"
| fail: "flights w ns = Some c \<Longrightarrow>
     watch_step w (WFail ns)
       (w\<lparr>manager := ew_fail now ns (manager w), flights := (flights w)(ns := None), live := live w - {(c, ns)}\<rparr>)"
| succeed: "flights w ns = Some c \<Longrightarrow>
     watch_step w (WSucceed ns) (w\<lparr>manager := ew_success c ns (manager w), flights := (flights w)(ns := None)\<rparr>)"
| die: "(c, ns) \<in> live w \<Longrightarrow> watch_step w (WDie ns) (w\<lparr>live := live w - {(c, ns)}, died := insert (c, ns) (died w)\<rparr>)"
| forget: "(c, ns) \<in> died w \<Longrightarrow>
     watch_step w (WForget ns) (w\<lparr>manager := cache_stopped ns (manager w), died := died w - {(c, ns)}\<rparr>)"
| stop: "StopWatch ns (manager w) = (cs, m') \<Longrightarrow>
     watch_step w (WStop ns) (w\<lparr>manager := m', live := {p \<in> live w. fst p \<notin> cs}\<rparr>)"
| stop_all: "StopAll (manager w) = (cs, m') \<Longrightarrow>
     watch_step w WStopAll (w\<lparr>manager := m', live := {p \<in> live w. fst p \<notin> cs}\<rparr>)"

definition idle :: "watch_manager \<Rightarrow> watch_world" where
  "idle m = \<lparr>manager = m, passed = {#}, flights = Map.empty, used = {}, live = {}, died = {}\<rparr>"

section \<open>Invariants\<close>

text \<open>The manager's own invariant, and that a start is only in progress for a namespace not registered.\<close>

definition watch_inv :: "watch_world \<Rightarrow> bool" where
  "watch_inv w \<longleftrightarrow> wm_ok (manager w) \<and> '''' \<notin># passed w \<and> '''' \<notin> dom (flights w) \<and>
     dom (flights w) \<inter> dom (wmNamespaces (manager w)) = {}"

lemma watch_step_inv:
  assumes "watch_inv w" and "watch_step w e w'"
  shows "watch_inv w'"
  using assms(2)
proof (cases rule: watch_step.cases)
  case (pass now ns)
  then have "ns \<noteq> ''''" by (auto simp: ew_check_def)
  with pass assms(1) show ?thesis by (auto simp: watch_inv_def)
next
  case (join ns)
  with assms(1) show ?thesis by (auto simp: watch_inv_def dest: in_diffD)
next
  case (settled ns)
  with assms(1) show ?thesis by (auto simp: watch_inv_def dest: in_diffD)
next
  case (start ns c)
  then have "wmNamespaces (manager w) ns = None" by (auto simp: ew_recheck_def split: if_splits)
  with start assms(1) show ?thesis by (auto simp: watch_inv_def dest: in_diffD)
next
  case (fail ns c now)
  with assms(1) have "wm_ok (ew_fail now ns (manager w))" by (intro wm_ok_fail) (auto simp: watch_inv_def dom_def)
  with fail assms(1) show ?thesis by (auto simp: watch_inv_def ew_fail_def)
next
  case (succeed ns c)
  with assms(1) have "wm_ok (ew_success c ns (manager w))" by (intro wm_ok_success) (auto simp: watch_inv_def dom_def)
  with succeed assms(1) show ?thesis by (auto simp: watch_inv_def ew_success_def)
next
  case (die c ns)
  with assms(1) show ?thesis by (simp add: watch_inv_def)
next
  case (forget c ns)
  from assms(1) have "wm_ok (cache_stopped ns (manager w))" by (simp add: watch_inv_def wm_ok_cache_stopped)
  with forget assms(1) show ?thesis by (auto simp: watch_inv_def cache_stopped_def)
next
  case (stop ns cs m')
  then have "m' = snd (StopWatch ns (manager w))" by simp
  with stop assms(1) wm_ok_StopWatch [of "manager w" ns] show ?thesis by (auto simp: watch_inv_def StopWatch_def)
next
  case (stop_all cs m')
  then have "m' = snd (StopAll (manager w))" by simp
  with stop_all assms(1) wm_ok_StopAll [of "manager w"] show ?thesis by (auto simp: watch_inv_def StopAll_def)
qed

text \<open>
  What is registered or being started, and nothing else, runs: kept as long as no cache dies by itself.
\<close>

definition accounted :: "watch_world \<Rightarrow> bool" where
  "accounted w \<longleftrightarrow> died w = {} \<and> fst ` live w \<subseteq> used w \<and> inj_on fst (live w) \<and>
     (\<forall>c ns. (c, ns) \<in> live w \<longleftrightarrow> wmNamespaces (manager w) ns = Some c \<or> flights w ns = Some c)"

lemma accounted_cancel:
  assumes "inj_on fst L" and "(c, ns) \<in> L" and "(c, ns') \<in> L"
  shows "ns' = ns"
  using inj_onD [OF assms(1), of "(c, ns)" "(c, ns')"] assms(2,3) by simp

lemma watch_step_accounted:
  assumes "watch_inv w" and "accounted w" and "\<And>ns. e \<noteq> WDie ns" and "watch_step w e w'"
  shows "accounted w'"
  using assms(4)
proof (cases rule: watch_step.cases)
  case (pass now ns)
  with assms(2) show ?thesis by (simp add: accounted_def)
next
  case (join ns)
  with assms(2) show ?thesis by (simp add: accounted_def)
next
  case (settled ns)
  with assms(2) show ?thesis by (simp add: accounted_def)
next
  case (start ns c)
  then have n: "wmNamespaces (manager w) ns = None" by (auto simp: ew_recheck_def split: if_splits)
  have "c \<notin> fst ` live w" using start assms(2) by (auto simp: accounted_def)
  with start n assms(2) show ?thesis by (force simp: accounted_def inj_on_def)
next
  case (fail ns c now)
  then have n: "wmNamespaces (manager w) ns = None" using assms(1) by (auto simp: watch_inv_def dom_def)
  with fail assms(2) show ?thesis
    by (auto simp: accounted_def ew_fail_def inj_on_diff)
next
  case (succeed ns c)
  then have n: "wmNamespaces (manager w) ns = None" using assms(1) by (auto simp: watch_inv_def dom_def)
  with succeed assms(2) show ?thesis by (auto simp: accounted_def ew_success_def)
next
  case (die c ns)
  with assms(3) [of ns] show ?thesis by simp
next
  case (forget c ns)
  with assms(2) show ?thesis by (simp add: accounted_def)
next
  case (stop ns cs m')
  then have m: "m' = snd (StopWatch ns (manager w))" "cs = set_option (wmNamespaces (manager w) ns)" by (auto simp: StopWatch_def)
  have f: "wmNamespaces (manager w) ns \<noteq> None \<Longrightarrow> flights w ns = None" using assms(1) by (auto simp: watch_inv_def dom_def)
  have l: "(c, ns') \<in> live w \<Longrightarrow> wmNamespaces (manager w) ns = Some c \<Longrightarrow> ns' = ns" for c ns'
    using assms(2) accounted_cancel [of "live w" c ns ns'] by (auto simp: accounted_def)
  show ?thesis
    using stop m assms(2) f l by (auto simp: accounted_def StopWatch_def inj_on_def)
next
  case (stop_all cs m')
  then have m: "m' = snd (StopAll (manager w))" "cs = ran (wmNamespaces (manager w))" by (auto simp: StopAll_def)
  have l: "(c, ns') \<in> live w \<Longrightarrow> wmNamespaces (manager w) ns = Some c \<Longrightarrow> ns' = ns" for c ns ns'
    using assms(2) accounted_cancel [of "live w" c ns ns'] by (auto simp: accounted_def)
  have f: "wmNamespaces (manager w) ns \<noteq> None \<Longrightarrow> flights w ns = None" for ns using assms(1) by (auto simp: watch_inv_def dom_def)
  have nf: "wmNamespaces (manager w) a \<noteq> Some c" if "flights w ns = Some c" for a ns c
  proof
    assume a: "wmNamespaces (manager w) a = Some c"
    have "(c, ns) \<in> live w" using that assms(2) by (simp add: accounted_def)
    from l [OF this a] f [of a] a that show False by simp
  qed
  show ?thesis
    using stop_all m assms(2) nf by (auto simp: accounted_def StopAll_def inj_on_def ran_def)
qed

lemma watch_inv_idle: "wm_ok m \<Longrightarrow> watch_inv (idle m)"
  by (simp add: watch_inv_def idle_def)

lemma accounted_idle: "wmNamespaces m = Map.empty \<Longrightarrow> accounted (idle m)"
  by (simp add: accounted_def idle_def)

section \<open>Properties\<close>

text \<open>
  C13: The registry of watches stays consistent under any interleaving of its callers, its cancellations and the deaths
  of its caches: no namespace is at once watched and held off after a failure, the empty namespace is neither,
  every failure on record counts at least one, and a start is in progress only for a namespace that is not watched.
\<close>

theorem registry_consistent:
  assumes "wm_ok m" and "runs watch_step (idle m) es w"
  shows "wm_ok (manager w) \<and> dom (flights w) \<inter> dom (wmNamespaces (manager w)) = {} \<and> '''' \<notin> dom (flights w)"
proof -
  have "watch_inv w"
    by (rule runs_always [where I = watch_inv, OF assms(2) watch_inv_idle [OF assms(1)] watch_step_inv])
  then show ?thesis by (simp add: watch_inv_def)
qed

text \<open>
  C12: No cache leaks and none runs twice, as long as no cache stops by itself. However callers and cancellations
  interleave, a cache runs exactly if it is the one registered for its namespace or the one being started for
  it, so at most one runs for any namespace, and after \<open>StopAll\<close> with no start in progress none does.
\<close>

theorem caches_accounted_for:
  assumes "wm_ok m" and "wmNamespaces m = Map.empty" and "runs watch_step (idle m) es w" and "list_all (\<lambda>e. \<forall>ns. e \<noteq> WDie ns) es"
  shows "((c, ns) \<in> live w \<longleftrightarrow> wmNamespaces (manager w) ns = Some c \<or> flights w ns = Some c) \<and>
    ((c, ns) \<in> live w \<and> (c', ns) \<in> live w \<longrightarrow> c' = c)"
proof -
  have "watch_inv w \<and> accounted w"
    by (rule runs_invariant [where I = "\<lambda>w. watch_inv w \<and> accounted w", OF assms(3) _ _ assms(4)])
      (auto intro: watch_inv_idle accounted_idle assms(1,2) watch_step_inv watch_step_accounted)
  then show ?thesis by (auto simp: watch_inv_def accounted_def)
qed

definition ready_manager :: watch_manager where
  "ready_manager = SetContext ''ctx'' (SetController ''ctrl'' (NewNamespaceWatchManager ''name'' ''namespace''))"

lemma ready_manager_sel [simp]:
  "wmController ready_manager = Some ''ctrl''" "wmContext ready_manager = Some ''ctx''"
  "wmNamespaces ready_manager = Map.empty" "wmFailures ready_manager = Map.empty" "wm_ok ready_manager"
  using wm_ok_new by (simp_all add: ready_manager_def SetContext_def SetController_def NewNamespaceWatchManager_def wm_ok_def)

lemma start_run:
  assumes "ns \<noteq> ''''"
  shows "runs watch_step (idle ready_manager) [WPass ns, WStart ns]
    ((idle ready_manager)\<lparr>flights := [ns \<mapsto> ''c''], used := {''c''}, live := {(''c'', ns)}\<rparr>)"
proof -
  have p: "watch_step (idle ready_manager) (WPass ns) ((idle ready_manager)\<lparr>passed := {#ns#}\<rparr>)"
    using watch_step.pass [of 0 ns "idle ready_manager"] assms by (simp add: idle_def ew_check_def)
  have "watch_step ((idle ready_manager)\<lparr>passed := {#ns#}\<rparr>) (WStart ns)
    ((idle ready_manager)\<lparr>flights := [ns \<mapsto> ''c''], used := {''c''}, live := {(''c'', ns)}\<rparr>)"
    using watch_step.start [of ns "(idle ready_manager)\<lparr>passed := {#ns#}\<rparr>" "''c''"] by (simp add: idle_def ew_recheck_def)
  from runs_two [where step = watch_step, OF p runs_one [where step = watch_step, OF this]] show ?thesis .
qed

theorem registry_consistent_witness:
  "\<exists>w. runs watch_step (idle ready_manager) [WPass ''ns'', WStart ''ns''] w \<and> flights w ''ns'' \<noteq> None \<and>
     wmNamespaces (manager w) ''ns'' = None"
  using registry_consistent [OF ready_manager_sel(5) start_run [of "''ns''"]] start_run [of "''ns''"]
  by (intro exI [of _ "(idle ready_manager)\<lparr>flights := [''ns'' \<mapsto> ''c''], used := {''c''}, live := {(''c'', ''ns'')}\<rparr>"])
    (auto simp: idle_def)

theorem caches_accounted_for_witness:
  "\<exists>w. runs watch_step (idle ready_manager) [WPass ''ns'', WStart ''ns''] w \<and> (\<exists>c. flights w ''ns'' = Some c \<and> (c, ''ns'') \<in> live w)"
proof -
  let ?w = "(idle ready_manager)\<lparr>flights := [''ns'' \<mapsto> ''c''], used := {''c''}, live := {(''c'', ''ns'')}\<rparr>"
  have r: "runs watch_step (idle ready_manager) [WPass ''ns'', WStart ''ns''] ?w" by (rule start_run) simp
  have "(''c'', ''ns'') \<in> live ?w"
    using caches_accounted_for [OF ready_manager_sel(5,3) r, of "''c''" "''ns''"] by simp
  with r show ?thesis by (intro exI [of _ ?w]) simp
qed

text \<open>
  C16: A dead cache can stay registered for good. If the cache of a namespace stops by itself while its start is still
  in progress, the goroutine forgets a namespace that is not registered yet, and the start then registers
  it: the namespace counts as watched with no cache running and nothing left that would forget it, and every
  later \<open>EnsureWatch\<close> of it succeeds at once without starting one.
\<close>

theorem dead_cache_registered:
  assumes "ns \<noteq> ''''"
  shows "\<exists>w. runs watch_step (idle ready_manager) [WPass ns, WStart ns, WDie ns, WForget ns, WSucceed ns] w \<and>
    wmNamespaces (manager w) ns \<noteq> None \<and> live w = {} \<and> died w = {} \<and> flights w = Map.empty \<and>
    EnsureWatch now now' start ns (manager w) = (Inr (), manager w)"
proof -
  let ?i = "idle ready_manager"
  let ?w2 = "?i\<lparr>flights := [ns \<mapsto> ''c''], used := {''c''}, live := {(''c'', ns)}\<rparr>"
  let ?w3 = "?w2\<lparr>live := {}, died := {(''c'', ns)}\<rparr>"
  let ?w4 = "?w2\<lparr>manager := cache_stopped ns ready_manager, live := {}, died := {}\<rparr>"
  let ?w5 = "?w4\<lparr>manager := ew_success ''c'' ns (cache_stopped ns ready_manager), flights := Map.empty\<rparr>"
  have 3: "watch_step ?w2 (WDie ns) ?w3" using watch_step.die [of "''c''" ns ?w2] by (simp add: idle_def)
  have 4: "watch_step ?w3 (WForget ns) ?w4" using watch_step.forget [of "''c''" ns ?w3] by (simp add: idle_def)
  have 5: "watch_step ?w4 (WSucceed ns) ?w5" using watch_step.succeed [of ?w4 ns "''c''"] by (simp add: idle_def)
  have "runs watch_step ?i ([WPass ns, WStart ns] @ [WDie ns, WForget ns, WSucceed ns]) ?w5"
    by (rule runs_append [where step = watch_step, OF _ start_run [OF assms]],
        rule runs_two [where step = watch_step, OF 3 runs_two [where step = watch_step, OF 4 runs_one [where step = watch_step, OF 5]]])
  moreover have "EnsureWatch now now' start ns (manager ?w5) = (Inr (), manager ?w5)"
    by (rule EnsureWatch_watched) (simp_all add: assms ew_success_def)
  ultimately show ?thesis
    by (intro exI [of _ ?w5]) (simp add: idle_def ew_success_def)
qed

theorem dead_cache_registered_witness:
  "\<exists>w es. runs watch_step (idle ready_manager) es w \<and> wmNamespaces (manager w) ''ns'' \<noteq> None \<and> live w = {}"
  using dead_cache_registered [of "''ns''"] by blast



text \<open>
  A caller that passed the first section before a start failed enters \<open>singleflight\<close> after it and starts again at
  once: the second section does not look at the failure.
\<close>

lemma backoff_bypassed:
  assumes "ns \<noteq> ''''"
  shows "\<exists>es w w'. runs watch_step (idle ready_manager) es w \<and> List.last es = WFail ns \<and>
    ew_check now ns (manager w) = Some (Inl (WatchInBackoff (2 * backoffBase))) \<and> watch_step w (WStart ns) w'"
proof -
  let ?i = "idle ready_manager"
  let ?w1 = "?i\<lparr>passed := {#ns#}\<rparr>" and ?w2 = "?i\<lparr>passed := {#ns, ns#}\<rparr>"
  let ?w3 = "?i\<lparr>passed := {#ns#}, flights := [ns \<mapsto> ''c''], used := {''c''}, live := {(''c'', ns)}\<rparr>"
  let ?w4 = "?i\<lparr>passed := {#ns#}, used := {''c''}, manager := ew_fail now ns ready_manager\<rparr>"
  have 1: "watch_step ?i (WPass ns) ?w1"
    using watch_step.pass [of now ns ?i] assms by (simp add: idle_def ew_check_def)
  have 2: "watch_step ?w1 (WPass ns) ?w2"
    using watch_step.pass [of now ns ?w1] assms by (simp add: idle_def ew_check_def)
  have 3: "watch_step ?w2 (WStart ns) ?w3"
    using watch_step.start [of ns ?w2 "''c''"] by (simp add: idle_def ew_recheck_def)
  have 4: "watch_step ?w3 (WFail ns) ?w4"
    using watch_step.fail [of ?w3 ns "''c''" now] by (simp add: idle_def)
  let ?w5 = "?w4\<lparr>passed := {#}, flights := [ns \<mapsto> ''d''], used := {''d'', ''c''}, live := {(''d'', ns)}\<rparr>"
  have 5: "watch_step ?w4 (WStart ns) ?w5"
    using watch_step.start [of ns ?w4 "''d''"] by (simp add: idle_def ew_recheck_def ew_fail_def)
  have "ew_check now ns (manager ?w4) = Some (Inl (WatchInBackoff (2 * backoffBase)))"
    by (simp add: ew_check_def ew_fail_def assms backoffDuration_closed backoff_consts idle_def)
  with runs_two [where step = watch_step, OF 1 runs_two [where step = watch_step, OF 2
      runs_two [where step = watch_step, OF 3 runs_one [where step = watch_step, OF 4]]]] 5
  show ?thesis by - (rule exI [of _ "[WPass ns, WPass ns, WStart ns, WFail ns]"], rule exI [of _ ?w4], rule exI [of _ ?w5], simp)
qed

end
