(* ===== verification/CacheStart.thy ===== *)
theory CacheStart
  imports MachineController
begin

text \<open>
  \<open>startAndRegister\<close> of \<open>pkg/cluster/watch.go\<close>: the start of the cache of one namespace, which \<open>EnsureWatch\<close> of
  theory \<open>Watch\<close> has as its parameter \<open>start\<close>, with the actions it takes on the cache and on the controller in
  the order it takes them. What the two answer is a parameter. Then the caches that run are counted
  against those the manager has on record.
\<close>

section \<open>Starting a cache\<close>

datatype cache_action =
    NewCache string "watched_kind list"
  | StartCache string string                    \<comment> \<open>the cache and the parent of its context\<close>
  | WaitForCacheSync string
  | ControllerWatch string string watched_kind string string   \<comment> \<open>controller, cache, kind and the two label keys of the mapper\<close>
  | CancelCache string

datatype start_error = CreatingCache string | CacheNotSynced | Watching watched_kind string

record cache_env =
  newCache :: "cache_action list \<Rightarrow> string + string"
  cacheSynced :: "cache_action list \<Rightarrow> bool"
  controllerWatch :: "cache_action list \<Rightarrow> string + unit"

type_synonym 'a cache_io = "(cache_action list, start_error, 'a) em"

definition add_cache_action :: "cache_action \<Rightarrow> cache_action list \<Rightarrow> cache_action list" where
  "add_cache_action a h = h @ [a]"

interpretation cache_log: call_log "\<lambda>h. h" add_cache_action
  by unfold_locales (simp add: add_cache_action_def)

text \<open>An action that gives nothing back: \<open>go nsCache.Start(cacheCtx)\<close> and the call of the cancel function.\<close>

definition cache_action :: "cache_action \<Rightarrow> unit cache_io" where
  "cache_action = perform (\<lambda>h. h) add_cache_action (\<lambda>h. Inr ())"

definition registerWatch :: "cache_env \<Rightarrow> watch_manager \<Rightarrow> string \<Rightarrow> string \<Rightarrow> watched_kind \<Rightarrow> unit cache_io" where
  "registerWatch E m ctrl cache k =
     catchE
       (perform (\<lambda>h. h) add_cache_action (\<lambda>h. map_sum (Watching k) id (controllerWatch E h))
         (ControllerWatch ctrl cache k (wmLabelName m) (wmLabelNamespace m)))
       (\<lambda>e. bindE (cache_action (CancelCache cache)) (\<lambda>_. throwE e))"

definition startAndRegister :: "cache_env \<Rightarrow> watch_manager \<Rightarrow> string \<Rightarrow> string \<Rightarrow> string \<Rightarrow> string cache_io" where
  "startAndRegister E m ctrl mgrCtx ns =
     bindE (perform (\<lambda>h. h) add_cache_action (\<lambda>h. map_sum CreatingCache id (newCache E h))
       (NewCache ns [KWorkflow, KTask, KJob])) (\<lambda>cache.
     bindE (cache_action (StartCache cache mgrCtx)) (\<lambda>_.
     bindE (perform (\<lambda>h. h) add_cache_action (\<lambda>h. Inr (cacheSynced E h)) (WaitForCacheSync cache)) (\<lambda>synced.
     if \<not> synced then bindE (cache_action (CancelCache cache)) (\<lambda>_. throwE CacheNotSynced)
     else
       bindE (registerWatch E m ctrl cache KWorkflow) (\<lambda>_.
       bindE (registerWatch E m ctrl cache KTask) (\<lambda>_.
       bindE (registerWatch E m ctrl cache KJob) (\<lambda>_.
       returnE cache))))))"

text \<open>
  \<open>EnsureWatch\<close> with this start: the actions are taken only when neither section returns early, with the
  controller and the context of the manager.
\<close>

definition start_error_text :: "start_error \<Rightarrow> string" where
  "start_error_text e = (case e of CreatingCache msg \<Rightarrow> msg | CacheNotSynced \<Rightarrow> '''' | Watching k msg \<Rightarrow> msg)"

definition EnsureWatchCache ::
    "cache_env \<Rightarrow> int \<Rightarrow> int \<Rightarrow> string \<Rightarrow> watch_manager \<times> cache_action list \<Rightarrow>
     (watch_error + unit) \<times> watch_manager \<times> cache_action list" where
  "EnsureWatchCache E now now' ns w =
     (case w of (m, h) \<Rightarrow>
        let started = ew_check now ns m = None \<and> ew_recheck ns m = None;
            (r, h') = startAndRegister E m (the (wmController m)) (the (wmContext m)) ns h;
            (res, m') = EnsureWatch now now' (\<lambda>_. map_sum start_error_text id r) ns m
        in (res, m', if started then h' else h))"

section \<open>The caches that run\<close>

text \<open>What was started and not cancelled since; a cache may also stop by itself, which no action shows.\<close>

fun running_after :: "cache_action \<Rightarrow> string set \<Rightarrow> string set" where
  "running_after (StartCache c _) R = insert c R"
| "running_after (CancelCache c) R = R - {c}"
| "running_after _ R = R"

definition running :: "cache_action list \<Rightarrow> string set" where
  "running h = fold running_after h {}"

lemma running_snoc [simp]: "running (h @ [a]) = running_after a (running h)" "running [] = {}"
  by (simp_all add: running_def)

text \<open>A new cache is none of those that run.\<close>

definition caches_fresh :: "('e) cache_env_scheme \<Rightarrow> bool" where
  "caches_fresh E \<longleftrightarrow> (\<forall>h c. newCache E h = Inr c \<longrightarrow> c \<notin> running h)"

text \<open>Every running cache is on record for exactly one namespace.\<close>

definition caches_recorded :: "watch_manager \<times> cache_action list \<Rightarrow> bool" where
  "caches_recorded w = (case w of (m, h) \<Rightarrow>
     running h = ran (wmNamespaces m) \<and> inj_on (wmNamespaces m) (dom (wmNamespaces m)))"

lemma run_cache_action [simp]: "cache_action a h = (Inr (), h @ [a])"
  by (simp add: cache_action_def cache_log.run_perform add_cache_action_def)

lemma run_registerWatch:
  "registerWatch E m ctrl cache k h =
     (let w = ControllerWatch ctrl cache k (wmLabelName m) (wmLabelNamespace m) in
      case controllerWatch E (h @ [w]) of
        Inl e \<Rightarrow> (Inl (Watching k e), h @ [w, CancelCache cache])
      | Inr _ \<Rightarrow> (Inr (), h @ [w]))"
  by (simp add: registerWatch_def run_catchE run_bindE run_throwE cache_log.run_perform add_cache_action_def Let_def
      split: sum.split)

lemma registerWatch_running:
  "registerWatch E m ctrl cache k h = (r, h') \<Longrightarrow>
   running h' = (case r of Inl _ \<Rightarrow> running h - {cache} | Inr _ \<Rightarrow> running h)"
  by (auto simp: run_registerWatch Let_def running_def split: sum.splits)

lemma startAndRegister_running:
  assumes "caches_fresh E" and "startAndRegister E m ctrl mgrCtx ns h = (r, h')"
  shows "running h' = (case r of Inl _ \<Rightarrow> running h | Inr c \<Rightarrow> insert c (running h)) \<and> (\<forall>c. r = Inr c \<longrightarrow> c \<notin> running h)"
proof (cases "newCache E (h @ [NewCache ns [KWorkflow, KTask, KJob]])")
  case (Inl e)
  with assms(2) show ?thesis
    by (auto simp: startAndRegister_def run_bindE cache_log.run_perform add_cache_action_def)
next
  case (Inr c)
  have fr: "c \<notin> running h" using assms(1) Inr unfolding caches_fresh_def by fastforce
  let ?h = "h @ [NewCache ns [KWorkflow, KTask, KJob], StartCache c mgrCtx, WaitForCacheSync c]"
  have R: "running ?h = insert c (running h)" by (simp add: running_def)
  obtain r1 h1 where 1: "registerWatch E m ctrl c KWorkflow ?h = (r1, h1)" by fastforce
  obtain r2 h2 where 2: "registerWatch E m ctrl c KTask h1 = (r2, h2)" by fastforce
  obtain r3 h3 where 3: "registerWatch E m ctrl c KJob h2 = (r3, h3)" by fastforce
  note rr = registerWatch_running [OF 1] registerWatch_running [OF 2] registerWatch_running [OF 3]
  have e: "startAndRegister E m ctrl mgrCtx ns h =
      (if \<not> cacheSynced E ?h then (Inl CacheNotSynced, ?h @ [CancelCache c])
       else (case r1 of Inl e \<Rightarrow> (Inl e, h1) | Inr _ \<Rightarrow> (case r2 of Inl e \<Rightarrow> (Inl e, h2) | Inr _ \<Rightarrow>
         (case r3 of Inl e \<Rightarrow> (Inl e, h3) | Inr _ \<Rightarrow> (Inr c, h3)))))"
    using Inr 1 2 3
    by (simp add: startAndRegister_def run_bindE run_throwE run_returnE cache_log.run_perform add_cache_action_def split: sum.split)
  show ?thesis
    using e assms(2) rr R fr by (auto split: if_splits sum.splits simp: running_def)
qed

lemma startAndRegister_Inr:
  assumes "startAndRegister E m ctrl mgrCtx ns h = (Inr c, h')"
  shows "h' = h @ NewCache ns [KWorkflow, KTask, KJob] # StartCache c mgrCtx # WaitForCacheSync c #
    map (\<lambda>k. ControllerWatch ctrl c k (wmLabelName m) (wmLabelNamespace m)) [KWorkflow, KTask, KJob]"
  using assms
  by (auto simp: startAndRegister_def run_bindE run_throwE run_returnE run_registerWatch Let_def cache_log.run_perform
      add_cache_action_def split: sum.splits if_splits)

section \<open>Properties\<close>

lemma inj_on_upd_fresh:
  "inj_on m (dom m) \<Longrightarrow> m k = None \<Longrightarrow> v \<notin> ran m \<Longrightarrow> inj_on (m(k \<mapsto> v)) (dom (m(k \<mapsto> v)))"
  by (fastforce simp: inj_on_def ran_def dom_def)

text \<open>
  C14: A start either registers or leaves nothing behind. Whatever step of it fails - the creation, the sync, the
  watch of the Workflows, of the Tasks or of the Jobs - no cache it started is left running; and when it succeeds
  the running caches are again exactly those on record, each for its own namespace, with the three
  kinds watched through it by the labels of the manager.
\<close>

theorem EnsureWatchCache_no_leak:
  assumes "caches_fresh E" and "caches_recorded (m, h)" and "EnsureWatchCache E now now' ns (m, h) = (r, m', h')"
  shows "caches_recorded (m', h') \<and>
    (wmNamespaces m' = wmNamespaces m \<and> running h' = running h \<or>
     (\<exists>c ctrl. r = Inr () \<and> wmController m = Some ctrl \<and> wmNamespaces m' = (wmNamespaces m)(ns \<mapsto> c) \<and> c \<notin> running h \<and>
        (\<forall>k\<in>{KWorkflow, KTask, KJob}. ControllerWatch ctrl c k (wmLabelName m) (wmLabelNamespace m) \<in> set h')))"
proof (cases "ew_check now ns m = None \<and> ew_recheck ns m = None")
  case False
  with assms show ?thesis by (auto simp: EnsureWatchCache_def EnsureWatch_def split: prod.splits option.splits)
next
  case True
  then have n: "wmNamespaces m ns = None" and c: "wmController m = Some (the (wmController m))"
    by (auto simp: ew_recheck_def split: if_splits)
  obtain rs hs where s: "startAndRegister E m (the (wmController m)) (the (wmContext m)) ns h = (rs, hs)" by fastforce
  note run = startAndRegister_running [OF assms(1) s]
  show ?thesis
  proof (cases rs)
    case (Inl e)
    with True s run assms show ?thesis
      by (auto simp: EnsureWatchCache_def EnsureWatch_def ew_fail_def caches_recorded_def)
  next
    case (Inr cache)
    with True s assms(3) have e: "r = Inr ()" "m' = ew_success cache ns m" "h' = hs"
      by (auto simp: EnsureWatchCache_def EnsureWatch_def)
    have fr: "cache \<notin> ran (wmNamespaces m)" using run Inr assms(2) by (auto simp: caches_recorded_def)
    have "caches_recorded (m', h')"
      using run Inr assms(2) e inj_on_upd_fresh [of "wmNamespaces m" ns cache, OF _ n fr] ran_map_upd [of "wmNamespaces m" ns cache, OF n]
      by (simp add: caches_recorded_def ew_success_def)
    moreover have "\<forall>k\<in>{KWorkflow, KTask, KJob}. ControllerWatch (the (wmController m)) cache k (wmLabelName m) (wmLabelNamespace m) \<in> set h'"
      unfolding e startAndRegister_Inr [OF s [unfolded Inr]] by auto
    ultimately show ?thesis
      using e c run Inr by (intro conjI disjI2 exI [of _ cache] exI [of _ "the (wmController m)"]) (simp_all add: ew_success_def)
  qed
qed

text \<open>Caches named by a number of letters that no cache started before has.\<close>

fun started_length :: "cache_action \<Rightarrow> nat" where
  "started_length (StartCache c _) = length c"
| "started_length _ = 0"

definition serial_caches :: cache_env where
  "serial_caches = \<lparr>newCache = (\<lambda>h. Inr (replicate (Suc (sum_list (map started_length h))) (CHR ''c''))),
     cacheSynced = (\<lambda>h. True), controllerWatch = (\<lambda>h. Inr ())\<rparr>"

lemma running_length: "c \<in> running h \<Longrightarrow> length c \<le> sum_list (map started_length h)"
proof (induction h rule: rev_induct)
  case (snoc a h)
  then show ?case by (cases a) fastforce+
qed simp

lemma serial_fresh: "caches_fresh serial_caches"
  unfolding caches_fresh_def serial_caches_def using running_length by fastforce

theorem EnsureWatchCache_no_leak_witness:
  "caches_recorded (snd (EnsureWatchCache serial_caches 0 0 ''ns'' (SetContext ''ctx'' (SetController ''ctrl'' (NewNamespaceWatchManager ''n'' ''s'')), [])))"
proof -
  let ?m = "SetContext ''ctx'' (SetController ''ctrl'' (NewNamespaceWatchManager ''n'' ''s''))"
  have i: "caches_recorded (?m, [])"
    by (simp add: caches_recorded_def SetContext_def SetController_def NewNamespaceWatchManager_def)
  obtain r m' h' where e: "EnsureWatchCache serial_caches 0 0 ''ns'' (?m, []) = (r, m', h')" by (metis prod_cases3)
  from EnsureWatchCache_no_leak [OF serial_fresh i e] e show ?thesis by simp
qed

end
