(* ===== verification/Startup.thy ===== *)
theory Startup
  imports CacheStart ClusterController WatchRace
begin

text \<open>
  \<open>main.go\<close> and \<open>pkg/cluster/cluster.go\<close>: the flags and their configuration, the scheme, the client for the Tinkerbell
  cluster, the controllers, the webhooks and the health checks, up to the start of the manager. The steps that
  other packages carry out are actions on a log; their answers are parameters that depend on it.
  The messages logged on the way are left out.
\<close>

section \<open>Configuration\<close>

record config =
  EnableLeaderElection :: bool
  MetricsBindAddress :: string
  LeaderElectionNamespace :: string
  WatchNamespace :: string
  HealthAddr :: string
  WatchFilterValue :: string
  WebhookCertDir :: string
  TinkerbellClusterConcurrency :: int
  TinkerbellMachineConcurrency :: int
  TinkerbellHardwareConcurrency :: int
  TinkerbellTemplateConcurrency :: int
  TinkerbellWorkflowConcurrency :: int
  WebhookPort :: int
  SyncPeriod :: int
  LeaderElectionLeaseDuration :: int
  LeaderElectionRenewDeadline :: int
  LeaderElectionRetryPeriod :: int
  ExternalKubeconfig :: string

definition zero_config :: config where
  "zero_config = \<lparr>EnableLeaderElection = False, MetricsBindAddress = '''', LeaderElectionNamespace = '''',
     WatchNamespace = '''', HealthAddr = '''', WatchFilterValue = '''', WebhookCertDir = '''',
     TinkerbellClusterConcurrency = 0, TinkerbellMachineConcurrency = 0, TinkerbellHardwareConcurrency = 0,
     TinkerbellTemplateConcurrency = 0, TinkerbellWorkflowConcurrency = 0, WebhookPort = 0, SyncPeriod = 0,
     LeaderElectionLeaseDuration = 0, LeaderElectionRenewDeadline = 0, LeaderElectionRetryPeriod = 0,
     ExternalKubeconfig = ''''\<rparr>"

text \<open>
  A flag has a name, a default, and the field it sets. The value of a flag has the type the flag was declared
  with; a value of another type is refused when it is parsed. \<open>feature-gates\<close> sets no field:
  its value goes to the feature gates of Cluster API (\<open>featureGatesFlag_Set\<close>), which this program does not read.
\<close>

datatype flag_value = FlagString string | FlagBool bool | FlagInt int | FlagDuration int

record capt_flag =
  flagName :: string
  flagDefault :: "flag_value option"
  flagSet :: "flag_value \<Rightarrow> config \<Rightarrow> config"

definition StringVar :: "(string \<Rightarrow> config \<Rightarrow> config) \<Rightarrow> string \<Rightarrow> string \<Rightarrow> capt_flag" where
  "StringVar upd n d =
     \<lparr>flagName = n, flagDefault = Some (FlagString d), flagSet = (\<lambda>v. case v of FlagString x \<Rightarrow> upd x | _ \<Rightarrow> id)\<rparr>"

definition BoolVar :: "(bool \<Rightarrow> config \<Rightarrow> config) \<Rightarrow> string \<Rightarrow> bool \<Rightarrow> capt_flag" where
  "BoolVar upd n d =
     \<lparr>flagName = n, flagDefault = Some (FlagBool d), flagSet = (\<lambda>v. case v of FlagBool x \<Rightarrow> upd x | _ \<Rightarrow> id)\<rparr>"

definition IntVar :: "(int \<Rightarrow> config \<Rightarrow> config) \<Rightarrow> string \<Rightarrow> int \<Rightarrow> capt_flag" where
  "IntVar upd n d =
     \<lparr>flagName = n, flagDefault = Some (FlagInt d), flagSet = (\<lambda>v. case v of FlagInt x \<Rightarrow> upd x | _ \<Rightarrow> id)\<rparr>"

definition DurationVar :: "(int \<Rightarrow> config \<Rightarrow> config) \<Rightarrow> string \<Rightarrow> int \<Rightarrow> capt_flag" where
  "DurationVar upd n d =
     \<lparr>flagName = n, flagDefault = Some (FlagDuration d), flagSet = (\<lambda>v. case v of FlagDuration x \<Rightarrow> upd x | _ \<Rightarrow> id)\<rparr>"

definition initFlags :: "capt_flag list" where
  "initFlags =
     [StringVar (\<lambda>x c. c\<lparr>MetricsBindAddress := x\<rparr>) ''metrics-bind-addr'' ''localhost:8080'',
      BoolVar (\<lambda>x c. c\<lparr>EnableLeaderElection := x\<rparr>) ''leader-elect'' False,
      DurationVar (\<lambda>x c. c\<lparr>LeaderElectionLeaseDuration := x\<rparr>) ''leader-elect-lease-duration'' (15 * second_ns),
      DurationVar (\<lambda>x c. c\<lparr>LeaderElectionRenewDeadline := x\<rparr>) ''leader-elect-renew-deadline'' (10 * second_ns),
      DurationVar (\<lambda>x c. c\<lparr>LeaderElectionRetryPeriod := x\<rparr>) ''leader-elect-retry-period'' (2 * second_ns),
      StringVar (\<lambda>x c. c\<lparr>WatchNamespace := x\<rparr>) ''namespace'' '''',
      StringVar (\<lambda>x c. c\<lparr>LeaderElectionNamespace := x\<rparr>) ''leader-election-namespace'' '''',
      StringVar (\<lambda>x c. c\<lparr>WatchFilterValue := x\<rparr>) ''watch-filter'' '''',
      IntVar (\<lambda>x c. c\<lparr>TinkerbellClusterConcurrency := x\<rparr>) ''tinkerbellcluster-concurrency'' 10,
      IntVar (\<lambda>x c. c\<lparr>TinkerbellMachineConcurrency := x\<rparr>) ''tinkerbellmachine-concurrency'' 10,
      IntVar (\<lambda>x c. c\<lparr>TinkerbellHardwareConcurrency := x\<rparr>) ''tinkerbell-hardware-concurrency'' 10,
      IntVar (\<lambda>x c. c\<lparr>TinkerbellTemplateConcurrency := x\<rparr>) ''tinkerbell-template-concurrency'' 10,
      IntVar (\<lambda>x c. c\<lparr>TinkerbellWorkflowConcurrency := x\<rparr>) ''tinkerbell-workflow-concurrency'' 10,
      DurationVar (\<lambda>x c. c\<lparr>SyncPeriod := x\<rparr>) ''sync-period'' (10 * 60 * second_ns),
      IntVar (\<lambda>x c. c\<lparr>WebhookPort := x\<rparr>) ''webhook-port'' 9443,
      StringVar (\<lambda>x c. c\<lparr>WebhookCertDir := x\<rparr>) ''webhook-cert-dir'' ''/tmp/k8s-webhook-server/serving-certs'',
      StringVar (\<lambda>x c. c\<lparr>HealthAddr := x\<rparr>) ''health-addr'' '':9440'',
      StringVar (\<lambda>x c. c\<lparr>ExternalKubeconfig := x\<rparr>) ''external-kubeconfig'' ''/var/run/secrets/external-tinkerbell/kubeconfig'',
      \<lparr>flagName = ''feature-gates'', flagDefault = None, flagSet = (\<lambda>_. id)\<rparr>]"

text \<open>Registering a flag stores its default; parsing sets the flags that were given, in order.\<close>

definition default_config :: config where
  "default_config =
     fold (\<lambda>f c. case flagDefault f of None \<Rightarrow> c | Some v \<Rightarrow> flagSet f v c) initFlags zero_config"

definition set_flag :: "string \<times> flag_value \<Rightarrow> config \<Rightarrow> config" where
  "set_flag nv c =
     (case nv of (n, v) \<Rightarrow>
        (case find (\<lambda>f. flagName f = n) initFlags of None \<Rightarrow> c | Some f \<Rightarrow> flagSet f v c))"

definition parsed_config :: "(string \<times> flag_value) list \<Rightarrow> config" where
  "parsed_config given = fold set_flag given default_config"

section \<open>What startup does\<close>

type_synonym gvk = "string \<times> string \<times> string"

datatype scheme_package = ClientGoScheme | CoreCapiScheme | CapiIpamScheme | TinkerbellV2Scheme | BmcV2Scheme

datatype webhook_kind = WTinkerbellCluster | WTinkerbellClusterTemplate | WTinkerbellMachine | WTinkerbellMachineTemplate

text \<open>A webhook serves a kind with a validator and, when the kind has an older version, a converter.\<close>

record webhook =
  whObject :: webhook_kind
  whValidator :: webhook_kind
  whConverter :: "webhook_kind option"

record manager_options =
  optScheme :: "gvk list"
  optMetricsBindAddress :: string
  optLeaderElection :: bool
  optLeaderElectionID :: string
  optLeaderElectionNamespace :: string
  optLeaseDuration :: int
  optRenewDeadline :: int
  optRetryPeriod :: int
  optHealthProbeBindAddress :: string
  optEventBurst :: int
  optDefaultNamespaces :: "string list"      \<comment> \<open>empty for all namespaces\<close>

datatype controller_filter = HasFilterLabel string | NotExternallyManaged

datatype startup_action =
    SetCtrlLogger
  | SetKlogLogger
  | InitKlogFlags
  | SetKlogFlag string string
  | ParseFlags
  | SetFeatureGates string
  | AddToScheme scheme_package
  | GetConfig
  | NewManager manager_options
  | InitEventRecorder string
  | SetupSignalHandler
  | ReadFile string
  | ParseKubeconfig string
  | NewClient string
  | SetupClusterController "controller_filter list" "(watched_kind \<times> watch_mapping) list" int
  | SetupMachineController machine_reconciler "controller_filter list" int
  | CompleteWebhook webhook
  | AddReadyzCheck string
  | AddHealthzCheck string
  | StartManager

datatype file_error = FileNotExist | FileError string

datatype startup_error =
    FlagError string
  | SchemeError string
  | ConfigError string
  | ManagerError string
  | NoConfigError
  | ReadKubeconfigError string
  | ParseKubeconfigError string
  | DirectClientError string
  | ClusterControllerError string
  | MachineControllerError string
  | WebhookError webhook_kind string
  | ReadyzError string
  | HealthzError string
  | RunError string

record startup_env =
  sysKlogFlag :: "startup_action list \<Rightarrow> string + unit"
  sysFlags :: "startup_action list \<Rightarrow> string + (string \<times> flag_value) list"
  sysFeatureGates :: "startup_action list \<Rightarrow> string + unit"
  sysAddToScheme :: "startup_action list \<Rightarrow> string + gvk list"
  sysDo :: "startup_action list \<Rightarrow> string + unit"
  sysReadFile :: "startup_action list \<Rightarrow> file_error + string"
  sysParseKubeconfig :: "startup_action list \<Rightarrow> string + string"
  sysMapper :: "startup_action list \<Rightarrow> string + unit"
  sysBuild :: "startup_action list \<Rightarrow> (watched_kind \<times> watch_mapping) list \<Rightarrow> string + string"
  metaTypes :: "string \<Rightarrow> string \<Rightarrow> gvk list"      \<comment> \<open>what \<open>metav1.AddToGroupVersion\<close> adds\<close>

type_synonym 'a startup_io = "(startup_action list, startup_error, 'a) em"

definition add_startup_action :: "startup_action \<Rightarrow> startup_action list \<Rightarrow> startup_action list" where
  "add_startup_action a h = h @ [a]"

interpretation startup_log: call_log "\<lambda>h. h" add_startup_action
  by unfold_locales (simp add: add_startup_action_def)

definition sys :: "(startup_action list \<Rightarrow> startup_error + 'a) \<Rightarrow> startup_action \<Rightarrow> 'a startup_io" where
  "sys answer a = perform (\<lambda>h. h) add_startup_action answer a"

text \<open>A step that gives nothing back but may fail, with the error it becomes.\<close>

definition attempt :: "startup_env \<Rightarrow> (string \<Rightarrow> startup_error) \<Rightarrow> startup_action \<Rightarrow> unit startup_io" where
  "attempt E err a = sys (\<lambda>h. map_sum err id (sysDo E h)) a"

lemma run_sys [run_simps]: "sys f a h = (f (h @ [a]), h @ [a])"
  by (simp add: sys_def startup_log.run_perform add_startup_action_def)

lemma run_attempt [run_simps]: "attempt E err a h = (map_sum err id (sysDo E (h @ [a])), h @ [a])"
  by (simp add: attempt_def run_sys)

section \<open>The scheme\<close>

definition addPackage :: "startup_env \<Rightarrow> scheme_package \<Rightarrow> gvk list \<Rightarrow> gvk list startup_io" where
  "addPackage E p rs =
     bindE (sys (\<lambda>h. map_sum SchemeError id (sysAddToScheme E h)) (AddToScheme p)) (\<lambda>ks. returnE (rs @ ks))"

text \<open>\<open>AddKnownTypes\<close> and \<open>metav1.AddToGroupVersion\<close> for one group and version.\<close>

definition addKnownTypes :: "startup_env \<Rightarrow> string \<Rightarrow> string \<Rightarrow> string list \<Rightarrow> gvk list \<Rightarrow> gvk list" where
  "addKnownTypes E g v kinds rs = rs @ map (\<lambda>k. (g, v, k)) kinds @ metaTypes E g v"

definition infrastructureGroup :: string where
  "infrastructureGroup = ''infrastructure.cluster.x-k8s.io''"

definition AddToScheme_v1beta1 :: "startup_env \<Rightarrow> gvk list \<Rightarrow> gvk list" where
  "AddToScheme_v1beta1 E =
     addKnownTypes E infrastructureGroup ''v1beta1''
       [''TinkerbellCluster'', ''TinkerbellClusterList'', ''TinkerbellMachine'', ''TinkerbellMachineList'',
        ''TinkerbellMachineTemplate'', ''TinkerbellMachineTemplateList'']"

definition AddToScheme_v1beta2 :: "startup_env \<Rightarrow> gvk list \<Rightarrow> gvk list" where
  "AddToScheme_v1beta2 E =
     addKnownTypes E infrastructureGroup ''v1beta2''
       [''TinkerbellCluster'', ''TinkerbellClusterList'', ''TinkerbellClusterTemplate'', ''TinkerbellClusterTemplateList'',
        ''TinkerbellMachine'', ''TinkerbellMachineList'', ''TinkerbellMachineTemplate'', ''TinkerbellMachineTemplateList'']"

text \<open>Of \<open>tinkerbell.org/v1alpha1\<close> only the Template is registered.\<close>

definition tinkerbellV1Alpha1 :: "startup_env \<Rightarrow> gvk list \<Rightarrow> gvk list" where
  "tinkerbellV1Alpha1 E = addKnownTypes E ''tinkerbell.org'' ''v1alpha1'' [''Template'', ''TemplateList'']"

definition AddToSchemeTinkerbell :: "startup_env \<Rightarrow> gvk list \<Rightarrow> gvk list startup_io" where
  "AddToSchemeTinkerbell E rs = bindE (addPackage E TinkerbellV2Scheme rs) (\<lambda>rs. returnE (tinkerbellV1Alpha1 E rs))"

definition AddToSchemeBMC :: "startup_env \<Rightarrow> gvk list \<Rightarrow> gvk list startup_io" where
  "AddToSchemeBMC E rs = addPackage E BmcV2Scheme rs"

definition newScheme :: "startup_env \<Rightarrow> gvk list startup_io" where
  "newScheme E =
     bindE (addPackage E ClientGoScheme []) (\<lambda>rs.
     bindE (returnE (AddToScheme_v1beta2 E (AddToScheme_v1beta1 E rs))) (\<lambda>rs.
     bindE (addPackage E CoreCapiScheme rs) (\<lambda>rs.
     bindE (addPackage E CapiIpamScheme rs) (\<lambda>rs.
     bindE (AddToSchemeTinkerbell E rs) (\<lambda>rs.
     AddToSchemeBMC E rs)))))"

section \<open>The client for Tinkerbell\<close>

definition RestConfig :: "startup_env \<Rightarrow> string \<Rightarrow> string startup_io" where
  "RestConfig E kubeconfigLocation =
     (if kubeconfigLocation = '''' then throwE NoConfigError
      else
        bindE (sys (\<lambda>h. case sysReadFile E h of
              Inl FileNotExist \<Rightarrow> Inl NoConfigError
            | Inl (FileError e) \<Rightarrow> Inl (ReadKubeconfigError e)
            | Inr d \<Rightarrow> Inr d) (ReadFile (path_clean kubeconfigLocation))) (\<lambda>d.
        if d = '''' then throwE NoConfigError
        else sys (\<lambda>h. map_sum ParseKubeconfigError id (sysParseKubeconfig E h)) (ParseKubeconfig d)))"

text \<open>A client is the one it was made from: the manager's, or one for a REST configuration.\<close>

datatype tinkerbell_client = ManagerClient | DirectClient string

definition NewDirectClient :: "startup_env \<Rightarrow> string \<Rightarrow> tinkerbell_client startup_io" where
  "NewDirectClient E cfg = bindE (attempt E DirectClientError (NewClient cfg)) (\<lambda>_. returnE (DirectClient cfg))"

record tinkerbellClientResult =
  resClient :: tinkerbell_client
  resExternal :: bool
  resWatchManager :: "watch_manager option"

definition buildTinkerbellClient :: "startup_env \<Rightarrow> string \<Rightarrow> config \<Rightarrow> tinkerbellClientResult startup_io" where
  "buildTinkerbellClient E ctx c =
     bindE (tryE (RestConfig E (ExternalKubeconfig c))) (\<lambda>r.
     case r of
       Inl e \<Rightarrow>
         if e = NoConfigError then returnE \<lparr>resClient = ManagerClient, resExternal = False, resWatchManager = None\<rparr>
         else throwE e
     | Inr restConfig \<Rightarrow>
         bindE (NewDirectClient E restConfig) (\<lambda>cl.
         returnE \<lparr>resClient = cl, resExternal = True,
           resWatchManager = Some (SetContext ctx (NewNamespaceWatchManager LabelMachineName LabelMachineNamespace))\<rparr>))"

section \<open>Controllers, webhooks, health checks\<close>

definition ClusterSetupWithManager :: "startup_env \<Rightarrow> config \<Rightarrow> unit startup_io" where
  "ClusterSetupWithManager E c =
     attempt E ClusterControllerError
       (SetupClusterController [HasFilterLabel (WatchFilterValue c), NotExternallyManaged] [(KCluster, MapClusterInfrastructure)]
         (TinkerbellClusterConcurrency c))"

definition newMachineReconciler :: "tinkerbellClientResult \<Rightarrow> machine_reconciler" where
  "newMachineReconciler result =
     \<lparr>hasClient = True, hasTinkerbellClient = True, ExternalTinkerbell = resExternal result,
      WatchManager = resWatchManager result, hasScheme = True\<rparr>"

definition setupReconcilers :: "startup_env \<Rightarrow> string \<Rightarrow> config \<Rightarrow> machine_reconciler startup_io" where
  "setupReconcilers E ctx c =
     bindE (buildTinkerbellClient E ctx c) (\<lambda>result.
     bindE (ClusterSetupWithManager E c) (\<lambda>_.
     sys (\<lambda>h. map_sum MachineControllerError id
            (SetupWithManager (sysMapper E h) (sysBuild E h) (newMachineReconciler result)))
       (SetupMachineController (newMachineReconciler result) [HasFilterLabel (WatchFilterValue c)]
         (TinkerbellMachineConcurrency c))))"

definition webhooks :: "webhook list" where
  "webhooks =
     [\<lparr>whObject = WTinkerbellCluster, whValidator = WTinkerbellCluster, whConverter = Some WTinkerbellCluster\<rparr>,
      \<lparr>whObject = WTinkerbellClusterTemplate, whValidator = WTinkerbellClusterTemplate, whConverter = None\<rparr>,
      \<lparr>whObject = WTinkerbellMachine, whValidator = WTinkerbellMachine, whConverter = Some WTinkerbellMachine\<rparr>,
      \<lparr>whObject = WTinkerbellMachineTemplate, whValidator = WTinkerbellMachineTemplate,
       whConverter = Some WTinkerbellMachineTemplate\<rparr>]"

definition setupWebhooks :: "startup_env \<Rightarrow> unit startup_io" where
  "setupWebhooks E = forE (\<lambda>w. attempt E (WebhookError (whObject w)) (CompleteWebhook w)) webhooks"

text \<open>The set-up methods of the validators in \<open>webhooks/\<close>, which nothing calls.\<close>

definition withoutConverter :: "webhook_kind \<Rightarrow> webhook" where
  "withoutConverter k = \<lparr>whObject = k, whValidator = k, whConverter = None\<rparr>"

definition ClusterSetupWebhook :: "startup_env \<Rightarrow> unit startup_io" where
  "ClusterSetupWebhook E = attempt E (WebhookError WTinkerbellCluster) (CompleteWebhook (withoutConverter WTinkerbellCluster))"

definition ClusterTemplateSetupWebhook :: "startup_env \<Rightarrow> unit startup_io" where
  "ClusterTemplateSetupWebhook E =
     attempt E (WebhookError WTinkerbellClusterTemplate) (CompleteWebhook (withoutConverter WTinkerbellClusterTemplate))"

definition MachineSetupWebhook :: "startup_env \<Rightarrow> unit startup_io" where
  "MachineSetupWebhook E = attempt E (WebhookError WTinkerbellMachine) (CompleteWebhook (withoutConverter WTinkerbellMachine))"

definition MachineTemplateSetupWebhook :: "startup_env \<Rightarrow> unit startup_io" where
  "MachineTemplateSetupWebhook E =
     attempt E (WebhookError WTinkerbellMachineTemplate) (CompleteWebhook (withoutConverter WTinkerbellMachineTemplate))"

text \<open>They would register what \<open>main\<close> does for the cluster templates alone; for the other kinds the converter is missing.\<close>

lemma set_up_alone: "withoutConverter k \<in> set webhooks \<longleftrightarrow> k = WTinkerbellClusterTemplate"
  by (cases k) (simp_all add: withoutConverter_def webhooks_def)

definition addHealthChecks :: "startup_env \<Rightarrow> unit startup_io" where
  "addHealthChecks E =
     bindE (attempt E ReadyzError (AddReadyzCheck ''webhook'')) (\<lambda>_.
     attempt E HealthzError (AddHealthzCheck ''webhook''))"

section \<open>main\<close>

definition manager_opts :: "gvk list \<Rightarrow> config \<Rightarrow> manager_options" where
  "manager_opts rs cfg =
     \<lparr>optScheme = rs, optMetricsBindAddress = MetricsBindAddress cfg, optLeaderElection = EnableLeaderElection cfg,
      optLeaderElectionID = ''controller-leader-election-capt'', optLeaderElectionNamespace = LeaderElectionNamespace cfg,
      optLeaseDuration = LeaderElectionLeaseDuration cfg, optRenewDeadline = LeaderElectionRenewDeadline cfg,
      optRetryPeriod = LeaderElectionRetryPeriod cfg, optHealthProbeBindAddress = HealthAddr cfg, optEventBurst = 100,
      optDefaultNamespaces = (if WatchNamespace cfg \<noteq> '''' then [WatchNamespace cfg] else [])\<rparr>"

text \<open>
  \<open>main\<close> once the flags are parsed, with the reconciler it set up as its result; \<open>ctx\<close> is the context
  \<open>ctrl.SetupSignalHandler\<close> gives. An error is an exit with status 1.
\<close>

definition run_config :: "startup_env \<Rightarrow> string \<Rightarrow> config \<Rightarrow> machine_reconciler startup_io" where
  "run_config E ctx cfg =
     bindE (newScheme E) (\<lambda>rs.
     bindE (attempt E ConfigError GetConfig) (\<lambda>_.
     bindE (attempt E ManagerError (NewManager (manager_opts rs cfg))) (\<lambda>_.
     bindE (sys (\<lambda>h. Inr ()) (InitEventRecorder ''tinkerbell-controller'')) (\<lambda>_.
     bindE (sys (\<lambda>h. Inr ()) SetupSignalHandler) (\<lambda>_.
     bindE (setupReconcilers E ctx cfg) (\<lambda>rec.
     bindE (setupWebhooks E) (\<lambda>_.
     bindE (addHealthChecks E) (\<lambda>_.
     bindE (attempt E RunError StartManager) (\<lambda>_.
     returnE rec)))))))))"

text \<open>
  Before that: the loggers, the flags of klog, whose two settings may fail without consequence, and the flags of this
  program. \<open>sysFlags\<close> is what \<open>ff.Parse\<close> finds on the command line, in the environment and in the configuration
  file; it sets each flag by its own setter, which for the feature gates is the one below.
\<close>

definition initKlogFlags :: "startup_env \<Rightarrow> unit startup_io" where
  "initKlogFlags E =
     bindE (sys (\<lambda>h. Inr ()) InitKlogFlags) (\<lambda>_.
     bindE (tryE (sys (\<lambda>h. map_sum FlagError id (sysKlogFlag E h))
       (SetKlogFlag ''legacy_stderr_threshold_behavior'' ''false''))) (\<lambda>_.
     bindE (tryE (sys (\<lambda>h. map_sum FlagError id (sysKlogFlag E h)) (SetKlogFlag ''stderrthreshold'' ''INFO''))) (\<lambda>_.
     returnE ())))"

definition featureGatesFlag_Set :: "startup_env \<Rightarrow> string \<Rightarrow> unit startup_io" where
  "featureGatesFlag_Set E v = sys (\<lambda>h. map_sum FlagError id (sysFeatureGates E h)) (SetFeatureGates v)"

text \<open>What the flag prints: the gates, when they can be printed.\<close>

definition featureGatesFlag_String :: "string option \<Rightarrow> string" where
  "featureGatesFlag_String stringer = (case stringer of Some s \<Rightarrow> s | None \<Rightarrow> '''')"

definition given_gates :: "(string \<times> flag_value) list \<Rightarrow> string list" where
  "given_gates given = [v. (n, FlagString v) \<leftarrow> given, n = ''feature-gates'']"

definition parse_flags :: "startup_env \<Rightarrow> (string \<times> flag_value) list startup_io" where
  "parse_flags E =
     bindE (sys (\<lambda>h. map_sum FlagError id (sysFlags E h)) ParseFlags) (\<lambda>given.
     bindE (forE (featureGatesFlag_Set E) (given_gates given)) (\<lambda>_.
     returnE given))"

definition main :: "startup_env \<Rightarrow> string \<Rightarrow> machine_reconciler startup_io" where
  "main E ctx =
     bindE (sys (\<lambda>h. Inr ()) SetCtrlLogger) (\<lambda>_.
     bindE (sys (\<lambda>h. Inr ()) SetKlogLogger) (\<lambda>_.
     bindE (initKlogFlags E) (\<lambda>_.
     bindE (parse_flags E) (\<lambda>given.
     run_config E ctx (parsed_config given)))))"

section \<open>Stops at the first failure\<close>

text \<open>The steps whose failure is one answer of \<open>sysDo\<close>.\<close>

fun attempted :: "startup_action \<Rightarrow> bool" where
  "attempted GetConfig = True"
| "attempted (NewManager _) = True"
| "attempted (NewClient _) = True"
| "attempted (SetupClusterController _ _ _) = True"
| "attempted (CompleteWebhook _) = True"
| "attempted (AddReadyzCheck _) = True"
| "attempted (AddHealthzCheck _) = True"
| "attempted StartManager = True"
| "attempted _ = False"

text \<open>A computation that returns had every such step of it succeed.\<close>

definition all_ok :: "startup_env \<Rightarrow> 'a startup_io \<Rightarrow> bool" where
  "all_ok E m \<longleftrightarrow> (\<forall>h x h'. m h = (Inr x, h') \<longrightarrow>
     (\<exists>new. h' = h @ new \<and> (\<forall>p a q. new = p @ a # q \<longrightarrow> attempted a \<longrightarrow> sysDo E (h @ p @ [a]) = Inr ())))"

named_theorems ok_intros \<open>every step of a computation that returns succeeded\<close>

lemma ok_silent: "(\<And>h x h'. m h = (Inr x, h') \<Longrightarrow> h' = h) \<Longrightarrow> all_ok E m"
  unfolding all_ok_def by (intro allI impI exI [of _ "[]"]) auto

lemma ok_pure [ok_intros]: "all_ok E (returnE x)" "all_ok E (throwE e)"
  by (rule ok_silent, simp add: returnE_def throwE_def)+

lemma ok_one:
  assumes "\<And>h x h'. m h = (Inr x, h') \<Longrightarrow> h' = h @ [a] \<and> (attempted a \<longrightarrow> sysDo E (h @ [a]) = Inr ())"
  shows "all_ok E m"
  unfolding all_ok_def
proof (intro allI impI)
  fix h x h'
  assume "m h = (Inr x, h')"
  from assms [OF this]
  show "\<exists>new. h' = h @ new \<and> (\<forall>p b q. new = p @ b # q \<longrightarrow> attempted b \<longrightarrow> sysDo E (h @ p @ [b]) = Inr ())"
    by (intro exI [of _ "[a]"]) (auto simp: Cons_eq_append_conv)
qed

lemma ok_attempt [ok_intros]: "all_ok E (attempt E err a)"
  by (rule ok_one [of _ a]) (auto simp: run_attempt)

lemma ok_sys: "\<not> attempted a \<Longrightarrow> all_ok E (sys f a)"
  by (rule ok_one [of _ a]) (auto simp: run_sys)

lemma ok_try_sys: "\<not> attempted a \<Longrightarrow> all_ok E (tryE (sys f a))"
  by (rule ok_one [of _ a]) (auto simp: run_simps)

lemma ok_bindE [ok_intros]:
  assumes "all_ok E m" and "\<And>x. all_ok E (f x)"
  shows "all_ok E (bindE m f)"
  unfolding all_ok_def
proof (intro allI impI)
  fix h y h'
  assume "bindE m f h = (Inr y, h')"
  then obtain x h1 where m: "m h = (Inr x, h1)" and f: "f x h1 = (Inr y, h')" by (auto simp: bindE_Inr)
  from assms(1) m obtain new where n: "h1 = h @ new" "\<And>p a q. new = p @ a # q \<Longrightarrow> attempted a \<Longrightarrow> sysDo E (h @ p @ [a]) = Inr ()"
    unfolding all_ok_def by blast
  from assms(2) f obtain new' where n': "h' = h1 @ new'"
    "\<And>p a q. new' = p @ a # q \<Longrightarrow> attempted a \<Longrightarrow> sysDo E (h1 @ p @ [a]) = Inr ()"
    unfolding all_ok_def by blast
  have "sysDo E (h @ p @ [a]) = Inr ()" if e: "new @ new' = p @ a # q" and "attempted a" for p a q
  proof -
    from e consider us where "new = p @ us" "us \<noteq> []" "us @ new' = a # q" | us where "new @ us = p" "new' = us @ a # q"
      by (auto simp: append_eq_append_conv2) (metis append_Nil2 append_self_conv2)
    then show ?thesis
    proof cases
      case 1
      then obtain us' where "us = a # us'" by (cases us) auto
      with 1 n(2) \<open>attempted a\<close> show ?thesis by blast
    next
      case 2
      with n'(2) n(1) \<open>attempted a\<close> show ?thesis by fastforce
    qed
  qed
  with n(1) n'(1) show "\<exists>new. h' = h @ new \<and> (\<forall>p a q. new = p @ a # q \<longrightarrow> attempted a \<longrightarrow> sysDo E (h @ p @ [a]) = Inr ())"
    by (intro exI [of _ "new @ new'"]) auto
qed

lemma ok_forE [ok_intros]: "(\<And>x. all_ok E (f x)) \<Longrightarrow> all_ok E (forE f xs)"
  by (induction xs) (auto intro: ok_intros)

lemma ok_if [ok_intros]: "all_ok E m \<Longrightarrow> all_ok E n \<Longrightarrow> all_ok E (if b then m else n)"
  by simp

lemma ok_case_sum [ok_intros]:
  "(\<And>e. all_ok E (g e)) \<Longrightarrow> (\<And>y. all_ok E (f y)) \<Longrightarrow> all_ok E (case x of Inl e \<Rightarrow> g e | Inr y \<Rightarrow> f y)"
  by (cases x) simp_all

lemma ok_adds: "adds (\<lambda>h. h) (\<lambda>a. \<not> attempted a) m \<Longrightarrow> all_ok E m"
  unfolding adds_def all_ok_def by (metis in_set_conv_decomp snd_conv)

lemma adds_sys [adds_intros]: "P a \<Longrightarrow> adds (\<lambda>h. h) P (sys f a)"
  unfolding sys_def by (rule startup_log.adds_perform)

lemma adds_attempt [adds_intros]: "P a \<Longrightarrow> adds (\<lambda>h. h) P (attempt E err a)"
  unfolding attempt_def by (rule adds_sys)

lemmas startup_parts = newScheme_def addPackage_def AddToSchemeTinkerbell_def AddToSchemeBMC_def setupReconcilers_def
  buildTinkerbellClient_def NewDirectClient_def ClusterSetupWithManager_def setupWebhooks_def addHealthChecks_def
  initKlogFlags_def featureGatesFlag_Set_def parse_flags_def

section \<open>Up to the start of the manager\<close>

definition klog_actions :: "startup_action list" where
  "klog_actions = [InitKlogFlags, SetKlogFlag ''legacy_stderr_threshold_behavior'' ''false'', SetKlogFlag ''stderrthreshold'' ''INFO'']"

text \<open>What is done up to the parsing of the flags.\<close>

definition flag_actions :: "startup_action list" where
  "flag_actions = [SetCtrlLogger, SetKlogLogger] @ klog_actions @ [ParseFlags]"

definition until_start :: "startup_env \<Rightarrow> string \<Rightarrow> machine_reconciler startup_io" where
  "until_start E ctx =
     bindE (sys (\<lambda>h. Inr ()) SetCtrlLogger) (\<lambda>_.
     bindE (sys (\<lambda>h. Inr ()) SetKlogLogger) (\<lambda>_.
     bindE (initKlogFlags E) (\<lambda>_.
     bindE (parse_flags E) (\<lambda>given.
     bindE (newScheme E) (\<lambda>rs.
     bindE (attempt E ConfigError GetConfig) (\<lambda>_.
     bindE (attempt E ManagerError (NewManager (manager_opts rs (parsed_config given)))) (\<lambda>_.
     bindE (sys (\<lambda>h. Inr ()) (InitEventRecorder ''tinkerbell-controller'')) (\<lambda>_.
     bindE (sys (\<lambda>h. Inr ()) SetupSignalHandler) (\<lambda>_.
     bindE (setupReconcilers E ctx (parsed_config given)) (\<lambda>rec.
     bindE (setupWebhooks E) (\<lambda>_.
     bindE (addHealthChecks E) (\<lambda>_.
     returnE rec))))))))))))"

lemma main_split:
  "main E ctx = bindE (until_start E ctx) (\<lambda>rec. bindE (attempt E RunError StartManager) (\<lambda>_. returnE rec))"
  by (simp add: main_def run_config_def until_start_def bindE_assoc)

lemma ok_RestConfig: "all_ok E (tryE (RestConfig E p))"
  unfolding RestConfig_def by (rule ok_adds) (intro adds_intros; simp)

lemma ok_until_start: "all_ok E (until_start E ctx)"
  unfolding until_start_def startup_parts
  by (intro ok_intros ok_RestConfig ok_try_sys ok_sys) simp_all

lemma adds_until_start: "adds (\<lambda>h. h) (\<lambda>a. a \<noteq> StartManager) (until_start E ctx)"
  unfolding until_start_def startup_parts RestConfig_def by (intro adds_intros) simp_all

lemma initKlogFlags_Inr: "initKlogFlags E h = (Inr u, h') \<Longrightarrow> h' = h @ klog_actions"
  by (auto simp: initKlogFlags_def klog_actions_def run_simps)

lemma featureGates_Inr: "forE (featureGatesFlag_Set E) vs h = (Inr u, h') \<Longrightarrow> h' = h @ map SetFeatureGates vs"
  by (induction vs arbitrary: h) (fastforce simp: featureGatesFlag_Set_def bindE_Inr run_sys run_returnE)+

lemma newScheme_Inr:
  "newScheme E h = (Inr rs, h') \<Longrightarrow>
   h' = h @ map AddToScheme [ClientGoScheme, CoreCapiScheme, CapiIpamScheme, TinkerbellV2Scheme, BmcV2Scheme]"
  by (auto simp: newScheme_def addPackage_def AddToSchemeTinkerbell_def AddToSchemeBMC_def run_simps split: sum.splits)

lemma setupWebhooks_Inr: "setupWebhooks E h = (Inr u, h') \<Longrightarrow> h' = h @ map CompleteWebhook webhooks"
  by (auto simp: setupWebhooks_def webhooks_def run_simps split: sum.splits)

lemma addHealthChecks_Inr: "addHealthChecks E h = (Inr u, h') \<Longrightarrow> h' = h @ [AddReadyzCheck ''webhook'', AddHealthzCheck ''webhook'']"
  by (auto simp: addHealthChecks_def run_simps split: sum.splits)

text \<open>What the configured kubeconfig holds: nothing, when there is none, or the REST configuration it parses to.\<close>

definition kubeconfig_gives :: "startup_env \<Rightarrow> string \<Rightarrow> startup_action list \<Rightarrow> startup_action list \<Rightarrow> string option \<Rightarrow> bool" where
  "kubeconfig_gives E p h kube cfg \<longleftrightarrow>
     (let r = [ReadFile (path_clean p)] in
      p = '''' \<and> kube = [] \<and> cfg = None
      \<or> p \<noteq> '''' \<and> kube = r \<and> cfg = None \<and> sysReadFile E (h @ r) \<in> {Inl FileNotExist, Inr ''''}
      \<or> (\<exists>d c. p \<noteq> '''' \<and> d \<noteq> '''' \<and> sysReadFile E (h @ r) = Inr d \<and> sysParseKubeconfig E (h @ r @ [ParseKubeconfig d]) = Inr c \<and>
           kube = r @ [ParseKubeconfig d, NewClient c] \<and> cfg = Some c))"

lemma run_RestConfig:
  "RestConfig E p h =
     (let r = ReadFile (path_clean p) in
      if p = '''' then (Inl NoConfigError, h)
      else (case sysReadFile E (h @ [r]) of
          Inl FileNotExist \<Rightarrow> (Inl NoConfigError, h @ [r])
        | Inl (FileError e) \<Rightarrow> (Inl (ReadKubeconfigError e), h @ [r])
        | Inr d \<Rightarrow>
            if d = '''' then (Inl NoConfigError, h @ [r])
            else (map_sum ParseKubeconfigError id (sysParseKubeconfig E (h @ [r, ParseKubeconfig d])), h @ [r, ParseKubeconfig d])))"
  by (simp add: RestConfig_def run_bindE run_throwE run_sys Let_def split: sum.split file_error.split)

lemma RestConfig_cases:
  assumes "RestConfig E p h = (r, h')"
  shows "(r = Inl NoConfigError \<and> (\<exists>kube. kubeconfig_gives E p h kube None \<and> h' = h @ kube)) \<or>
   (\<exists>c kube. r = Inr c \<and> h' = h @ kube \<and> kubeconfig_gives E p h (kube @ [NewClient c]) (Some c)) \<or>
   (\<exists>e. r = Inl e \<and> e \<noteq> NoConfigError)"
proof (cases "p = ''''")
  case True
  with assms show ?thesis by (simp add: run_RestConfig kubeconfig_gives_def)
next
  case False
  let ?r = "ReadFile (path_clean p)"
  note run = assms [unfolded run_RestConfig Let_def if_not_P [OF False]]
  show ?thesis
  proof (cases "sysReadFile E (h @ [?r])")
    case (Inl e)
    with run False show ?thesis by (cases e) (auto simp: kubeconfig_gives_def Let_def)
  next
    case (Inr d)
    show ?thesis
    proof (cases "d = ''''")
      case True
      with run Inr False show ?thesis by (auto simp: kubeconfig_gives_def Let_def)
    next
      case ne: False
      with run Inr False have h: "h' = h @ [?r, ParseKubeconfig d]"
        and r: "r = map_sum ParseKubeconfigError id (sysParseKubeconfig E (h @ [?r, ParseKubeconfig d]))" by auto
      show ?thesis
      proof (cases "sysParseKubeconfig E (h @ [?r, ParseKubeconfig d])")
        case (Inr c)
        with \<open>sysReadFile E (h @ [?r]) = Inr d\<close> ne False
        have "kubeconfig_gives E p h ([?r, ParseKubeconfig d] @ [NewClient c]) (Some c)"
          by (simp add: kubeconfig_gives_def)
        moreover have "r = Inr c" using r Inr by simp
        ultimately show ?thesis using h by blast
      qed (use r in simp)
    qed
  qed
qed

definition client_result :: "string \<Rightarrow> string option \<Rightarrow> tinkerbellClientResult" where
  "client_result ctx cfg = (case cfg of
        None \<Rightarrow> \<lparr>resClient = ManagerClient, resExternal = False, resWatchManager = None\<rparr>
      | Some rc \<Rightarrow> \<lparr>resClient = DirectClient rc, resExternal = True,
          resWatchManager = Some (SetContext ctx (NewNamespaceWatchManager LabelMachineName LabelMachineNamespace))\<rparr>)" 

lemma client_result_sel [simp]:
  "resExternal (client_result ctx cfg) \<longleftrightarrow> cfg \<noteq> None"
  "resWatchManager (client_result ctx cfg) =
     map_option (\<lambda>_. SetContext ctx (NewNamespaceWatchManager LabelMachineName LabelMachineNamespace)) cfg"
  by (cases cfg; simp add: client_result_def)+

lemma buildTinkerbellClient_Inr:
  assumes "buildTinkerbellClient E ctx c h = (Inr res, h')"
  shows "\<exists>kube cfg. h' = h @ kube \<and> kubeconfig_gives E (ExternalKubeconfig c) h kube cfg \<and>
    res = client_result ctx cfg"
proof -
  obtain r h1 where r: "RestConfig E (ExternalKubeconfig c) h = (r, h1)" by fastforce
  note cases = RestConfig_cases [OF r]
  show ?thesis
  proof (cases r)
    case (Inl e)
    with assms r have "e = NoConfigError" "h' = h1" "res = \<lparr>resClient = ManagerClient, resExternal = False, resWatchManager = None\<rparr>"
      by (auto simp: buildTinkerbellClient_def run_simps split: if_splits)
    moreover from this(1) Inl cases obtain kube where "kubeconfig_gives E (ExternalKubeconfig c) h kube None" "h1 = h @ kube" by auto
    ultimately show ?thesis by (intro exI [of _ kube] exI [of _ None]) (simp add: client_result_def)
  next
    case (Inr rc)
    with cases obtain kube where k: "h1 = h @ kube" "kubeconfig_gives E (ExternalKubeconfig c) h (kube @ [NewClient rc]) (Some rc)"
      by auto
    with assms r Inr have "h' = h @ kube @ [NewClient rc]" "res = \<lparr>resClient = DirectClient rc, resExternal = True,
          resWatchManager = Some (SetContext ctx (NewNamespaceWatchManager LabelMachineName LabelMachineNamespace))\<rparr>"
      by (auto simp: buildTinkerbellClient_def NewDirectClient_def run_simps split: sum.splits)
    with k show ?thesis by (intro exI [of _ "kube @ [NewClient rc]"] exI [of _ "Some rc"]) (simp add: client_result_def)
  qed
qed

section \<open>Properties\<close>

definition controller_actions :: "config \<Rightarrow> machine_reconciler \<Rightarrow> startup_action list" where
  "controller_actions c rec =
     [SetupClusterController [HasFilterLabel (WatchFilterValue c), NotExternallyManaged] [(KCluster, MapClusterInfrastructure)]
        (TinkerbellClusterConcurrency c),
      SetupMachineController rec [HasFilterLabel (WatchFilterValue c)] (TinkerbellMachineConcurrency c)]"

definition manager_actions :: "gvk list \<Rightarrow> config \<Rightarrow> startup_action list" where
  "manager_actions rs cfg =
     [GetConfig, NewManager (manager_opts rs cfg), InitEventRecorder ''tinkerbell-controller'', SetupSignalHandler]"

text \<open>What startup does before it starts the manager, in order; \<open>kube\<close> is what it does with the kubeconfig.\<close>

definition startup_trace :: "gvk list \<Rightarrow> (string \<times> flag_value) list \<Rightarrow> startup_action list \<Rightarrow> machine_reconciler \<Rightarrow> startup_action list" where
  "startup_trace rs given kube rec =
     flag_actions @ map SetFeatureGates (given_gates given) @
     map AddToScheme [ClientGoScheme, CoreCapiScheme, CapiIpamScheme, TinkerbellV2Scheme, BmcV2Scheme] @
     manager_actions rs (parsed_config given) @
     kube @
     controller_actions (parsed_config given) rec @
     map CompleteWebhook webhooks @
     [AddReadyzCheck ''webhook'', AddHealthzCheck ''webhook'']"

lemma setupReconcilers_Inr:
  assumes "setupReconcilers E ctx c h = (Inr rec, h')"
  shows "\<exists>kube cfg. kubeconfig_gives E (ExternalKubeconfig c) h kube cfg \<and>
    h' = h @ kube @ controller_actions c (newMachineReconciler (client_result ctx cfg)) \<and>
    SetupWithManager (sysMapper E h') (sysBuild E h') (newMachineReconciler (client_result ctx cfg)) = Inr rec"
proof -
  from assms obtain res h1 where b: "buildTinkerbellClient E ctx c h = (Inr res, h1)"
    and h': "h' = h1 @ controller_actions c (newMachineReconciler res)"
    and r: "SetupWithManager (sysMapper E h') (sysBuild E h') (newMachineReconciler res) = Inr rec"
    by (auto simp: setupReconcilers_def ClusterSetupWithManager_def bindE_Inr run_attempt run_sys controller_actions_def)
  from buildTinkerbellClient_Inr [OF b] obtain kube cfg where "h1 = h @ kube" "kubeconfig_gives E (ExternalKubeconfig c) h kube cfg"
    "res = client_result ctx cfg" by blast
  with h' r show ?thesis by (intro exI [of _ kube] exI [of _ cfg]) simp
qed

lemma until_start_Inr:
  assumes "until_start E ctx h = (Inr rec, h')"
  shows "\<exists>given rs kube cfg rec0 h0. sysFlags E (h @ flag_actions) = Inr given \<and>
    kubeconfig_gives E (ExternalKubeconfig (parsed_config given)) h0 kube cfg \<and>
    h' = h @ startup_trace rs given kube rec0 \<and>
    ExternalTinkerbell rec0 = (cfg \<noteq> None)"
proof -
  from assms obtain given rs hk hp h1 h2 h3 where l: "initKlogFlags E (h @ [SetCtrlLogger, SetKlogLogger]) = (Inr (), hk)"
    and p: "parse_flags E hk = (Inr given, hp)"
    and s: "newScheme E hp = (Inr rs, h1)"
    and r: "setupReconcilers E ctx (parsed_config given) (h1 @ manager_actions rs (parsed_config given)) = (Inr rec, h2)"
    and w: "setupWebhooks E h2 = (Inr (), h3)" and k: "addHealthChecks E h3 = (Inr (), h')"
    unfolding until_start_def bindE_Inr run_sys run_attempt by (auto simp: run_returnE manager_actions_def)
  have hk: "hk @ [ParseFlags] = h @ flag_actions" using initKlogFlags_Inr [OF l] by (simp add: flag_actions_def)
  from p hk have f: "sysFlags E (h @ flag_actions) = Inr given"
    and g: "forE (featureGatesFlag_Set E) (given_gates given) (h @ flag_actions) = (Inr (), hp)"
    by (auto simp: parse_flags_def bindE_Inr run_sys run_returnE)
  from setupReconcilers_Inr [OF r] obtain kube cfg where
    c: "kubeconfig_gives E (ExternalKubeconfig (parsed_config given)) (h1 @ manager_actions rs (parsed_config given)) kube cfg"
    and h2: "h2 = (h1 @ manager_actions rs (parsed_config given)) @ kube @
      controller_actions (parsed_config given) (newMachineReconciler (client_result ctx cfg))" by blast
  have "h' = h @ startup_trace rs given kube (newMachineReconciler (client_result ctx cfg))"
    unfolding addHealthChecks_Inr [OF k] setupWebhooks_Inr [OF w] h2 newScheme_Inr [OF s] featureGates_Inr [OF g] startup_trace_def
    by simp
  moreover have "ExternalTinkerbell (newMachineReconciler (client_result ctx cfg)) = (cfg \<noteq> None)"
    by (simp add: newMachineReconciler_def)
  ultimately show ?thesis using f c by blast
qed


text \<open>A cluster where every step succeeds; \<open>kubeconfig\<close> says what is at the configured place.\<close>

definition example_startup :: "file_error + string \<Rightarrow> startup_env" where
  "example_startup kubeconfig =
     \<lparr>sysKlogFlag = (\<lambda>h. Inl ''no such flag''), sysFlags = (\<lambda>h. Inr []), sysFeatureGates = (\<lambda>h. Inr ()), sysAddToScheme = (\<lambda>h. Inr []), sysDo = (\<lambda>h. Inr ()), sysReadFile = (\<lambda>h. kubeconfig),
      sysParseKubeconfig = (\<lambda>h. Inr ''rest''), sysMapper = (\<lambda>h. Inr ()), sysBuild = (\<lambda>h ws. Inr ''ctrl''), metaTypes = (\<lambda>g v. [])\<rparr>"

lemma example_startup_sel [simp]:
  "sysKlogFlag (example_startup k) h = Inl ''no such flag''" "sysFlags (example_startup k) h = Inr []"
  "sysFeatureGates (example_startup k) h = Inr ()" "sysAddToScheme (example_startup k) h = Inr []"
  "sysDo (example_startup k) h = Inr ()" "sysReadFile (example_startup k) h = k"
  "sysParseKubeconfig (example_startup k) h = Inr ''rest''" "sysMapper (example_startup k) h = Inr ()"
  "sysBuild (example_startup k) h ws = Inr ''ctrl''" "metaTypes (example_startup k) g v = []"
  by (simp_all add: example_startup_def)

lemma default_kubeconfig [simp]: "ExternalKubeconfig default_config \<noteq> ''''" "ExternalKubeconfig (parsed_config []) \<noteq> ''''"
  by (simp_all add: parsed_config_def default_config_def initFlags_def StringVar_def IntVar_def BoolVar_def DurationVar_def)

lemma example_runs:
  "\<exists>h'. main (example_startup (Inl FileNotExist)) ctx [] =
     (Inr (newMachineReconciler (client_result ctx None)), h') \<and> StartManager \<in> set h'"
  by (simp add: main_def run_config_def startup_parts given_gates_def run_RestConfig run_simps Let_def webhooks_def client_result_def
      newMachineReconciler_def SetupWithManager_def)


lemma watch_step_controller:
  "watch_step w e w' \<Longrightarrow> wmController (manager w') = wmController (manager w) \<and> wmContext (manager w') = wmContext (manager w)"
  by (cases rule: watch_step.cases, assumption)
    (simp_all add: ew_fail_def ew_success_def cache_stopped_def StopWatch_def StopAll_def)

text \<open>
  C23: The mode follows the kubeconfig, and what it sets up is complete. Startup uses the local cluster only when no
  kubeconfig is configured, its file does not exist or is empty; a file that cannot be read or parsed
  is an error and never a silent fall-back. The reconciler it hands over passes validation, has a watch manager
  exactly in external mode, and the manager maps by the two labels the controller writes and, whatever
  callers do with it afterwards, never refuses a namespace for want of a controller or a context.
\<close>

theorem mode_follows_kubeconfig:
  assumes "setupReconcilers E ctx c h = (Inr rec, h')"
  shows "validate (Some rec) = Inr rec \<and>
    (\<exists>kube cfg. kubeconfig_gives E (ExternalKubeconfig c) h kube cfg \<and> (ExternalTinkerbell rec \<longleftrightarrow> cfg \<noteq> None)) \<and>
    (case WatchManager rec of
       None \<Rightarrow> \<not> ExternalTinkerbell rec
     | Some wm \<Rightarrow> ExternalTinkerbell rec \<and> labelMapper (wmLabelName wm) (wmLabelNamespace wm) = labelToMachineMapper \<and>
         (\<forall>es w ns. runs watch_step (idle wm) es w \<longrightarrow>
            ew_recheck ns (manager w) \<notin> {Some (Inl WatchControllerNotSet), Some (Inl WatchContextNotSet)}))"
proof -
  from setupReconcilers_Inr [OF assms] obtain kube cfg where g: "kubeconfig_gives E (ExternalKubeconfig c) h kube cfg"
    and s: "SetupWithManager (sysMapper E h') (sysBuild E h') (newMachineReconciler (client_result ctx cfg)) = Inr rec" by blast
  from setup_external [OF s] obtain ctrl where
    w: "WatchManager rec = map_option (SetController ctrl) (WatchManager (newMachineReconciler (client_result ctx cfg)))" by blast
  from s have r: "validate (Some rec) = Inr rec" "ExternalTinkerbell rec \<longleftrightarrow> cfg \<noteq> None"
    by (auto simp: SetupWithManager_def newMachineReconciler_def validate_def split: sum.splits)
  have keep: "wmController (manager w) \<noteq> None \<and> wmContext (manager w) \<noteq> None"
    if "runs watch_step (idle wm) es w" and "wmController wm \<noteq> None \<and> wmContext wm \<noteq> None" for wm es w
    by (rule runs_always [where step = watch_step and I = "\<lambda>w. wmController (manager w) \<noteq> None \<and> wmContext (manager w) \<noteq> None", OF that(1)])
      (use that(2) watch_step_controller in \<open>auto simp: idle_def\<close>)
  show ?thesis
  proof (cases cfg)
    case None
    with r g w show ?thesis by (auto simp: newMachineReconciler_def)
  next
    case (Some rc)
    let ?wm = "SetController ctrl (SetContext ctx (NewNamespaceWatchManager LabelMachineName LabelMachineNamespace))"
    have wm: "WatchManager rec = Some ?wm" using w Some by (simp add: newMachineReconciler_def)
    have sel: "wmController ?wm \<noteq> None" "wmContext ?wm \<noteq> None" "wmLabelName ?wm = LabelMachineName" "wmLabelNamespace ?wm = LabelMachineNamespace"
      by (simp_all add: SetController_def SetContext_def NewNamespaceWatchManager_def)
    have "labelMapper LabelMachineName LabelMachineNamespace = labelToMachineMapper"
      by (rule ext) (simp add: labelMapper_def labelToMachineMapper_def)
    moreover have "ew_recheck ns (manager w) \<notin> {Some (Inl WatchControllerNotSet), Some (Inl WatchContextNotSet)}"
      if "runs watch_step (idle ?wm) es w" for es w ns
      using keep [OF that] sel by (auto simp: ew_recheck_def)
    ultimately show ?thesis using r g Some wm sel(3,4) by auto
  qed
qed

theorem mode_follows_kubeconfig_witness:
  "\<exists>rec h'. setupReconcilers (example_startup (Inr ''kubeconfig'')) ''ctx'' default_config [] = (Inr rec, h') \<and>
     WatchManager rec \<noteq> None \<and> validate (Some rec) = Inr rec"
proof -
  have "\<exists>rec h'. setupReconcilers (example_startup (Inr ''kubeconfig'')) ''ctx'' default_config [] = (Inr rec, h') \<and> WatchManager rec \<noteq> None"
    by (simp add: startup_parts run_RestConfig run_simps Let_def newMachineReconciler_def SetupWithManager_def)
  then show ?thesis using mode_follows_kubeconfig by blast
qed

text \<open>The flags whose settings nothing reads, and a configuration without them.\<close>

definition unused_flags :: "string set" where
  "unused_flags = {''webhook-cert-dir'', ''webhook-port'', ''sync-period'', ''tinkerbell-hardware-concurrency'',
     ''tinkerbell-template-concurrency'', ''tinkerbell-workflow-concurrency''}"

definition without_unused :: "config \<Rightarrow> config" where
  "without_unused c = c\<lparr>WebhookCertDir := '''', TinkerbellHardwareConcurrency := 0, TinkerbellTemplateConcurrency := 0,
     TinkerbellWorkflowConcurrency := 0, WebhookPort := 0, SyncPeriod := 0\<rparr>"

lemma without_unused_idem [simp]: "without_unused (without_unused c) = without_unused c"
  by (simp add: without_unused_def)

lemma run_config_without_unused: "run_config E ctx (without_unused c) = run_config E ctx c"
  by (simp add: run_config_def setupReconcilers_def buildTinkerbellClient_def ClusterSetupWithManager_def manager_opts_def
      without_unused_def)

lemmas flag_kinds = StringVar_def BoolVar_def IntVar_def DurationVar_def

lemma flagSet_unused:
  "f \<in> set initFlags \<Longrightarrow> flagName f \<in> unused_flags \<Longrightarrow> without_unused (flagSet f v c) = without_unused c"
  by (cases v) (auto simp: initFlags_def flag_kinds unused_flags_def without_unused_def)

lemma flagSet_used:
  "f \<in> set initFlags \<Longrightarrow> without_unused (flagSet f v (without_unused c)) = without_unused (flagSet f v c)"
  by (cases v) (auto simp: initFlags_def flag_kinds without_unused_def)

lemma found_flag: "find (\<lambda>f. flagName f = n) fs = Some f \<Longrightarrow> f \<in> set fs \<and> flagName f = n"
  by (auto simp: find_Some_iff)

lemma set_flag_unused: "fst nv \<in> unused_flags \<Longrightarrow> without_unused (set_flag nv c) = without_unused c"
  by (cases nv) (auto simp: set_flag_def intro: flagSet_unused dest: found_flag split: option.split)

lemma set_flag_used: "without_unused (set_flag nv (without_unused c)) = without_unused (set_flag nv c)"
proof (cases "find (\<lambda>f. flagName f = fst nv) initFlags")
  case (Some f)
  with flagSet_used [of f] found_flag [OF Some] show ?thesis by (cases nv) (simp add: set_flag_def)
qed (cases nv, simp add: set_flag_def)

text \<open>
  C29: Six flags have no effect. Whatever the command line gives for the certificate directory and the port of the webhook
  server, the sync period and the concurrency of Hardware, Templates and Workflows, startup does the
  same and sets up the same as without them: they are documented, defaulted and parsed, and nothing reads them.
\<close>

theorem unused_settings:
  "run_config E ctx (parsed_config given) = run_config E ctx (parsed_config (filter (\<lambda>nv. fst nv \<notin> unused_flags) given))"
proof -
  have "without_unused (fold set_flag given c) = without_unused (fold set_flag (filter (\<lambda>nv. fst nv \<notin> unused_flags) given) c')"
    if "without_unused c = without_unused c'" for c c'
    using that
  proof (induction given arbitrary: c c')
    case (Cons nv given)
    show ?case
    proof (cases "fst nv \<in> unused_flags")
      case True
      with Cons.prems have "without_unused (set_flag nv c) = without_unused c'" by (simp add: set_flag_unused)
      with True Cons.IH show ?thesis by simp
    next
      case False
      have "without_unused (set_flag nv c) = without_unused (set_flag nv c')"
        using set_flag_used [of nv c] set_flag_used [of nv c'] Cons.prems by simp
      with False Cons.IH show ?thesis by simp
    qed
  qed simp
  then have "without_unused (parsed_config given) = without_unused (parsed_config (filter (\<lambda>nv. fst nv \<notin> unused_flags) given))"
    by (simp add: parsed_config_def)
  then show ?thesis by (metis run_config_without_unused)
qed

text \<open>What a kind is called in the scheme.\<close>

fun kind_name :: "webhook_kind \<Rightarrow> string" where
  "kind_name WTinkerbellCluster = ''TinkerbellCluster''"
| "kind_name WTinkerbellClusterTemplate = ''TinkerbellClusterTemplate''"
| "kind_name WTinkerbellMachine = ''TinkerbellMachine''"
| "kind_name WTinkerbellMachineTemplate = ''TinkerbellMachineTemplate''"

text \<open>The other packages register their own groups, and what is added to every version is no kind of this program.\<close>

definition foreign_groups :: "startup_env \<Rightarrow> bool" where
  "foreign_groups E \<longleftrightarrow>
     (\<forall>h ks. sysAddToScheme E h = Inr ks \<longrightarrow> infrastructureGroup \<notin> fst ` set ks) \<and>
     (\<forall>g v w. kind_name w \<notin> (snd \<circ> snd) ` set (metaTypes E g v))"

lemma newScheme_kinds:
  assumes "newScheme E h = (Inr rs, h')"
  shows "\<exists>a b c d e. rs = AddToScheme_v1beta2 E (AddToScheme_v1beta1 E a) @ b @ c @ tinkerbellV1Alpha1 E d @ e \<and>
     (\<forall>ks\<in>{a, b, c, d, e}. \<exists>h. sysAddToScheme E h = Inr ks)"
proof -
  have l: "tinkerbellV1Alpha1 E (xs @ ys) = xs @ tinkerbellV1Alpha1 E ys" for xs ys
    by (simp add: tinkerbellV1Alpha1_def addKnownTypes_def)
  obtain r1 r2 r3 r4 r5 where r: "sysAddToScheme E (h @ map AddToScheme [ClientGoScheme]) = r1"
    "sysAddToScheme E (h @ map AddToScheme [ClientGoScheme, CoreCapiScheme]) = r2"
    "sysAddToScheme E (h @ map AddToScheme [ClientGoScheme, CoreCapiScheme, CapiIpamScheme]) = r3"
    "sysAddToScheme E (h @ map AddToScheme [ClientGoScheme, CoreCapiScheme, CapiIpamScheme, TinkerbellV2Scheme]) = r4"
    "sysAddToScheme E (h @ map AddToScheme [ClientGoScheme, CoreCapiScheme, CapiIpamScheme, TinkerbellV2Scheme, BmcV2Scheme]) = r5"
    by blast
  note run = assms [unfolded newScheme_def addPackage_def AddToSchemeTinkerbell_def AddToSchemeBMC_def]
  from run r obtain a b c d e where "r1 = Inr a" "r2 = Inr b" "r3 = Inr c" "r4 = Inr d" "r5 = Inr e"
    and "rs = AddToScheme_v1beta2 E (AddToScheme_v1beta1 E a) @ b @ c @ tinkerbellV1Alpha1 E d @ e"
    by (cases r1; cases r2; cases r3; cases r4; cases r5) (auto simp: run_simps l)
  with r show ?thesis by (intro exI [of _ a] exI [of _ b] exI [of _ c] exI [of _ d] exI [of _ e]) auto
qed

text \<open>
  Every version that is served can be admitted and converted. The scheme startup builds knows each kind that has a
  webhook in its current version; the webhook validates with the kind's own validator; and it has the
  kind's own converter exactly if the scheme knows the kind in the older version too.
\<close>

theorem webhooks_match_scheme:
  assumes "foreign_groups E" and "newScheme E h = (Inr rs, h')" and "w \<in> set webhooks"
  shows "(infrastructureGroup, ''v1beta2'', kind_name (whObject w)) \<in> set rs \<and> whValidator w = whObject w \<and>
    whConverter w = (if (infrastructureGroup, ''v1beta1'', kind_name (whObject w)) \<in> set rs then Some (whObject w) else None)"
proof -
  from newScheme_kinds [OF assms(2)] obtain a b c d e where
    rs: "rs = AddToScheme_v1beta2 E (AddToScheme_v1beta1 E a) @ b @ c @ tinkerbellV1Alpha1 E d @ e"
    and k: "\<And>ks. ks \<in> {a, b, c, d, e} \<Longrightarrow> \<exists>h. sysAddToScheme E h = Inr ks" by blast
  have f: "(infrastructureGroup, v, n) \<notin> set ks" if "ks \<in> {a, b, c, d, e}" for ks v n
    using assms(1) k [OF that] unfolding foreign_groups_def by force
  have m: "(g, v, kind_name x) \<notin> set (metaTypes E g' v')" for g v x g' v'
    using assms(1) unfolding foreign_groups_def by force
  have "infrastructureGroup \<noteq> ''tinkerbell.org''" by (simp add: infrastructureGroup_def)
  with f [of a] f [of b] f [of c] f [of d] f [of e]
  have mem: "(infrastructureGroup, v, n) \<in> set rs \<longleftrightarrow>
      (v = ''v1beta2'' \<and> n \<in> {''TinkerbellCluster'', ''TinkerbellClusterList'', ''TinkerbellClusterTemplate'', ''TinkerbellClusterTemplateList'',
        ''TinkerbellMachine'', ''TinkerbellMachineList'', ''TinkerbellMachineTemplate'', ''TinkerbellMachineTemplateList''}) \<or>
      (v = ''v1beta1'' \<and> n \<in> {''TinkerbellCluster'', ''TinkerbellClusterList'', ''TinkerbellMachine'', ''TinkerbellMachineList'',
        ''TinkerbellMachineTemplate'', ''TinkerbellMachineTemplateList''})" if "n = kind_name x" for v n x
    using m [of infrastructureGroup v x] that
    unfolding rs by (auto simp: AddToScheme_v1beta1_def AddToScheme_v1beta2_def tinkerbellV1Alpha1_def addKnownTypes_def)
  show ?thesis
    using assms(3) by (auto simp: webhooks_def mem)
qed

theorem webhooks_match_scheme_witness:
  "\<exists>rs h'. newScheme (example_startup (Inl FileNotExist)) [] = (Inr rs, h') \<and>
     (infrastructureGroup, ''v1beta1'', ''TinkerbellMachine'') \<in> set rs"
proof -
  let ?E = "example_startup (Inl FileNotExist)"
  let ?w = "\<lparr>whObject = WTinkerbellMachine, whValidator = WTinkerbellMachine, whConverter = Some WTinkerbellMachine\<rparr>"
  have "foreign_groups ?E" by (simp add: foreign_groups_def)
  moreover have "\<exists>rs h'. newScheme ?E [] = (Inr rs, h')"
    by (simp add: newScheme_def addPackage_def AddToSchemeTinkerbell_def AddToSchemeBMC_def run_simps)
  moreover have "?w \<in> set webhooks" by (simp add: webhooks_def)
  ultimately show ?thesis using webhooks_match_scheme [of ?E "[]" _ _ ?w] by (auto split: if_splits)
qed

end
