(* ===== verification/Panics.thy ===== *)
theory Panics
  imports MachineController ClusterController
begin

text \<open>
  Freedom from panics. The models return a panic as an error value: \<open>ErrNilDereference\<close> where the code
  dereferences a pointer that may be nil, and the errors the machine reconciler panics with when it is not
  set up. This theory shows that no reconcile of a reconciler that is set up ever returns one, whatever the
  servers answer.
\<close>

section \<open>Computations that do not panic\<close>

definition is_panic :: "goerr \<Rightarrow> bool" where
  "is_panic e \<longleftrightarrow> e \<in> {ErrNilDereference, ErrConfigurationNil, ErrMissingClient, ErrMissingTinkerbellClient, ErrMissingScheme}"

lemma is_panic_simps [simp]:
  "is_panic ErrNilDereference" "\<not> is_panic (Api a)" "\<not> is_panic ErrNoHardwareAvailable" "\<not> is_panic ErrHardwareIsNil"
  "\<not> is_panic ErrHardwareMissingInterfaces" "\<not> is_panic ErrHardwareFirstInterfaceNotDHCP"
  "\<not> is_panic ErrHardwareFirstInterfaceDHCPMissingIP" "\<not> is_panic ErrHardwareMissingDiskConfiguration"
  "\<not> is_panic (ErrHardwareClaimRequeue c)" "\<not> is_panic ErrWaitingForIPAddress" "\<not> is_panic ErrHardwareInterfaceMissingMAC"
  "\<not> is_panic ErrIPAddressMissingPrefix" "\<not> is_panic ErrHardwareInterfaceNotFound" "\<not> is_panic ErrIPAddressClaimConflict"
  "\<not> is_panic (ErrParseAddr p)" "\<not> is_panic (ErrPrefixLength l f)" "\<not> is_panic ErrMachineVersionEmpty"
  "\<not> is_panic ErrMissingBootstrapDataSecretValueKey" "\<not> is_panic ErrBootstrapUserDataEmpty" "\<not> is_panic ErrTemplateRefNoData"
  "\<not> is_panic ErrTemplatesNotServed" "\<not> is_panic ErrNoTemplateFound" "\<not> is_panic ErrWorkflowFailed"
  "\<not> is_panic ErrWorkflowTimeout" "\<not> is_panic ErrISOBootURLRequired" "\<not> is_panic (ErrURLParse p)"
  "\<not> is_panic ErrRequeueRequested" "\<not> is_panic (ErrBMCJobCreated n)" "\<not> is_panic (ErrBMCJobFailed n)"
  "\<not> is_panic (ErrBMCJobNotCompleted n)" "\<not> is_panic (ErrWatch w)" "\<not> is_panic (ErrConversion p)" "\<not> is_panic (ErrSelector p)"
  "\<not> is_panic (ErrOwnership p)" "\<not> is_panic (ErrPatchHelper p)" "\<not> is_panic ErrClusterNotReady"
  "\<not> is_panic ErrControlPlaneEndpointNotSet"
  by (simp_all add: is_panic_def)

text \<open>From states with the invariant \<open>I\<close>, which it keeps.\<close>

definition no_panic :: "('s \<Rightarrow> bool) \<Rightarrow> ('s, goerr, 'a) em \<Rightarrow> bool" where
  "no_panic I m \<longleftrightarrow> (\<forall>s r s'. I s \<longrightarrow> m s = (r, s') \<longrightarrow> I s' \<and> (\<forall>e. r = Inl e \<longrightarrow> \<not> is_panic e))"

named_theorems panic_intros \<open>a computation does not panic\<close>

lemma no_panicD: "no_panic I m \<Longrightarrow> I s \<Longrightarrow> m s = (r, s') \<Longrightarrow> I s' \<and> (\<forall>e. r = Inl e \<longrightarrow> \<not> is_panic e)"
  unfolding no_panic_def by blast

lemma np_returnE [panic_intros]: "no_panic I (returnE x)"
  by (simp add: no_panic_def returnE_def)

lemma np_throwE [panic_intros]: "\<not> is_panic e \<Longrightarrow> no_panic I (throwE e)"
  by (simp add: no_panic_def throwE_def)

lemma np_liftE [panic_intros]: "(\<And>e. r = Inl e \<Longrightarrow> \<not> is_panic e) \<Longrightarrow> no_panic I (liftE r)"
  by (simp add: no_panic_def liftE_def)

lemma np_bindE [panic_intros]:
  assumes "no_panic I m" and "\<And>x. no_panic I (f x)"
  shows "no_panic I (bindE m f)"
  unfolding no_panic_def
proof (intro allI impI)
  fix s r s'
  assume "I s" and run: "bindE m f s = (r, s')"
  obtain r1 s1 where m: "m s = (r1, s1)" by fastforce
  note p = no_panicD [OF assms(1) \<open>I s\<close> m]
  show "I s' \<and> (\<forall>e. r = Inl e \<longrightarrow> \<not> is_panic e)"
  proof (cases r1)
    case (Inl e)
    with run m p show ?thesis by (auto simp: bindE_def)
  next
    case (Inr x)
    with run m have "f x s1 = (r, s')" by (simp add: bindE_def)
    from no_panicD [OF assms(2) conjunct1 [OF p] this] show ?thesis .
  qed
qed

text \<open>A value read from the state is one of a state with the invariant.\<close>

lemma np_gets:
  assumes "\<And>s. I s \<Longrightarrow> no_panic I (f (g s))"
  shows "no_panic I (bindE (getsE g) f)"
  unfolding no_panic_def
proof (intro allI impI)
  fix s r s'
  assume "I s" and "bindE (getsE g) f s = (r, s')"
  then have "f (g s) s = (r, s')" by (simp add: bindE_def getsE_def)
  from no_panicD [OF assms [OF \<open>I s\<close>] \<open>I s\<close> this] show "I s' \<and> (\<forall>e. r = Inl e \<longrightarrow> \<not> is_panic e)" .
qed

text \<open>An error that was caught is no panic.\<close>

lemma np_try:
  assumes "no_panic I m" and "\<And>e. \<not> is_panic e \<Longrightarrow> no_panic I (f (Inl e))" and "\<And>x. no_panic I (f (Inr x))"
  shows "no_panic I (bindE (tryE m) f)"
  unfolding no_panic_def
proof (intro allI impI)
  fix s r s'
  assume "I s" and run: "bindE (tryE m) f s = (r, s')"
  obtain r1 s1 where m: "m s = (r1, s1)" by fastforce
  note p = no_panicD [OF assms(1) \<open>I s\<close> m]
  have f: "f r1 s1 = (r, s')" using run m by (simp add: bindE_def tryE_def)
  have "no_panic I (f r1)" using p assms(2,3) by (cases r1) auto
  from no_panicD [OF this conjunct1 [OF p] f] show "I s' \<and> (\<forall>e. r = Inl e \<longrightarrow> \<not> is_panic e)" .
qed

lemma np_catch:
  assumes "no_panic I m" and "\<And>e. \<not> is_panic e \<Longrightarrow> no_panic I (h e)"
  shows "no_panic I (catchE m h)"
  unfolding no_panic_def
proof (intro allI impI)
  fix s r s'
  assume "I s" and run: "catchE m h s = (r, s')"
  obtain r1 s1 where m: "m s = (r1, s1)" by fastforce
  note p = no_panicD [OF assms(1) \<open>I s\<close> m]
  show "I s' \<and> (\<forall>e. r = Inl e \<longrightarrow> \<not> is_panic e)"
  proof (cases r1)
    case (Inr x)
    with run m p show ?thesis by (auto simp: catchE_def)
  next
    case (Inl e)
    with run m have h: "h e s1 = (r, s')" by (simp add: catchE_def)
    have "\<not> is_panic e" using p Inl by simp
    from no_panicD [OF assms(2) [OF this] conjunct1 [OF p] h] show ?thesis .
  qed
qed

lemma np_defer:
  assumes "no_panic I m" and "no_panic I d"
  shows "no_panic I (deferE m d)"
  unfolding no_panic_def
proof (intro allI impI)
  fix s r s'
  assume "I s" and run: "deferE m d s = (r, s')"
  obtain r1 s1 where m: "m s = (r1, s1)" by fastforce
  obtain r2 s2 where d: "d s1 = (r2, s2)" by fastforce
  from no_panicD [OF assms(1) \<open>I s\<close> m] no_panicD [OF assms(2) _ d] run m d
  show "I s' \<and> (\<forall>e. r = Inl e \<longrightarrow> \<not> is_panic e)" by (auto simp: deferE_def)
qed

lemma np_if [panic_intros]:
  "(b \<Longrightarrow> no_panic I m) \<Longrightarrow> (\<not> b \<Longrightarrow> no_panic I n) \<Longrightarrow> no_panic I (if b then m else n)"
  by simp

lemma np_case_option [panic_intros]:
  "(x = None \<Longrightarrow> no_panic I m) \<Longrightarrow> (\<And>y. x = Some y \<Longrightarrow> no_panic I (f y)) \<Longrightarrow>
   no_panic I (case x of None \<Rightarrow> m | Some y \<Rightarrow> f y)"
  by (cases x) simp_all

lemma np_case_sum [panic_intros]:
  "(\<And>e. x = Inl e \<Longrightarrow> no_panic I (g e)) \<Longrightarrow> (\<And>y. x = Inr y \<Longrightarrow> no_panic I (f y)) \<Longrightarrow>
   no_panic I (case x of Inl e \<Rightarrow> g e | Inr y \<Rightarrow> f y)"
  by (cases x) simp_all

lemma np_case_prod [panic_intros]: "(\<And>a b. x = (a, b) \<Longrightarrow> no_panic I (f a b)) \<Longrightarrow> no_panic I (case x of (a, b) \<Rightarrow> f a b)"
  by (cases x) simp_all

lemma np_Let [panic_intros]: "no_panic I (f v) \<Longrightarrow> no_panic I (let x = v in f x)"
  by simp

lemma np_forE [panic_intros]: "(\<And>x. no_panic I (f x)) \<Longrightarrow> no_panic I (forE f xs)"
  by (induction xs) (auto intro: panic_intros)

lemmas np_first = np_gets np_try np_catch np_defer

section \<open>The machine's operations\<close>

text \<open>
  What an operation may rely on: a fact that the calls, the reservation, the watch manager and the changes of
  the machine in memory that keep its address pool do not touch.
\<close>

definition steady :: "(scope \<Rightarrow> bool) \<Rightarrow> bool" where
  "steady I \<longleftrightarrow>
     (\<forall>s c. I s \<longrightarrow> I (add_call c s)) \<and> (\<forall>s a. I s \<longrightarrow> I (s\<lparr>reservedAddress := a\<rparr>)) \<and>
     (\<forall>s w. I s \<longrightarrow> I (s\<lparr>watchManager := w\<rparr>)) \<and>
     (\<forall>s tm. I s \<longrightarrow> AddressFromPool (tmSpec tm) = AddressFromPool (tmSpec (tinkerbellMachine s)) \<longrightarrow> I (s\<lparr>tinkerbellMachine := tm\<rparr>))"

lemma steadyI:
  assumes "\<And>c s. I (add_call c s) = I s" "\<And>a s. I (s\<lparr>reservedAddress := a\<rparr>) = I s" "\<And>w s. I (s\<lparr>watchManager := w\<rparr>) = I s"
    and "\<And>s tm. I s \<Longrightarrow> AddressFromPool (tmSpec tm) = AddressFromPool (tmSpec (tinkerbellMachine s)) \<Longrightarrow> I (s\<lparr>tinkerbellMachine := tm\<rparr>)"
  shows "steady I"
  using assms by (simp add: steady_def)

lemma np_api [panic_intros]: "steady I \<Longrightarrow> no_panic I (api f c)"
  by (auto simp: no_panic_def run_api steady_def)

lemma np_modify_machine [panic_intros]:
  "steady I \<Longrightarrow> (\<And>tm. AddressFromPool (tmSpec (f tm)) = AddressFromPool (tmSpec tm)) \<Longrightarrow> no_panic I (modify_machine f)"
  by (simp add: no_panic_def run_modify_machine steady_def)

lemma np_set_reserved [panic_intros]: "steady I \<Longrightarrow> no_panic I (set_reserved a)"
  by (simp add: no_panic_def run_set_reserved steady_def)

lemma np_owned [panic_intros]: "no_panic I (owned E obj)"
  unfolding owned_def
  by (intro np_first panic_intros) (auto simp: setResourceOwnership_def Let_def split: if_splits sum.splits)

lemma np_patch_machine [panic_intros]: "steady I \<Longrightarrow> no_panic I (patch_machine E)"
  unfolding patch_machine_def by (intro np_first panic_intros)

lemma np_ensure_watch [panic_intros]: "steady I \<Longrightarrow> no_panic I (ensure_watch E ns)"
  by (auto simp: no_panic_def ensure_watch_def steady_def Let_def split: option.splits prod.splits)

lemma np_list_required [panic_intros]: "steady I \<Longrightarrow> no_panic I (list_required E ts)"
  by (induction ts) (auto intro!: panic_intros simp: Let_def)

lemma best_hardware_np: "best_hardware E hws p = Inl e \<Longrightarrow> \<not> is_panic e"
proof -
  have "affinity_scores E hws ts sc = Inl e \<Longrightarrow> \<not> is_panic e" for ts sc
    by (induction ts arbitrary: sc) (auto split: sum.splits)
  from this [of p Map.empty] show "best_hardware E hws p = Inl e \<Longrightarrow> \<not> is_panic e"
    by (cases "affinity_scores E hws p Map.empty") (auto simp: best_hardware_def byHardwareAffinity_def split: sum.splits list.splits)
qed

lemma np_hardwareForMachine [panic_intros]: "steady I \<Longrightarrow> no_panic I (hardwareForMachine E)"
  unfolding hardwareForMachine_def assignedHardware_def
  by (intro np_first panic_intros best_hardware_np)

lemma np_take [panic_intros]: "steady I \<Longrightarrow> no_panic I (takeHardwareOwnership E hw)"
  unfolding takeHardwareOwnership_def by (intro np_first panic_intros) simp_all

lemma np_ensureHardware [panic_intros]: "steady I \<Longrightarrow> no_panic I (ensureHardware E)"
  unfolding ensureHardware_def ensureHardwareUserData_def
  by (intro np_first panic_intros) (simp_all add: record_hardware_def)

lemma np_getHardwareForMachine [panic_intros]: "steady I \<Longrightarrow> no_panic I (getHardwareForMachine E)"
  unfolding getHardwareForMachine_def by (intro np_first panic_intros)

section \<open>With and without an address pool\<close>

definition machine_pool :: "scope \<Rightarrow> ip_pool_ref option" where
  "machine_pool s = AddressFromPool (tmSpec (tinkerbellMachine s))"

text \<open>What is read first stays true of the pool as long as the pool does.\<close>

lemma np_gets_pool:
  assumes "\<And>t. I t \<Longrightarrow> no_panic (\<lambda>s. I s \<and> machine_pool s = machine_pool t) (f (g t))"
  shows "no_panic I (bindE (getsE g) f)"
  unfolding no_panic_def
proof (intro allI impI)
  fix s r s'
  assume "I s" and "bindE (getsE g) f s = (r, s')"
  then have run: "f (g s) s = (r, s')" by (simp add: bindE_def getsE_def)
  have "I s \<and> machine_pool s = machine_pool s" using \<open>I s\<close> by simp
  from no_panicD [OF assms [OF \<open>I s\<close>] this run] show "I s' \<and> (\<forall>e. r = Inl e \<longrightarrow> \<not> is_panic e)" by blast
qed

lemma steady_pool: "steady I \<Longrightarrow> steady (\<lambda>s. I s \<and> machine_pool s = p)"
  unfolding steady_def machine_pool_def by simp

lemma np_setCondition [panic_intros]: "steady I \<Longrightarrow> no_panic I (setIPAddressClaimedCondition E st reason)"
  unfolding setIPAddressClaimedCondition_def by (rule np_modify_machine) simp_all

lemma np_getIPAddressClaim:
  assumes "steady I" and "\<And>s. I s \<Longrightarrow> machine_pool s \<noteq> None"
  shows "no_panic I (getIPAddressClaim E)"
  unfolding getIPAddressClaim_def
  by (intro np_first panic_intros assms(1)) (use assms(2) in \<open>fastforce simp: ipAddressClaimKey_def machine_pool_def split: option.splits\<close>)

lemma np_ensureIPAddressClaim:
  assumes "steady I" and "\<And>s. I s \<Longrightarrow> machine_pool s \<noteq> None"
  shows "no_panic I (ensureIPAddressClaim E hw mac pool)"
proof -
  have "newIPAddressClaim (tinkerbellMachine s) ow hw mac pool = Inl e \<Longrightarrow> \<not> is_panic e" if "I s" for s ow e
    using assms(2) [OF that] by (auto simp: newIPAddressClaim_def ipAddressClaimKey_def machine_pool_def)
  then have "no_panic I (createIPAddressClaim E hw mac pool)"
    unfolding createIPAddressClaim_def by (intro np_first panic_intros assms(1)) simp_all
  then show ?thesis
    unfolding ensureIPAddressClaim_def ensureIPAMAnnotations_def
    by (intro np_first panic_intros assms(1) np_getIPAddressClaim [OF assms]) simp_all
qed

lemma primaryInterfaceMAC_np: "primaryInterfaceMAC E hw = Inl e \<Longrightarrow> \<not> is_panic e"
  by (auto simp: primaryInterfaceMAC_def primaryInterface_def split: sum.splits option.splits if_splits)

lemma hardwareAddress_np: "hardwareAddressFromIPAddress a = Inl e \<Longrightarrow> \<not> is_panic e"
  by (auto simp: hardwareAddressFromIPAddress_def prefixLength_def Let_def split: option.splits sum.splits if_splits)

lemma np_applyIPAddress [panic_intros]: "steady I \<Longrightarrow> no_panic I (applyIPAddress E hw claim)"
  unfolding applyIPAddress_def ensureHardwareAddress_def
  by (intro np_first panic_intros) (simp_all add: hardwareAddress_np)

lemma np_reconcileIPAM [panic_intros]:
  assumes "steady I"
  shows "no_panic I (reconcileIPAM E hw)"
  unfolding reconcileIPAM_def
  by (rule np_gets_pool, intro np_first panic_intros steady_pool [OF assms] np_ensureIPAddressClaim)
    (auto simp: machine_pool_def primaryInterfaceMAC_np)

lemma np_releaseIPAddressClaim [panic_intros]:
  assumes "steady I"
  shows "no_panic I (releaseIPAddressClaim E)"
  unfolding releaseIPAddressClaim_def removeClaimFinalizer_def deleteClaim_def
  by (rule np_gets_pool, intro np_first panic_intros steady_pool [OF assms] np_getIPAddressClaim)
    (auto simp: machine_pool_def)

lemma np_releaseHardware [panic_intros]:
  assumes "steady I"
  shows "no_panic I (releaseHardware E hw)"
  unfolding releaseHardware_def ipamReservation_def claimedFamily_def
  by (rule np_gets_pool, intro np_first panic_intros steady_pool [OF assms] np_getIPAddressClaim)
    (auto simp: machine_pool_def)

section \<open>Templates, Tasks, Workflows, Jobs\<close>

lemma np_createTemplate [panic_intros]: "steady I \<Longrightarrow> no_panic I (createTemplate E data)"
  unfolding createTemplate_def by (intro np_first panic_intros) simp_all

lemma np_removeTemplate [panic_intros]: "steady I \<Longrightarrow> no_panic I (removeTemplate E)"
  unfolding removeTemplate_def by (intro np_first panic_intros) simp_all

lemma np_removeTasks [panic_intros]: "steady I \<Longrightarrow> no_panic I (removeTasks E keep)"
  unfolding removeTasks_def deleteTask_def by (intro np_first panic_intros) simp_all

lemma np_ensureTasks [panic_intros]: "steady I \<Longrightarrow> no_panic I (ensureTasks E ts)"
  unfolding ensureTasks_def ensureTask_def by (intro np_first panic_intros) simp_all

lemma np_taskConflict [panic_intros]: "steady I \<Longrightarrow> no_panic I (taskConflict E ts)"
proof (induction ts)
  case (Cons t ts)
  then show ?case unfolding taskConflict.simps by (intro np_first panic_intros) simp_all
qed (simp add: panic_intros)

lemma np_owned_tasks [panic_intros]: "no_panic I (owned_tasks E ts)"
  by (induction ts) (auto intro!: panic_intros)

lemma np_fetch [panic_intros]: "steady I \<Longrightarrow> no_panic I (fetchTemplateRefData E n ns)"
  unfolding fetchTemplateRefData_def by (intro np_first panic_intros) simp_all

text \<open>The template of the cluster is read only when there is a cluster.\<close>

lemma np_templateData:
  assumes "steady I" and "\<And>s. I s \<Longrightarrow> tinkerbellCluster s \<noteq> None"
  shows "no_panic I (templateData E hw)"
proof -
  have "no_panic I (clusterTemplate E)"
    unfolding clusterTemplate_def by (intro np_first panic_intros assms(1)) (use assms(2) in auto)
  then show ?thesis
    unfolding templateData_def resolveTemplateData_def templateFromAnnotation_def
    by (intro np_first panic_intros assms(1)) simp_all
qed

lemma np_newWorkflow [panic_intros]: "steady I \<Longrightarrow> no_panic I (newWorkflow E hw)"
  unfolding newWorkflow_def v1alpha1Workflow_def
  by (intro np_first panic_intros) (auto simp: workflow_boot_options_def split: boot_mode.splits if_splits sum.splits)

lemma np_nativeWorkflow [panic_intros]: "steady I \<Longrightarrow> no_panic I (nativeWorkflow E flow data)"
  unfolding nativeWorkflow_def by (intro np_first panic_intros)

lemma np_ensureWorkflow:
  assumes "steady I" and "\<And>s. I s \<Longrightarrow> tinkerbellCluster s \<noteq> None"
  shows "no_panic I (ensureWorkflow E hw)"
  unfolding ensureWorkflow_def getWorkflow_def createWorkflow_def templateExists_def createCompatibilityWorkflow_def createNativeWorkflow_def
  by (intro np_first panic_intros assms(1) np_templateData [OF assms]) simp_all

lemma np_removeWorkflow [panic_intros]: "steady I \<Longrightarrow> no_panic I (removeWorkflow E)"
  unfolding removeWorkflow_def by (intro np_first panic_intros) simp_all

lemma np_ensureBMCJob [panic_intros]: "steady I \<Longrightarrow> no_panic I (ensureBMCJobCompletionForDelete E hw)"
  unfolding ensureBMCJobCompletionForDelete_def createPowerOffJob_def getJob_def by (intro np_first panic_intros) simp_all

section \<open>A reconcile of a machine\<close>

definition in_cluster :: "scope \<Rightarrow> bool" where
  "in_cluster s \<longleftrightarrow> tinkerbellCluster s \<noteq> None"

lemma steady_in_cluster: "steady in_cluster"
  by (rule steadyI) (simp_all add: in_cluster_def)

lemma steady_True: "steady (\<lambda>_. True)"
  by (simp add: steady_def)

text \<open>In-place recovery takes the server's answer for the machine, whatever it is.\<close>

lemma np_recovery: "no_panic in_cluster (reconcileInPlaceRecovery E hw timeout)"
proof -
  have m: "no_panic in_cluster (modify_machine f)" for f
    by (simp add: no_panic_def run_modify_machine in_cluster_def)
  show ?thesis
    unfolding reconcileInPlaceRecovery_def getOwningMachine_def recoverMachine_def createPowerCycleJob_def
      markRecoveryAttempted_def clearRecoveryAttempted_def patch_annotations_def Let_def
    by (intro np_first m panic_intros steady_in_cluster) simp_all
qed

lemma np_Reconcile: "no_panic in_cluster (Reconcile E)"
proof -
  have "no_panic in_cluster (reconcileWorkflowState E hw st)" for hw st
    unfolding reconcileWorkflowState_def patchHardwareAnnotations_def
    by (cases st) (auto intro!: panic_intros steady_in_cluster simp: mark_ready_def)
  then have r: "no_panic in_cluster (reconcile E hw)" for hw
    unfolding reconcile_def
    by (intro np_first panic_intros steady_in_cluster np_recovery np_ensureWorkflow) (simp_all add: mark_ready_def in_cluster_def)
  have st: "no_panic in_cluster (setStatus E (Some hw))" for hw
    unfolding setStatus_def machineAddress_def
    by (intro np_first panic_intros steady_in_cluster)
      (auto simp: hardwareIP_def primaryInterface_def set_addresses_def split: option.splits sum.splits if_splits)
  show ?thesis
    unfolding Reconcile_def reconcileHardware_def addFinalizer_machine_def
    by (intro np_first panic_intros steady_in_cluster st r) (simp add: with_finalizer_def)
qed

lemma np_Delete: "no_panic (\<lambda>_. True) (DeleteMachineWithDependencies E)"
  unfolding DeleteMachineWithDependencies_def removeDependencies_def unless_not_found_def releaseClaimAndFinalizer_def
    removeFinalizer_machine_def
  by (intro np_first panic_intros steady_True) (simp_all add: default_namespace_def without_finalizer_def)

lemma np_lift_with:
  assumes "\<And>e. r = Inl e \<Longrightarrow> \<not> is_panic e" and "\<And>x. r = Inr x \<Longrightarrow> no_panic I (f x)"
  shows "no_panic I (bindE (liftE r) f)"
  using assms by (cases r) (auto simp: no_panic_def bindE_def liftE_def)

lemma np_start_reconcile:
  assumes "no_panic in_cluster f"
  shows "no_panic (\<lambda>_. True) (bindE (start_reconcile m cfg tc) (\<lambda>_. f))"
  unfolding no_panic_def
proof (intro allI impI)
  fix s r s'
  assume "bindE (start_reconcile m cfg tc) (\<lambda>_. f) s = (r, s')"
  then have "f (s\<lparr>ownerMachine := Some m, bootstrapCloudConfig := cfg, tinkerbellCluster := Some tc\<rparr>) = (r, s')"
    by (simp add: run_bindE start_reconcile_def run_modifyE)
  from no_panicD [OF assms _ this] show "True \<and> (\<forall>e. r = Inl e \<longrightarrow> \<not> is_panic e)"
    by (simp add: in_cluster_def)
qed

lemma np_reconcileReadyMachine:
  assumes "DataSecretName m \<noteq> None"
  shows "no_panic (\<lambda>_. True) (reconcileReadyMachine E m)"
proof -
  have "no_panic in_cluster (catchE (bindE (Reconcile E) (\<lambda>_. returnE no_requeue)) requeue_error)"
    unfolding requeue_error_def by (intro np_first panic_intros np_Reconcile) simp_all
  note start = np_start_reconcile [OF this]
  have b: "no_panic (\<lambda>_. True) (getReadyBootstrapCloudConfig E m)"
    unfolding getReadyBootstrapCloudConfig_def by (intro np_first panic_intros steady_True) (simp_all add: assms)
  have c: "no_panic (\<lambda>_. True) (getReadyTinkerbellCluster E m)"
    unfolding getReadyTinkerbellCluster_def by (intro np_first panic_intros steady_True)
  have "no_panic (\<lambda>_. True) (installMachine E m)"
    unfolding installMachine_def by (rule np_bindE [OF b]) (intro np_if np_returnE np_bindE [OF c] np_case_option start)
  then show ?thesis
    unfolding reconcileReadyMachine_def by (intro np_first panic_intros np_Delete)
qed

lemma np_reconcileRequest: "no_panic (\<lambda>_. True) (reconcileRequest E req)"
proof -
  have m: "no_panic (\<lambda>_. True) (modify_machine f)" for f
    by (simp add: no_panic_def run_modify_machine)
  have u: "no_panic (\<lambda>_. True) (reconcileUnpaused E machine)" for machine
    unfolding reconcileUnpaused_def
    by (rule np_lift_with)
      (auto simp: isMachineReady_def split: option.splits if_splits intro!: np_returnE np_reconcileReadyMachine)
  show ?thesis
    unfolding reconcileRequest_def reconcileMachine_def machineCluster_def ensurePaused_def
    by (intro np_first m u panic_intros steady_True) auto
qed

section \<open>A reconcile of a cluster\<close>

lemma np_cluster_api [panic_intros]: "no_panic (\<lambda>_. True) (cluster_api f c)"
  by (auto simp: no_panic_def run_cluster_api)

lemma np_set_clusters [panic_intros]: "no_panic (\<lambda>_. True) (set_tinkerbell_cluster tc)" "no_panic (\<lambda>_. True) (set_cluster cl)"
  by (simp_all add: no_panic_def run_set_clusters)

lemma np_ownerCluster: "no_panic (\<lambda>_. True) (ownerCluster E tc)"
  unfolding ownerCluster_def findClusterOwnerByLabelAndAdopt_def patch_cluster_def
  by (intro np_first panic_intros) simp_all

lemma np_reconcileFound: "no_panic (\<lambda>_. True) (reconcileFound E tc cluster)"
  unfolding reconcileFound_def ensurePausedCluster_def reconcileDelete_def reconcileCluster_def patch_cluster_def
  by (intro np_first panic_intros)
    (auto simp: controlPlaneEndpoint_def Let_def split: option.splits if_splits)

lemma newReconcileContext_found:
  assumes "newReconcileContext E tcr req s = (Inr True, s')"
  shows "crcTinkerbellCluster s' \<noteq> None"
proof -
  let ?s1 = "add_cluster_call (GetTinkerbellCluster req) s"
  from assms obtain tc cl s3 where "ownerCluster E tc (?s1\<lparr>crcTinkerbellCluster := Some tc\<rparr>) = (Inr cl, s3)"
    and s': "s' = s3\<lparr>crcCluster := cl\<rparr>"
    by (auto simp: run_newReconcileContext Let_def split: sum.splits if_splits prod.splits)
  from ownerCluster_state [OF this(1)] s' show ?thesis by auto
qed

section \<open>Properties\<close>

text \<open>
  C20: A reconciler that is set up never panics. Whatever the servers and the other actors answer, and whatever state
  the machine is in, the reconcile of a TinkerbellMachine dereferences no nil pointer - not the address
  pool, the bootstrap secret's name, the cluster or the owner - and trips none of its own set-up checks; the
  reconcile of a TinkerbellCluster dereferences no nil pointer either, set up or not.
\<close>

theorem reconciles_never_panic:
  assumes "validate tmr = Inr rec"
  shows "(\<forall>e s'. TinkerbellMachineReconcile E tmr req s = (Inl e, s') \<longrightarrow> \<not> is_panic e) \<and>
    (\<forall>t'. TinkerbellClusterReconcile E tcr req' t \<noteq> (Inl ErrNilDereference, t'))"
proof (intro conjI allI impI)
  fix e s'
  assume "TinkerbellMachineReconcile E tmr req s = (Inl e, s')"
  then have "reconcileRequest E req (new_scope rec (calls s)) = (Inl e, s')"
    using assms by (simp add: TinkerbellMachineReconcile_def run_simps)
  from no_panicD [OF np_reconcileRequest _ this] show "\<not> is_panic e" by simp
next
  fix t'
  have c: "fst (newReconcileContext E tcr req' t) \<noteq> Inl ErrNilDereference"
  proof
    assume "fst (newReconcileContext E tcr req' t) = Inl ErrNilDereference"
    then obtain tc u u' where own: "ownerCluster E tc u = (Inl ErrNilDereference, u')"
      by (auto simp: run_newReconcileContext Let_def validate_cluster_def split: sum.splits prod.splits option.splits if_splits)
    from no_panicD [OF np_ownerCluster _ own] show False by simp
  qed
  have f: "reconcileFound E tc cl u \<noteq> (Inl ErrNilDereference, t')" for tc cl u
  proof
    assume r: "reconcileFound E tc cl u = (Inl ErrNilDereference, t')"
    from no_panicD [OF np_reconcileFound _ r] show False by simp
  qed
  obtain r u where n: "newReconcileContext E tcr req' t = (r, u)" by fastforce
  show "TinkerbellClusterReconcile E tcr req' t \<noteq> (Inl ErrNilDereference, t')"
    using c f n newReconcileContext_found [of E tcr req' t u]
    by (auto simp: run_TinkerbellClusterReconcile split: sum.splits option.splits if_splits)
qed

theorem reconciles_never_panic_witness:
  "\<exists>r s'. TinkerbellMachineReconcile owned_kube (Some example_reconciler) (NN ''ns'' ''m1'') example_scope = (r, s') \<and>
     r \<noteq> Inl ErrNilDereference"
proof -
  obtain r s' where run: "TinkerbellMachineReconcile owned_kube (Some example_reconciler) (NN ''ns'' ''m1'') example_scope = (r, s')"
    by fastforce
  have "validate (Some example_reconciler) = Inr example_reconciler" by (simp add: validate_def)
  from reconciles_never_panic [OF this] run have "r = Inl e \<Longrightarrow> \<not> is_panic e" for e by blast
  then have "r \<noteq> Inl ErrNilDereference" by auto
  with run show ?thesis by blast
qed

end
