(* ===== verification/CallBounds.thy ===== *)
theory CallBounds
  imports Scope ClusterController
begin

text \<open>
  Every reconcile ends after a bounded number of calls: its loops range over lists it has read before it
  enters them, and nothing in it retries. The bounds are in the length of those lists: the required terms of
  the machine's affinity, the Tasks of its template, and the Tasks the server lists for it.
\<close>

section \<open>Counting calls\<close>

definition at_most :: "('s \<Rightarrow> 'c list) \<Rightarrow> nat \<Rightarrow> ('s, 'e, 'a) em \<Rightarrow> bool" where
  "at_most log n m \<longleftrightarrow> logs log m \<and> (\<forall>s. length (issued log m s) \<le> n)"

named_theorems count_intros \<open>a computation makes at most so many calls\<close>

lemma at_mostD: "at_most log n m \<Longrightarrow> length (issued log m s) \<le> n"
  by (simp add: at_most_def)

lemma at_most_logs: "at_most log n m \<Longrightarrow> logs log m"
  by (simp add: at_most_def)

lemma at_most_weaken: "at_most log n m \<Longrightarrow> n \<le> k \<Longrightarrow> at_most log k m"
  unfolding at_most_def using le_trans by blast

lemma at_most_pure [count_intros]:
  "at_most log 0 (returnE x)" "at_most log 0 (throwE e)" "at_most log 0 (getsE f)" "at_most log 0 (liftE r)"
  by (simp_all add: at_most_def issued_simps adds_intros)

lemma at_most_bindE_with:
  assumes "at_most log n m" and "gives Q m" and "\<And>x. Q x \<Longrightarrow> at_most log k (f x)" and "\<And>x. logs log (f x)"
  shows "at_most log (n + k) (bindE m f)"
  unfolding at_most_def
proof (intro conjI allI)
  show "logs log (bindE m f)" by (rule adds_bindE [OF at_most_logs [OF assms(1)] assms(4)])
  fix s
  obtain r s' where m: "m s = (r, s')" by fastforce
  show "length (issued log (bindE m f) s) \<le> n + k"
  proof (cases r)
    case (Inl e)
    with m at_mostD [OF assms(1), of s] show ?thesis
      unfolding issued_bindE [OF at_most_logs [OF assms(1)] assms(4)] by simp
  next
    case (Inr x)
    with m assms(2) have "Q x" by (simp add: givesD)
    from at_mostD [OF assms(3) [OF this], of s'] at_mostD [OF assms(1), of s] m Inr show ?thesis
      unfolding issued_bindE [OF at_most_logs [OF assms(1)] assms(4)] by simp
  qed
qed

lemma at_most_bindE [count_intros]:
  assumes "at_most log n m" and "\<And>x. at_most log k (f x)"
  shows "at_most log (n + k) (bindE m f)"
  by (rule at_most_bindE_with [OF assms(1), of "\<lambda>_. True"]) (auto simp: gives_def assms(2) at_most_logs [OF assms(2)])

lemma at_most_tryE [count_intros]: "at_most log n m \<Longrightarrow> at_most log n (tryE m)"
  by (simp add: at_most_def issued_simps adds_tryE)

lemma at_most_catchE [count_intros]:
  assumes "at_most log n m" and "\<And>e. at_most log k (h e)"
  shows "at_most log (n + k) (catchE m h)"
  unfolding at_most_def
proof (intro conjI allI)
  note l = at_most_logs [OF assms(1)] at_most_logs [OF assms(2)]
  show "logs log (catchE m h)" by (rule adds_catchE [OF l])
  fix s
  obtain r s' where m: "m s = (r, s')" by fastforce
  with at_mostD [OF assms(1), of s] at_mostD [OF assms(2)] show "length (issued log (catchE m h) s) \<le> n + k"
    unfolding issued_catchE [OF l] by (cases r) (simp_all add: add_mono trans_le_add1)
qed

lemma at_most_deferE [count_intros]:
  assumes "at_most log n m" and "at_most log k d"
  shows "at_most log (n + k) (deferE m d)"
proof -
  note l = at_most_logs [OF assms(1)] at_most_logs [OF assms(2)]
  from at_mostD [OF assms(1)] at_mostD [OF assms(2)] show ?thesis
    by (simp add: at_most_def adds_deferE [OF l] issued_deferE [OF l] add_mono)
qed

lemma at_most_max: "at_most log n m \<Longrightarrow> at_most log (max n k) m" "at_most log k m \<Longrightarrow> at_most log (max n k) m"
  by (rule at_most_weaken, assumption, simp)+

lemma at_most_if [count_intros]:
  "at_most log n m \<Longrightarrow> at_most log k d \<Longrightarrow> at_most log (max n k) (if b then m else d)"
  by (simp add: at_most_max)

lemma at_most_case_option [count_intros]:
  "at_most log n m \<Longrightarrow> (\<And>y. at_most log k (f y)) \<Longrightarrow> at_most log (max n k) (case x of None \<Rightarrow> m | Some y \<Rightarrow> f y)"
  by (cases x) (simp_all add: at_most_max)

lemma at_most_case_sum [count_intros]:
  "(\<And>e. at_most log n (g e)) \<Longrightarrow> (\<And>y. at_most log k (f y)) \<Longrightarrow> at_most log (max n k) (case x of Inl e \<Rightarrow> g e | Inr y \<Rightarrow> f y)"
  by (cases x) (simp_all add: at_most_max)

lemma at_most_case_prod [count_intros]:
  "(\<And>a b. at_most log n (f a b)) \<Longrightarrow> at_most log n (case x of (a, b) \<Rightarrow> f a b)"
  by (cases x) simp

lemma at_most_Let [count_intros]: "at_most log n (f v) \<Longrightarrow> at_most log n (let x = v in f x)"
  by simp

lemma at_most_forE [count_intros]:
  assumes "\<And>x. at_most log n (f x)"
  shows "at_most log (n * length xs) (forE f xs)"
proof (induction xs)
  case (Cons x xs)
  from at_most_bindE [OF assms Cons] show ?case by simp
qed (simp add: count_intros)

lemma at_most_api [count_intros]: "at_most calls 1 (api f c)"
  by (simp add: at_most_def issued_simps adds_intros)

lemma at_most_cluster_api [count_intros]: "at_most crcCalls 1 (cluster_api f c)"
  by (simp add: at_most_def cluster_api_def cluster_log.issued_perform cluster_log.adds_perform)

lemma at_most_silent [count_intros]:
  "at_most calls 0 (modify_machine f)" "at_most calls 0 (set_reserved a)"
  by (simp_all add: at_most_def issued_simps adds_intros)

lemma at_most_set_clusters [count_intros]:
  "at_most crcCalls 0 (set_tinkerbell_cluster tc)" "at_most crcCalls 0 (set_cluster cl)"
  by (simp_all add: at_most_def adds_intros issued_empty run_set_clusters)

section \<open>A reconcile of a cluster\<close>

lemma count_cluster: "at_most crcCalls 6 (TinkerbellClusterReconcile E tcr req)"
  unfolding TinkerbellClusterReconcile_def newReconcileContext_def ownerCluster_def findClusterOwnerByLabelAndAdopt_def
    reconcileFound_def ensurePausedCluster_def reconcileDelete_def reconcileCluster_def patch_cluster_def
  by (rule at_most_weaken, (rule count_intros)+, simp)

section \<open>The operations on a machine\<close>

lemma count_owned [count_intros]: "at_most calls 0 (owned E obj)"
  unfolding owned_def by (rule at_most_weaken, (rule count_intros)+, simp)

lemma count_patch_machine [count_intros]: "at_most calls 1 (patch_machine E)"
  unfolding patch_machine_def by (rule at_most_weaken, (rule count_intros)+, simp)

lemma count_ensure_watch [count_intros]: "at_most calls 1 (ensure_watch E ns)"
  by (auto simp: at_most_def adds_def ensure_watch_def issued_def Let_def split: option.split prod.split)

lemma count_take [count_intros]: "at_most calls 1 (takeHardwareOwnership E hw)"
  unfolding takeHardwareOwnership_def by (rule at_most_weaken, (rule count_intros)+, simp)

lemma count_userdata [count_intros]: "at_most calls 1 (ensureHardwareUserData E hw pid)"
  unfolding ensureHardwareUserData_def by (rule at_most_weaken, (rule count_intros)+, simp)

lemma count_list_required: "at_most calls (length ts) (list_required E ts)"
proof (induction ts)
  case (Cons t ts)
  show ?case
    unfolding list_required.simps Let_def by (rule at_most_weaken, (rule count_intros Cons)+, simp)
qed (simp add: count_intros)

text \<open>The required terms are those of the machine the reconcile starts with.\<close>

definition terms_of :: "scope \<Rightarrow> nat" where
  "terms_of s = length (required_terms (HardwareAffinity (tmSpec (tinkerbellMachine s))))"

lemma count_hardwareForMachine: "length (issued calls (hardwareForMachine E) s) \<le> 1 + terms_of s"
proof -
  let ?rest = "\<lambda>assigned. case assigned of Some hw \<Rightarrow> returnE hw
     | None \<Rightarrow> bindE (getsE (\<lambda>s. HardwareAffinity (tmSpec (tinkerbellMachine s)))) (\<lambda>affinity.
         bindE (list_required E (required_terms affinity)) (\<lambda>matching. liftE (best_hardware E matching (preferred_terms affinity))))"
  have a: "at_most calls 1 (assignedHardware E)"
    unfolding assignedHardware_def by (rule at_most_weaken, (rule count_intros)+, simp)
  have l: "logs calls (?rest x)" for x
    by (intro adds_intros at_most_logs [OF count_list_required])
  have r: "length (issued calls (?rest x) t) \<le> terms_of t" for x t
  proof (cases x)
    case None
    have "at_most calls (length ts + 0) (bindE (list_required E ts) (\<lambda>matching. liftE (best_hardware E matching p)))" for ts p
      by (rule at_most_bindE [OF count_list_required at_most_pure(4)])
    from at_mostD [OF this]
    have "length (issued calls (bindE (list_required E ts) (\<lambda>matching. liftE (best_hardware E matching p))) t) \<le> length ts" for ts p
      by simp
    then show ?thesis
      using None by (simp add: issued_def run_bindE [of "getsE f" for f] run_getsE terms_of_def)
  qed (simp add: issued_returnE)
  have k: "keeps terms_of (assignedHardware E)"
    unfolding assignedHardware_def terms_of_def by (intro keeps_intros) simp
  show ?thesis
  proof (cases "assignedHardware E s")
    case (Pair x t)
    have t: "terms_of t = terms_of s" by (rule keepsD [OF k Pair])
    show ?thesis
    proof (cases x)
      case (Inl e)
      with Pair at_mostD [OF a, of s] show ?thesis
        unfolding hardwareForMachine_def issued_bindE [OF at_most_logs [OF a] l] by simp
    next
      case (Inr y)
      with Pair t at_mostD [OF a, of s] r [of y t] show ?thesis
        unfolding hardwareForMachine_def issued_bindE [OF at_most_logs [OF a] l] by simp
    qed
  qed
qed

lemma count_ensureHardware: "length (issued calls (ensureHardware E) s) \<le> 4 + terms_of s"
proof -
  have r: "at_most calls 3 (bindE (takeHardwareOwnership E h) (\<lambda>hw. bindE (modify_machine (record_hardware hw)) (\<lambda>_.
     bindE (ensure_watch E (Namespace hw)) (\<lambda>_. ensureHardwareUserData E hw (provider_id hw)))))" for h
    by (rule at_most_weaken, (rule count_intros)+, simp)
  have l: "logs calls (hardwareForMachine E)" by (intro logs_hardwareForMachine)
  obtain x t where run: "hardwareForMachine E s = (x, t)" by fastforce
  show ?thesis
  proof (cases x)
    case (Inl e)
    with run count_hardwareForMachine [of E s] show ?thesis
      unfolding ensureHardware_def issued_bindE [OF l at_most_logs [OF r]] by simp
  next
    case (Inr h)
    with run count_hardwareForMachine [of E s] at_mostD [OF r [of h], of t] show ?thesis
      unfolding ensureHardware_def issued_bindE [OF l at_most_logs [OF r]] by simp
  qed
qed

lemma count_setCondition [count_intros]: "at_most calls 0 (setIPAddressClaimedCondition E st reason)"
  unfolding setIPAddressClaimedCondition_def by (rule count_intros)

lemma count_getIPAddressClaim [count_intros]: "at_most calls 1 (getIPAddressClaim E)"
  unfolding getIPAddressClaim_def by (rule at_most_weaken, (rule count_intros)+, simp)

lemma count_ensureIPAddressClaim [count_intros]: "at_most calls 2 (ensureIPAddressClaim E hw mac pool)"
  unfolding ensureIPAddressClaim_def createIPAddressClaim_def ensureIPAMAnnotations_def Let_def
  by (rule at_most_weaken, (rule count_intros)+, simp)

lemma count_applyIPAddress [count_intros]: "at_most calls 2 (applyIPAddress E hw claim)"
  unfolding applyIPAddress_def ensureHardwareAddress_def by (rule at_most_weaken, (rule count_intros)+, simp)

lemma count_reconcileIPAM [count_intros]: "at_most calls 4 (reconcileIPAM E hw)"
  unfolding reconcileIPAM_def by (rule at_most_weaken, (rule count_intros)+, simp)

lemma count_setStatus [count_intros]: "at_most calls 1 (setStatus E (Some hw))"
  unfolding setStatus_def machineAddress_def option.case by (rule at_most_weaken, (rule count_intros)+, simp)

lemma count_recovery [count_intros]: "at_most calls 3 (reconcileInPlaceRecovery E hw timeout)"
  unfolding reconcileInPlaceRecovery_def getOwningMachine_def recoverMachine_def createPowerCycleJob_def markRecoveryAttempted_def
    clearRecoveryAttempted_def patch_annotations_def Let_def
  by (rule at_most_weaken, (rule count_intros)+, simp)

text \<open>The Tasks the server lists for a machine, and those of a template.\<close>

definition lists_at_most :: "('e) kube_scheme \<Rightarrow> nat \<Rightarrow> bool" where
  "lists_at_most E k \<longleftrightarrow> (\<forall>h items. ansTaskList E h = Inr items \<longrightarrow> length items \<le> k)"

definition templates_at_most :: "('e) env_scheme \<Rightarrow> nat \<Rightarrow> bool" where
  "templates_at_most E k \<longleftrightarrow> (\<forall>tpl conv. length (templateTasks E tpl conv) \<le> k)"

lemma count_removeTasks:
  assumes "lists_at_most E k"
  shows "at_most calls (1 + k) (removeTasks E keep)"
proof -
  have t: "at_most calls 1 (if b then returnE () else deleteTask E t)" for b t
    unfolding deleteTask_def by (rule at_most_weaken, (rule count_intros)+, simp)
  have "at_most calls (0 + (1 + k)) (removeTasks E keep)"
    unfolding removeTasks_def
  proof (rule at_most_bindE [OF at_most_pure(3)], rule at_most_bindE_with [OF at_most_api])
    fix tm :: tinkerbell_machine
    show "gives (\<lambda>items. length items \<le> k) (api (ansTaskList E) (ListTasks (tinkerbellNamespace tm) (Name tm) (Namespace tm)))"
      using assms by (auto simp: lists_at_most_def intro: gives_api)
    show "at_most calls k (forE (\<lambda>t. if Name t \<in> keep then returnE () else deleteTask E t) items)" if "length items \<le> k" for items
      by (rule at_most_weaken [OF at_most_forE [OF t]]) (use that in simp)
    show "logs calls (forE (\<lambda>t. if Name t \<in> keep then returnE () else deleteTask E t) items)" for items
      by (rule at_most_logs [OF at_most_forE [OF t]])
  qed
  then show ?thesis by simp
qed

lemma count_taskConflict: "at_most calls (length ts) (taskConflict E ts)"
proof (induction ts)
  case (Cons t ts)
  show ?case unfolding taskConflict.simps by (rule at_most_weaken, (rule count_intros Cons)+, simp)
qed (simp add: count_intros)

lemma count_owned_tasks [count_intros]: "at_most calls 0 (owned_tasks E ts)"
proof (induction ts)
  case (Cons t ts)
  show ?case unfolding owned_tasks.simps by (rule at_most_weaken, (rule count_intros Cons)+, simp)
qed (simp add: count_intros)

lemma owned_tasks_length: "owned_tasks E ts s = (Inr ts', s') \<Longrightarrow> length ts' = length ts"
  by (induction ts arbitrary: ts' s s') (auto simp: run_simps split: sum.splits prod.splits)

lemma count_nativeWorkflow:
  assumes "templates_at_most E k"
  shows "at_most calls k (nativeWorkflow E flow data)" and "gives (\<lambda>r. \<forall>native tasks. r = Inr (native, tasks) \<longrightarrow> length tasks \<le> k) (nativeWorkflow E flow data)"
proof -
  have g: "gives (\<lambda>ts'. length ts' \<le> k) (owned_tasks E (templateTasks E tpl conv))" for tpl conv
    using assms owned_tasks_length by (fastforce simp: gives_def templates_at_most_def)
  have conflict: "at_most calls k (bindE (taskConflict E ts) (\<lambda>conflict. returnE (f conflict)))" if "length ts \<le> k" for ts f
    by (rule at_most_weaken, rule at_most_bindE [OF count_taskConflict at_most_pure(1)]) (use that in simp)
  have l: "logs calls (bindE (taskConflict E ts) (\<lambda>conflict. returnE (f conflict)))" for ts f
    by (rule at_most_logs [OF at_most_bindE [OF count_taskConflict at_most_pure(1)]])
  note tasks = at_most_bindE_with [OF count_owned_tasks g conflict l]
  show "at_most calls k (nativeWorkflow E flow data)"
    unfolding nativeWorkflow_def Let_def by (rule at_most_weaken, (rule tasks count_intros)+, simp, simp)
  show "gives (\<lambda>r. \<forall>native tasks. r = Inr (native, tasks) \<longrightarrow> length tasks \<le> k) (nativeWorkflow E flow data)"
    unfolding nativeWorkflow_def Let_def
    by (intro gives_intros gives_bindE_with [OF g]) (auto split: option.splits)
qed

lemma count_templateData [count_intros]: "at_most calls 2 (templateData E hw)"
  unfolding templateData_def resolveTemplateData_def templateFromAnnotation_def clusterTemplate_def fetchTemplateRefData_def
  by (rule at_most_weaken, (rule count_intros)+, simp)

lemma count_newWorkflow [count_intros]: "at_most calls 0 (newWorkflow E hw)"
  unfolding newWorkflow_def v1alpha1Workflow_def Let_def by (rule at_most_weaken, (rule count_intros)+, simp)

lemma count_templateExists [count_intros]: "at_most calls 1 (templateExists E)"
  unfolding templateExists_def by (rule at_most_weaken, (rule count_intros)+, simp)

lemma count_ensureTask [count_intros]: "at_most calls 2 (ensureTask E t)"
  unfolding ensureTask_def by (rule at_most_weaken, (rule count_intros)+, simp)

lemma count_compat:
  assumes "lists_at_most E k"
  shows "at_most calls (k + 4) (createCompatibilityWorkflow E flow data reason)"
  unfolding createCompatibilityWorkflow_def createTemplate_def
  by (rule at_most_weaken, (rule count_intros count_removeTasks [OF assms])+, simp)

lemma count_native:
  assumes "lists_at_most E k"
  shows "at_most calls (2 * length tasks + k + 2) (createNativeWorkflow E native tasks)"
  unfolding createNativeWorkflow_def ensureTasks_def
  by (rule at_most_weaken, (rule count_intros count_removeTasks [OF assms])+, simp)

lemma count_createWorkflow:
  assumes "lists_at_most E k" and "templates_at_most E n"
  shows "at_most calls (3 * n + k + 7) (createWorkflow E hw)"
proof -
  note native = count_nativeWorkflow [OF assms(2)]
  let ?create = "\<lambda>flow data r. case r of Inl reason \<Rightarrow> createCompatibilityWorkflow E flow data reason
      | Inr (native, tasks) \<Rightarrow> createNativeWorkflow E native tasks"
  have l: "logs calls (?create flow data r)" for flow data r
    by (intro adds_intros at_most_logs [OF count_compat [OF assms(1)]] at_most_logs [OF count_native [OF assms(1)]])
  have c: "at_most calls (2 * n + k + 4) (?create flow data r)" if "\<forall>native tasks. r = Inr (native, tasks) \<longrightarrow> length tasks \<le> n" for flow data r
  proof (cases r)
    case (Inl reason)
    with at_most_weaken [OF count_compat [OF assms(1)]] show ?thesis by simp
  next
    case (Inr p)
    with that at_most_weaken [OF count_native [OF assms(1)]] show ?thesis by (cases p) simp
  qed
  note create = at_most_bindE_with [OF native c l]
  show ?thesis
    unfolding createWorkflow_def
    by (rule at_most_weaken, (rule create count_compat [OF assms(1)] count_intros)+, assumption, simp)
qed

lemma count_reconcile:
  assumes "lists_at_most E k" and "templates_at_most E n"
  shows "at_most calls (3 * n + k + 9) (reconcile E hw)"
proof -
  have w: "at_most calls 1 (reconcileWorkflowState E hw st)" for st
    unfolding reconcileWorkflowState_def patchHardwareAnnotations_def
    by (cases st; simp; rule at_most_weaken, (rule count_intros)+, simp)
  show ?thesis
    unfolding reconcile_def ensureWorkflow_def getWorkflow_def
    by (rule at_most_weaken, (rule count_createWorkflow [OF assms] w count_intros)+, simp)
qed



end
