(* ===== verification/Server.thy ===== *)
theory Server
  imports Race
begin

text \<open>
  The machine controller against API servers that hold state. The servers' state is a function of the calls made so
  far; that the answers come from it is the hypothesis \<open>serves\<close>: a GET returns what is stored, a patch computed
  from the current object is accepted, a deleted object without finalizers is gone. The calls before the one in
  question may have been answered in any way, so what holds from any state of the servers holds after any sequence
  of earlier passes, interrupted wherever they were. Shown is what a deletion
  (\<open>DeleteMachineWithDependencies\<close> of \<open>controller/machine/scope.go\<close>) then makes of the servers' state.
\<close>

section \<open>The state of the servers\<close>

record server =
  srvHardware :: "nsname \<rightharpoonup> hardware"
  srvTemplates :: "nsname \<rightharpoonup> v1_template"
  srvTasks :: "nsname \<rightharpoonup> task"
  srvWorkflows :: "nsname \<rightharpoonup> workflow"
  srvJobs :: "nsname \<rightharpoonup> bmc_job"
  srvClaims :: "nsname \<rightharpoonup> ip_claim"
  srvMachines :: "nsname \<rightharpoonup> tinkerbell_machine"

definition stored_at :: "(nsname \<rightharpoonup> 'a objmeta_scheme) \<Rightarrow> nsname \<Rightarrow> apierr + 'a objmeta_scheme" where
  "stored_at objs k = (case objs k of None \<Rightarrow> Inl NotFound | Some x \<Rightarrow> Inr x)"

text \<open>What is kept of an object that was written: nothing, once it is being deleted and its last finalizer is off.\<close>

definition kept :: "'a objmeta_scheme \<Rightarrow> 'a objmeta_scheme option" where
  "kept x = (if being_deleted x \<and> Finalizers x = [] then None else Some x)"

definition deleted_answer :: "'b option \<Rightarrow> apierr + unit" where
  "deleted_answer x = (if x = None then Inl NotFound else Inr ())"

definition machine_task :: "string \<Rightarrow> string \<Rightarrow> string \<Rightarrow> task \<Rightarrow> bool" where
  "machine_task ns n mns t \<longleftrightarrow>
     Namespace t = ns \<and> Labels t LabelMachineName = Some n \<and> Labels t LabelMachineNamespace = Some mns"

text \<open>
  What the servers do on one call: \<open>h\<close> are the calls made, the current one last, \<open>w\<close> and \<open>w'\<close> the
  state before and after it. The finalizers of Hardware, claims and machines are accounted for; Templates,
  Tasks and Workflows have none.
\<close>

definition serves_call :: "('e) kube_scheme \<Rightarrow> call list \<Rightarrow> call \<Rightarrow> server \<Rightarrow> server \<Rightarrow> bool" where
  "serves_call E h c w w' \<longleftrightarrow>
     (case c of
        GetHardware k \<Rightarrow> w' = w \<and> ansHardware E h = stored_at (srvHardware w) k \<and> (\<forall>x. srvHardware w k = Some x \<longrightarrow> object_key x = k)
      | PatchHardware old new lock \<Rightarrow>
          srvHardware w (object_key old) = Some old \<and> object_key new = object_key old \<longrightarrow>
          (\<exists>v. ansHardware E h = Inr (new\<lparr>ResourceVersion := v\<rparr>) \<and>
             w' = w\<lparr>srvHardware := (srvHardware w)(object_key old := kept (new\<lparr>ResourceVersion := v\<rparr>))\<rparr>)
      | GetTemplate k \<Rightarrow> w' = w \<and> ansTemplate E h = stored_at (srvTemplates w) k \<and> (\<forall>x. srvTemplates w k = Some x \<longrightarrow> object_key x = k)
      | DeleteTemplate k \<Rightarrow>
          ansUnit E h = deleted_answer (srvTemplates w k) \<and> w' = w\<lparr>srvTemplates := (srvTemplates w)(k := None)\<rparr>
      | ListTasks ns n mns \<Rightarrow>
          w' = w \<and> (\<forall>k x. srvTasks w k = Some x \<longrightarrow> object_key x = k) \<and>
          (\<exists>items. ansTaskList E h = Inr items \<and> set items = {t. \<exists>k. srvTasks w k = Some t \<and> machine_task ns n mns t})
      | DeleteTask k \<Rightarrow> ansUnit E h = deleted_answer (srvTasks w k) \<and> w' = w\<lparr>srvTasks := (srvTasks w)(k := None)\<rparr>
      | GetWorkflow k \<Rightarrow> w' = w \<and> ansWorkflow E h = stored_at (srvWorkflows w) k \<and> (\<forall>x. srvWorkflows w k = Some x \<longrightarrow> object_key x = k)
      | DeleteWorkflow k \<Rightarrow>
          ansUnit E h = deleted_answer (srvWorkflows w k) \<and> w' = w\<lparr>srvWorkflows := (srvWorkflows w)(k := None)\<rparr>
      | GetJob k \<Rightarrow> w' = w \<and> ansJob E h = stored_at (srvJobs w) k
      | CreateJob j \<Rightarrow>
          srvJobs w (object_key j) = None \<longrightarrow>
          (\<exists>j'. ansJob E h = Inr j' \<and> object_key j' = object_key j \<and> jobOperations j' = jobOperations j \<and>
             w' = w\<lparr>srvJobs := (srvJobs w)(object_key j \<mapsto> j')\<rparr>)
      | GetClaim k \<Rightarrow> w' = w \<and> ansClaim E h = stored_at (srvClaims w) k \<and> (\<forall>x. srvClaims w k = Some x \<longrightarrow> object_key x = k)
      | PatchClaim old new lock \<Rightarrow>
          srvClaims w (object_key old) = Some old \<and> object_key new = object_key old \<longrightarrow>
          (\<exists>v. ansClaim E h = Inr (new\<lparr>ResourceVersion := v\<rparr>) \<and>
             w' = w\<lparr>srvClaims := (srvClaims w)(object_key old := kept (new\<lparr>ResourceVersion := v\<rparr>))\<rparr>)
      | DeleteClaim k \<Rightarrow>
          ansUnit E h = deleted_answer (srvClaims w k) \<and>
          (\<exists>now. w' = w\<lparr>srvClaims := (srvClaims w)(k := (case srvClaims w k of None \<Rightarrow> None
             | Some x \<Rightarrow> kept (x\<lparr>DeletionTimestamp := Some now\<rparr>)))\<rparr>)
      | ListAssignedHardware n ns \<Rightarrow> w' = w
      | ListHardware sel \<Rightarrow> w' = w
      | CallEnsureWatch ns \<Rightarrow> w' = w
      | GetIPAddress k \<Rightarrow> w' = w \<and> (\<exists>a. ansIPAddress E h = Inr a \<or> ansIPAddress E h = Inl NotFound)
      | PatchTinkerbellMachine tm \<Rightarrow>
          ansUnit E h = Inr () \<and>
          (\<exists>m. Finalizers m = Finalizers tm \<and> w' = w\<lparr>srvMachines := (srvMachines w)(object_key tm := kept m)\<rparr>)
      | _ \<Rightarrow> True)"

definition serves :: "('e) kube_scheme \<Rightarrow> (call list \<Rightarrow> server) \<Rightarrow> call list \<Rightarrow> bool" where
  "serves E st from \<longleftrightarrow>
     (\<forall>h c. serves_call E (from @ h @ [c]) c (st (from @ h)) (st (from @ h @ [c])))"

lemma serves_later: "serves E st from \<Longrightarrow> serves E st (from @ h)"
  by (simp add: serves_def) (metis append.assoc)

lemma serves_next: "serves E st from \<Longrightarrow> serves_call E (from @ [c]) c (st from) (st (from @ [c]))"
  unfolding serves_def by (metis append_Nil append_Nil2)

section \<open>What each operation makes of the servers\<close>

text \<open>
  The operation succeeds in the scope \<open>s\<close> with a result and a state of the servers such that \<open>Q\<close>, and the servers
  go on as they do; the machine in the scope stays as it is.
\<close>

definition achieves ::
    "('e) kube_scheme \<Rightarrow> (call list \<Rightarrow> server) \<Rightarrow> scope \<Rightarrow> 'a io \<Rightarrow> ('a \<Rightarrow> server \<Rightarrow> bool) \<Rightarrow> bool" where
  "achieves E st s m Q \<longleftrightarrow>
     (\<exists>x s'. m s = (Inr x, s') \<and> serves E st (calls s') \<and> tinkerbellMachine s' = tinkerbellMachine s \<and>
        externalTinkerbell s' = externalTinkerbell s \<and> Q x (st (calls s')))"

lemma achievesD:
  assumes "achieves E st s m Q"
  obtains x s' where "m s = (Inr x, s')" "serves E st (calls s')" "tinkerbellMachine s' = tinkerbellMachine s"
    "externalTinkerbell s' = externalTinkerbell s" "Q x (st (calls s'))"
  using assms unfolding achieves_def by blast

lemma achieves_bind:
  assumes "achieves E st s m Q"
    and "\<And>x s'. serves E st (calls s') \<Longrightarrow> tinkerbellMachine s' = tinkerbellMachine s \<Longrightarrow>
      externalTinkerbell s' = externalTinkerbell s \<Longrightarrow> Q x (st (calls s')) \<Longrightarrow> achieves E st s' (f x) R"
  shows "achieves E st s (bindE m f) R"
proof -
  obtain x s' where m: "m s = (Inr x, s')" "serves E st (calls s')" "tinkerbellMachine s' = tinkerbellMachine s"
      "externalTinkerbell s' = externalTinkerbell s" "Q x (st (calls s'))"
    by (rule achievesD [OF assms(1)])
  from assms(2) [OF m(2-5)] m show ?thesis by (auto simp: achieves_def run_bindE)
qed

lemma achieves_return: "serves E st (calls s) \<Longrightarrow> Q x (st (calls s)) \<Longrightarrow> achieves E st s (returnE x) Q"
  by (simp add: achieves_def run_returnE)

lemma achieves_gets: "achieves E st s (f (g s)) Q \<Longrightarrow> achieves E st s (bindE (getsE g) f) Q"
  by (simp add: achieves_def run_bindE run_getsE)

lemma achieves_mono: "achieves E st s m Q \<Longrightarrow> (\<And>x w. Q x w \<Longrightarrow> R x w) \<Longrightarrow> achieves E st s m R"
  unfolding achieves_def by blast

text \<open>A call that is answered, and one that may fail in a way that is dealt with.\<close>

lemma achieves_api:
  assumes "serves E st (calls s)" and "ans (calls s @ [c]) = Inr x" and "Q x (st (calls s @ [c]))"
  shows "achieves E st s (api ans c) Q"
  using assms serves_later [OF assms(1), of "[c]"] by (simp add: achieves_def run_api)

lemma achieves_try:
  assumes "serves E st (calls s)"
    and "\<And>a. ans (calls s @ [c]) = Inl a \<Longrightarrow> achieves E st (add_call c s) (f (Inl (Api a))) Q"
    and "\<And>x. ans (calls s @ [c]) = Inr x \<Longrightarrow> achieves E st (add_call c s) (f (Inr x)) Q"
  shows "achieves E st s (bindE (tryE (api ans c)) f) Q"
proof (cases "ans (calls s @ [c])")
  case (Inl a)
  then show ?thesis using assms(2) [OF Inl] by (simp add: achieves_def run_bindE run_tryE run_api)
next
  case (Inr x)
  then show ?thesis using assms(3) [OF Inr] by (simp add: achieves_def run_bindE run_tryE run_api)
qed

lemma achieves_delete:
  assumes "serves E st (calls s)" and "ans (calls s @ [c]) = deleted_answer x" and "Q () (st (calls s @ [c]))"
  shows "achieves E st s (catchE (api ans c) (\<lambda>e. if isNotFound e then returnE () else throwE e)) Q"
  using assms serves_later [OF assms(1), of "[c]"]
  by (auto simp: achieves_def run_catchE run_api deleted_answer_def run_returnE)

lemma fun_upd_absent: "f k = None \<Longrightarrow> f(k := None) = f"
  by (simp add: fun_upd_idem)

context object_remover
begin

lemma achieves_remove:
  assumes sv: "serves E st (calls s)" and k: "k = machine_key (tinkerbellMachine s)" and gone: "gone NotFound"
    and get: "st (calls s @ [getc k]) = st (calls s)"
      "found (calls s @ [getc k]) = map_sum id object_key (stored_at objs k)" "\<And>x. objs k = Some x \<Longrightarrow> object_key x = k"
    and del: "deleted (calls s @ [getc k, delc k]) = deleted_answer (objs k)" "st (calls s @ [getc k, delc k]) = w'"
    and none: "objs k = None \<Longrightarrow> w' = st (calls s)"
  shows "achieves E st s (unless_not_found remove) (\<lambda>_ w. w = w')"
proof (cases "objs k")
  case None
  with get gone none serves_later [OF sv, of "[getc k]"] show ?thesis
    by (simp add: achieves_def unless_not_found_def run_catchE run_remove stored_at_def flip: k)
next
  case (Some x)
  with get del serves_later [OF sv, of "[getc k, delc k]"] show ?thesis
    by (simp add: achieves_def unless_not_found_def run_catchE run_remove stored_at_def deleted_answer_def flip: k)
qed

end

lemma achieves_removeTemplate:
  assumes sv: "serves E st (calls s)" and k: "k = machine_key (tinkerbellMachine s)"
  shows "achieves E st s (unless_not_found (removeTemplate E))
    (\<lambda>_ w. w = (st (calls s))\<lparr>srvTemplates := (srvTemplates (st (calls s)))(k := None)\<rparr>)"
proof (rule template_remover.achieves_remove [OF sv k, where objs = "srvTemplates (st (calls s))"])
  have sv1: "serves E st (calls s @ [GetTemplate k])" by (rule serves_later [OF sv])
  show "st (calls s @ [GetTemplate k]) = st (calls s)"
    and "map_sum id object_key (ansTemplate E (calls s @ [GetTemplate k])) =
      map_sum id object_key (stored_at (srvTemplates (st (calls s))) k)"
    and "srvTemplates (st (calls s)) k = Some x \<Longrightarrow> object_key x = k" for x
    using serves_next [OF sv, of "GetTemplate k"] by (simp_all add: serves_call_def)
  with serves_next [OF sv1, of "DeleteTemplate k"]
  show "ansUnit E (calls s @ [GetTemplate k, DeleteTemplate k]) = deleted_answer (srvTemplates (st (calls s)) k)"
    and "st (calls s @ [GetTemplate k, DeleteTemplate k]) =
      (st (calls s))\<lparr>srvTemplates := (srvTemplates (st (calls s)))(k := None)\<rparr>"
    by (simp_all add: serves_call_def)
qed (simp_all add: fun_upd_absent)

lemma achieves_removeWorkflow:
  assumes sv: "serves E st (calls s)" and k: "k = machine_key (tinkerbellMachine s)"
  shows "achieves E st s (unless_not_found (removeWorkflow E))
    (\<lambda>_ w. w = (st (calls s))\<lparr>srvWorkflows := (srvWorkflows (st (calls s)))(k := None)\<rparr>)"
proof (rule workflow_remover.achieves_remove [OF sv k, where objs = "srvWorkflows (st (calls s))"])
  have sv1: "serves E st (calls s @ [GetWorkflow k])" by (rule serves_later [OF sv])
  show "st (calls s @ [GetWorkflow k]) = st (calls s)"
    and "map_sum id object_key (ansWorkflow E (calls s @ [GetWorkflow k])) =
      map_sum id object_key (stored_at (srvWorkflows (st (calls s))) k)"
    and "srvWorkflows (st (calls s)) k = Some x \<Longrightarrow> object_key x = k" for x
    using serves_next [OF sv, of "GetWorkflow k"] by (simp_all add: serves_call_def)
  with serves_next [OF sv1, of "DeleteWorkflow k"]
  show "ansUnit E (calls s @ [GetWorkflow k, DeleteWorkflow k]) = deleted_answer (srvWorkflows (st (calls s)) k)"
    and "st (calls s @ [GetWorkflow k, DeleteWorkflow k]) =
      (st (calls s))\<lparr>srvWorkflows := (srvWorkflows (st (calls s)))(k := None)\<rparr>"
    by (simp_all add: serves_call_def)
qed (simp_all add: fun_upd_absent)

text \<open>The Tasks: those listed are deleted one by one.\<close>

definition without_tasks :: "nsname set \<Rightarrow> server \<Rightarrow> server" where
  "without_tasks ks w = w\<lparr>srvTasks := (\<lambda>k. if k \<in> ks then None else srvTasks w k)\<rparr>"

lemma without_tasks_one: "w\<lparr>srvTasks := (srvTasks w)(k := None)\<rparr> = without_tasks {k} w"
  by (simp add: without_tasks_def fun_eq_iff cong: server.unfold_congs)

lemma without_tasks_twice: "without_tasks ks (without_tasks ls w) = without_tasks (ls \<union> ks) w"
  by (auto simp: without_tasks_def fun_eq_iff cong: server.unfold_congs)

lemma without_tasks_none [simp]: "without_tasks {} w = w"
  by (simp add: without_tasks_def)

lemma achieves_deleteTask:
  assumes sv: "serves E st (calls s)"
  shows "achieves E st s (deleteTask E t) (\<lambda>_ w. w = without_tasks {object_key t} (st (calls s)))"
  unfolding deleteTask_def
proof (rule achieves_delete [OF sv])
  show "ansUnit E (calls s @ [DeleteTask (object_key t)]) = deleted_answer (srvTasks (st (calls s)) (object_key t))"
    and "st (calls s @ [DeleteTask (object_key t)]) = without_tasks {object_key t} (st (calls s))"
    using serves_next [OF sv, of "DeleteTask (object_key t)"]
    by (simp_all add: serves_call_def without_tasks_one)
qed

lemma achieves_forE_deleteTask:
  assumes "serves E st (calls s)"
  shows "achieves E st s (forE (\<lambda>t. if Name t \<in> {} then returnE () else deleteTask E t) items)
    (\<lambda>_ w. w = without_tasks (object_key ` set items) (st (calls s)))"
  using assms
proof (induction items arbitrary: s)
  case Nil
  then show ?case by (simp add: achieves_return)
next
  case (Cons t ts)
  have "achieves E st s (bindE (deleteTask E t)
      (\<lambda>_. forE (\<lambda>t. if Name t \<in> {} then returnE () else deleteTask E t) ts))
    (\<lambda>_ w. w = without_tasks (insert (object_key t) (object_key ` set ts)) (st (calls s)))"
  proof (rule achieves_bind [OF achieves_deleteTask [OF Cons.prems]])
    fix x and s' :: scope assume "serves E st (calls s')" and w: "st (calls s') = without_tasks {object_key t} (st (calls s))"
    from Cons.IH [OF this(1)] show "achieves E st s' (forE (\<lambda>t. if Name t \<in> {} then returnE () else deleteTask E t) ts)
        (\<lambda>_ w. w = without_tasks (insert (object_key t) (object_key ` set ts)) (st (calls s)))"
      by (simp add: w without_tasks_twice)
  qed
  then show ?case by simp
qed

definition machine_task_of :: "tinkerbell_machine \<Rightarrow> task \<Rightarrow> bool" where
  "machine_task_of tm t \<longleftrightarrow> machine_task (tinkerbellNamespace tm) (Name tm) (Namespace tm) t"

definition no_machine_tasks :: "tinkerbell_machine \<Rightarrow> server \<Rightarrow> bool" where
  "no_machine_tasks tm w \<longleftrightarrow> (\<forall>k t. srvTasks w k = Some t \<longrightarrow> \<not> machine_task_of tm t)"

lemma achieves_removeTasks:
  assumes sv: "serves E st (calls s)"
  shows "achieves E st s (removeTasks E {})
    (\<lambda>_ w. (\<exists>ks. w = without_tasks ks (st (calls s))) \<and> no_machine_tasks (tinkerbellMachine s) w)"
proof -
  let ?tm = "tinkerbellMachine s" and ?w = "st (calls s)"
  let ?l = "ListTasks (tinkerbellNamespace ?tm) (Name ?tm) (Namespace ?tm)"
  obtain items where l: "st (calls s @ [?l]) = ?w" "ansTaskList E (calls s @ [?l]) = Inr items"
      "\<And>k x. srvTasks ?w k = Some x \<Longrightarrow> object_key x = k"
      "set items = {t. \<exists>k. srvTasks ?w k = Some t \<and> machine_task_of ?tm t}"
    using serves_next [OF sv, of ?l] by (auto simp: serves_call_def machine_task_of_def)
  have gone: "no_machine_tasks ?tm (without_tasks (object_key ` set items) ?w)"
    unfolding no_machine_tasks_def
  proof (intro allI impI)
    fix k t assume "srvTasks (without_tasks (object_key ` set items) ?w) k = Some t"
    then have k: "k \<notin> object_key ` set items" and t: "srvTasks ?w k = Some t"
      by (simp_all add: without_tasks_def split: if_splits)
    show "\<not> machine_task_of ?tm t"
    proof
      assume "machine_task_of ?tm t"
      with t have "t \<in> set items" by (auto simp: l(4))
      with l(3) [OF t] k show False by blast
    qed
  qed
  have "achieves E st (add_call ?l s) (forE (\<lambda>t. if Name t \<in> {} then returnE () else deleteTask E t) items)
      (\<lambda>_ w. w = without_tasks (object_key ` set items) ?w)"
    using achieves_forE_deleteTask [of E st "add_call ?l s" items] serves_later [OF sv] by (simp add: l(1))
  with gone show ?thesis
    unfolding removeTasks_def by (auto simp: achieves_def run_bindE run_getsE run_api l(2))
qed

text \<open>Everything the machine created is gone, and nothing else has changed.\<close>

definition dependencies_gone :: "tinkerbell_machine \<Rightarrow> server \<Rightarrow> server \<Rightarrow> bool" where
  "dependencies_gone tm w w' \<longleftrightarrow>
     srvTemplates w' (machine_key tm) = None \<and> srvWorkflows w' (machine_key tm) = None \<and> no_machine_tasks tm w' \<and>
     srvHardware w' = srvHardware w \<and> srvJobs w' = srvJobs w \<and> srvClaims w' = srvClaims w \<and> srvMachines w' = srvMachines w"

lemma achieves_removeDependencies:
  assumes sv: "serves E st (calls s)"
  shows "achieves E st s (removeDependencies E) (\<lambda>_ w. dependencies_gone (tinkerbellMachine s) (st (calls s)) w)"
  unfolding removeDependencies_def
proof (rule achieves_bind [OF achieves_removeTemplate [OF sv refl]])
  fix x and s1 :: scope assume s1: "serves E st (calls s1)" "tinkerbellMachine s1 = tinkerbellMachine s"
    and w1: "st (calls s1) = (st (calls s))\<lparr>srvTemplates :=
      (srvTemplates (st (calls s)))(machine_key (tinkerbellMachine s) := None)\<rparr>"
  show "achieves E st s1 (bindE (removeTasks E {}) (\<lambda>_. unless_not_found (removeWorkflow E)))
      (\<lambda>_ w. dependencies_gone (tinkerbellMachine s) (st (calls s)) w)"
  proof (rule achieves_bind [OF achieves_removeTasks [OF s1(1)]])
    fix y and s2 :: scope assume s2: "serves E st (calls s2)" "tinkerbellMachine s2 = tinkerbellMachine s1"
      and w2: "(\<exists>ks. st (calls s2) = without_tasks ks (st (calls s1))) \<and>
        no_machine_tasks (tinkerbellMachine s1) (st (calls s2))"
    show "achieves E st s2 (unless_not_found (removeWorkflow E))
        (\<lambda>_ w. dependencies_gone (tinkerbellMachine s) (st (calls s)) w)"
      by (rule achieves_mono [OF achieves_removeWorkflow [OF s2(1) refl]])
        (use w1 w2 s1 s2 in \<open>auto simp: dependencies_gone_def without_tasks_def no_machine_tasks_def\<close>)
  qed
qed

section \<open>Powering off, releasing\<close>

definition poweroff_key :: "tinkerbell_machine \<Rightarrow> nsname" where
  "poweroff_key tm = NN (tinkerbellNamespace tm) (poweroff_name tm)"

definition job_completed :: "('e) env_scheme \<Rightarrow> bmc_job \<Rightarrow> bool" where
  "job_completed E job \<longleftrightarrow> hasConditionStatus E (jobConditions job) ConditionTypeCompleted ConditionStatusTrue"

text \<open>\<open>SetControllerReference\<close> refuses only an object that has another controller already.\<close>

definition controller_laws :: "('e) env_scheme \<Rightarrow> bool" where
  "controller_laws E \<longleftrightarrow> (\<forall>ow ob. OwnerReferences ob = [] \<longrightarrow> (\<exists>refs. setControllerReference E ow ob = Inr refs))"

text \<open>The Job that powers the machine off is on the server, and has not completed: the deletion waits for it.\<close>

definition powering_off :: "('e) env_scheme \<Rightarrow> tinkerbell_machine \<Rightarrow> server \<Rightarrow> server \<Rightarrow> goerr \<Rightarrow> bool" where
  "powering_off E tm w w' e \<longleftrightarrow>
     (\<exists>job. srvJobs w' (poweroff_key tm) = Some job \<and>
        (if srvJobs w (poweroff_key tm) = None
         then jobOperations job = [PowerActionHardOff] \<and> e = ErrBMCJobCreated (object_key job) \<and>
           w' = w\<lparr>srvJobs := (srvJobs w)(poweroff_key tm \<mapsto> job)\<rparr>
         else \<not> job_completed E job \<and> (e = ErrBMCJobFailed (object_key job) \<or> e = ErrBMCJobNotCompleted (object_key job)) \<and>
           w' = w))"

lemma owned_job:
  assumes "controller_laws E"
  shows "\<exists>job. setResourceOwnership E tm ext (newBMCJob tm n hw ops) = Inr job \<and>
    object_key job = NN (tinkerbellNamespace tm) n \<and> jobOperations job = ops"
proof -
  let ?j = "owner_labels tm (newBMCJob tm n hw ops)"
  have "OwnerReferences (meta ?j) = []"
    by (simp add: owner_labels_def newBMCJob_def objmeta.defs new_meta_def)
  then obtain refs where "setControllerReference E (meta tm) (meta ?j) = Inr refs"
    using assms unfolding controller_laws_def by blast
  then show ?thesis
    by (auto simp: setResourceOwnership_def Let_def owner_labels_def newBMCJob_def objmeta.defs new_meta_def object_key_def)
qed

lemma ensureBMCJob_served:
  assumes sv: "serves E st (calls s)" and laws: "controller_laws E"
  shows "\<exists>r s'. ensureBMCJobCompletionForDelete E hw s = (r, s') \<and> serves E st (calls s') \<and>
    tinkerbellMachine s' = tinkerbellMachine s \<and>
    (case r of
       Inr _ \<Rightarrow> st (calls s') = st (calls s) \<and> (\<exists>job. srvJobs (st (calls s)) (poweroff_key (tinkerbellMachine s)) = Some job \<and> job_completed E job)
     | Inl e \<Rightarrow> powering_off E (tinkerbellMachine s) (st (calls s)) (st (calls s')) e)"
proof -
  let ?tm = "tinkerbellMachine s" and ?w = "st (calls s)"
  let ?k = "poweroff_key ?tm"
  let ?g = "GetJob ?k"
  have g: "st (calls s @ [?g]) = ?w" "ansJob E (calls s @ [?g]) = stored_at (srvJobs ?w) ?k"
    using serves_next [OF sv, of ?g] by (simp_all add: serves_call_def)
  have sv1: "serves E st (calls s @ [?g])" by (rule serves_later [OF sv])
  have run: "ensureBMCJobCompletionForDelete E hw s =
      (case stored_at (srvJobs ?w) ?k of
         Inl a \<Rightarrow> (if a = NotFound then createPowerOffJob E hw else throwE (Api a)) (add_call ?g s)
       | Inr job \<Rightarrow> (if job_completed E job then Inr ()
           else if hasConditionStatus E (jobConditions job) ConditionTypeFailed ConditionStatusTrue
             then Inl (ErrBMCJobFailed (object_key job)) else Inl (ErrBMCJobNotCompleted (object_key job)), add_call ?g s))"
    using g(2) unfolding poweroff_key_def
    by (simp add: ensureBMCJobCompletionForDelete_def getJob_def run_bindE run_getsE run_tryE run_api run_throwE run_returnE
        job_completed_def split: sum.split)
  show ?thesis
  proof (cases "srvJobs ?w ?k")
    case (Some job)
    with run g sv1 show ?thesis by (auto simp: stored_at_def powering_off_def)
  next
    case None
    obtain job where job: "setResourceOwnership E ?tm (externalTinkerbell s) (newBMCJob ?tm (poweroff_name ?tm) hw [PowerActionHardOff]) = Inr job"
        "object_key job = ?k" "jobOperations job = [PowerActionHardOff]"
      using owned_job [OF laws] unfolding poweroff_key_def by metis
    let ?c = "CreateJob job"
    have none: "srvJobs (st (calls s @ [?g])) (object_key job) = None" by (simp add: g job None)
    obtain j' where c: "ansJob E (calls s @ [?g, ?c]) = Inr j'" "object_key j' = ?k" "jobOperations j' = [PowerActionHardOff]"
        "st (calls s @ [?g, ?c]) = ?w\<lparr>srvJobs := (srvJobs ?w)(?k \<mapsto> j')\<rparr>"
      using serves_next [OF sv1, of ?c] none by (auto simp: serves_call_def g job)
    have "ensureBMCJobCompletionForDelete E hw s = (Inl (ErrBMCJobCreated (object_key j')), add_call ?c (add_call ?g s))"
      by (simp add: run None stored_at_def createPowerOffJob_def run_bindE run_getsE run_owned job run_api c run_throwE)
    moreover have "serves E st (calls s @ [?g, ?c])" by (rule serves_later [OF sv])
    ultimately show ?thesis using None c by (simp add: powering_off_def)
  qed
qed

definition released_hardware :: "hardware \<Rightarrow> bool" where
  "released_hardware hw \<longleftrightarrow>
     Labels hw HardwareOwnerNameLabel = None \<and> Labels hw HardwareOwnerNamespaceLabel = None \<and>
     Annotations hw HardwareProvisionedAnnotation = None \<and> hardwareUserData hw = None \<and>
     MachineFinalizer \<notin> set (Finalizers hw) \<and> MachineLegacyFinalizer \<notin> set (Finalizers hw)"

lemma clearHardwareAddress_frame:
  "Labels (clearHardwareAddress hw mac f) = Labels hw" "Annotations (clearHardwareAddress hw mac f) = Annotations hw"
  "Finalizers (clearHardwareAddress hw mac f) = Finalizers hw" "Instance (clearHardwareAddress hw mac f) = Instance hw"
  by (auto simp: clearHardwareAddress_def split: option.split)

lemma clearHardwareAddress_key: "object_key (clearHardwareAddress hw mac f) = object_key hw"
  by (auto simp: clearHardwareAddress_def object_key_def split: option.split)

lemma release_key:
  assumes "h = without_ownership base \<or> h = clearHardwareAddress (without_ownership base) mac f"
  shows "object_key (without_finalizers E h) = object_key base"
proof -
  have "object_key (without_finalizers E h) = object_key h" by (simp add: object_key_def without_finalizers_def)
  also have "\<dots> = object_key (without_ownership base)" using assms by (auto simp: clearHardwareAddress_key)
  also have "\<dots> = object_key base" by (simp add: object_key_def without_ownership_def)
  finally show ?thesis .
qed

lemma released_patch:
  assumes "finalizer_laws E" and "h = without_ownership base \<or> h = clearHardwareAddress (without_ownership base) mac f"
  shows "released_hardware ((without_finalizers E h)\<lparr>ResourceVersion := v\<rparr>)"
proof -
  have h: "Labels h = Labels (without_ownership base)" "Annotations h = Annotations (without_ownership base)"
      "Instance h = Instance (without_ownership base)"
    using assms(2) by (auto simp: clearHardwareAddress_frame)
  have "set (removeFinalizer E (removeFinalizer E fs MachineFinalizer) MachineLegacyFinalizer) =
      set fs - {MachineFinalizer, MachineLegacyFinalizer}" for fs
    using assms(1) by (auto simp: finalizer_laws_def)
  then show ?thesis
    by (simp add: released_hardware_def without_finalizers_def hardwareUserData_def h)
      (simp add: without_ownership_def split: option.split)
qed

lemma achieves_getClaim_try:
  assumes sv: "serves E st (calls s)" and pool: "AddressFromPool (tmSpec (tinkerbellMachine s)) = Some pool"
    and k: "ipAddressClaimKey (tinkerbellMachine s) = Inr k"
    and none: "srvClaims (st (calls s)) k = None \<Longrightarrow> achieves E st (add_call (GetClaim k) s) (f (Inl (Api NotFound))) Q"
    and some: "\<And>claim. srvClaims (st (calls s)) k = Some claim \<Longrightarrow> object_key claim = k \<Longrightarrow>
      achieves E st (add_call (GetClaim k) s) (f (Inr claim)) Q"
  shows "achieves E st s (bindE (tryE (getIPAddressClaim E)) f) Q"
proof -
  have g: "st (calls s @ [GetClaim k]) = st (calls s)"
      "ansClaim E (calls s @ [GetClaim k]) = stored_at (srvClaims (st (calls s))) k"
      "\<And>x. srvClaims (st (calls s)) k = Some x \<Longrightarrow> object_key x = k"
    using serves_next [OF sv, of "GetClaim k"] by (simp_all add: serves_call_def)
  have run: "getIPAddressClaim E s = (map_sum Api id (stored_at (srvClaims (st (calls s))) k), add_call (GetClaim k) s)"
    by (simp add: getIPAddressClaim_def run_bindE run_getsE run_liftE k run_api g)
  show ?thesis
  proof (cases "srvClaims (st (calls s)) k")
    case None
    then show ?thesis using none [OF None] by (simp add: achieves_def run_bindE run_tryE run stored_at_def)
  next
    case (Some claim)
    then show ?thesis using some [OF Some] g(3) [OF Some] by (simp add: achieves_def run_bindE run_tryE run stored_at_def)
  qed
qed

lemma st_read_claim:
  assumes "serves E st (calls s)"
  shows "st (calls s @ [GetClaim k]) = st (calls s)" "serves E st (calls s @ [GetClaim k])"
  using serves_next [OF assms, of "GetClaim k"] serves_later [OF assms] by (simp_all add: serves_call_def)

lemma achieves_claimedFamily:
  assumes sv: "serves E st (calls s)"
  shows "achieves E st s (claimedFamily E claim) (\<lambda>_ w. w = st (calls s))"
proof -
  let ?g = "GetIPAddress (NN (Namespace claim) (claimAddressRef claim))"
  have g: "st (calls s @ [?g]) = st (calls s)" "\<exists>a. ansIPAddress E (calls s @ [?g]) = Inr a \<or> ansIPAddress E (calls s @ [?g]) = Inl NotFound"
    using serves_next [OF sv, of ?g] by (simp_all add: serves_call_def)
  have "serves E st (calls s @ [?g])" by (rule serves_later [OF sv])
  with g sv show ?thesis
    by (auto simp: achieves_def claimedFamily_def run_returnE run_bindE run_tryE run_api split: option.split)
qed

lemma achieves_ipamReservation:
  assumes sv: "serves E st (calls s)" and pool: "AddressFromPool (tmSpec (tinkerbellMachine s)) = Some pool"
  shows "achieves E st s (ipamReservation E hw) (\<lambda>_ w. w = st (calls s))"
proof -
  obtain k where k: "ipAddressClaimKey (tinkerbellMachine s) = Inr k" by (simp add: ipAddressClaimKey_def pool)
  let ?s1 = "add_call (GetClaim k) s"
  note w1 = st_read_claim(1) [OF sv, of k]
  have sv1: "serves E st (calls ?s1)" using st_read_claim(2) [OF sv, of k] by simp
  have claimed: "achieves E st ?s1 (bindE (claimedFamily E claim) (\<lambda>family. returnE (mac, family))) (\<lambda>_ w. w = st (calls s))" for claim mac
    by (rule achieves_bind [OF achieves_claimedFamily [OF sv1]]) (simp add: achieves_return w1)
  show ?thesis
    unfolding ipamReservation_def Let_def
  proof (rule achieves_getClaim_try [OF sv pool k])
    assume "srvClaims (st (calls s)) k = None"
    show "achieves E st ?s1 (case Inl (Api NotFound) of
        Inl e \<Rightarrow> if isNotFound e then returnE (case primaryInterfaceMAC E hw of Inl _ \<Rightarrow> ('''', 0) | Inr mac \<Rightarrow> (mac, 0)) else throwE e
      | Inr claim \<Rightarrow> bindE (getsE tinkerbellMachine) (\<lambda>tm.
          if lookup0 (Annotations claim) AnnotationMACAddress \<noteq> '''' \<and> isControlledBy E (meta claim) (meta tm)
          then bindE (claimedFamily E claim) (\<lambda>family. returnE (lookup0 (Annotations claim) AnnotationMACAddress, family))
          else returnE (case primaryInterfaceMAC E hw of Inl _ \<Rightarrow> ('''', 0) | Inr mac \<Rightarrow> (mac, 0)))) (\<lambda>_ w. w = st (calls s))"
      by (simp add: achieves_return [OF sv1] w1)
  next
    fix claim
    show "achieves E st ?s1 (case Inr claim of
        Inl e \<Rightarrow> if isNotFound e then returnE (case primaryInterfaceMAC E hw of Inl _ \<Rightarrow> ('''', 0) | Inr mac \<Rightarrow> (mac, 0)) else throwE e
      | Inr claim \<Rightarrow> bindE (getsE tinkerbellMachine) (\<lambda>tm.
          if lookup0 (Annotations claim) AnnotationMACAddress \<noteq> '''' \<and> isControlledBy E (meta claim) (meta tm)
          then bindE (claimedFamily E claim) (\<lambda>family. returnE (lookup0 (Annotations claim) AnnotationMACAddress, family))
          else returnE (case primaryInterfaceMAC E hw of Inl _ \<Rightarrow> ('''', 0) | Inr mac \<Rightarrow> (mac, 0)))) (\<lambda>_ w. w = st (calls s))"
      unfolding sum.case
      by (rule achieves_gets) (simp add: claimed achieves_return [OF sv1] w1)
  qed
qed

lemma achieves_releaseHardware:
  assumes sv: "serves E st (calls s)" and laws: "finalizer_laws E"
    and cur: "srvHardware (st (calls s)) (object_key base) = Some base"
  shows "achieves E st s (releaseHardware E base) (\<lambda>_ w. \<exists>new. released_hardware new \<and>
    w = (st (calls s))\<lparr>srvHardware := (srvHardware (st (calls s)))(object_key base := kept new)\<rparr>)"
proof -
  let ?tm = "tinkerbellMachine s" and ?hw = "without_ownership base"
  let ?Q = "\<lambda>(_ :: hardware) w. \<exists>new. released_hardware new \<and>
    w = (st (calls s))\<lparr>srvHardware := (srvHardware (st (calls s)))(object_key base := kept new)\<rparr>"
  have patch: "achieves E st t (api (ansHardware E) (PatchHardware base (without_finalizers E h) True)) ?Q"
    if t: "serves E st (calls t)" "st (calls t) = st (calls s)"
      and h: "h = ?hw \<or> h = clearHardwareAddress ?hw mac f" for t h mac f
  proof -
    let ?c = "PatchHardware base (without_finalizers E h) True"
    obtain v where v: "ansHardware E (calls t @ [?c]) = Inr ((without_finalizers E h)\<lparr>ResourceVersion := v\<rparr>)"
        "st (calls t @ [?c]) = (st (calls t))\<lparr>srvHardware := (srvHardware (st (calls t)))(object_key base :=
           kept ((without_finalizers E h)\<lparr>ResourceVersion := v\<rparr>))\<rparr>"
      using serves_next [OF t(1), of ?c] cur t(2) release_key [OF h, of E] by (auto simp: serves_call_def)
    show ?thesis
      by (rule achieves_api [where c = ?c and ans = "ansHardware E", OF t(1) v(1)]) (use released_patch [OF laws h, of v] v(2) t(2) in auto)
  qed
  show ?thesis
  proof (cases "AddressFromPool (tmSpec ?tm)")
    case None
    then show ?thesis
      unfolding releaseHardware_def
      by (intro achieves_gets) (simp add: Let_def patch [OF sv refl])
  next
    case (Some pool)
    show ?thesis
      unfolding releaseHardware_def
    proof (rule achieves_gets, unfold Let_def, rule achieves_bind)
      show "achieves E st s (if AddressFromPool (tmSpec ?tm) \<noteq> None
          then bindE (ipamReservation E ?hw) (\<lambda>(mac, family). returnE (clearHardwareAddress ?hw mac family)) else returnE ?hw)
        (\<lambda>h w. w = st (calls s) \<and> (\<exists>mac f. h = clearHardwareAddress ?hw mac f))"
        by (simp add: Some, rule achieves_bind [OF achieves_ipamReservation [OF sv Some]])
          (auto intro: achieves_return)
    next
      fix h and s' :: scope assume "serves E st (calls s')" "st (calls s') = st (calls s) \<and> (\<exists>mac f. h = clearHardwareAddress ?hw mac f)"
      then show "achieves E st s' (api (ansHardware E) (PatchHardware base (without_finalizers E h) True)) ?Q"
        using patch by blast
    qed
  qed
qed

text \<open>The claim is let go: gone, not the machine's, or on its way out without this controller's finalizer.\<close>

definition claim_let_go :: "('e) env_scheme \<Rightarrow> tinkerbell_machine \<Rightarrow> (nsname \<rightharpoonup> ip_claim) \<Rightarrow> bool" where
  "claim_let_go E tm cs \<longleftrightarrow>
     (AddressFromPool (tmSpec tm) \<noteq> None \<and> HardwareName (tmSpec tm) \<noteq> '''' \<longrightarrow>
      (\<forall>k claim. ipAddressClaimKey tm = Inr k \<and> cs k = Some claim \<and> isControlledBy E (meta claim) (meta tm) \<longrightarrow>
         being_deleted claim \<and> IPAddressClaimFinalizer \<notin> set (Finalizers claim)))"

lemma kept_Some: "kept x = Some y \<longleftrightarrow> y = x \<and> \<not> (being_deleted x \<and> Finalizers x = [])"
  by (auto simp: kept_def)

lemma achieves_deleteClaim:
  assumes sv: "serves E st (calls s)" and k: "object_key claim = k"
    and off: "\<And>c. srvClaims (st (calls s)) k = Some c \<Longrightarrow> IPAddressClaimFinalizer \<notin> set (Finalizers c)"
  shows "achieves E st s (deleteClaim E claim) (\<lambda>_ w. \<exists>c. w = (st (calls s))\<lparr>srvClaims := (srvClaims (st (calls s)))(k := c)\<rparr> \<and>
    (\<forall>x. c = Some x \<longrightarrow> being_deleted x \<and> IPAddressClaimFinalizer \<notin> set (Finalizers x)))"
proof -
  let ?w = "st (calls s)"
  obtain now where d: "ansUnit E (calls s @ [DeleteClaim k]) = deleted_answer (srvClaims ?w k)"
      "st (calls s @ [DeleteClaim k]) = ?w\<lparr>srvClaims := (srvClaims ?w)(k := (case srvClaims ?w k of None \<Rightarrow> None
         | Some x \<Rightarrow> kept (x\<lparr>DeletionTimestamp := Some now\<rparr>)))\<rparr>"
    using serves_next [OF sv, of "DeleteClaim k"] by (auto simp: serves_call_def)
  show ?thesis
    unfolding deleteClaim_def k
    by (rule achieves_delete [where c = "DeleteClaim k" and ans = "ansUnit E", OF sv d(1)])
      (use d(2) off in \<open>auto simp: kept_Some being_deleted_def split: option.splits intro!: exI\<close>)
qed

lemma achieves_releaseIPAddressClaim:
  assumes sv: "serves E st (calls s)" and laws: "finalizer_laws E"
  shows "achieves E st s (releaseIPAddressClaim E)
    (\<lambda>_ w. \<exists>cs. w = (st (calls s))\<lparr>srvClaims := cs\<rparr> \<and> claim_let_go E (tinkerbellMachine s) cs)"
proof (cases "AddressFromPool (tmSpec (tinkerbellMachine s)) = None \<or> HardwareName (tmSpec (tinkerbellMachine s)) = ''''")
  case True
  then have "claim_let_go E (tinkerbellMachine s) (srvClaims (st (calls s)))" by (auto simp: claim_let_go_def)
  then have "\<exists>cs. st (calls s) = (st (calls s))\<lparr>srvClaims := cs\<rparr> \<and> claim_let_go E (tinkerbellMachine s) cs"
    by (intro exI [of _ "srvClaims (st (calls s))"]) simp
  then show ?thesis
    unfolding releaseIPAddressClaim_def using True
    by (intro achieves_gets) (simp add: achieves_return [OF sv])
next
  case False
  let ?tm = "tinkerbellMachine s" and ?w = "st (calls s)"
  obtain pool where pool: "AddressFromPool (tmSpec ?tm) = Some pool" using False by auto
  then obtain k where k: "ipAddressClaimKey ?tm = Inr k" by (simp add: ipAddressClaimKey_def)
  let ?s1 = "add_call (GetClaim k) s"
  let ?Q = "\<lambda>_ w. \<exists>cs. w = ?w\<lparr>srvClaims := cs\<rparr> \<and> claim_let_go E ?tm cs"
  have w1: "st (calls ?s1) = ?w" and sv1: "serves E st (calls ?s1)"
    using st_read_claim [OF sv, of k] by simp_all
  have let_go: "claim_let_go E ?tm cs" if "\<And>claim. cs k = Some claim \<Longrightarrow> isControlledBy E (meta claim) (meta ?tm) \<Longrightarrow>
      being_deleted claim \<and> IPAddressClaimFinalizer \<notin> set (Finalizers claim)" for cs
    using that k by (auto simp: claim_let_go_def)
  show ?thesis
    unfolding releaseIPAddressClaim_def
  proof (rule achieves_gets, subst if_not_P [OF False], rule achieves_getClaim_try [OF sv pool k])
    assume none: "srvClaims ?w k = None"
    have "?Q () (st (calls ?s1))"
      unfolding w1 by (intro exI [of _ "srvClaims ?w"] conjI let_go) (simp_all add: none)
    then show "achieves E st ?s1 (case Inl (Api NotFound) of Inl e \<Rightarrow> if isNotFound e then returnE () else throwE e
        | Inr claim \<Rightarrow> if \<not> isControlledBy E (meta claim) (meta ?tm) then returnE ()
            else bindE (removeClaimFinalizer E claim) (deleteClaim E)) ?Q"
      by (simp add: achieves_return [OF sv1])
  next
    fix claim assume some: "srvClaims ?w k = Some claim" and key: "object_key claim = k"
    show "achieves E st ?s1 (case Inr claim of Inl e \<Rightarrow> if isNotFound e then returnE () else throwE e
        | Inr claim \<Rightarrow> if \<not> isControlledBy E (meta claim) (meta ?tm) then returnE ()
            else bindE (removeClaimFinalizer E claim) (deleteClaim E)) ?Q"
    proof (cases "isControlledBy E (meta claim) (meta ?tm)")
      case False
      have "?Q () (st (calls ?s1))"
        unfolding w1 by (intro exI [of _ "srvClaims ?w"] conjI let_go) (use some False in auto)
      then show ?thesis using False by (simp add: achieves_return [OF sv1])
    next
      case True
      have removed: "achieves E st ?s1 (removeClaimFinalizer E claim) (\<lambda>c w. object_key c = k \<and>
          (\<exists>c'. w = ?w\<lparr>srvClaims := (srvClaims ?w)(k := c')\<rparr> \<and> (\<forall>x. c' = Some x \<longrightarrow> IPAddressClaimFinalizer \<notin> set (Finalizers x))))"
      proof (cases "containsFinalizer E (Finalizers claim) IPAddressClaimFinalizer")
        case False
        then have "IPAddressClaimFinalizer \<notin> set (Finalizers claim)" using laws by (simp add: finalizer_laws_def)
        moreover have "?w = ?w\<lparr>srvClaims := (srvClaims ?w)(k := Some claim)\<rparr>" using some by (simp add: fun_upd_idem)
        ultimately have "object_key claim = k \<and> (\<exists>c'. st (calls ?s1) = ?w\<lparr>srvClaims := (srvClaims ?w)(k := c')\<rparr> \<and>
            (\<forall>x. c' = Some x \<longrightarrow> IPAddressClaimFinalizer \<notin> set (Finalizers x)))"
          unfolding w1 using key by (intro conjI exI [of _ "Some claim"]) simp_all
        then show ?thesis unfolding removeClaimFinalizer_def using False by (simp add: achieves_return [OF sv1])
      next
        case True
        let ?new = "claim\<lparr>Finalizers := removeFinalizer E (Finalizers claim) IPAddressClaimFinalizer\<rparr>"
        let ?c = "PatchClaim claim ?new True"
        obtain v where v: "ansClaim E (calls ?s1 @ [?c]) = Inr (?new\<lparr>ResourceVersion := v\<rparr>)"
            "st (calls ?s1 @ [?c]) = ?w\<lparr>srvClaims := (srvClaims ?w)(k := kept (?new\<lparr>ResourceVersion := v\<rparr>))\<rparr>"
          using serves_next [OF sv1, of ?c] some key w1 by (auto simp: serves_call_def object_key_def)
        have "IPAddressClaimFinalizer \<notin> set (Finalizers ?new)" using laws by (simp add: finalizer_laws_def)
        then have "object_key (?new\<lparr>ResourceVersion := v\<rparr>) = k \<and> (\<exists>c'. st (calls ?s1 @ [?c]) = ?w\<lparr>srvClaims := (srvClaims ?w)(k := c')\<rparr> \<and>
            (\<forall>x. c' = Some x \<longrightarrow> IPAddressClaimFinalizer \<notin> set (Finalizers x)))"
          using key v(2) by (auto simp: object_key_def kept_Some)
        then show ?thesis
          unfolding removeClaimFinalizer_def if_P [OF True]
          by (rule achieves_api [where c = ?c and ans = "ansClaim E", OF sv1 v(1)])
      qed
      have "achieves E st ?s1 (bindE (removeClaimFinalizer E claim) (deleteClaim E)) ?Q"
      proof (rule achieves_bind [OF removed])
        fix c :: ip_claim and t :: scope assume t: "serves E st (calls t)"
          and c: "object_key c = k \<and> (\<exists>c'. st (calls t) = ?w\<lparr>srvClaims := (srvClaims ?w)(k := c')\<rparr> \<and>
            (\<forall>x. c' = Some x \<longrightarrow> IPAddressClaimFinalizer \<notin> set (Finalizers x)))"
        show "achieves E st t (deleteClaim E c) ?Q"
        proof (rule achieves_mono [OF achieves_deleteClaim [OF t]])
          show "object_key c = k" using c by simp
          show "srvClaims (st (calls t)) k = Some x \<Longrightarrow> IPAddressClaimFinalizer \<notin> set (Finalizers x)" for x
            using c by auto
          fix w
          assume "\<exists>x. w = (st (calls t))\<lparr>srvClaims := (srvClaims (st (calls t)))(k := x)\<rparr> \<and>
            (\<forall>y. x = Some y \<longrightarrow> being_deleted y \<and> IPAddressClaimFinalizer \<notin> set (Finalizers y))"
          then obtain x where x: "w = ?w\<lparr>srvClaims := (srvClaims ?w)(k := x)\<rparr>"
              "\<And>y. x = Some y \<Longrightarrow> being_deleted y \<and> IPAddressClaimFinalizer \<notin> set (Finalizers y)"
            using c by auto
          show "\<exists>cs. w = ?w\<lparr>srvClaims := cs\<rparr> \<and> claim_let_go E ?tm cs"
            by (intro exI conjI, rule x(1), rule let_go) (use x(2) in auto)
        qed
      qed
      then show ?thesis using True by simp
    qed
  qed
qed

section \<open>What a deletion makes of the servers\<close>

definition hardware_key :: "tinkerbell_machine \<Rightarrow> nsname" where
  "hardware_key tm = NN (TargetNamespace (tmStatus tm)) (HardwareName (tmSpec tm))"

text \<open>The machine has given up everything it held on the servers.\<close>

definition machine_cleared :: "('e) env_scheme \<Rightarrow> tinkerbell_machine \<Rightarrow> server \<Rightarrow> bool" where
  "machine_cleared E tm w \<longleftrightarrow>
     srvTemplates w (machine_key tm) = None \<and> srvWorkflows w (machine_key tm) = None \<and> no_machine_tasks tm w \<and>
     (\<forall>hw. srvHardware w (hardware_key tm) = Some hw \<longrightarrow> released_hardware hw) \<and>
     claim_let_go E tm (srvClaims w) \<and>
     (\<forall>m. srvMachines w (object_key tm) = Some m \<longrightarrow>
        MachineFinalizer \<notin> set (Finalizers m) \<and> MachineLegacyFinalizer \<notin> set (Finalizers m))"

text \<open>Only what is the machine's has changed: the Hardware it names, its Job, its claim, the machine itself.\<close>

definition others_untouched :: "tinkerbell_machine \<Rightarrow> server \<Rightarrow> server \<Rightarrow> bool" where
  "others_untouched tm w w' \<longleftrightarrow>
     (\<forall>k. k \<noteq> hardware_key tm \<longrightarrow> srvHardware w' k = srvHardware w k) \<and>
     (\<forall>k. k \<noteq> object_key tm \<longrightarrow> srvMachines w' k = srvMachines w k) \<and>
     (\<forall>k. k \<noteq> poweroff_key tm \<longrightarrow> srvJobs w' k = srvJobs w k)"

definition needs_power_off :: "('e) env_scheme \<Rightarrow> tinkerbell_machine \<Rightarrow> server \<Rightarrow> bool" where
  "needs_power_off E tm w \<longleftrightarrow>
     (\<exists>hw. srvHardware w (hardware_key tm) = Some hw \<and> hasBMC E (Some hw)) \<and>
     \<not> (\<exists>job. srvJobs w (poweroff_key tm) = Some job \<and> job_completed E job)"

lemma releaseClaimAndFinalizer_served:
  assumes sv: "serves E st (calls s)" and laws: "finalizer_laws E"
  shows "\<exists>s'. releaseClaimAndFinalizer E s = (Inr (), s') \<and> serves E st (calls s') \<and>
    (\<exists>cs m. st (calls s') = (st (calls s))\<lparr>srvClaims := cs,
         srvMachines := (srvMachines (st (calls s)))(object_key (tinkerbellMachine s) := m)\<rparr> \<and>
       claim_let_go E (tinkerbellMachine s) cs \<and>
       (\<forall>x. m = Some x \<longrightarrow> MachineFinalizer \<notin> set (Finalizers x) \<and> MachineLegacyFinalizer \<notin> set (Finalizers x)))"
proof -
  let ?tm = "tinkerbellMachine s"
  obtain u s1 cs where r: "releaseIPAddressClaim E s = (Inr u, s1)" and sv1: "serves E st (calls s1)"
    and tm1: "tinkerbellMachine s1 = ?tm" and w1: "st (calls s1) = (st (calls s))\<lparr>srvClaims := cs\<rparr>" "claim_let_go E ?tm cs"
    using achieves_releaseIPAddressClaim [OF sv laws] unfolding achieves_def by auto
  let ?new = "without_finalizer E ?tm"
  let ?c = "PatchTinkerbellMachine ?new"
  have key: "object_key ?new = object_key ?tm" by (simp add: without_finalizer_def object_key_def)
  obtain m where p: "ansUnit E (calls s1 @ [?c]) = Inr ()" "Finalizers m = Finalizers ?new"
      "st (calls s1 @ [?c]) = (st (calls s1))\<lparr>srvMachines := (srvMachines (st (calls s1)))(object_key ?tm := kept m)\<rparr>"
    using serves_next [OF sv1, of ?c] key by (auto simp: serves_call_def)
  have "MachineFinalizer \<notin> set (Finalizers m) \<and> MachineLegacyFinalizer \<notin> set (Finalizers m)"
    using without_finalizer_mem [OF laws, of ?tm] p(2) by simp
  then have off: "\<forall>x. kept m = Some x \<longrightarrow> MachineFinalizer \<notin> set (Finalizers x) \<and> MachineLegacyFinalizer \<notin> set (Finalizers x)"
    by (simp add: kept_Some)
  have run: "releaseClaimAndFinalizer E s =
      (Inr (), add_call ?c (s1\<lparr>tinkerbellMachine := ?new\<rparr>))"
    by (simp add: releaseClaimAndFinalizer_def run_bindE r run_removeFinalizer_machine run_patch_machine tm1 p(1))
  moreover have "serves E st (calls s1 @ [?c])" by (rule serves_later [OF sv1])
  ultimately show ?thesis
    using p(3) w1 off by (auto intro!: exI [of _ cs] exI [of _ "kept m"])
qed

text \<open>The last two steps of a deletion, once the dependencies are gone.\<close>

lemma finish_served:
  assumes t: "serves E st (calls t)" "tinkerbellMachine t = tm" and laws: "finalizer_laws E"
    and same: "dependencies_gone tm w w2" and wt: "st (calls t) = w2\<lparr>srvHardware := hws\<rparr>"
    and hws: "\<And>x. hws (hardware_key tm) = Some x \<Longrightarrow> released_hardware x"
      "\<And>k. k \<noteq> hardware_key tm \<Longrightarrow> hws k = srvHardware w k"
  shows "\<exists>s'. releaseClaimAndFinalizer E t = (Inr (), s') \<and> serves E st (calls s') \<and>
    others_untouched tm w (st (calls s')) \<and> machine_cleared E tm (st (calls s'))"
proof -
  from releaseClaimAndFinalizer_served [OF t(1) laws] obtain s' cs m where
    r: "releaseClaimAndFinalizer E t = (Inr (), s')" "serves E st (calls s')"
    and w': "st (calls s') = (st (calls t))\<lparr>srvClaims := cs, srvMachines := (srvMachines (st (calls t)))(object_key tm := m)\<rparr>"
      "claim_let_go E tm cs"
      "\<And>x. m = Some x \<Longrightarrow> MachineFinalizer \<notin> set (Finalizers x) \<and> MachineLegacyFinalizer \<notin> set (Finalizers x)"
    unfolding t(2) by auto
  note gone = same [unfolded dependencies_gone_def]
  have "others_untouched tm w (st (calls s'))" using gone hws(2) by (simp add: others_untouched_def w' wt)
  moreover have "machine_cleared E tm (st (calls s'))"
    using gone hws(1) w'(2,3) by (simp add: machine_cleared_def w' wt no_machine_tasks_def)
  ultimately show ?thesis using r by blast
qed

lemma release_served:
  assumes t: "serves E st (calls t)" "tinkerbellMachine t = tm" and laws: "finalizer_laws E"
    and same: "dependencies_gone tm w (st (calls t))"
    and hw: "srvHardware w (hardware_key tm) = Some hw" "object_key hw = hardware_key tm"
  shows "\<exists>s'. bindE (releaseHardware E hw) (\<lambda>_. releaseClaimAndFinalizer E) t = (Inr (), s') \<and> serves E st (calls s') \<and>
    others_untouched tm w (st (calls s')) \<and> machine_cleared E tm (st (calls s'))"
proof -
  note gone = same [unfolded dependencies_gone_def]
  have "srvHardware (st (calls t)) (object_key hw) = Some hw" using gone hw by simp
  from achieves_releaseHardware [OF t(1) laws this] obtain hw' t' new where
    r: "releaseHardware E hw t = (Inr hw', t')" and t': "serves E st (calls t')" "tinkerbellMachine t' = tm"
      "released_hardware new"
      "st (calls t') = (st (calls t))\<lparr>srvHardware := (srvHardware (st (calls t)))(hardware_key tm := kept new)\<rparr>"
    unfolding achieves_def t(2) hw(2) by blast
  have "\<exists>s'. releaseClaimAndFinalizer E t' = (Inr (), s') \<and> serves E st (calls s') \<and>
      others_untouched tm w (st (calls s')) \<and> machine_cleared E tm (st (calls s'))"
    by (rule finish_served [OF t'(1,2) laws same t'(4)]) (use t'(3) gone in \<open>auto simp: kept_Some\<close>)
  then show ?thesis by (simp add: run_bindE r)
qed

text \<open>How a deletion ends.\<close>

definition deletion_ends :: "('e) env_scheme \<Rightarrow> tinkerbell_machine \<Rightarrow> server \<Rightarrow> goerr + unit \<Rightarrow> server \<Rightarrow> bool" where
  "deletion_ends E tm w r w' \<longleftrightarrow>
     others_untouched tm w w' \<and>
     (if needs_power_off E tm w
      then \<exists>e w1. r = Inl e \<and> dependencies_gone tm w w1 \<and> powering_off E tm w1 w' e
      else r = Inr () \<and> machine_cleared E tm w')"

lemma deletion_powering_off:
  assumes hw: "srvHardware w (hardware_key tm) = Some hw" "hasBMC E (Some hw)" and same: "dependencies_gone tm w w1"
    and po: "powering_off E tm w1 w' e"
  shows "deletion_ends E tm w (Inl e) w'"
proof -
  note gone = same [unfolded dependencies_gone_def]
  have "needs_power_off E tm w" using hw po gone by (auto simp: needs_power_off_def powering_off_def split: if_splits)
  moreover have "others_untouched tm w w'"
    using po gone by (auto simp: others_untouched_def powering_off_def split: if_splits)
  ultimately show ?thesis using same po by (auto simp: deletion_ends_def)
qed

lemma deletion_run:
  assumes sv: "serves E st (calls s)" and laws: "finalizer_laws E" "controller_laws E"
  obtains r s' where "DeleteMachineWithDependencies E s = (r, s')" "serves E st (calls s')"
    "deletion_ends E (default_namespace (tinkerbellMachine s)) (st (calls s)) r (st (calls s'))"
proof -
  define tm where "tm = default_namespace (tinkerbellMachine s)"
  define w where "w = st (calls s)"
  let ?h = "hardware_read s"
  have h: "tinkerbellMachine ?h = tm" "calls ?h = calls s @ [GetHardware (hardware_key tm)]"
    by (simp_all add: hardware_read_def Let_def tm_def hardware_key_def)
  have svh: "serves E st (calls ?h)" unfolding h(2) by (rule serves_later [OF sv])
  have g: "st (calls ?h) = w" "ansHardware E (calls ?h) = stored_at (srvHardware w) (hardware_key tm)"
      "\<And>x. srvHardware w (hardware_key tm) = Some x \<Longrightarrow> object_key x = hardware_key tm"
    using serves_next [OF sv, of "GetHardware (hardware_key tm)"] by (simp_all add: serves_call_def h(2) w_def)
  obtain u s2 where d: "removeDependencies E ?h = (Inr u, s2)" and sv2: "serves E st (calls s2)"
    and tm2: "tinkerbellMachine s2 = tm" and w2: "dependencies_gone tm w (st (calls s2))"
    using achieves_removeDependencies [OF svh] unfolding achieves_def h(1) g(1) by blast
  note gone = w2 [unfolded dependencies_gone_def]
  then have jobs: "srvJobs (st (calls s2)) = srvJobs w" by simp
  have "\<exists>r s'. DeleteMachineWithDependencies E s = (r, s') \<and> serves E st (calls s') \<and> deletion_ends E tm w r (st (calls s'))"
  proof (cases "srvHardware w (hardware_key tm)")
    case None
    have "DeleteMachineWithDependencies E s = releaseClaimAndFinalizer E s2" "\<not> needs_power_off E tm w"
      by (simp_all add: run_Delete g(2) stored_at_def None run_bindE d needs_power_off_def)
    moreover have "\<exists>s'. releaseClaimAndFinalizer E s2 = (Inr (), s') \<and> serves E st (calls s') \<and>
        others_untouched tm w (st (calls s')) \<and> machine_cleared E tm (st (calls s'))"
      by (rule finish_served [OF sv2 tm2 laws(1) w2, of "srvHardware (st (calls s2))"]) (use None gone in simp_all)
    ultimately show ?thesis by (auto simp: deletion_ends_def)
  next
    case (Some hw)
    let ?rest = "bindE (releaseHardware E hw) (\<lambda>_. releaseClaimAndFinalizer E)"
    show ?thesis
    proof (cases "hasBMC E (Some hw)")
      case False
      have "DeleteMachineWithDependencies E s = ?rest s2" "\<not> needs_power_off E tm w"
        by (simp_all add: run_Delete g(2) stored_at_def Some False run_bindE d needs_power_off_def)
      with release_served [OF sv2 tm2 laws(1) w2 Some g(3) [OF Some]] show ?thesis by (auto simp: deletion_ends_def)
    next
      case True
      have run: "DeleteMachineWithDependencies E s = bindE (ensureBMCJobCompletionForDelete E hw) (\<lambda>_. ?rest) s2"
        by (simp add: run_Delete g(2) stored_at_def Some True run_bindE d)
      obtain r s3 where p: "ensureBMCJobCompletionForDelete E hw s2 = (r, s3)" and sv3: "serves E st (calls s3)" "tinkerbellMachine s3 = tm"
        and c: "case r of Inr _ \<Rightarrow> st (calls s3) = st (calls s2) \<and> (\<exists>job. srvJobs w (poweroff_key tm) = Some job \<and> job_completed E job)
          | Inl e \<Rightarrow> powering_off E tm (st (calls s2)) (st (calls s3)) e"
        using ensureBMCJob_served [OF sv2 laws(2), of hw] unfolding tm2 jobs by blast
      show ?thesis
      proof (cases r)
        case (Inl e)
        with run p c sv3 deletion_powering_off [OF Some True w2] show ?thesis by (auto simp: run_bindE)
      next
        case (Inr u)
        then have "st (calls s3) = st (calls s2)" "\<not> needs_power_off E tm w"
          using c by (auto simp: needs_power_off_def)
        with run p Inr release_served [OF sv3 laws(1) _ Some g(3) [OF Some]] w2 show ?thesis
          by (auto simp: run_bindE deletion_ends_def)
      qed
    qed
  qed
  then show ?thesis using that by (auto simp: tm_def w_def)
qed

section \<open>Servers that do\<close>

text \<open>
  An instance: servers that keep the objects in a record, know the Hardware by the names \<open>hks\<close>, keep no Task, and
  leave the resource versions alone. A call of another kind changes nothing.
\<close>

definition srv_step :: "server \<Rightarrow> call \<Rightarrow> server" where
  "srv_step w c =
     (case c of
        PatchHardware old new lock \<Rightarrow>
          if srvHardware w (object_key old) = Some old \<and> object_key new = object_key old
          then w\<lparr>srvHardware := (srvHardware w)(object_key old := kept new)\<rparr> else w
      | DeleteTemplate k \<Rightarrow> w\<lparr>srvTemplates := (srvTemplates w)(k := None)\<rparr>
      | DeleteTask k \<Rightarrow> w\<lparr>srvTasks := (srvTasks w)(k := None)\<rparr>
      | DeleteWorkflow k \<Rightarrow> w\<lparr>srvWorkflows := (srvWorkflows w)(k := None)\<rparr>
      | CreateJob j \<Rightarrow> if srvJobs w (object_key j) = None then w\<lparr>srvJobs := (srvJobs w)(object_key j \<mapsto> j)\<rparr> else w
      | PatchClaim old new lock \<Rightarrow>
          if srvClaims w (object_key old) = Some old \<and> object_key new = object_key old
          then w\<lparr>srvClaims := (srvClaims w)(object_key old := kept new)\<rparr> else w
      | DeleteClaim k \<Rightarrow>
          w\<lparr>srvClaims := (srvClaims w)(k := (case srvClaims w k of None \<Rightarrow> None
             | Some x \<Rightarrow> kept (x\<lparr>DeletionTimestamp := Some 0\<rparr>)))\<rparr>
      | PatchTinkerbellMachine tm \<Rightarrow> w\<lparr>srvMachines := (srvMachines w)(object_key tm := kept tm)\<rparr>
      | _ \<Rightarrow> w)"

definition srv_state :: "server \<Rightarrow> call list \<Rightarrow> server" where
  "srv_state w0 h = foldl srv_step w0 h"

definition patched_answer :: "(nsname \<rightharpoonup> 'a objmeta_scheme) \<Rightarrow> 'a objmeta_scheme \<Rightarrow> 'a objmeta_scheme \<Rightarrow> apierr + 'a objmeta_scheme" where
  "patched_answer objs old new = (if objs (object_key old) = Some old \<and> object_key new = object_key old then Inr new else Inl Conflict)"

definition serving_kube :: "server \<Rightarrow> nsname list \<Rightarrow> kube" where
  "serving_kube w0 hks = base_kube\<lparr>
     ansHardware := \<lambda>h. let w = srv_state w0 (butlast h) in (case List.last h of
         GetHardware k \<Rightarrow> stored_at (srvHardware w) k
       | PatchHardware old new lock \<Rightarrow> patched_answer (srvHardware w) old new
       | _ \<Rightarrow> Inl NotFound),
     ansHardwareList := \<lambda>h. let w = srv_state w0 (butlast h); all = map (\<lambda>k. the (srvHardware w k)) (filter (\<lambda>k. srvHardware w k \<noteq> None) hks) in
       (case List.last h of
         ListAssignedHardware n ns \<Rightarrow> Inr (filter (\<lambda>x. Labels x HardwareOwnerNameLabel = Some n \<and> Labels x HardwareOwnerNamespaceLabel = Some ns) all)
       | ListHardware sel \<Rightarrow> Inr (filter (\<lambda>x. selector_matches sel (Labels x)) all)
       | _ \<Rightarrow> Inr []),
     ansTemplate := \<lambda>h. (case List.last h of GetTemplate k \<Rightarrow> stored_at (srvTemplates (srv_state w0 (butlast h))) k | _ \<Rightarrow> Inl NotFound),
     ansWorkflow := \<lambda>h. (case List.last h of GetWorkflow k \<Rightarrow> stored_at (srvWorkflows (srv_state w0 (butlast h))) k | _ \<Rightarrow> Inl NotFound),
     ansJob := \<lambda>h. (case List.last h of GetJob k \<Rightarrow> stored_at (srvJobs (srv_state w0 (butlast h))) k | CreateJob j \<Rightarrow> Inr j | _ \<Rightarrow> Inl NotFound),
     ansClaim := \<lambda>h. (case List.last h of
         GetClaim k \<Rightarrow> stored_at (srvClaims (srv_state w0 (butlast h))) k
       | PatchClaim old new lock \<Rightarrow> patched_answer (srvClaims (srv_state w0 (butlast h))) old new
       | _ \<Rightarrow> Inl NotFound),
     ansUnit := \<lambda>h. let w = srv_state w0 (butlast h) in (case List.last h of
         DeleteTemplate k \<Rightarrow> deleted_answer (srvTemplates w k)
       | DeleteTask k \<Rightarrow> deleted_answer (srvTasks w k)
       | DeleteWorkflow k \<Rightarrow> deleted_answer (srvWorkflows w k)
       | DeleteClaim k \<Rightarrow> deleted_answer (srvClaims w k)
       | _ \<Rightarrow> Inr ())\<rparr>"

definition keyed :: "(nsname \<rightharpoonup> 'a objmeta_scheme) \<Rightarrow> bool" where
  "keyed objs \<longleftrightarrow> (\<forall>k x. objs k = Some x \<longrightarrow> object_key x = k)"

definition well_kept :: "nsname list \<Rightarrow> server \<Rightarrow> bool" where
  "well_kept hks w \<longleftrightarrow>
     keyed (srvHardware w) \<and> keyed (srvTemplates w) \<and> keyed (srvWorkflows w) \<and> keyed (srvClaims w) \<and>
     srvTasks w = Map.empty \<and> dom (srvHardware w) \<subseteq> set hks"

lemma keyed_upd: "keyed objs \<Longrightarrow> (\<And>x. r = Some x \<Longrightarrow> object_key x = k) \<Longrightarrow> keyed (objs(k := r))"
  by (auto simp: keyed_def)

lemma keyed_del: "keyed objs \<Longrightarrow> keyed (objs(k := None))"
  by (auto simp: keyed_def)

lemma keyed_kept: "keyed objs \<Longrightarrow> object_key x = k \<Longrightarrow> keyed (objs(k := kept x))"
  by (rule keyed_upd) (simp_all add: kept_Some)

lemma srv_step_kept:
  assumes w: "well_kept hks w"
  shows "well_kept hks (srv_step w c)"
proof -
  note k = w [unfolded well_kept_def]
  show ?thesis
  proof (cases c)
    case patch: (PatchHardware old new lock)
    show ?thesis
    proof (cases "srvHardware w (object_key old) = Some old \<and> object_key new = object_key old")
      case True
      then have "dom ((srvHardware w)(object_key old := kept new)) \<subseteq> set hks" using k by (auto simp: kept_def)
      with True k show ?thesis by (simp add: srv_step_def patch well_kept_def keyed_kept)
    next
      case False
      have "srv_step w c = w" unfolding srv_step_def patch call.case if_not_P [OF False] by (rule refl)
      then show ?thesis using w by simp
    qed
  next
    case claim: (PatchClaim old new lock)
    show ?thesis
    proof (cases "srvClaims w (object_key old) = Some old \<and> object_key new = object_key old")
      case True
      with k show ?thesis by (simp add: srv_step_def claim well_kept_def keyed_kept)
    next
      case False
      have "srv_step w c = w" unfolding srv_step_def claim call.case if_not_P [OF False] by (rule refl)
      then show ?thesis using w by simp
    qed
  next
    case gone: (DeleteClaim k)
    show ?thesis
    proof (cases "srvClaims w k")
      case None
      with w show ?thesis by (simp add: srv_step_def gone well_kept_def keyed_del)
    next
      case (Some x)
      have "object_key (x\<lparr>DeletionTimestamp := Some 0\<rparr>) = k"
        using w Some by (simp add: well_kept_def keyed_def object_key_def)
      with w Some show ?thesis by (simp add: srv_step_def gone well_kept_def keyed_kept)
    qed
  qed (use k in \<open>simp_all add: srv_step_def well_kept_def keyed_del fun_upd_idem\<close>)
qed

lemma srv_state_kept: "well_kept hks w0 \<Longrightarrow> well_kept hks (srv_state w0 h)"
  unfolding srv_state_def by (induction h arbitrary: w0) (auto simp: srv_step_kept)

lemma srv_state_Nil [simp]: "srv_state w0 [] = w0"
  by (simp add: srv_state_def)

lemma srv_state_next: "srv_state w0 (h @ [c]) = srv_step (srv_state w0 h) c"
  by (simp add: srv_state_def)

lemma serving_serves:
  assumes "well_kept hks w0"
  shows "serves (serving_kube w0 hks) (srv_state w0) from"
  unfolding serves_def
proof (intro allI)
  fix h c
  let ?w = "srv_state w0 (from @ h)"
  have w: "well_kept hks ?w" by (rule srv_state_kept [OF assms])
  have nxt: "srv_state w0 (from @ h @ [c]) = srv_step ?w c" for c
    using srv_state_next [of w0 "from @ h" c] by simp
  have log: "butlast (from @ h @ [c]) = from @ h" "List.last (from @ h @ [c]) = c" for c
    by (simp_all add: butlast_append)
  note defs = serves_call_def nxt serving_kube_def log srv_step_def
  show "serves_call (serving_kube w0 hks) (from @ h @ [c]) c ?w (srv_state w0 (from @ h @ [c]))"
  proof (cases c)
    case (PatchHardware old new lock)
    then show ?thesis
      by (simp add: defs patched_answer_def) (intro impI exI [of _ "ResourceVersion new"], simp)
  next
    case (PatchClaim old new lock)
    then show ?thesis
      by (simp add: defs patched_answer_def) (intro impI exI [of _ "ResourceVersion new"], simp)
  next
    case (DeleteClaim k)
    then show ?thesis by (auto simp: defs)
  next
    case (PatchTinkerbellMachine tm)
    then show ?thesis by (simp add: defs) (rule exI [of _ tm], simp)
  next
    case (ListTasks a b d)
    then show ?thesis using w by (simp add: defs well_kept_def)
  qed (use w in \<open>simp_all add: defs well_kept_def keyed_def\<close>)
qed

text \<open>
  C7: From any state of the servers, whatever earlier passes did and wherever they were interrupted, one undisturbed
  pass of a deletion ends in one of two ways. Either it succeeds, and the machine has given up everything: its Template,
  Workflow and Tasks are gone, the Hardware it names has neither its labels, its user data nor the finalizers, its
  claim is let go, and the machine itself is free of the finalizers. Or the Hardware has a BMC and the machine's
  power-off Job has not completed: then the Job is on the server (with the one operation to power off, if
  this pass created it) and Hardware, claim and machine are as they were. It succeeds whenever there is nothing to
  power off, and touches no other machine, no other Hardware and no other Job.
\<close>

theorem deletion_converges:
  assumes "serves E st (calls s)" and "finalizer_laws E" "controller_laws E"
  shows "\<exists>r s'. let tm = default_namespace (tinkerbellMachine s); w = st (calls s); w' = st (calls s') in
    DeleteMachineWithDependencies E s = (r, s') \<and> others_untouched tm w w' \<and>
    (if needs_power_off E tm w
     then \<exists>e w1. r = Inl e \<and> dependencies_gone tm w w1 \<and> powering_off E tm w1 w' e
     else r = Inr () \<and> machine_cleared E tm w')"
  by (rule deletion_run [OF assms]) (auto simp: deletion_ends_def Let_def)

lemma serving_sel [simp]:
  "containsFinalizer (serving_kube w0 hks) fs f \<longleftrightarrow> f \<in> set fs"
  "addFinalizer (serving_kube w0 hks) fs f = (if f \<in> set fs then fs else fs @ [f])"
  "removeFinalizer (serving_kube w0 hks) fs f = removeAll f fs"
  "hardwareBMCRef (serving_kube w0 hks) hw = None" "asSelector (serving_kube w0 hks) sel = Inr (selector_matches sel)"
  by (simp_all add: serving_kube_def)

lemma serving_laws: "finalizer_laws (serving_kube w0 hks)" "controller_laws (serving_kube w0 hks)"
  by (auto simp: finalizer_laws_def controller_laws_def serving_kube_def base_kube_def base_env_def env.defs)

text \<open>Servers with one Hardware, which the machine holds, and a Template of the machine.\<close>

definition held_hw :: hardware where
  "held_hw = (example_hw ''h1'' [HardwareOwnerNameLabel \<mapsto> ''m1'', HardwareOwnerNamespaceLabel \<mapsto> ''ns''])
     \<lparr>Finalizers := [MachineFinalizer]\<rparr>"

definition held_template :: v1_template where
  "held_template = objmeta.extend (new_meta ''m1'' ''ns'') \<lparr>templateSpecData = None\<rparr>"

definition held_machine :: tinkerbell_machine where
  "held_machine = example_machine\<lparr>tmSpec := example_spec\<lparr>HardwareName := ''h1''\<rparr>, Finalizers := [MachineFinalizer]\<rparr>"

definition held_server :: server where
  "held_server =
     \<lparr>srvHardware = [NN ''ns'' ''h1'' \<mapsto> held_hw], srvTemplates = [NN ''ns'' ''m1'' \<mapsto> held_template],
      srvTasks = Map.empty, srvWorkflows = Map.empty, srvJobs = Map.empty, srvClaims = Map.empty,
      srvMachines = [NN ''ns'' ''m1'' \<mapsto> held_machine]\<rparr>"

lemma held_keys: "object_key held_hw = NN ''ns'' ''h1''" "object_key held_template = NN ''ns'' ''m1''"
  by (simp_all add: held_hw_def held_template_def object_key_def new_meta_def objmeta.defs)

lemma held_server_kept: "well_kept [NN ''ns'' ''h1''] held_server"
  by (auto simp: well_kept_def held_server_def keyed_def held_keys)

theorem deletion_converges_witness:
  "\<exists>s'. DeleteMachineWithDependencies (serving_kube held_server [NN ''ns'' ''h1'']) (example_scope\<lparr>tinkerbellMachine := held_machine\<rparr>) = (Inr (), s') \<and>
     srvTemplates (srv_state held_server (calls s')) (NN ''ns'' ''m1'') = None \<and>
     srvTemplates held_server (NN ''ns'' ''m1'') \<noteq> None"
proof -
  let ?s = "example_scope\<lparr>tinkerbellMachine := held_machine\<rparr>" and ?E = "serving_kube held_server [NN ''ns'' ''h1'']"
  let ?tm = "default_namespace held_machine"
  have "serves ?E (srv_state held_server) (calls ?s)" by (rule serving_serves [OF held_server_kept])
  from deletion_converges [OF this serving_laws] obtain r s' where
    d: "DeleteMachineWithDependencies ?E ?s = (r, s')"
      "if needs_power_off ?E ?tm held_server
       then \<exists>e w1. r = Inl e \<and> dependencies_gone ?tm held_server w1 \<and> powering_off ?E ?tm w1 (srv_state held_server (calls s')) e
       else r = Inr () \<and> machine_cleared ?E ?tm (srv_state held_server (calls s'))"
    by (auto simp: Let_def)
  have "hasBMC ?E (Some held_hw) = False" by (simp add: hasBMC_def held_hw_def)
  then have "\<not> needs_power_off ?E ?tm held_server"
    by (auto simp: needs_power_off_def held_server_def split: if_splits)
  moreover have "machine_key ?tm = NN ''ns'' ''m1''"
    by (simp add: machine_key_def tinkerbellNamespace_def default_namespace_def held_machine_def)
  ultimately show ?thesis using d by (auto simp: machine_cleared_def held_server_def)
qed

end
