(* ===== verification/Fleet.thy ===== *)
theory Fleet
  imports Server
begin

text \<open>
  Many machines and many Hardware: the passes of \<open>ensureHardware\<close> (\<open>controller/machine/hardware.go\<close>) and of
  \<open>DeleteMachineWithDependencies\<close> by any machines, one after the other, on servers that hold state. The lists of
  Hardware a pass selects from may be old; what they say is a hypothesis. With lists that are complete
  every machine holds at most one Hardware; a list of the machine's own Hardware that comes back empty too
  early makes it claim a second one, which its deletion does not release.
\<close>

section \<open>The lists\<close>

definition owner_at :: "server \<Rightarrow> nsname \<Rightarrow> nsname option" where
  "owner_at w k = (case srvHardware w k of None \<Rightarrow> None | Some hw \<Rightarrow> hardware_owner hw)"

definition labelled_for :: "string \<Rightarrow> string \<Rightarrow> hardware \<Rightarrow> bool" where
  "labelled_for n ns x \<longleftrightarrow> Labels x HardwareOwnerNameLabel = Some n \<and> Labels x HardwareOwnerNamespaceLabel = Some ns"

text \<open>What is listed is on the server, and matches.\<close>

definition lists_current_at :: "('e) kube_scheme \<Rightarrow> (call list \<Rightarrow> server) \<Rightarrow> call list \<Rightarrow> bool" where
  "lists_current_at E st h \<longleftrightarrow>
     (\<forall>n ns items. ansHardwareList E (h @ [ListAssignedHardware n ns]) = Inr items \<longrightarrow>
        (\<forall>x\<in>set items. srvHardware (st h) (object_key x) = Some x \<and> labelled_for n ns x)) \<and>
     (\<forall>sel items. ansHardwareList E (h @ [ListHardware sel]) = Inr items \<longrightarrow>
        (\<forall>x\<in>set items. srvHardware (st h) (object_key x) = Some x \<and> selector_matches sel (Labels x)))"

definition lists_current :: "('e) kube_scheme \<Rightarrow> (call list \<Rightarrow> server) \<Rightarrow> call list \<Rightarrow> bool" where
  "lists_current E st from \<longleftrightarrow> (\<forall>h. lists_current_at E st (from @ h))"

text \<open>A machine's Hardware is listed.\<close>

definition assigned_listed_at :: "('e) kube_scheme \<Rightarrow> (call list \<Rightarrow> server) \<Rightarrow> call list \<Rightarrow> bool" where
  "assigned_listed_at E st h \<longleftrightarrow>
     (\<forall>n ns k x. ansHardwareList E (h @ [ListAssignedHardware n ns]) = Inr [] \<and> srvHardware (st h) k = Some x \<longrightarrow>
        \<not> labelled_for n ns x)"

definition assigned_listed :: "('e) kube_scheme \<Rightarrow> (call list \<Rightarrow> server) \<Rightarrow> call list \<Rightarrow> bool" where
  "assigned_listed E st from \<longleftrightarrow> (\<forall>h. assigned_listed_at E st (from @ h))"

lemma assigned_listed_later: "assigned_listed E st from \<Longrightarrow> assigned_listed E st (from @ h)"
  by (simp add: assigned_listed_def)

lemma assigned_listed_now: "assigned_listed E st from \<Longrightarrow> assigned_listed_at E st from"
  unfolding assigned_listed_def by (metis append_Nil2)

lemma lists_current_later: "lists_current E st from \<Longrightarrow> lists_current E st (from @ h)"
  by (simp add: lists_current_def)

lemma lists_current_now:
  assumes "lists_current E st from"
  shows "ansHardwareList E (from @ [ListAssignedHardware n ns]) = Inr items \<Longrightarrow> x \<in> set items \<Longrightarrow>
      srvHardware (st from) (object_key x) = Some x \<and> labelled_for n ns x"
    and "ansHardwareList E (from @ [ListHardware sel]) = Inr items \<Longrightarrow> x \<in> set items \<Longrightarrow>
      srvHardware (st from) (object_key x) = Some x \<and> selector_matches sel (Labels x)"
proof -
  have "lists_current_at E st from" using assms unfolding lists_current_def by (metis append_Nil2)
  then show "ansHardwareList E (from @ [ListAssignedHardware n ns]) = Inr items \<Longrightarrow> x \<in> set items \<Longrightarrow>
      srvHardware (st from) (object_key x) = Some x \<and> labelled_for n ns x"
    and "ansHardwareList E (from @ [ListHardware sel]) = Inr items \<Longrightarrow> x \<in> set items \<Longrightarrow>
      srvHardware (st from) (object_key x) = Some x \<and> selector_matches sel (Labels x)"
    by (auto simp: lists_current_at_def)
qed

section \<open>A pass over the Hardware of one machine\<close>

text \<open>Reading leaves the servers as they are.\<close>

lemma list_required_served:
  assumes "serves E st (calls s)" and "lists_current E st (calls s)" and "list_required E ts s = (r, s')"
  shows "serves E st (calls s') \<and> st (calls s') = st (calls s) \<and> lists_current E st (calls s') \<and>
    (\<forall>hws x. r = Inr hws \<and> x \<in> set hws \<longrightarrow>
       srvHardware (st (calls s)) (object_key x) = Some x \<and> Labels x HardwareOwnerNameLabel = None)"
  using assms
proof (induction ts arbitrary: s r s')
  case Nil
  then show ?case by (auto simp: run_simps)
next
  case (Cons t ts)
  let ?sel = "unowned_selector (LabelSelector t)"
  let ?c = "ListHardware ?sel"
  show ?case
  proof (cases "asSelector E ?sel")
    case (Inl e)
    then show ?thesis using Cons.prems by (auto simp: run_throwE Let_def)
  next
    case sel: (Inr m)
    have w: "st (calls s @ [?c]) = st (calls s)"
      using serves_next [OF Cons.prems(1), of ?c] by (simp add: serves_call_def)
    have later: "serves E st (calls (add_call ?c s))" "lists_current E st (calls (add_call ?c s))"
      using serves_later [OF Cons.prems(1)] lists_current_later [OF Cons.prems(2)] by simp_all
    show ?thesis
    proof (cases "ansHardwareList E (calls s @ [?c])")
      case (Inl a)
      then have "(r, s') = (Inl (Api a), add_call ?c s)"
        using Cons.prems(3) sel by (simp add: Let_def run_bindE run_api)
      then show ?thesis using later w by simp
    next
      case (Inr items)
      obtain r1 s1 where rest: "list_required E ts (add_call ?c s) = (r1, s1)" by fastforce
      then have "s' = s1" "r = Inr hws \<Longrightarrow> \<exists>more. r1 = Inr more \<and> hws = items @ more" for hws
        using Cons.prems(3) sel Inr by (auto simp: Let_def run_bindE run_api run_returnE split: sum.splits)
      moreover note Cons.IH [OF later rest]
      moreover have "srvHardware (st (calls s)) (object_key x) = Some x \<and> Labels x HardwareOwnerNameLabel = None"
        if "x \<in> set items" for x
        using lists_current_now(2) [OF Cons.prems(2) Inr that] by (simp add: unowned_matches)
      ultimately show ?thesis using w by auto
    qed
  qed
qed

lemma assigned_call: "serves E st h \<Longrightarrow> st (h @ [ListAssignedHardware n ns]) = st h"
  using serves_next [of E st h "ListAssignedHardware n ns"] by (simp add: serves_call_def)

text \<open>What is selected is on the server: the machine's own, or, when the list of its own is empty, one without owner.\<close>

lemma hardwareForMachine_served:
  assumes sv: "serves E st (calls s)" "lists_current E st (calls s)" and run: "hardwareForMachine E s = (r, s')"
  shows "serves E st (calls s') \<and> st (calls s') = st (calls s) \<and>
    (\<forall>hw. r = Inr hw \<longrightarrow> srvHardware (st (calls s)) (object_key hw) = Some hw \<and>
       (let tm = tinkerbellMachine s in
        if ansHardwareList E (calls s @ [ListAssignedHardware (Name tm) (Namespace tm)]) = Inr []
        then Labels hw HardwareOwnerNameLabel = None else labelled_for (Name tm) (Namespace tm) hw))"
proof -
  let ?tm = "tinkerbellMachine s"
  let ?c = "ListAssignedHardware (Name ?tm) (Namespace ?tm)"
  have w: "st (calls s @ [?c]) = st (calls s)" by (rule assigned_call [OF sv(1)])
  have later: "serves E st (calls (add_call ?c s))" "lists_current E st (calls (add_call ?c s))"
    using serves_later [OF sv(1)] lists_current_later [OF sv(2)] by simp_all
  show ?thesis
  proof (cases "ansHardwareList E (calls s @ [?c])")
    case (Inl a)
    then have "r = Inl (Api a)" "s' = add_call ?c s"
      using run by (simp_all add: hardwareForMachine_def assignedHardware_def run_bindE run_getsE run_api)
    then show ?thesis using later w by simp
  next
    case (Inr items)
    show ?thesis
    proof (cases items)
      case (Cons x xs)
      then have "r = Inr x" "s' = add_call ?c s"
        using run Inr by (simp_all add: hardwareForMachine_def assignedHardware_def run_bindE run_getsE run_api run_returnE)
      then show ?thesis
        using later w lists_current_now(1) [OF sv(2) Inr, of x] Cons Inr by (simp add: Let_def)
    next
      case Nil
      obtain r1 s1 where req: "list_required E (required_terms (HardwareAffinity (tmSpec ?tm))) (add_call ?c s) = (r1, s1)"
        by fastforce
      then have s1: "s' = s1" and best: "r = Inr hw \<Longrightarrow> \<exists>hws. r1 = Inr hws \<and>
          best_hardware E hws (preferred_terms (HardwareAffinity (tmSpec ?tm))) = Inr hw" for hw
        using run Inr Nil by (auto simp: hardwareForMachine_def assignedHardware_def run_bindE run_getsE run_api run_returnE
            run_liftE split: sum.splits)
      have "hw \<in> set hws" if "best_hardware E hws p = Inr hw" for hw hws p
        using that hd_sort_slice_in unfolding best_hardware_Inr by blast
      with best list_required_served [OF later req] w Inr Nil show ?thesis by (fastforce simp: s1 Let_def)
    qed
  qed
qed

lemma claimed_keeps:
  "object_key (claimed_hardware E tm hw) = object_key hw" "object_key (with_userdata u hw) = object_key hw"
  "Labels (with_userdata u hw) = Labels hw" "Finalizers (with_userdata u hw) = Finalizers hw"
  by (simp_all add: claimed_hardware_def with_userdata_def object_key_def)

text \<open>A claim of what is current is accepted, and the Hardware is the machine's.\<close>

lemma take_served:
  assumes sv: "serves E st (calls s)" and laws: "finalizer_laws E"
    and hw: "srvHardware (st (calls s)) (object_key hw) = Some hw"
    and mine: "labelled_for (Name (tinkerbellMachine s)) (Namespace (tinkerbellMachine s)) hw \<or>
      Labels hw HardwareOwnerNameLabel = None \<and> Name (tinkerbellMachine s) \<noteq> ''''"
  shows "\<exists>hw' s'. takeHardwareOwnership E hw s = (Inr hw', s') \<and> serves E st (calls s') \<and> tinkerbellMachine s' = tinkerbellMachine s \<and>
    object_key hw' = object_key hw \<and> hardware_owner hw' = Some (object_key (tinkerbellMachine s)) \<and>
    MachineFinalizer \<in> set (Finalizers hw') \<and>
    st (calls s') = (st (calls s))\<lparr>srvHardware := (srvHardware (st (calls s)))(object_key hw \<mapsto> hw')\<rparr>"
proof -
  let ?tm = "tinkerbellMachine s"
  have other: "\<not> owned_by_other ?tm hw" using mine by (auto simp: owned_by_other_def labelled_for_def)
  show ?thesis
  proof (cases "hardwareAlreadyClaimed E ?tm hw")
    case True
    then have "labelled_for (Name ?tm) (Namespace ?tm) hw" "MachineFinalizer \<in> set (Finalizers hw)"
      using mine laws by (auto simp: hardwareAlreadyClaimed_def finalizer_laws_def)
    then have "hardware_owner hw = Some (object_key ?tm)" "MachineFinalizer \<in> set (Finalizers hw)"
      by (simp_all add: labelled_for_def hardware_owner_def object_key_def)
    with sv hw show ?thesis by (simp add: take_already_claimed [OF True] fun_upd_idem)
  next
    case False
    let ?new = "claimed_hardware E ?tm hw"
    let ?c = "PatchHardware hw ?new True"
    obtain v where v: "ansHardware E (calls s @ [?c]) = Inr (?new\<lparr>ResourceVersion := v\<rparr>)"
        "st (calls s @ [?c]) = (st (calls s))\<lparr>srvHardware := (srvHardware (st (calls s)))(object_key hw := kept (?new\<lparr>ResourceVersion := v\<rparr>))\<rparr>"
      using serves_next [OF sv, of ?c] hw by (auto simp: serves_call_def claimed_keeps)
    have fin: "MachineFinalizer \<in> set (Finalizers ?new)" using laws by (simp add: claimed_hardware_def finalizer_laws_def)
    then have "kept (?new\<lparr>ResourceVersion := v\<rparr>) = Some (?new\<lparr>ResourceVersion := v\<rparr>)" by (auto simp: kept_def)
    moreover have "hardware_owner (?new\<lparr>ResourceVersion := v\<rparr>) = Some (object_key ?tm)"
      using owner_claimed [of E ?tm hw] by (simp add: hardware_owner_def)
    moreover have "object_key (?new\<lparr>ResourceVersion := v\<rparr>) = object_key hw"
      using claimed_keeps(1) [of E ?tm hw] by (simp add: object_key_def)
    ultimately show ?thesis
      using v fin serves_later [OF sv, of "[?c]"] by (simp add: take_claims [OF other False])
  qed
qed

lemma ensure_watch_served:
  assumes sv: "serves E st (calls s)" and "ensure_watch E ns s = (r, s')"
  shows "serves E st (calls s') \<and> st (calls s') = st (calls s)"
proof -
  have "calls s' = calls s \<or> calls s' = calls s @ [CallEnsureWatch ns]"
    using assms(2) by (auto simp: ensure_watch_def Let_def split: option.splits prod.splits)
  then show ?thesis
    using sv serves_later [OF sv, of "[CallEnsureWatch ns]"] serves_next [OF sv, of "CallEnsureWatch ns"]
    by (auto simp: serves_call_def)
qed

lemma userdata_served:
  assumes sv: "serves E st (calls s)" and hw: "srvHardware (st (calls s)) (object_key hw) = Some hw"
    and fin: "MachineFinalizer \<in> set (Finalizers hw)" and run: "ensureHardwareUserData E hw pid s = (r, s')"
  shows "serves E st (calls s') \<and> owner_at (st (calls s')) = owner_at (st (calls s)) \<and>
    (\<exists>x. r = Inr x \<and> object_key x = object_key hw)"
proof -
  let ?u = "replace_all (bootstrapCloudConfig s) providerIDPlaceholder pid"
  let ?new = "with_userdata (Some ?u) hw"
  let ?c = "PatchHardware hw ?new False"
  show ?thesis
  proof (cases "hardwareUserData hw = Some ?u")
    case True
    then show ?thesis using run sv by (auto simp: ensureHardwareUserData_def run_simps Let_def)
  next
    case False
    obtain v where v: "ansHardware E (calls s @ [?c]) = Inr (?new\<lparr>ResourceVersion := v\<rparr>)"
        "st (calls s @ [?c]) = (st (calls s))\<lparr>srvHardware := (srvHardware (st (calls s)))(object_key hw := kept (?new\<lparr>ResourceVersion := v\<rparr>))\<rparr>"
      using serves_next [OF sv, of ?c] hw by (auto simp: serves_call_def claimed_keeps)
    have "kept (?new\<lparr>ResourceVersion := v\<rparr>) = Some (?new\<lparr>ResourceVersion := v\<rparr>)"
      using fin by (auto simp: kept_def claimed_keeps)
    moreover have "hardware_owner (?new\<lparr>ResourceVersion := v\<rparr>) = hardware_owner hw"
      by (simp add: hardware_owner_def claimed_keeps)
    ultimately have "owner_at (st (calls s @ [?c])) = owner_at (st (calls s))"
      using hw by (auto simp: owner_at_def v(2) fun_eq_iff)
    moreover have "r = Inr (?new\<lparr>ResourceVersion := v\<rparr>)" "s' = add_call ?c s"
      using run False v(1) by (simp_all add: ensureHardwareUserData_def run_simps Let_def)
    moreover have "object_key (?new\<lparr>ResourceVersion := v\<rparr>) = object_key hw"
      using claimed_keeps(2) [of "Some ?u" hw] by (simp add: object_key_def)
    ultimately show ?thesis using serves_later [OF sv, of "[?c]"] by simp
  qed
qed

lemma after_claim_served:
  assumes sv: "serves E st (calls s)" and hw: "srvHardware (st (calls s)) (object_key hw) = Some hw"
    and fin: "MachineFinalizer \<in> set (Finalizers hw)" and run: "after_claim E hw s = (r, s')"
  shows "serves E st (calls s') \<and> owner_at (st (calls s')) = owner_at (st (calls s)) \<and>
    (\<forall>x. r = Inr x \<longrightarrow> object_key x = object_key hw \<and> tinkerbellMachine s' = record_hardware hw (tinkerbellMachine s))"
proof -
  let ?s = "s\<lparr>tinkerbellMachine := record_hardware hw (tinkerbellMachine s)\<rparr>"
  obtain r1 s1 where w: "ensure_watch E (Namespace hw) ?s = (r1, s1)" by fastforce
  have s1: "serves E st (calls s1)" "st (calls s1) = st (calls s)" "tinkerbellMachine s1 = tinkerbellMachine ?s"
    using ensure_watch_served [OF _ w] sv ensure_watch_keeps_machine [OF w] by simp_all
  show ?thesis
  proof (cases r1)
    case (Inl e)
    then show ?thesis using run w s1 by (auto simp: after_claim_def run_bindE run_modify_machine)
  next
    case (Inr u)
    then have u: "ensureHardwareUserData E hw (provider_id hw) s1 = (r, s')"
      using run w by (simp add: after_claim_def run_bindE run_modify_machine)
    show ?thesis using userdata_served [OF s1(1) _ fin u] hw s1(2,3) userdata_keeps_machine [OF u] by auto
  qed
qed

text \<open>What one pass makes of who owns what.\<close>

lemma ensureHardware_served:
  assumes sv: "serves E st (calls s)" "lists_current E st (calls s)" and laws: "finalizer_laws E"
    and name: "Name (tinkerbellMachine s) \<noteq> ''''" and run: "ensureHardware E s = (r, s')"
  defines "tm \<equiv> tinkerbellMachine s" and "w \<equiv> st (calls s)" and "w' \<equiv> st (calls s')"
  shows "serves E st (calls s') \<and>
    (owner_at w' = owner_at w \<and>
       (\<forall>hw. r = Inr hw \<longrightarrow> ansHardwareList E (calls s @ [ListAssignedHardware (Name tm) (Namespace tm)]) \<noteq> Inr []) \<or>
     (\<exists>k. ansHardwareList E (calls s @ [ListAssignedHardware (Name tm) (Namespace tm)]) = Inr [] \<and> owner_at w k = None \<and>
        owner_at w' = (owner_at w)(k \<mapsto> object_key tm) \<and>
        (\<forall>hw. r = Inr hw \<longrightarrow> object_key hw = k \<and> HardwareName (tmSpec (tinkerbellMachine s')) = nsName k)))"
proof -
  obtain r1 s1 where sel: "hardwareForMachine E s = (r1, s1)" by fastforce
  have e: "ensureHardware E = bindE (hardwareForMachine E) (\<lambda>hw. bindE (takeHardwareOwnership E hw) (after_claim E))"
    by (simp add: ensureHardware_def after_claim_def [abs_def])
  note h = hardwareForMachine_served [OF sv sel, folded tm_def w_def]
  have tm1: "tinkerbellMachine s1 = tm" using hardwareForMachine_keeps_machine [OF sel] by (simp add: tm_def)
  show ?thesis
  proof (cases r1)
    case (Inl err)
    then have "r = Inl err" "s' = s1" using run sel by (simp_all add: e run_bindE)
    then show ?thesis using h by (simp add: w'_def)
  next
    case (Inr hw)
    let ?k = "object_key hw" and ?l = "ansHardwareList E (calls s @ [ListAssignedHardware (Name tm) (Namespace tm)])"
    have hw: "srvHardware w ?k = Some hw" and mine: "if ?l = Inr [] then Labels hw HardwareOwnerNameLabel = None else labelled_for (Name tm) (Namespace tm) hw"
      using h Inr by (simp_all add: Let_def)
    have w1: "st (calls s1) = w" "serves E st (calls s1)" using h by simp_all
    have "labelled_for (Name tm) (Namespace tm) hw \<or> Labels hw HardwareOwnerNameLabel = None \<and> Name tm \<noteq> ''''"
      using mine name by (simp add: tm_def split: if_splits)
    from take_served [OF w1(2) laws, of hw, unfolded tm1 w1(1), OF hw this] obtain hw' s2 where
      take: "takeHardwareOwnership E hw s1 = (Inr hw', s2)" "serves E st (calls s2)" "tinkerbellMachine s2 = tm"
        "object_key hw' = ?k" "hardware_owner hw' = Some (object_key tm)" "MachineFinalizer \<in> set (Finalizers hw')"
        "st (calls s2) = w\<lparr>srvHardware := (srvHardware w)(?k \<mapsto> hw')\<rparr>"
      by blast
    have rest: "after_claim E hw' s2 = (r, s')" using run sel take(1) Inr by (simp add: e run_bindE)
    have cur: "srvHardware (st (calls s2)) (object_key hw') = Some hw'" by (simp add: take)
    note a = after_claim_served [OF take(2) cur take(6) rest]
    have own: "owner_at w' = (owner_at w)(?k \<mapsto> object_key tm)"
      using a take(5,7) by (auto simp: w'_def owner_at_def fun_eq_iff)
    have "HardwareName (tmSpec (record_hardware hw' m)) = nsName (object_key hw')" for m
      by (simp add: record_hardware_def object_key_def)
    with a have recorded: "\<forall>x. r = Inr x \<longrightarrow> object_key x = ?k \<and> HardwareName (tmSpec (tinkerbellMachine s')) = nsName ?k"
      by (simp add: take(4))
    show ?thesis
    proof (cases "?l = Inr []")
      case True
      then have "owner_at w ?k = None" using mine by (simp add: owner_at_def hw hardware_owner_def)
      then show ?thesis using True a own recorded by blast
    next
      case False
      then have "labelled_for (Name tm) (Namespace tm) hw" using mine by simp
      then have "hardware_owner hw = Some (object_key tm)" by (simp add: hardware_owner_def labelled_for_def object_key_def)
      then have "owner_at w ?k = Some (object_key tm)" by (simp add: owner_at_def hw)
      then have "owner_at w' = owner_at w" using own by (simp add: fun_upd_idem)
      then show ?thesis using False a by blast
    qed
  qed
qed

section \<open>Passes of many machines\<close>

datatype fleet_event = Ensures nsname | Deletes nsname | Others

text \<open>
  The calls grow by those of a pass that runs undisturbed, with any machine in its scope, or by calls that leave every
  Hardware with its owner: what the rest of a reconcile writes to the Hardware keeps its labels
  (\<open>later_patches_keep_labels\<close>).
\<close>

inductive fleet_step :: "('e) kube_scheme \<Rightarrow> (call list \<Rightarrow> server) \<Rightarrow> call list \<Rightarrow> fleet_event \<Rightarrow> call list \<Rightarrow> bool"
  for E :: "('e) kube_scheme" and st :: "call list \<Rightarrow> server" where
  ensure: "ensureHardware E s = (r, s') \<Longrightarrow> calls s = h \<Longrightarrow> Name (tinkerbellMachine s) \<noteq> '''' \<Longrightarrow>
    fleet_step E st h (Ensures (object_key (tinkerbellMachine s))) (calls s')"
| delete: "DeleteMachineWithDependencies E s = (r, s') \<Longrightarrow> calls s = h \<Longrightarrow>
    fleet_step E st h (Deletes (object_key (tinkerbellMachine s))) (calls s')"
| other: "owner_at (st (h @ h')) = owner_at (st h) \<Longrightarrow> fleet_step E st h Others (h @ h')"

definition keeps_labels :: "call \<Rightarrow> bool" where
  "keeps_labels c \<longleftrightarrow> (case c of PatchHardware old new lock \<Rightarrow> Labels new = Labels old \<and> object_key new = object_key old | _ \<Rightarrow> True)"

lemma adds_mark_provisioned: "adds calls keeps_labels (reconcileWorkflowState E hw x)"
  unfolding reconcileWorkflowState_def patchHardwareAnnotations_def
  by (cases x) (auto intro!: adds_intros simp: keeps_labels_def object_key_def)

lemma later_patches_keep_labels:
  "adds calls keeps_labels (reconcileIPAM E hw)" "adds calls keeps_labels (setStatus E (Some hw))"
  "adds calls keeps_labels (reconcile E hw)"
proof -
  show "adds calls keeps_labels (reconcileIPAM E hw)"
    by (intro adds_intros) (simp_all add: keeps_labels_def reserved_hardware_def object_key_def)
  show "adds calls keeps_labels (setStatus E (Some hw))"
    by (intro adds_intros) (simp_all add: keeps_labels_def)
  show "adds calls keeps_labels (reconcile E hw)"
    unfolding reconcile_def
    by (intro adds_intros adds_mark_provisioned) (simp_all add: keeps_labels_def)
qed

text \<open>No machine holds two Hardware.\<close>

definition one_each :: "server \<Rightarrow> bool" where
  "one_each w \<longleftrightarrow> (\<forall>k k' m. owner_at w k = Some m \<and> owner_at w k' = Some m \<longrightarrow> k = k')"

lemma one_each_claim:
  assumes "one_each w" and "\<And>k. owner_at w k \<noteq> Some m" and "owner_at w' = (owner_at w)(k \<mapsto> m)"
  shows "one_each w'"
  using assms unfolding one_each_def by (auto split: if_splits)

lemma one_each_less: "one_each w \<Longrightarrow> (\<And>k. owner_at w' k = owner_at w k \<or> owner_at w' k = None) \<Longrightarrow> one_each w'"
  unfolding one_each_def by (metis option.distinct(1))

lemma deletion_owners:
  assumes "deletion_ends E tm w r w'"
  shows "owner_at w' k = owner_at w k \<or> owner_at w' k = None"
proof (cases "k = hardware_key tm")
  case False
  then show ?thesis using assms by (auto simp: deletion_ends_def others_untouched_def owner_at_def)
next
  case True
  show ?thesis
  proof (cases "needs_power_off E tm w")
    case True
    then have "srvHardware w' = srvHardware w"
      using assms by (auto simp: deletion_ends_def dependencies_gone_def powering_off_def split: if_splits)
    then show ?thesis by (simp add: owner_at_def)
  next
    case False
    then have "hardware_owner hw = None" if "srvHardware w' k = Some hw" for hw
      using assms that True by (auto simp: deletion_ends_def machine_cleared_def released_hardware_def hardware_owner_def)
    then show ?thesis by (auto simp: owner_at_def split: option.split)
  qed
qed

text \<open>What holds between the passes.\<close>

definition fleet_ok :: "('e) kube_scheme \<Rightarrow> (call list \<Rightarrow> server) \<Rightarrow> call list \<Rightarrow> bool" where
  "fleet_ok E st h \<longleftrightarrow> serves E st h \<and> lists_current E st h \<and> assigned_listed E st h \<and> one_each (st h)"

lemma not_owned:
  assumes "assigned_listed E st h" and "ansHardwareList E (h @ [ListAssignedHardware (Name tm) (Namespace tm)]) = Inr []"
    and "Namespace tm \<noteq> ''''"
  shows "owner_at (st h) k \<noteq> Some (object_key tm)"
proof
  assume o: "owner_at (st h) k = Some (object_key tm)"
  then obtain x where x: "srvHardware (st h) k = Some x" "hardware_owner x = Some (object_key tm)"
    by (auto simp: owner_at_def split: option.splits)
  then have "labelled_for (Name tm) (Namespace tm) x"
    using assms(3) by (auto simp: hardware_owner_def labelled_for_def object_key_def lookup0_def split: option.splits)
  moreover have "\<not> labelled_for (Name tm) (Namespace tm) x"
    using assigned_listed_now [OF assms(1)] assms(2) x(1) unfolding assigned_listed_at_def by blast
  ultimately show False by simp
qed

lemma logs_ensureHardware: "logs calls (ensureHardware E)"
  by (intro adds_intros) simp_all

lemma fleet_ok_later: "fleet_ok E st h \<Longrightarrow> one_each (st (h @ h')) \<Longrightarrow> fleet_ok E st (h @ h')"
  by (simp add: fleet_ok_def serves_later lists_current_later assigned_listed_later)

lemma fleet_step_ok:
  assumes laws: "finalizer_laws E" "controller_laws E" and I: "fleet_ok E st h" and step: "fleet_step E st h e h'"
    and ns: "\<And>m. e = Ensures m \<Longrightarrow> nsNamespace m \<noteq> ''''"
  shows "fleet_ok E st h'"
  using step
proof (cases rule: fleet_step.cases)
  case (ensure s r s')
  let ?tm = "tinkerbellMachine s"
  have sv: "serves E st (calls s)" "lists_current E st (calls s)" using I ensure by (simp_all add: fleet_ok_def)
  note served = ensureHardware_served [OF sv laws(1) ensure(5,3)]
  have "Namespace ?tm \<noteq> ''''" using ns [OF ensure(1)] by (simp add: object_key_def)
  with I ensure(4) have free: "owner_at (st h) k \<noteq> Some (object_key ?tm)"
    if "ansHardwareList E (h @ [ListAssignedHardware (Name ?tm) (Namespace ?tm)]) = Inr []" for k
    using not_owned that unfolding fleet_ok_def by blast
  have "one_each (st (calls s'))"
    using served
  proof (elim conjE disjE exE)
    assume "owner_at (st (calls s')) = owner_at (st (calls s))"
    then show ?thesis using I ensure(4) by (simp add: fleet_ok_def one_each_def)
  next
    fix k
    assume a: "ansHardwareList E (calls s @ [ListAssignedHardware (Name ?tm) (Namespace ?tm)]) = Inr []"
      "owner_at (st (calls s')) = (owner_at (st (calls s)))(k \<mapsto> object_key ?tm)"
    show ?thesis
      by (rule one_each_claim [OF _ free a(2) [unfolded ensure(4)]]) (use I a(1) ensure(4) in \<open>simp_all add: fleet_ok_def\<close>)
  qed
  moreover obtain more where "calls s' = calls s @ more"
    using log_runD [OF logs_ensureHardware ensure(3)] by blast
  ultimately show ?thesis using fleet_ok_later [OF I] ensure(2,4) by simp
next
  case (delete s r s')
  obtain r' s'' where d: "DeleteMachineWithDependencies E s = (r', s'')" "deletion_ends E (default_namespace (tinkerbellMachine s)) (st (calls s)) r' (st (calls s''))"
    using deletion_run [OF _ laws, of st s] I delete(4) unfolding fleet_ok_def by blast
  then have "one_each (st (calls s'))"
    using I delete one_each_less deletion_owners [OF d(2)] by (fastforce simp: fleet_ok_def)
  moreover obtain more where "calls s' = calls s @ more"
    using log_runD [OF adds_logs [OF adds_Delete] delete(3)] by blast
  ultimately show ?thesis using fleet_ok_later [OF I] delete(2,4) by simp
next
  case (other more)
  then show ?thesis using fleet_ok_later [OF I, of more] I by (simp add: fleet_ok_def one_each_def)
qed

text \<open>
  C8: No machine holds two Hardware. Whatever machines claim and are deleted, in whatever order, the passes one after
  the other on servers that hold state: when a list of a machine's Hardware names what is on the server, and is empty
  only if the machine holds none, every machine is the owner of at most one Hardware at any time (a Hardware has one
  owner by its labels), provided that was so at the start.
\<close>

theorem fleet_one_hardware:
  assumes "finalizer_laws E" "controller_laws E"
    and "serves E st []" "lists_current E st []" "assigned_listed E st []" "one_each (st [])"
    and "runs (fleet_step E st) [] es h" and "list_all (\<lambda>e. \<forall>m. e = Ensures m \<longrightarrow> nsNamespace m \<noteq> '''') es"
  shows "one_each (st h)"
proof -
  have "fleet_ok E st []" using assms(3-6) by (simp add: fleet_ok_def)
  from runs_invariant [where I = "fleet_ok E st", OF assms(7) this _ assms(8)] fleet_step_ok [OF assms(1,2)]
  have "fleet_ok E st h" by blast
  then show ?thesis by (simp add: fleet_ok_def)
qed


section \<open>Witnesses\<close>

lemma serving_lists:
  assumes "well_kept hks w0"
  shows "lists_current (serving_kube w0 hks) (srv_state w0) from" "assigned_listed (serving_kube w0 hks) (srv_state w0) from"
proof -
  have key: "object_key x = k" if "srvHardware (srv_state w0 h) k = Some x" for h k x
    using srv_state_kept [OF assms, of h] that by (auto simp: well_kept_def keyed_def)
  have known: "k \<in> set hks" if "srvHardware (srv_state w0 h) k = Some x" for h k x
    using srv_state_kept [OF assms, of h] that by (auto simp: well_kept_def)
  have log: "butlast (from @ h @ [c]) = from @ h" for h c by (simp add: butlast_append)
  show "lists_current (serving_kube w0 hks) (srv_state w0) from"
    by (auto simp: lists_current_def lists_current_at_def serving_kube_def Let_def labelled_for_def key log)
  show "assigned_listed (serving_kube w0 hks) (srv_state w0) from"
    unfolding assigned_listed_def assigned_listed_at_def
    by (auto simp: serving_kube_def Let_def labelled_for_def filter_empty_conv log dest: known)
qed

lemma held_one_each: "one_each held_server"
  by (auto simp: one_each_def owner_at_def held_server_def split: if_splits)

theorem fleet_one_hardware_witness:
  "\<exists>h. runs (fleet_step (serving_kube held_server [NN ''ns'' ''h1'']) (srv_state held_server)) []
       [Ensures (NN ''ns'' ''m1''), Deletes (NN ''ns'' ''m1'')] h \<and> one_each (srv_state held_server h)"
proof -
  let ?E = "serving_kube held_server [NN ''ns'' ''h1'']" and ?st = "srv_state held_server"
  let ?s = "example_scope\<lparr>tinkerbellMachine := held_machine\<rparr>"
  have n: "object_key held_machine = NN ''ns'' ''m1''" "Name held_machine = ''m1''"
    by (simp_all add: held_machine_def object_key_def)
  obtain r s1 where e: "ensureHardware ?E ?s = (r, s1)" by fastforce
  let ?t = "?s\<lparr>calls := calls s1\<rparr>"
  obtain r' s2 where d: "DeleteMachineWithDependencies ?E ?t = (r', s2)" by fastforce
  have "fleet_step ?E ?st [] (Ensures (NN ''ns'' ''m1'')) (calls s1)"
    using fleet_step.ensure [OF e, of "[]" ?st] by (simp add: n)
  moreover have "fleet_step ?E ?st (calls s1) (Deletes (NN ''ns'' ''m1'')) (calls s2)"
    using fleet_step.delete [OF d, of "calls s1" ?st] by (simp add: n)
  ultimately have r: "runs (fleet_step ?E ?st) [] [Ensures (NN ''ns'' ''m1''), Deletes (NN ''ns'' ''m1'')] (calls s2)"
    by (intro runs_two [where step = "fleet_step ?E ?st"] runs_one [where step = "fleet_step ?E ?st"])
  have "one_each (?st (calls s2))"
    by (rule fleet_one_hardware [OF serving_laws serving_serves [OF held_server_kept] serving_lists [OF held_server_kept] _ r])
      (simp_all add: held_one_each)
  with r show ?thesis by blast
qed

text \<open>Without a watch manager nothing stops a pass that has selected a Hardware.\<close>

lemma pass_succeeds:
  assumes sv: "serves E st (calls s)" "lists_current E st (calls s)" and laws: "finalizer_laws E"
    and name: "Name (tinkerbellMachine s) \<noteq> ''''" and watch: "watchManager s = None"
    and sel: "hardwareForMachine E s = (Inr hw, s1)"
  shows "\<exists>hw' s'. ensureHardware E s = (Inr hw', s') \<and> object_key hw' = object_key hw"
proof -
  let ?tm = "tinkerbellMachine s"
  note h = hardwareForMachine_served [OF sv sel]
  have s1: "tinkerbellMachine s1 = ?tm" "watchManager s1 = None" "st (calls s1) = st (calls s)" "serves E st (calls s1)"
    using hardwareForMachine_keeps_machine [OF sel] keepsD [OF keeps_hardwareForMachine [where obs = watchManager] sel] watch h
    by simp_all
  have hw: "srvHardware (st (calls s1)) (object_key hw) = Some hw"
    "labelled_for (Name ?tm) (Namespace ?tm) hw \<or> Labels hw HardwareOwnerNameLabel = None \<and> Name ?tm \<noteq> ''''"
    using h name s1(3) by (simp_all add: Let_def split: if_splits)
  from take_served [OF s1(4) laws hw(1), unfolded s1(1), OF hw(2)] obtain hw' s2 where
    t: "takeHardwareOwnership E hw s1 = (Inr hw', s2)" "serves E st (calls s2)" "object_key hw' = object_key hw"
      "MachineFinalizer \<in> set (Finalizers hw')" "srvHardware (st (calls s2)) (object_key hw) = Some hw'"
    by auto
  have w2: "watchManager s2 = None"
    using keepsD [OF keeps_takeHardwareOwnership [where obs = watchManager] t(1)] s1(2) by simp
  let ?s2 = "s2\<lparr>tinkerbellMachine := record_hardware hw' (tinkerbellMachine s2)\<rparr>"
  have ew: "ensure_watch E (Namespace hw') ?s2 = (Inr (), ?s2)" by (simp add: ensure_watch_def w2)
  obtain r s' where u: "ensureHardwareUserData E hw' (provider_id hw') ?s2 = (r, s')" by fastforce
  have cur: "srvHardware (st (calls ?s2)) (object_key hw') = Some hw'" using t(3,5) by simp
  have "\<exists>x. r = Inr x \<and> object_key x = object_key hw'"
    using userdata_served [where s = ?s2 and st = st, OF _ cur t(4) u] t(2) by simp
  then show ?thesis
    using t(3) by (auto simp: ensureHardware_def run_bindE sel t(1) run_modify_machine ew u)
qed

text \<open>Servers with a second, free Hardware, whose list of the machine's own Hardware is always empty.\<close>

definition free_hw :: hardware where
  "free_hw = example_hw ''h2'' Map.empty"

definition done_job :: bmc_job where
  "done_job = objmeta.extend (new_meta ''m1-poweroff'' ''ns'')
     \<lparr>jobHardwareRef = NN ''ns'' ''h2'', jobOperations = [PowerActionHardOff],
      jobConditions = [\<lparr>bcType = ConditionTypeCompleted, bcStatus = ConditionStatusTrue\<rparr>]\<rparr>"

definition two_server :: server where
  "two_server = held_server\<lparr>srvHardware := [NN ''ns'' ''h1'' \<mapsto> held_hw, NN ''ns'' ''h2'' \<mapsto> free_hw],
     srvJobs := [NN ''ns'' ''m1-poweroff'' \<mapsto> done_job]\<rparr>"

lemma srv_step_jobs: "srvJobs w k = Some j \<Longrightarrow> srvJobs (srv_step w c) k = Some j"
  by (cases c) (auto simp: srv_step_def)

lemma srv_state_jobs: "srvJobs w k = Some j \<Longrightarrow> srvJobs (srv_state w h) k = Some j"
  unfolding srv_state_def by (induction h arbitrary: w) (simp_all add: srv_step_jobs)

definition late_kube :: kube where
  "late_kube = (let E = serving_kube two_server [NN ''ns'' ''h1'', NN ''ns'' ''h2''] in
     E\<lparr>ansHardwareList := \<lambda>h. case List.last h of ListAssignedHardware _ _ \<Rightarrow> Inr [] | _ \<Rightarrow> ansHardwareList E h\<rparr>)"

lemma two_server_kept: "well_kept [NN ''ns'' ''h1'', NN ''ns'' ''h2''] two_server"
  by (auto simp: well_kept_def two_server_def held_server_def keyed_def held_keys free_hw_def)

lemma late_serves: "serves late_kube (srv_state two_server) from"
  using serving_serves [OF two_server_kept, of "from"]
  by (simp add: late_kube_def Let_def serves_def serves_call_def cong: call.case_cong)

lemma late_lists: "lists_current late_kube (srv_state two_server) from"
  using serving_lists(1) [OF two_server_kept, of "from"]
  by (simp add: late_kube_def Let_def lists_current_def lists_current_at_def)

lemma late_laws: "finalizer_laws late_kube" "controller_laws late_kube"
  using serving_laws [of two_server] by (simp_all add: late_kube_def Let_def finalizer_laws_def controller_laws_def)

abbreviation late_scope :: scope where
  "late_scope \<equiv> example_scope\<lparr>tinkerbellMachine := held_machine\<lparr>tmStatus := example_status\<lparr>TargetNamespace := ''ns''\<rparr>\<rparr>\<rparr>"

lemma late_selects: "\<exists>s1. hardwareForMachine late_kube late_scope = (Inr free_hw, s1)"
proof -
  let ?sel = "unowned_selector (LabelSelector empty_affinity_term)"
  have f: "selector_matches ?sel (Labels free_hw)" "\<not> selector_matches ?sel (Labels held_hw)"
    unfolding unowned_matches by (simp_all add: free_hw_def held_hw_def selector_matches_def empty_affinity_term_def)
  have l: "ansHardwareList late_kube [ListAssignedHardware a b, ListHardware ?sel] = Inr [free_hw]" for a b
    using f by (simp add: late_kube_def Let_def serving_kube_def srv_state_def srv_step_def two_server_def)
  have l': "ansHardwareList late_kube [ListAssignedHardware n ns] = Inr []" for n ns
    by (simp add: late_kube_def Let_def)
  have m: "HardwareAffinity (tmSpec held_machine) = None" by (simp add: held_machine_def)
  have "asSelector late_kube = (\<lambda>sel. Inr (selector_matches sel))"
    by (simp add: late_kube_def Let_def fun_eq_iff)
  then show ?thesis
    by (simp add: hardwareForMachine_def assignedHardware_def run_simps l l' m required_terms_def Let_def
        preferred_terms_def best_hardware_def byHardwareAffinity_def)
qed


end
