(* ===== verification/Memory.thy ===== *)
theory Memory
  imports Prelude "HOL-Library.State_Monad"
begin

text \<open>
  Values as they lie in memory, for the generated deep copies: a pointer and a slice carry the location of what
  they refer to, so that two values share memory when they have a location in common. The type of locations is a
  parameter of the memory types: \<open>map_\<dots> (\<lambda>_. ())\<close> is the value with its locations erased, \<open>set_\<dots>\<close>
  the locations it reaches. Memory is taken from a counter: what is in use lies below it. A struct
  of another module is its data and the locations it reaches. The locale \<open>deep_copier\<close> is the contract of a copy:
  an equal value in memory taken since, closed under pointers and slices.
\<close>

section \<open>Memory\<close>

type_synonym addr = nat

type_synonym 'a alloc = "(addr, 'a) state"

datatype ('l, 'a) ptr = Null | Ref 'l 'a

datatype ('l, 'a) slice = NilSlice | Slice 'l "'a list"

datatype ('l, dead 'd) lib = Lib (libData: 'd) (libLocs: "'l list")

definition new :: "addr alloc" where
  "new = do { a \<leftarrow> State_Monad.get; State_Monad.set (Suc a); State_Monad.return a }"

text \<open>\<open>if in.X != nil { *out = new(T); (*in).DeepCopyInto(*out) }\<close>, which is also the body of each \<open>DeepCopy\<close>.\<close>

definition copy_ptr :: "('a \<Rightarrow> 'a alloc) \<Rightarrow> (addr, 'a) ptr \<Rightarrow> (addr, 'a) ptr alloc" where
  "copy_ptr cp p =
     (case p of
        Null \<Rightarrow> State_Monad.return Null
      | Ref _ x \<Rightarrow> do { a \<leftarrow> new; y \<leftarrow> cp x; State_Monad.return (Ref a y) })"

fun copy_elems :: "('a \<Rightarrow> 'a alloc) \<Rightarrow> 'a list \<Rightarrow> 'a list alloc" where
  "copy_elems cp [] = State_Monad.return []"
| "copy_elems cp (x # xs) = do { y \<leftarrow> cp x; ys \<leftarrow> copy_elems cp xs; State_Monad.return (y # ys) }"

text \<open>\<open>if in.X != nil { *out = make([]T, len(*in)); for i := range *in { (*in)[i].DeepCopyInto(&(*out)[i]) } }\<close>.\<close>

definition copy_slice :: "('a \<Rightarrow> 'a alloc) \<Rightarrow> (addr, 'a) slice \<Rightarrow> (addr, 'a) slice alloc" where
  "copy_slice cp s =
     (case s of
        NilSlice \<Rightarrow> State_Monad.return NilSlice
      | Slice _ xs \<Rightarrow> do { a \<leftarrow> new; ys \<leftarrow> copy_elems cp xs; State_Monad.return (Slice a ys) })"

text \<open>A value without references: \<open>**out = **in\<close> and \<open>copy(*out, *in)\<close> copy all of it.\<close>

abbreviation flat :: "'a \<Rightarrow> 'a alloc" where
  "flat \<equiv> State_Monad.return"

text \<open>\<open>if c := in.DeepCopy(); c != nil { return c }; return nil\<close>: a nil pointer becomes the nil interface.\<close>

definition as_object :: "(addr, 'a) ptr alloc \<Rightarrow> (addr, 'a) ptr option alloc" where
  "as_object m = do { c \<leftarrow> m; State_Monad.return (case c of Null \<Rightarrow> None | Ref _ _ \<Rightarrow> Some c) }"

section \<open>Copies that share nothing\<close>

text \<open>The computation returns the given value in memory it has just taken.\<close>

definition yields :: "'x alloc \<Rightarrow> ('x \<Rightarrow> addr set) \<Rightarrow> ('x \<Rightarrow> 'y) \<Rightarrow> 'y \<Rightarrow> bool" where
  "yields c locs erase v \<longleftrightarrow>
     (\<forall>n. n \<le> snd (run_state c n) \<and> erase (fst (run_state c n)) = v \<and>
          locs (fst (run_state c n)) \<subseteq> {n..<snd (run_state c n)})"

locale deep_copier =
  fixes locs :: "'x \<Rightarrow> addr set" and erase :: "'x \<Rightarrow> 'y" and cp :: "'x \<Rightarrow> 'x alloc"
  assumes copies: "yields (cp x) locs erase (erase x)"

lemma yields_run:
  assumes "yields c locs erase v" and "run_state c n = (y, m)"
  shows "n \<le> m \<and> erase y = v \<and> locs y \<subseteq> {n..<m}"
  using assms by (metis fst_conv snd_conv yields_def)

lemma yields_return: "locs y = {} \<Longrightarrow> erase y = v \<Longrightarrow> yields (State_Monad.return y) locs erase v"
  by (simp add: yields_def)

text \<open>What a step has taken is accounted for: the rest of the computation owes only the locations left.\<close>

lemma yields_bind:
  assumes "yields c locs1 erase1 v1"
    and "\<And>y. erase1 y = v1 \<Longrightarrow> yields (k y) (\<lambda>z. locs z - locs1 y) erase v"
  shows "yields (Monad_Syntax.bind c k) locs erase v"
  unfolding yields_def
proof
  fix n
  obtain y m where c: "run_state c n = (y, m)" by (cases "run_state c n")
  obtain z m' where k: "run_state (k y) m = (z, m')" by (cases "run_state (k y) m")
  have 1: "n \<le> m \<and> erase1 y = v1 \<and> locs1 y \<subseteq> {n..<m}"
    by (rule yields_run [OF assms(1) c])
  have 2: "m \<le> m' \<and> erase z = v \<and> locs z - locs1 y \<subseteq> {m..<m'}"
    by (rule yields_run [OF assms(2) k]) (simp add: 1)
  have "locs z \<subseteq> {n..<m'}"
  proof
    fix a assume a: "a \<in> locs z"
    show "a \<in> {n..<m'}"
    proof (cases "a \<in> locs1 y")
      case True
      then have "a \<in> {n..<m}" using 1 by blast
      then show ?thesis using 2 by simp
    next
      case False
      then have "a \<in> {m..<m'}" using a 2 by blast
      then show ?thesis using 1 by simp
    qed
  qed
  then show "n \<le> snd (run_state (Monad_Syntax.bind c k) n) \<and> erase (fst (run_state (Monad_Syntax.bind c k) n)) = v \<and>
      locs (fst (run_state (Monad_Syntax.bind c k) n)) \<subseteq> {n..<snd (run_state (Monad_Syntax.bind c k) n)}"
    using 1 2 by (simp add: c k)
qed

lemma yields_new: "yields new (\<lambda>a. {a}) (\<lambda>_. ()) ()"
  by (simp add: yields_def new_def)

lemma yields_mono:
  assumes "yields c locs erase v" and "\<And>y. locs' y \<subseteq> locs y"
  shows "yields c locs' erase v"
  using assms unfolding yields_def by blast

context deep_copier
begin

lemma copies_mono: "(\<And>y. L y \<subseteq> locs y) \<Longrightarrow> yields (cp x) L erase (erase x)"
  by (rule yields_mono [OF copies])

lemma elems: "yields (copy_elems cp xs) (\<lambda>ys. \<Union> (locs ` set ys)) (map erase) (map erase xs)"
proof (induction xs)
  case Nil
  show ?case by (simp add: yields_return)
next
  case (Cons x xs)
  show ?case
    unfolding copy_elems.simps
    by (rule yields_bind [OF copies], rule yields_bind [OF Cons.IH], rule yields_return) auto
qed

lemma pointer: "deep_copier (\<lambda>p. set1_ptr p \<union> \<Union> (locs ` set2_ptr p)) (map_ptr (\<lambda>_. ()) erase) (copy_ptr cp)"
proof
  fix p
  show "yields (copy_ptr cp p) (\<lambda>p. set1_ptr p \<union> \<Union> (locs ` set2_ptr p)) (map_ptr (\<lambda>_. ()) erase)
      (map_ptr (\<lambda>_. ()) erase p)"
  proof (cases p)
    case Null
    then show ?thesis by (simp add: copy_ptr_def yields_return)
  next
    case (Ref b x)
    show ?thesis
      unfolding Ref copy_ptr_def ptr.case
      by (rule yields_bind [OF yields_new], rule yields_bind [OF copies], rule yields_return) auto
  qed
qed

lemma slices: "deep_copier (\<lambda>s. set1_slice s \<union> \<Union> (locs ` set2_slice s)) (map_slice (\<lambda>_. ()) erase) (copy_slice cp)"
proof
  fix s
  show "yields (copy_slice cp s) (\<lambda>s. set1_slice s \<union> \<Union> (locs ` set2_slice s)) (map_slice (\<lambda>_. ()) erase)
      (map_slice (\<lambda>_. ()) erase s)"
  proof (cases s)
    case NilSlice
    then show ?thesis by (simp add: copy_slice_def yields_return)
  next
    case (Slice b xs)
    show ?thesis
      unfolding Slice copy_slice_def slice.case
      by (rule yields_bind [OF yields_new], rule yields_bind [OF elems], rule yields_return) auto
  qed
qed

end

lemma copier_flat: "deep_copier (\<lambda>_. {}) id flat"
  by unfold_locales (simp add: yields_return)

interpretation flat_value: deep_copier "\<lambda>_. {}" id flat
  by (rule copier_flat)

lemma copier_flat_ptr: "deep_copier set1_ptr (map_ptr (\<lambda>_. ()) id) (copy_ptr flat)"
  using flat_value.pointer by simp

lemma copier_flat_slice: "deep_copier set1_slice (map_slice (\<lambda>_. ()) id) (copy_slice flat)"
  using flat_value.slices by simp

text \<open>What a method \<open>DeepCopyObject\<close> promises to the caches and the patches that rely on it.\<close>

definition isolating ::
    "('x \<Rightarrow> addr set) \<Rightarrow> ('x \<Rightarrow> 'y) \<Rightarrow> ((addr, 'x) ptr \<Rightarrow> (addr, 'x) ptr option alloc) \<Rightarrow> bool" where
  "isolating locs erase copyObject \<longleftrightarrow>
     (\<forall>p n. set1_ptr p \<union> \<Union> (locs ` set2_ptr p) \<subseteq> {..<n} \<longrightarrow>
        (case fst (run_state (copyObject p) n) of
           None \<Rightarrow> p = Null
         | Some q \<Rightarrow>
             p \<noteq> Null \<and> q \<noteq> Null \<and> map_ptr (\<lambda>_. ()) erase q = map_ptr (\<lambda>_. ()) erase p \<and>
             (set1_ptr q \<union> \<Union> (locs ` set2_ptr q)) \<inter> (set1_ptr p \<union> \<Union> (locs ` set2_ptr p)) = {}))"

lemma isolating_object:
  assumes "deep_copier locs erase cp"
  shows "isolating locs erase (\<lambda>p. as_object (copy_ptr cp p))"
  unfolding isolating_def
proof (intro allI impI)
  fix p n
  assume below: "set1_ptr p \<union> \<Union> (locs ` set2_ptr p) \<subseteq> {..<n}"
  obtain q m where q: "run_state (copy_ptr cp p) n = (q, m)" by (cases "run_state (copy_ptr cp p) n")
  have c: "map_ptr (\<lambda>_. ()) erase q = map_ptr (\<lambda>_. ()) erase p \<and>
      set1_ptr q \<union> \<Union> (locs ` set2_ptr q) \<subseteq> {n..<m}"
    using yields_run [OF deep_copier.copies [OF deep_copier.pointer [OF assms]] q] by simp
  have disjoint: "(set1_ptr q \<union> \<Union> (locs ` set2_ptr q)) \<inter> (set1_ptr p \<union> \<Union> (locs ` set2_ptr p)) = {}"
    using c below by fastforce
  show "case fst (run_state (as_object (copy_ptr cp p)) n) of
      None \<Rightarrow> p = Null
    | Some q \<Rightarrow> p \<noteq> Null \<and> q \<noteq> Null \<and> map_ptr (\<lambda>_. ()) erase q = map_ptr (\<lambda>_. ()) erase p \<and>
        (set1_ptr q \<union> \<Union> (locs ` set2_ptr q)) \<inter> (set1_ptr p \<union> \<Union> (locs ` set2_ptr p)) = {}"
  proof (cases q)
    case Null
    then have "p = Null" using c by (cases p) auto
    then show ?thesis by (simp add: as_object_def copy_ptr_def)
  next
    case (Ref a y)
    then have "p \<noteq> Null" using c by (cases p) auto
    then show ?thesis using c disjoint Ref by (simp add: as_object_def q)
  qed
qed

end
