(* ===== verification/DeepCopy.thy ===== *)
theory DeepCopy
  imports Memory Api
begin

text \<open>
  The generated copies of \<open>api/v1beta2/zz_generated.deepcopy.go\<close>, each method \<open>DeepCopyInto\<close>, \<open>DeepCopy\<close> and
  \<open>DeepCopyObject\<close> on the memory type of its receiver. A \<open>DeepCopyInto\<close> starts from \<open>*out = *in\<close>: the fields
  it does not name again are those of the receiver. The copies of the structs of other modules (ObjectMeta, ListMeta,
  Condition, LabelSelector, CustombootConfig) are a parameter.
\<close>

section \<open>The types in memory\<close>

record type_meta =
  tmKind :: string
  tmAPIVersion :: string

record list_meta =
  lmResourceVersion :: string
  lmContinue :: string

text \<open>The copies of the other modules, and what they document: an equal value that shares nothing.\<close>

record foreign_copies =
  ObjectMeta_DeepCopyInto :: "(addr, objmeta) lib \<Rightarrow> (addr, objmeta) lib alloc"
  ListMeta_DeepCopyInto :: "(addr, list_meta) lib \<Rightarrow> (addr, list_meta) lib alloc"
  TemplateMeta_DeepCopyInto :: "(addr, template_meta) lib \<Rightarrow> (addr, template_meta) lib alloc"
  LabelSelector_DeepCopyInto :: "(addr, label_selector) lib \<Rightarrow> (addr, label_selector) lib alloc"
  Condition_DeepCopyInto :: "(addr, condition) lib \<Rightarrow> (addr, condition) lib alloc"
  CustombootConfig_DeepCopyInto :: "(addr, customboot_config) lib \<Rightarrow> (addr, customboot_config) lib alloc"

definition foreign_laws :: "foreign_copies \<Rightarrow> bool" where
  "foreign_laws F \<longleftrightarrow>
     deep_copier set_lib (map_lib (\<lambda>_. ())) (ObjectMeta_DeepCopyInto F) \<and>
     deep_copier set_lib (map_lib (\<lambda>_. ())) (ListMeta_DeepCopyInto F) \<and>
     deep_copier set_lib (map_lib (\<lambda>_. ())) (TemplateMeta_DeepCopyInto F) \<and>
     deep_copier set_lib (map_lib (\<lambda>_. ())) (LabelSelector_DeepCopyInto F) \<and>
     deep_copier set_lib (map_lib (\<lambda>_. ())) (Condition_DeepCopyInto F) \<and>
     deep_copier set_lib (map_lib (\<lambda>_. ())) (CustombootConfig_DeepCopyInto F)"

datatype 'l mem_boot_options =
  MBootOptions string boot_mode "('l, customboot_config) lib"

datatype 'l mem_affinity_term =
  MHardwareAffinityTerm "('l, label_selector) lib"

datatype 'l mem_weighted_term =
  MWeightedHardwareAffinityTerm int "'l mem_affinity_term"

datatype 'l mem_hardware_affinity =
  MHardwareAffinity "('l, 'l mem_affinity_term) slice" "('l, 'l mem_weighted_term) slice"

datatype 'l mem_machine_config =
  MTinkerbellMachineConfig string "('l, object_ref) ptr" "('l, 'l mem_hardware_affinity) ptr"
      "'l mem_boot_options" "('l, ip_pool_ref) ptr"

datatype 'l mem_machine_spec =
  MTinkerbellMachineSpec "'l mem_machine_config" string string

datatype 'l mem_machine_init_status =
  MTinkerbellMachineInitializationStatus "('l, bool) ptr"

datatype 'l mem_machine_status =
  MTinkerbellMachineStatus bool "('l, 'l mem_machine_init_status) ptr" "('l, node_address) slice"
      "('l, int) ptr" string "('l, ('l, condition) lib) slice" "('l, string) ptr"
      "('l, string) ptr"

datatype 'l mem_machine =
  MTinkerbellMachine type_meta "('l, objmeta) lib" "'l mem_machine_spec" "'l mem_machine_status"

datatype 'l mem_machine_list =
  MTinkerbellMachineList type_meta "('l, list_meta) lib" "('l, 'l mem_machine) slice"

datatype 'l mem_machine_template_resource =
  MTinkerbellMachineTemplateResource "('l, template_meta) lib" "'l mem_machine_config"

datatype 'l mem_machine_template_spec =
  MTinkerbellMachineTemplateSpec "'l mem_machine_template_resource"

datatype 'l mem_machine_template =
  MTinkerbellMachineTemplate type_meta "('l, objmeta) lib" "'l mem_machine_template_spec"

datatype 'l mem_machine_template_list =
  MTinkerbellMachineTemplateList type_meta "('l, list_meta) lib"
      "('l, 'l mem_machine_template) slice"

datatype 'l mem_cluster_init_status =
  MTinkerbellClusterInitializationStatus "('l, bool) ptr"

datatype 'l mem_cluster_status =
  MTinkerbellClusterStatus bool "('l, 'l mem_cluster_init_status) ptr"
      "('l, ('l, condition) lib) slice"

datatype 'l mem_cluster_spec =
  MTinkerbellClusterSpec "('l, api_endpoint) ptr" string "('l, object_ref) ptr"

datatype 'l mem_cluster =
  MTinkerbellCluster type_meta "('l, objmeta) lib" "'l mem_cluster_spec" "'l mem_cluster_status"

datatype 'l mem_cluster_list =
  MTinkerbellClusterList type_meta "('l, list_meta) lib" "('l, 'l mem_cluster) slice"

datatype 'l mem_cluster_template_resource =
  MTinkerbellClusterTemplateResource "('l, template_meta) lib" "'l mem_cluster_spec"

datatype 'l mem_cluster_template_spec =
  MTinkerbellClusterTemplateSpec "'l mem_cluster_template_resource"

datatype 'l mem_cluster_template =
  MTinkerbellClusterTemplate type_meta "('l, objmeta) lib" "'l mem_cluster_template_spec"

datatype 'l mem_cluster_template_list =
  MTinkerbellClusterTemplateList type_meta "('l, list_meta) lib"
      "('l, 'l mem_cluster_template) slice"

section \<open>The generated copies\<close>

definition ObjectRef_DeepCopyInto :: "object_ref \<Rightarrow> object_ref alloc" where
  "ObjectRef_DeepCopyInto x = State_Monad.return x"

definition ObjectRef_DeepCopy :: "(addr, object_ref) ptr \<Rightarrow> (addr, object_ref) ptr alloc" where
  "ObjectRef_DeepCopy = copy_ptr ObjectRef_DeepCopyInto"

fun BootOptions_DeepCopyInto ::
    "foreign_copies \<Rightarrow> addr mem_boot_options \<Rightarrow> addr mem_boot_options alloc" where
  "BootOptions_DeepCopyInto F (MBootOptions isoURL bootMode custombootConfig) =
     do {
       custombootConfig' \<leftarrow> CustombootConfig_DeepCopyInto F custombootConfig;
       State_Monad.return (MBootOptions isoURL bootMode custombootConfig')
     }"

definition BootOptions_DeepCopy ::
    "foreign_copies \<Rightarrow> (addr, addr mem_boot_options) ptr \<Rightarrow> (addr, addr mem_boot_options) ptr alloc" where
  "BootOptions_DeepCopy F = copy_ptr (BootOptions_DeepCopyInto F)"

fun HardwareAffinityTerm_DeepCopyInto ::
    "foreign_copies \<Rightarrow> addr mem_affinity_term \<Rightarrow> addr mem_affinity_term alloc" where
  "HardwareAffinityTerm_DeepCopyInto F (MHardwareAffinityTerm labelSelector) =
     do {
       labelSelector' \<leftarrow> LabelSelector_DeepCopyInto F labelSelector;
       State_Monad.return (MHardwareAffinityTerm labelSelector')
     }"

definition HardwareAffinityTerm_DeepCopy ::
    "foreign_copies \<Rightarrow> (addr, addr mem_affinity_term) ptr \<Rightarrow> (addr, addr mem_affinity_term) ptr alloc" where
  "HardwareAffinityTerm_DeepCopy F = copy_ptr (HardwareAffinityTerm_DeepCopyInto F)"

fun WeightedHardwareAffinityTerm_DeepCopyInto ::
    "foreign_copies \<Rightarrow> addr mem_weighted_term \<Rightarrow> addr mem_weighted_term alloc" where
  "WeightedHardwareAffinityTerm_DeepCopyInto F (MWeightedHardwareAffinityTerm weight affinityTerm) =
     do {
       affinityTerm' \<leftarrow> HardwareAffinityTerm_DeepCopyInto F affinityTerm;
       State_Monad.return (MWeightedHardwareAffinityTerm weight affinityTerm')
     }"

definition WeightedHardwareAffinityTerm_DeepCopy ::
    "foreign_copies \<Rightarrow> (addr, addr mem_weighted_term) ptr \<Rightarrow> (addr, addr mem_weighted_term) ptr alloc" where
  "WeightedHardwareAffinityTerm_DeepCopy F = copy_ptr (WeightedHardwareAffinityTerm_DeepCopyInto F)"

fun HardwareAffinity_DeepCopyInto ::
    "foreign_copies \<Rightarrow> addr mem_hardware_affinity \<Rightarrow> addr mem_hardware_affinity alloc" where
  "HardwareAffinity_DeepCopyInto F (MHardwareAffinity required preferred) =
     do {
       required' \<leftarrow> copy_slice (HardwareAffinityTerm_DeepCopyInto F) required;
       preferred' \<leftarrow> copy_slice (WeightedHardwareAffinityTerm_DeepCopyInto F) preferred;
       State_Monad.return (MHardwareAffinity required' preferred')
     }"

definition HardwareAffinity_DeepCopy ::
    "foreign_copies \<Rightarrow> (addr, addr mem_hardware_affinity) ptr \<Rightarrow> (addr, addr mem_hardware_affinity) ptr alloc" where
  "HardwareAffinity_DeepCopy F = copy_ptr (HardwareAffinity_DeepCopyInto F)"

fun TinkerbellMachineConfig_DeepCopyInto ::
    "foreign_copies \<Rightarrow> addr mem_machine_config \<Rightarrow> addr mem_machine_config alloc" where
  "TinkerbellMachineConfig_DeepCopyInto F (MTinkerbellMachineConfig templateInline templateRef hardwareAffinity bootOptions addressFromPool) =
     do {
       templateRef' \<leftarrow> copy_ptr flat templateRef;
       hardwareAffinity' \<leftarrow> copy_ptr (HardwareAffinity_DeepCopyInto F) hardwareAffinity;
       bootOptions' \<leftarrow> BootOptions_DeepCopyInto F bootOptions;
       addressFromPool' \<leftarrow> copy_ptr flat addressFromPool;
       State_Monad.return (MTinkerbellMachineConfig templateInline templateRef' hardwareAffinity' bootOptions' addressFromPool')
     }"

definition TinkerbellMachineConfig_DeepCopy ::
    "foreign_copies \<Rightarrow> (addr, addr mem_machine_config) ptr \<Rightarrow> (addr, addr mem_machine_config) ptr alloc" where
  "TinkerbellMachineConfig_DeepCopy F = copy_ptr (TinkerbellMachineConfig_DeepCopyInto F)"

fun TinkerbellMachineSpec_DeepCopyInto ::
    "foreign_copies \<Rightarrow> addr mem_machine_spec \<Rightarrow> addr mem_machine_spec alloc" where
  "TinkerbellMachineSpec_DeepCopyInto F (MTinkerbellMachineSpec machineConfig hardwareName providerID) =
     do {
       machineConfig' \<leftarrow> TinkerbellMachineConfig_DeepCopyInto F machineConfig;
       State_Monad.return (MTinkerbellMachineSpec machineConfig' hardwareName providerID)
     }"

definition TinkerbellMachineSpec_DeepCopy ::
    "foreign_copies \<Rightarrow> (addr, addr mem_machine_spec) ptr \<Rightarrow> (addr, addr mem_machine_spec) ptr alloc" where
  "TinkerbellMachineSpec_DeepCopy F = copy_ptr (TinkerbellMachineSpec_DeepCopyInto F)"

fun TinkerbellMachineInitializationStatus_DeepCopyInto ::
    "foreign_copies \<Rightarrow> addr mem_machine_init_status \<Rightarrow> addr mem_machine_init_status alloc" where
  "TinkerbellMachineInitializationStatus_DeepCopyInto F (MTinkerbellMachineInitializationStatus provisioned) =
     do {
       provisioned' \<leftarrow> copy_ptr flat provisioned;
       State_Monad.return (MTinkerbellMachineInitializationStatus provisioned')
     }"

definition TinkerbellMachineInitializationStatus_DeepCopy ::
    "foreign_copies \<Rightarrow> (addr, addr mem_machine_init_status) ptr \<Rightarrow> (addr, addr mem_machine_init_status) ptr alloc" where
  "TinkerbellMachineInitializationStatus_DeepCopy F = copy_ptr (TinkerbellMachineInitializationStatus_DeepCopyInto F)"

fun TinkerbellMachineStatus_DeepCopyInto ::
    "foreign_copies \<Rightarrow> addr mem_machine_status \<Rightarrow> addr mem_machine_status alloc" where
  "TinkerbellMachineStatus_DeepCopyInto F (MTinkerbellMachineStatus ready initialization addresses resourceStatus targetNamespace conditions errorReason errorMessage) =
     do {
       initialization' \<leftarrow> copy_ptr (TinkerbellMachineInitializationStatus_DeepCopyInto F) initialization;
       addresses' \<leftarrow> copy_slice flat addresses;
       resourceStatus' \<leftarrow> copy_ptr flat resourceStatus;
       conditions' \<leftarrow> copy_slice (Condition_DeepCopyInto F) conditions;
       errorReason' \<leftarrow> copy_ptr flat errorReason;
       errorMessage' \<leftarrow> copy_ptr flat errorMessage;
       State_Monad.return (MTinkerbellMachineStatus ready initialization' addresses' resourceStatus' targetNamespace conditions' errorReason' errorMessage')
     }"

definition TinkerbellMachineStatus_DeepCopy ::
    "foreign_copies \<Rightarrow> (addr, addr mem_machine_status) ptr \<Rightarrow> (addr, addr mem_machine_status) ptr alloc" where
  "TinkerbellMachineStatus_DeepCopy F = copy_ptr (TinkerbellMachineStatus_DeepCopyInto F)"

fun TinkerbellMachine_DeepCopyInto ::
    "foreign_copies \<Rightarrow> addr mem_machine \<Rightarrow> addr mem_machine alloc" where
  "TinkerbellMachine_DeepCopyInto F (MTinkerbellMachine typeMeta objectMeta spec status) =
     do {
       objectMeta' \<leftarrow> ObjectMeta_DeepCopyInto F objectMeta;
       spec' \<leftarrow> TinkerbellMachineSpec_DeepCopyInto F spec;
       status' \<leftarrow> TinkerbellMachineStatus_DeepCopyInto F status;
       State_Monad.return (MTinkerbellMachine typeMeta objectMeta' spec' status')
     }"

definition TinkerbellMachine_DeepCopy ::
    "foreign_copies \<Rightarrow> (addr, addr mem_machine) ptr \<Rightarrow> (addr, addr mem_machine) ptr alloc" where
  "TinkerbellMachine_DeepCopy F = copy_ptr (TinkerbellMachine_DeepCopyInto F)"

definition TinkerbellMachine_DeepCopyObject ::
    "foreign_copies \<Rightarrow> (addr, addr mem_machine) ptr \<Rightarrow> (addr, addr mem_machine) ptr option alloc" where
  "TinkerbellMachine_DeepCopyObject F p = as_object (TinkerbellMachine_DeepCopy F p)"

fun TinkerbellMachineList_DeepCopyInto ::
    "foreign_copies \<Rightarrow> addr mem_machine_list \<Rightarrow> addr mem_machine_list alloc" where
  "TinkerbellMachineList_DeepCopyInto F (MTinkerbellMachineList typeMeta listMeta items) =
     do {
       listMeta' \<leftarrow> ListMeta_DeepCopyInto F listMeta;
       items' \<leftarrow> copy_slice (TinkerbellMachine_DeepCopyInto F) items;
       State_Monad.return (MTinkerbellMachineList typeMeta listMeta' items')
     }"

definition TinkerbellMachineList_DeepCopy ::
    "foreign_copies \<Rightarrow> (addr, addr mem_machine_list) ptr \<Rightarrow> (addr, addr mem_machine_list) ptr alloc" where
  "TinkerbellMachineList_DeepCopy F = copy_ptr (TinkerbellMachineList_DeepCopyInto F)"

definition TinkerbellMachineList_DeepCopyObject ::
    "foreign_copies \<Rightarrow> (addr, addr mem_machine_list) ptr \<Rightarrow> (addr, addr mem_machine_list) ptr option alloc" where
  "TinkerbellMachineList_DeepCopyObject F p = as_object (TinkerbellMachineList_DeepCopy F p)"

fun TinkerbellMachineTemplateResource_DeepCopyInto ::
    "foreign_copies \<Rightarrow> addr mem_machine_template_resource \<Rightarrow> addr mem_machine_template_resource alloc" where
  "TinkerbellMachineTemplateResource_DeepCopyInto F (MTinkerbellMachineTemplateResource objectMeta spec) =
     do {
       objectMeta' \<leftarrow> TemplateMeta_DeepCopyInto F objectMeta;
       spec' \<leftarrow> TinkerbellMachineConfig_DeepCopyInto F spec;
       State_Monad.return (MTinkerbellMachineTemplateResource objectMeta' spec')
     }"

definition TinkerbellMachineTemplateResource_DeepCopy ::
    "foreign_copies \<Rightarrow> (addr, addr mem_machine_template_resource) ptr \<Rightarrow> (addr, addr mem_machine_template_resource) ptr alloc" where
  "TinkerbellMachineTemplateResource_DeepCopy F = copy_ptr (TinkerbellMachineTemplateResource_DeepCopyInto F)"

fun TinkerbellMachineTemplateSpec_DeepCopyInto ::
    "foreign_copies \<Rightarrow> addr mem_machine_template_spec \<Rightarrow> addr mem_machine_template_spec alloc" where
  "TinkerbellMachineTemplateSpec_DeepCopyInto F (MTinkerbellMachineTemplateSpec templateResource) =
     do {
       templateResource' \<leftarrow> TinkerbellMachineTemplateResource_DeepCopyInto F templateResource;
       State_Monad.return (MTinkerbellMachineTemplateSpec templateResource')
     }"

definition TinkerbellMachineTemplateSpec_DeepCopy ::
    "foreign_copies \<Rightarrow> (addr, addr mem_machine_template_spec) ptr \<Rightarrow> (addr, addr mem_machine_template_spec) ptr alloc" where
  "TinkerbellMachineTemplateSpec_DeepCopy F = copy_ptr (TinkerbellMachineTemplateSpec_DeepCopyInto F)"

fun TinkerbellMachineTemplate_DeepCopyInto ::
    "foreign_copies \<Rightarrow> addr mem_machine_template \<Rightarrow> addr mem_machine_template alloc" where
  "TinkerbellMachineTemplate_DeepCopyInto F (MTinkerbellMachineTemplate typeMeta objectMeta spec) =
     do {
       objectMeta' \<leftarrow> ObjectMeta_DeepCopyInto F objectMeta;
       spec' \<leftarrow> TinkerbellMachineTemplateSpec_DeepCopyInto F spec;
       State_Monad.return (MTinkerbellMachineTemplate typeMeta objectMeta' spec')
     }"

definition TinkerbellMachineTemplate_DeepCopy ::
    "foreign_copies \<Rightarrow> (addr, addr mem_machine_template) ptr \<Rightarrow> (addr, addr mem_machine_template) ptr alloc" where
  "TinkerbellMachineTemplate_DeepCopy F = copy_ptr (TinkerbellMachineTemplate_DeepCopyInto F)"

definition TinkerbellMachineTemplate_DeepCopyObject ::
    "foreign_copies \<Rightarrow> (addr, addr mem_machine_template) ptr \<Rightarrow> (addr, addr mem_machine_template) ptr option alloc" where
  "TinkerbellMachineTemplate_DeepCopyObject F p = as_object (TinkerbellMachineTemplate_DeepCopy F p)"

fun TinkerbellMachineTemplateList_DeepCopyInto ::
    "foreign_copies \<Rightarrow> addr mem_machine_template_list \<Rightarrow> addr mem_machine_template_list alloc" where
  "TinkerbellMachineTemplateList_DeepCopyInto F (MTinkerbellMachineTemplateList typeMeta listMeta items) =
     do {
       listMeta' \<leftarrow> ListMeta_DeepCopyInto F listMeta;
       items' \<leftarrow> copy_slice (TinkerbellMachineTemplate_DeepCopyInto F) items;
       State_Monad.return (MTinkerbellMachineTemplateList typeMeta listMeta' items')
     }"

definition TinkerbellMachineTemplateList_DeepCopy ::
    "foreign_copies \<Rightarrow> (addr, addr mem_machine_template_list) ptr \<Rightarrow> (addr, addr mem_machine_template_list) ptr alloc" where
  "TinkerbellMachineTemplateList_DeepCopy F = copy_ptr (TinkerbellMachineTemplateList_DeepCopyInto F)"

definition TinkerbellMachineTemplateList_DeepCopyObject ::
    "foreign_copies \<Rightarrow> (addr, addr mem_machine_template_list) ptr \<Rightarrow> (addr, addr mem_machine_template_list) ptr option alloc" where
  "TinkerbellMachineTemplateList_DeepCopyObject F p = as_object (TinkerbellMachineTemplateList_DeepCopy F p)"

fun TinkerbellClusterInitializationStatus_DeepCopyInto ::
    "foreign_copies \<Rightarrow> addr mem_cluster_init_status \<Rightarrow> addr mem_cluster_init_status alloc" where
  "TinkerbellClusterInitializationStatus_DeepCopyInto F (MTinkerbellClusterInitializationStatus provisioned) =
     do {
       provisioned' \<leftarrow> copy_ptr flat provisioned;
       State_Monad.return (MTinkerbellClusterInitializationStatus provisioned')
     }"

definition TinkerbellClusterInitializationStatus_DeepCopy ::
    "foreign_copies \<Rightarrow> (addr, addr mem_cluster_init_status) ptr \<Rightarrow> (addr, addr mem_cluster_init_status) ptr alloc" where
  "TinkerbellClusterInitializationStatus_DeepCopy F = copy_ptr (TinkerbellClusterInitializationStatus_DeepCopyInto F)"

fun TinkerbellClusterStatus_DeepCopyInto ::
    "foreign_copies \<Rightarrow> addr mem_cluster_status \<Rightarrow> addr mem_cluster_status alloc" where
  "TinkerbellClusterStatus_DeepCopyInto F (MTinkerbellClusterStatus ready initialization conditions) =
     do {
       initialization' \<leftarrow> copy_ptr (TinkerbellClusterInitializationStatus_DeepCopyInto F) initialization;
       conditions' \<leftarrow> copy_slice (Condition_DeepCopyInto F) conditions;
       State_Monad.return (MTinkerbellClusterStatus ready initialization' conditions')
     }"

definition TinkerbellClusterStatus_DeepCopy ::
    "foreign_copies \<Rightarrow> (addr, addr mem_cluster_status) ptr \<Rightarrow> (addr, addr mem_cluster_status) ptr alloc" where
  "TinkerbellClusterStatus_DeepCopy F = copy_ptr (TinkerbellClusterStatus_DeepCopyInto F)"

fun TinkerbellClusterSpec_DeepCopyInto ::
    "foreign_copies \<Rightarrow> addr mem_cluster_spec \<Rightarrow> addr mem_cluster_spec alloc" where
  "TinkerbellClusterSpec_DeepCopyInto F (MTinkerbellClusterSpec controlPlaneEndpoint templateInline templateRef) =
     do {
       controlPlaneEndpoint' \<leftarrow> copy_ptr flat controlPlaneEndpoint;
       templateRef' \<leftarrow> copy_ptr flat templateRef;
       State_Monad.return (MTinkerbellClusterSpec controlPlaneEndpoint' templateInline templateRef')
     }"

definition TinkerbellClusterSpec_DeepCopy ::
    "foreign_copies \<Rightarrow> (addr, addr mem_cluster_spec) ptr \<Rightarrow> (addr, addr mem_cluster_spec) ptr alloc" where
  "TinkerbellClusterSpec_DeepCopy F = copy_ptr (TinkerbellClusterSpec_DeepCopyInto F)"

fun TinkerbellCluster_DeepCopyInto ::
    "foreign_copies \<Rightarrow> addr mem_cluster \<Rightarrow> addr mem_cluster alloc" where
  "TinkerbellCluster_DeepCopyInto F (MTinkerbellCluster typeMeta objectMeta spec status) =
     do {
       objectMeta' \<leftarrow> ObjectMeta_DeepCopyInto F objectMeta;
       spec' \<leftarrow> TinkerbellClusterSpec_DeepCopyInto F spec;
       status' \<leftarrow> TinkerbellClusterStatus_DeepCopyInto F status;
       State_Monad.return (MTinkerbellCluster typeMeta objectMeta' spec' status')
     }"

definition TinkerbellCluster_DeepCopy ::
    "foreign_copies \<Rightarrow> (addr, addr mem_cluster) ptr \<Rightarrow> (addr, addr mem_cluster) ptr alloc" where
  "TinkerbellCluster_DeepCopy F = copy_ptr (TinkerbellCluster_DeepCopyInto F)"

definition TinkerbellCluster_DeepCopyObject ::
    "foreign_copies \<Rightarrow> (addr, addr mem_cluster) ptr \<Rightarrow> (addr, addr mem_cluster) ptr option alloc" where
  "TinkerbellCluster_DeepCopyObject F p = as_object (TinkerbellCluster_DeepCopy F p)"

fun TinkerbellClusterList_DeepCopyInto ::
    "foreign_copies \<Rightarrow> addr mem_cluster_list \<Rightarrow> addr mem_cluster_list alloc" where
  "TinkerbellClusterList_DeepCopyInto F (MTinkerbellClusterList typeMeta listMeta items) =
     do {
       listMeta' \<leftarrow> ListMeta_DeepCopyInto F listMeta;
       items' \<leftarrow> copy_slice (TinkerbellCluster_DeepCopyInto F) items;
       State_Monad.return (MTinkerbellClusterList typeMeta listMeta' items')
     }"

definition TinkerbellClusterList_DeepCopy ::
    "foreign_copies \<Rightarrow> (addr, addr mem_cluster_list) ptr \<Rightarrow> (addr, addr mem_cluster_list) ptr alloc" where
  "TinkerbellClusterList_DeepCopy F = copy_ptr (TinkerbellClusterList_DeepCopyInto F)"

definition TinkerbellClusterList_DeepCopyObject ::
    "foreign_copies \<Rightarrow> (addr, addr mem_cluster_list) ptr \<Rightarrow> (addr, addr mem_cluster_list) ptr option alloc" where
  "TinkerbellClusterList_DeepCopyObject F p = as_object (TinkerbellClusterList_DeepCopy F p)"

fun TinkerbellClusterTemplateResource_DeepCopyInto ::
    "foreign_copies \<Rightarrow> addr mem_cluster_template_resource \<Rightarrow> addr mem_cluster_template_resource alloc" where
  "TinkerbellClusterTemplateResource_DeepCopyInto F (MTinkerbellClusterTemplateResource objectMeta spec) =
     do {
       objectMeta' \<leftarrow> TemplateMeta_DeepCopyInto F objectMeta;
       spec' \<leftarrow> TinkerbellClusterSpec_DeepCopyInto F spec;
       State_Monad.return (MTinkerbellClusterTemplateResource objectMeta' spec')
     }"

definition TinkerbellClusterTemplateResource_DeepCopy ::
    "foreign_copies \<Rightarrow> (addr, addr mem_cluster_template_resource) ptr \<Rightarrow> (addr, addr mem_cluster_template_resource) ptr alloc" where
  "TinkerbellClusterTemplateResource_DeepCopy F = copy_ptr (TinkerbellClusterTemplateResource_DeepCopyInto F)"

fun TinkerbellClusterTemplateSpec_DeepCopyInto ::
    "foreign_copies \<Rightarrow> addr mem_cluster_template_spec \<Rightarrow> addr mem_cluster_template_spec alloc" where
  "TinkerbellClusterTemplateSpec_DeepCopyInto F (MTinkerbellClusterTemplateSpec templateResource) =
     do {
       templateResource' \<leftarrow> TinkerbellClusterTemplateResource_DeepCopyInto F templateResource;
       State_Monad.return (MTinkerbellClusterTemplateSpec templateResource')
     }"

definition TinkerbellClusterTemplateSpec_DeepCopy ::
    "foreign_copies \<Rightarrow> (addr, addr mem_cluster_template_spec) ptr \<Rightarrow> (addr, addr mem_cluster_template_spec) ptr alloc" where
  "TinkerbellClusterTemplateSpec_DeepCopy F = copy_ptr (TinkerbellClusterTemplateSpec_DeepCopyInto F)"

fun TinkerbellClusterTemplate_DeepCopyInto ::
    "foreign_copies \<Rightarrow> addr mem_cluster_template \<Rightarrow> addr mem_cluster_template alloc" where
  "TinkerbellClusterTemplate_DeepCopyInto F (MTinkerbellClusterTemplate typeMeta objectMeta spec) =
     do {
       objectMeta' \<leftarrow> ObjectMeta_DeepCopyInto F objectMeta;
       spec' \<leftarrow> TinkerbellClusterTemplateSpec_DeepCopyInto F spec;
       State_Monad.return (MTinkerbellClusterTemplate typeMeta objectMeta' spec')
     }"

definition TinkerbellClusterTemplate_DeepCopy ::
    "foreign_copies \<Rightarrow> (addr, addr mem_cluster_template) ptr \<Rightarrow> (addr, addr mem_cluster_template) ptr alloc" where
  "TinkerbellClusterTemplate_DeepCopy F = copy_ptr (TinkerbellClusterTemplate_DeepCopyInto F)"

definition TinkerbellClusterTemplate_DeepCopyObject ::
    "foreign_copies \<Rightarrow> (addr, addr mem_cluster_template) ptr \<Rightarrow> (addr, addr mem_cluster_template) ptr option alloc" where
  "TinkerbellClusterTemplate_DeepCopyObject F p = as_object (TinkerbellClusterTemplate_DeepCopy F p)"

fun TinkerbellClusterTemplateList_DeepCopyInto ::
    "foreign_copies \<Rightarrow> addr mem_cluster_template_list \<Rightarrow> addr mem_cluster_template_list alloc" where
  "TinkerbellClusterTemplateList_DeepCopyInto F (MTinkerbellClusterTemplateList typeMeta listMeta items) =
     do {
       listMeta' \<leftarrow> ListMeta_DeepCopyInto F listMeta;
       items' \<leftarrow> copy_slice (TinkerbellClusterTemplate_DeepCopyInto F) items;
       State_Monad.return (MTinkerbellClusterTemplateList typeMeta listMeta' items')
     }"

definition TinkerbellClusterTemplateList_DeepCopy ::
    "foreign_copies \<Rightarrow> (addr, addr mem_cluster_template_list) ptr \<Rightarrow> (addr, addr mem_cluster_template_list) ptr alloc" where
  "TinkerbellClusterTemplateList_DeepCopy F = copy_ptr (TinkerbellClusterTemplateList_DeepCopyInto F)"

definition TinkerbellClusterTemplateList_DeepCopyObject ::
    "foreign_copies \<Rightarrow> (addr, addr mem_cluster_template_list) ptr \<Rightarrow> (addr, addr mem_cluster_template_list) ptr option alloc" where
  "TinkerbellClusterTemplateList_DeepCopyObject F p = as_object (TinkerbellClusterTemplateList_DeepCopy F p)"

section \<open>Every generated copy is a deep copy\<close>

named_theorems copiers \<open>the copies that share nothing\<close>

lemma copierI: "(\<And>x. yields (cp x) locs erase (erase x)) \<Longrightarrow> deep_copier locs erase cp"
  by unfold_locales

lemma copier_step:
  "deep_copier locs erase cp \<Longrightarrow>
   (\<And>y. erase y = erase x \<Longrightarrow> yields (k y) (\<lambda>z. L z - locs y) E v) \<Longrightarrow>
   yields (Monad_Syntax.bind (cp x) k) L E v"
  by (rule yields_bind [OF deep_copier.copies])

lemmas copier_containers [copiers] = copier_flat_ptr copier_flat_slice

lemma copier_foreign [copiers]:
  assumes "foreign_laws F"
  shows "deep_copier set_lib (map_lib (\<lambda>_. ())) (ObjectMeta_DeepCopyInto F)"
    and "deep_copier set_lib (map_lib (\<lambda>_. ())) (ListMeta_DeepCopyInto F)"
    and "deep_copier set_lib (map_lib (\<lambda>_. ())) (TemplateMeta_DeepCopyInto F)"
    and "deep_copier set_lib (map_lib (\<lambda>_. ())) (LabelSelector_DeepCopyInto F)"
    and "deep_copier set_lib (map_lib (\<lambda>_. ())) (Condition_DeepCopyInto F)"
    and "deep_copier set_lib (map_lib (\<lambda>_. ())) (CustombootConfig_DeepCopyInto F)"
  using assms by (simp_all add: foreign_laws_def)

lemmas copier_nested [copiers] = deep_copier.pointer deep_copier.slices

lemma copier_ObjectRef [copiers]: "deep_copier (\<lambda>_. {}) id ObjectRef_DeepCopyInto"
  by unfold_locales (simp add: ObjectRef_DeepCopyInto_def yields_return)

lemma copier_BootOptions [copiers]:
  "foreign_laws F \<Longrightarrow> deep_copier set_mem_boot_options (map_mem_boot_options (\<lambda>_. ())) (BootOptions_DeepCopyInto F)"
  by (rule copierI, case_tac x, simp only: BootOptions_DeepCopyInto.simps,
      (rule copier_step, (rule copiers | assumption)+)+, rule yields_return; auto)

lemma copier_HardwareAffinityTerm [copiers]:
  "foreign_laws F \<Longrightarrow> deep_copier set_mem_affinity_term (map_mem_affinity_term (\<lambda>_. ())) (HardwareAffinityTerm_DeepCopyInto F)"
  by (rule copierI, case_tac x, simp only: HardwareAffinityTerm_DeepCopyInto.simps,
      (rule copier_step, (rule copiers | assumption)+)+, rule yields_return; auto)

lemma copier_WeightedHardwareAffinityTerm [copiers]:
  "foreign_laws F \<Longrightarrow> deep_copier set_mem_weighted_term (map_mem_weighted_term (\<lambda>_. ())) (WeightedHardwareAffinityTerm_DeepCopyInto F)"
  by (rule copierI, case_tac x, simp only: WeightedHardwareAffinityTerm_DeepCopyInto.simps,
      (rule copier_step, (rule copiers | assumption)+)+, rule yields_return; auto)

lemma copier_HardwareAffinity [copiers]:
  "foreign_laws F \<Longrightarrow> deep_copier set_mem_hardware_affinity (map_mem_hardware_affinity (\<lambda>_. ())) (HardwareAffinity_DeepCopyInto F)"
  by (rule copierI, case_tac x, simp only: HardwareAffinity_DeepCopyInto.simps,
      (rule copier_step, (rule copiers | assumption)+)+, rule yields_return; auto)

lemma copier_TinkerbellMachineConfig [copiers]:
  "foreign_laws F \<Longrightarrow> deep_copier set_mem_machine_config (map_mem_machine_config (\<lambda>_. ())) (TinkerbellMachineConfig_DeepCopyInto F)"
  by (rule copierI, case_tac x, simp only: TinkerbellMachineConfig_DeepCopyInto.simps,
      (rule copier_step, (rule copiers | assumption)+)+, rule yields_return; auto)

lemma copier_TinkerbellMachineSpec [copiers]:
  "foreign_laws F \<Longrightarrow> deep_copier set_mem_machine_spec (map_mem_machine_spec (\<lambda>_. ())) (TinkerbellMachineSpec_DeepCopyInto F)"
  by (rule copierI, case_tac x, simp only: TinkerbellMachineSpec_DeepCopyInto.simps,
      (rule copier_step, (rule copiers | assumption)+)+, rule yields_return; auto)

lemma copier_TinkerbellMachineInitializationStatus [copiers]:
  "foreign_laws F \<Longrightarrow> deep_copier set_mem_machine_init_status (map_mem_machine_init_status (\<lambda>_. ())) (TinkerbellMachineInitializationStatus_DeepCopyInto F)"
  by (rule copierI, case_tac x, simp only: TinkerbellMachineInitializationStatus_DeepCopyInto.simps,
      (rule copier_step, (rule copiers | assumption)+)+, rule yields_return; auto)

lemma copier_TinkerbellMachineStatus [copiers]:
  "foreign_laws F \<Longrightarrow> deep_copier set_mem_machine_status (map_mem_machine_status (\<lambda>_. ())) (TinkerbellMachineStatus_DeepCopyInto F)"
  by (rule copierI, case_tac x, simp only: TinkerbellMachineStatus_DeepCopyInto.simps,
      (rule copier_step, (rule copiers | assumption)+)+, rule yields_return; auto)

lemma copier_TinkerbellMachine [copiers]:
  "foreign_laws F \<Longrightarrow> deep_copier set_mem_machine (map_mem_machine (\<lambda>_. ())) (TinkerbellMachine_DeepCopyInto F)"
  by (rule copierI, case_tac x, simp only: TinkerbellMachine_DeepCopyInto.simps,
      (rule copier_step, (rule copiers | assumption)+)+, rule yields_return; auto)

lemma copier_TinkerbellMachineList [copiers]:
  "foreign_laws F \<Longrightarrow> deep_copier set_mem_machine_list (map_mem_machine_list (\<lambda>_. ())) (TinkerbellMachineList_DeepCopyInto F)"
  by (rule copierI, case_tac x, simp only: TinkerbellMachineList_DeepCopyInto.simps,
      (rule copier_step, (rule copiers | assumption)+)+, rule yields_return; auto)

lemma copier_TinkerbellMachineTemplateResource [copiers]:
  "foreign_laws F \<Longrightarrow> deep_copier set_mem_machine_template_resource (map_mem_machine_template_resource (\<lambda>_. ())) (TinkerbellMachineTemplateResource_DeepCopyInto F)"
  by (rule copierI, case_tac x, simp only: TinkerbellMachineTemplateResource_DeepCopyInto.simps,
      (rule copier_step, (rule copiers | assumption)+)+, rule yields_return; auto)

lemma copier_TinkerbellMachineTemplateSpec [copiers]:
  "foreign_laws F \<Longrightarrow> deep_copier set_mem_machine_template_spec (map_mem_machine_template_spec (\<lambda>_. ())) (TinkerbellMachineTemplateSpec_DeepCopyInto F)"
  by (rule copierI, case_tac x, simp only: TinkerbellMachineTemplateSpec_DeepCopyInto.simps,
      (rule copier_step, (rule copiers | assumption)+)+, rule yields_return; auto)

lemma copier_TinkerbellMachineTemplate [copiers]:
  "foreign_laws F \<Longrightarrow> deep_copier set_mem_machine_template (map_mem_machine_template (\<lambda>_. ())) (TinkerbellMachineTemplate_DeepCopyInto F)"
  by (rule copierI, case_tac x, simp only: TinkerbellMachineTemplate_DeepCopyInto.simps,
      (rule copier_step, (rule copiers | assumption)+)+, rule yields_return; auto)

lemma copier_TinkerbellMachineTemplateList [copiers]:
  "foreign_laws F \<Longrightarrow> deep_copier set_mem_machine_template_list (map_mem_machine_template_list (\<lambda>_. ())) (TinkerbellMachineTemplateList_DeepCopyInto F)"
  by (rule copierI, case_tac x, simp only: TinkerbellMachineTemplateList_DeepCopyInto.simps,
      (rule copier_step, (rule copiers | assumption)+)+, rule yields_return; auto)

lemma copier_TinkerbellClusterInitializationStatus [copiers]:
  "foreign_laws F \<Longrightarrow> deep_copier set_mem_cluster_init_status (map_mem_cluster_init_status (\<lambda>_. ())) (TinkerbellClusterInitializationStatus_DeepCopyInto F)"
  by (rule copierI, case_tac x, simp only: TinkerbellClusterInitializationStatus_DeepCopyInto.simps,
      (rule copier_step, (rule copiers | assumption)+)+, rule yields_return; auto)

lemma copier_TinkerbellClusterStatus [copiers]:
  "foreign_laws F \<Longrightarrow> deep_copier set_mem_cluster_status (map_mem_cluster_status (\<lambda>_. ())) (TinkerbellClusterStatus_DeepCopyInto F)"
  by (rule copierI, case_tac x, simp only: TinkerbellClusterStatus_DeepCopyInto.simps,
      (rule copier_step, (rule copiers | assumption)+)+, rule yields_return; auto)

lemma copier_TinkerbellClusterSpec [copiers]:
  "foreign_laws F \<Longrightarrow> deep_copier set_mem_cluster_spec (map_mem_cluster_spec (\<lambda>_. ())) (TinkerbellClusterSpec_DeepCopyInto F)"
  by (rule copierI, case_tac x, simp only: TinkerbellClusterSpec_DeepCopyInto.simps,
      (rule copier_step, (rule copiers | assumption)+)+, rule yields_return; auto)

lemma copier_TinkerbellCluster [copiers]:
  "foreign_laws F \<Longrightarrow> deep_copier set_mem_cluster (map_mem_cluster (\<lambda>_. ())) (TinkerbellCluster_DeepCopyInto F)"
  by (rule copierI, case_tac x, simp only: TinkerbellCluster_DeepCopyInto.simps,
      (rule copier_step, (rule copiers | assumption)+)+, rule yields_return; auto)

lemma copier_TinkerbellClusterList [copiers]:
  "foreign_laws F \<Longrightarrow> deep_copier set_mem_cluster_list (map_mem_cluster_list (\<lambda>_. ())) (TinkerbellClusterList_DeepCopyInto F)"
  by (rule copierI, case_tac x, simp only: TinkerbellClusterList_DeepCopyInto.simps,
      (rule copier_step, (rule copiers | assumption)+)+, rule yields_return; auto)

lemma copier_TinkerbellClusterTemplateResource [copiers]:
  "foreign_laws F \<Longrightarrow> deep_copier set_mem_cluster_template_resource (map_mem_cluster_template_resource (\<lambda>_. ())) (TinkerbellClusterTemplateResource_DeepCopyInto F)"
  by (rule copierI, case_tac x, simp only: TinkerbellClusterTemplateResource_DeepCopyInto.simps,
      (rule copier_step, (rule copiers | assumption)+)+, rule yields_return; auto)

lemma copier_TinkerbellClusterTemplateSpec [copiers]:
  "foreign_laws F \<Longrightarrow> deep_copier set_mem_cluster_template_spec (map_mem_cluster_template_spec (\<lambda>_. ())) (TinkerbellClusterTemplateSpec_DeepCopyInto F)"
  by (rule copierI, case_tac x, simp only: TinkerbellClusterTemplateSpec_DeepCopyInto.simps,
      (rule copier_step, (rule copiers | assumption)+)+, rule yields_return; auto)

lemma copier_TinkerbellClusterTemplate [copiers]:
  "foreign_laws F \<Longrightarrow> deep_copier set_mem_cluster_template (map_mem_cluster_template (\<lambda>_. ())) (TinkerbellClusterTemplate_DeepCopyInto F)"
  by (rule copierI, case_tac x, simp only: TinkerbellClusterTemplate_DeepCopyInto.simps,
      (rule copier_step, (rule copiers | assumption)+)+, rule yields_return; auto)

lemma copier_TinkerbellClusterTemplateList [copiers]:
  "foreign_laws F \<Longrightarrow> deep_copier set_mem_cluster_template_list (map_mem_cluster_template_list (\<lambda>_. ())) (TinkerbellClusterTemplateList_DeepCopyInto F)"
  by (rule copierI, case_tac x, simp only: TinkerbellClusterTemplateList_DeepCopyInto.simps,
      (rule copier_step, (rule copiers | assumption)+)+, rule yields_return; auto)

end
