(* ===== verification/SpokeCopy.thy ===== *)
theory SpokeCopy
  imports DeepCopy
begin

text \<open>
  The generated copies of \<open>api/v1beta1/zz_generated.deepcopy.go\<close>, with the prefix \<open>s\<close> of the spoke version.
\<close>

section \<open>The types in memory\<close>

datatype 'l smem_boot_options =
  SBootOptions string boot_mode "('l, customboot_config) lib"

datatype 'l smem_affinity_term =
  SHardwareAffinityTerm "('l, label_selector) lib"

datatype 'l smem_weighted_term =
  SWeightedHardwareAffinityTerm int "'l smem_affinity_term"

datatype 'l smem_hardware_affinity =
  SHardwareAffinity "('l, 'l smem_affinity_term) slice" "('l, 'l smem_weighted_term) slice"

datatype 'l smem_machine_spec =
  STinkerbellMachineSpec string string string string string "('l, 'l smem_hardware_affinity) ptr"
      "'l smem_boot_options" string string

datatype 'l smem_machine_init_status =
  STinkerbellMachineInitializationStatus "('l, bool) ptr"

datatype 'l smem_machine_status =
  STinkerbellMachineStatus bool "('l, 'l smem_machine_init_status) ptr" "('l, node_address) slice"
      "('l, int) ptr" string "('l, ('l, condition) lib) slice" "('l, string) ptr"
      "('l, string) ptr"

datatype 'l smem_machine =
  STinkerbellMachine type_meta "('l, objmeta) lib" "'l smem_machine_spec" "'l smem_machine_status"

datatype 'l smem_machine_list =
  STinkerbellMachineList type_meta "('l, list_meta) lib" "('l, 'l smem_machine) slice"

datatype 'l smem_machine_template_resource =
  STinkerbellMachineTemplateResource "'l smem_machine_spec"

datatype 'l smem_machine_template_spec =
  STinkerbellMachineTemplateSpec "'l smem_machine_template_resource"

datatype 'l smem_machine_template =
  STinkerbellMachineTemplate type_meta "('l, objmeta) lib" "'l smem_machine_template_spec"

datatype 'l smem_machine_template_list =
  STinkerbellMachineTemplateList type_meta "('l, list_meta) lib"
      "('l, 'l smem_machine_template) slice"

datatype 'l smem_cluster_init_status =
  STinkerbellClusterInitializationStatus "('l, bool) ptr"

datatype 'l smem_cluster_status =
  STinkerbellClusterStatus bool "('l, 'l smem_cluster_init_status) ptr"
      "('l, ('l, condition) lib) slice"

datatype 'l smem_cluster_spec =
  STinkerbellClusterSpec "('l, api_endpoint) ptr" string string string string string
      "('l, s_object_ref) ptr"

datatype 'l smem_cluster =
  STinkerbellCluster type_meta "('l, objmeta) lib" "'l smem_cluster_spec" "'l smem_cluster_status"

datatype 'l smem_cluster_list =
  STinkerbellClusterList type_meta "('l, list_meta) lib" "('l, 'l smem_cluster) slice"

section \<open>The generated copies\<close>

definition sObjectRef_DeepCopyInto :: "s_object_ref \<Rightarrow> s_object_ref alloc" where
  "sObjectRef_DeepCopyInto x = State_Monad.return x"

definition sObjectRef_DeepCopy :: "(addr, s_object_ref) ptr \<Rightarrow> (addr, s_object_ref) ptr alloc" where
  "sObjectRef_DeepCopy = copy_ptr sObjectRef_DeepCopyInto"

fun sBootOptions_DeepCopyInto ::
    "foreign_copies \<Rightarrow> addr smem_boot_options \<Rightarrow> addr smem_boot_options alloc" where
  "sBootOptions_DeepCopyInto F (SBootOptions isoURL bootMode custombootConfig) =
     do {
       custombootConfig' \<leftarrow> CustombootConfig_DeepCopyInto F custombootConfig;
       State_Monad.return (SBootOptions isoURL bootMode custombootConfig')
     }"

definition sBootOptions_DeepCopy ::
    "foreign_copies \<Rightarrow> (addr, addr smem_boot_options) ptr \<Rightarrow> (addr, addr smem_boot_options) ptr alloc" where
  "sBootOptions_DeepCopy F = copy_ptr (sBootOptions_DeepCopyInto F)"

fun sHardwareAffinityTerm_DeepCopyInto ::
    "foreign_copies \<Rightarrow> addr smem_affinity_term \<Rightarrow> addr smem_affinity_term alloc" where
  "sHardwareAffinityTerm_DeepCopyInto F (SHardwareAffinityTerm labelSelector) =
     do {
       labelSelector' \<leftarrow> LabelSelector_DeepCopyInto F labelSelector;
       State_Monad.return (SHardwareAffinityTerm labelSelector')
     }"

definition sHardwareAffinityTerm_DeepCopy ::
    "foreign_copies \<Rightarrow> (addr, addr smem_affinity_term) ptr \<Rightarrow> (addr, addr smem_affinity_term) ptr alloc" where
  "sHardwareAffinityTerm_DeepCopy F = copy_ptr (sHardwareAffinityTerm_DeepCopyInto F)"

fun sWeightedHardwareAffinityTerm_DeepCopyInto ::
    "foreign_copies \<Rightarrow> addr smem_weighted_term \<Rightarrow> addr smem_weighted_term alloc" where
  "sWeightedHardwareAffinityTerm_DeepCopyInto F (SWeightedHardwareAffinityTerm weight affinityTerm) =
     do {
       affinityTerm' \<leftarrow> sHardwareAffinityTerm_DeepCopyInto F affinityTerm;
       State_Monad.return (SWeightedHardwareAffinityTerm weight affinityTerm')
     }"

definition sWeightedHardwareAffinityTerm_DeepCopy ::
    "foreign_copies \<Rightarrow> (addr, addr smem_weighted_term) ptr \<Rightarrow> (addr, addr smem_weighted_term) ptr alloc" where
  "sWeightedHardwareAffinityTerm_DeepCopy F = copy_ptr (sWeightedHardwareAffinityTerm_DeepCopyInto F)"

fun sHardwareAffinity_DeepCopyInto ::
    "foreign_copies \<Rightarrow> addr smem_hardware_affinity \<Rightarrow> addr smem_hardware_affinity alloc" where
  "sHardwareAffinity_DeepCopyInto F (SHardwareAffinity required preferred) =
     do {
       required' \<leftarrow> copy_slice (sHardwareAffinityTerm_DeepCopyInto F) required;
       preferred' \<leftarrow> copy_slice (sWeightedHardwareAffinityTerm_DeepCopyInto F) preferred;
       State_Monad.return (SHardwareAffinity required' preferred')
     }"

definition sHardwareAffinity_DeepCopy ::
    "foreign_copies \<Rightarrow> (addr, addr smem_hardware_affinity) ptr \<Rightarrow> (addr, addr smem_hardware_affinity) ptr alloc" where
  "sHardwareAffinity_DeepCopy F = copy_ptr (sHardwareAffinity_DeepCopyInto F)"

fun sTinkerbellMachineSpec_DeepCopyInto ::
    "foreign_copies \<Rightarrow> addr smem_machine_spec \<Rightarrow> addr smem_machine_spec alloc" where
  "sTinkerbellMachineSpec_DeepCopyInto F (STinkerbellMachineSpec lookupFormat lookupRegistry lookupDistro lookupVersion templateInline hardwareAffinity bootOptions hardwareName providerID) =
     do {
       hardwareAffinity' \<leftarrow> copy_ptr (sHardwareAffinity_DeepCopyInto F) hardwareAffinity;
       bootOptions' \<leftarrow> sBootOptions_DeepCopyInto F bootOptions;
       State_Monad.return (STinkerbellMachineSpec lookupFormat lookupRegistry lookupDistro lookupVersion templateInline hardwareAffinity' bootOptions' hardwareName providerID)
     }"

definition sTinkerbellMachineSpec_DeepCopy ::
    "foreign_copies \<Rightarrow> (addr, addr smem_machine_spec) ptr \<Rightarrow> (addr, addr smem_machine_spec) ptr alloc" where
  "sTinkerbellMachineSpec_DeepCopy F = copy_ptr (sTinkerbellMachineSpec_DeepCopyInto F)"

fun sTinkerbellMachineInitializationStatus_DeepCopyInto ::
    "foreign_copies \<Rightarrow> addr smem_machine_init_status \<Rightarrow> addr smem_machine_init_status alloc" where
  "sTinkerbellMachineInitializationStatus_DeepCopyInto F (STinkerbellMachineInitializationStatus provisioned) =
     do {
       provisioned' \<leftarrow> copy_ptr flat provisioned;
       State_Monad.return (STinkerbellMachineInitializationStatus provisioned')
     }"

definition sTinkerbellMachineInitializationStatus_DeepCopy ::
    "foreign_copies \<Rightarrow> (addr, addr smem_machine_init_status) ptr \<Rightarrow> (addr, addr smem_machine_init_status) ptr alloc" where
  "sTinkerbellMachineInitializationStatus_DeepCopy F = copy_ptr (sTinkerbellMachineInitializationStatus_DeepCopyInto F)"

fun sTinkerbellMachineStatus_DeepCopyInto ::
    "foreign_copies \<Rightarrow> addr smem_machine_status \<Rightarrow> addr smem_machine_status alloc" where
  "sTinkerbellMachineStatus_DeepCopyInto F (STinkerbellMachineStatus ready initialization addresses resourceStatus targetNamespace conditions errorReason errorMessage) =
     do {
       initialization' \<leftarrow> copy_ptr (sTinkerbellMachineInitializationStatus_DeepCopyInto F) initialization;
       addresses' \<leftarrow> copy_slice flat addresses;
       resourceStatus' \<leftarrow> copy_ptr flat resourceStatus;
       conditions' \<leftarrow> copy_slice (Condition_DeepCopyInto F) conditions;
       errorReason' \<leftarrow> copy_ptr flat errorReason;
       errorMessage' \<leftarrow> copy_ptr flat errorMessage;
       State_Monad.return (STinkerbellMachineStatus ready initialization' addresses' resourceStatus' targetNamespace conditions' errorReason' errorMessage')
     }"

definition sTinkerbellMachineStatus_DeepCopy ::
    "foreign_copies \<Rightarrow> (addr, addr smem_machine_status) ptr \<Rightarrow> (addr, addr smem_machine_status) ptr alloc" where
  "sTinkerbellMachineStatus_DeepCopy F = copy_ptr (sTinkerbellMachineStatus_DeepCopyInto F)"

fun sTinkerbellMachine_DeepCopyInto ::
    "foreign_copies \<Rightarrow> addr smem_machine \<Rightarrow> addr smem_machine alloc" where
  "sTinkerbellMachine_DeepCopyInto F (STinkerbellMachine typeMeta objectMeta spec status) =
     do {
       objectMeta' \<leftarrow> ObjectMeta_DeepCopyInto F objectMeta;
       spec' \<leftarrow> sTinkerbellMachineSpec_DeepCopyInto F spec;
       status' \<leftarrow> sTinkerbellMachineStatus_DeepCopyInto F status;
       State_Monad.return (STinkerbellMachine typeMeta objectMeta' spec' status')
     }"

definition sTinkerbellMachine_DeepCopy ::
    "foreign_copies \<Rightarrow> (addr, addr smem_machine) ptr \<Rightarrow> (addr, addr smem_machine) ptr alloc" where
  "sTinkerbellMachine_DeepCopy F = copy_ptr (sTinkerbellMachine_DeepCopyInto F)"

definition sTinkerbellMachine_DeepCopyObject ::
    "foreign_copies \<Rightarrow> (addr, addr smem_machine) ptr \<Rightarrow> (addr, addr smem_machine) ptr option alloc" where
  "sTinkerbellMachine_DeepCopyObject F p = as_object (sTinkerbellMachine_DeepCopy F p)"

fun sTinkerbellMachineList_DeepCopyInto ::
    "foreign_copies \<Rightarrow> addr smem_machine_list \<Rightarrow> addr smem_machine_list alloc" where
  "sTinkerbellMachineList_DeepCopyInto F (STinkerbellMachineList typeMeta listMeta items) =
     do {
       listMeta' \<leftarrow> ListMeta_DeepCopyInto F listMeta;
       items' \<leftarrow> copy_slice (sTinkerbellMachine_DeepCopyInto F) items;
       State_Monad.return (STinkerbellMachineList typeMeta listMeta' items')
     }"

definition sTinkerbellMachineList_DeepCopy ::
    "foreign_copies \<Rightarrow> (addr, addr smem_machine_list) ptr \<Rightarrow> (addr, addr smem_machine_list) ptr alloc" where
  "sTinkerbellMachineList_DeepCopy F = copy_ptr (sTinkerbellMachineList_DeepCopyInto F)"

definition sTinkerbellMachineList_DeepCopyObject ::
    "foreign_copies \<Rightarrow> (addr, addr smem_machine_list) ptr \<Rightarrow> (addr, addr smem_machine_list) ptr option alloc" where
  "sTinkerbellMachineList_DeepCopyObject F p = as_object (sTinkerbellMachineList_DeepCopy F p)"

fun sTinkerbellMachineTemplateResource_DeepCopyInto ::
    "foreign_copies \<Rightarrow> addr smem_machine_template_resource \<Rightarrow> addr smem_machine_template_resource alloc" where
  "sTinkerbellMachineTemplateResource_DeepCopyInto F (STinkerbellMachineTemplateResource spec) =
     do {
       spec' \<leftarrow> sTinkerbellMachineSpec_DeepCopyInto F spec;
       State_Monad.return (STinkerbellMachineTemplateResource spec')
     }"

definition sTinkerbellMachineTemplateResource_DeepCopy ::
    "foreign_copies \<Rightarrow> (addr, addr smem_machine_template_resource) ptr \<Rightarrow> (addr, addr smem_machine_template_resource) ptr alloc" where
  "sTinkerbellMachineTemplateResource_DeepCopy F = copy_ptr (sTinkerbellMachineTemplateResource_DeepCopyInto F)"

fun sTinkerbellMachineTemplateSpec_DeepCopyInto ::
    "foreign_copies \<Rightarrow> addr smem_machine_template_spec \<Rightarrow> addr smem_machine_template_spec alloc" where
  "sTinkerbellMachineTemplateSpec_DeepCopyInto F (STinkerbellMachineTemplateSpec templateResource) =
     do {
       templateResource' \<leftarrow> sTinkerbellMachineTemplateResource_DeepCopyInto F templateResource;
       State_Monad.return (STinkerbellMachineTemplateSpec templateResource')
     }"

definition sTinkerbellMachineTemplateSpec_DeepCopy ::
    "foreign_copies \<Rightarrow> (addr, addr smem_machine_template_spec) ptr \<Rightarrow> (addr, addr smem_machine_template_spec) ptr alloc" where
  "sTinkerbellMachineTemplateSpec_DeepCopy F = copy_ptr (sTinkerbellMachineTemplateSpec_DeepCopyInto F)"

fun sTinkerbellMachineTemplate_DeepCopyInto ::
    "foreign_copies \<Rightarrow> addr smem_machine_template \<Rightarrow> addr smem_machine_template alloc" where
  "sTinkerbellMachineTemplate_DeepCopyInto F (STinkerbellMachineTemplate typeMeta objectMeta spec) =
     do {
       objectMeta' \<leftarrow> ObjectMeta_DeepCopyInto F objectMeta;
       spec' \<leftarrow> sTinkerbellMachineTemplateSpec_DeepCopyInto F spec;
       State_Monad.return (STinkerbellMachineTemplate typeMeta objectMeta' spec')
     }"

definition sTinkerbellMachineTemplate_DeepCopy ::
    "foreign_copies \<Rightarrow> (addr, addr smem_machine_template) ptr \<Rightarrow> (addr, addr smem_machine_template) ptr alloc" where
  "sTinkerbellMachineTemplate_DeepCopy F = copy_ptr (sTinkerbellMachineTemplate_DeepCopyInto F)"

definition sTinkerbellMachineTemplate_DeepCopyObject ::
    "foreign_copies \<Rightarrow> (addr, addr smem_machine_template) ptr \<Rightarrow> (addr, addr smem_machine_template) ptr option alloc" where
  "sTinkerbellMachineTemplate_DeepCopyObject F p = as_object (sTinkerbellMachineTemplate_DeepCopy F p)"

fun sTinkerbellMachineTemplateList_DeepCopyInto ::
    "foreign_copies \<Rightarrow> addr smem_machine_template_list \<Rightarrow> addr smem_machine_template_list alloc" where
  "sTinkerbellMachineTemplateList_DeepCopyInto F (STinkerbellMachineTemplateList typeMeta listMeta items) =
     do {
       listMeta' \<leftarrow> ListMeta_DeepCopyInto F listMeta;
       items' \<leftarrow> copy_slice (sTinkerbellMachineTemplate_DeepCopyInto F) items;
       State_Monad.return (STinkerbellMachineTemplateList typeMeta listMeta' items')
     }"

definition sTinkerbellMachineTemplateList_DeepCopy ::
    "foreign_copies \<Rightarrow> (addr, addr smem_machine_template_list) ptr \<Rightarrow> (addr, addr smem_machine_template_list) ptr alloc" where
  "sTinkerbellMachineTemplateList_DeepCopy F = copy_ptr (sTinkerbellMachineTemplateList_DeepCopyInto F)"

definition sTinkerbellMachineTemplateList_DeepCopyObject ::
    "foreign_copies \<Rightarrow> (addr, addr smem_machine_template_list) ptr \<Rightarrow> (addr, addr smem_machine_template_list) ptr option alloc" where
  "sTinkerbellMachineTemplateList_DeepCopyObject F p = as_object (sTinkerbellMachineTemplateList_DeepCopy F p)"

fun sTinkerbellClusterInitializationStatus_DeepCopyInto ::
    "foreign_copies \<Rightarrow> addr smem_cluster_init_status \<Rightarrow> addr smem_cluster_init_status alloc" where
  "sTinkerbellClusterInitializationStatus_DeepCopyInto F (STinkerbellClusterInitializationStatus provisioned) =
     do {
       provisioned' \<leftarrow> copy_ptr flat provisioned;
       State_Monad.return (STinkerbellClusterInitializationStatus provisioned')
     }"

definition sTinkerbellClusterInitializationStatus_DeepCopy ::
    "foreign_copies \<Rightarrow> (addr, addr smem_cluster_init_status) ptr \<Rightarrow> (addr, addr smem_cluster_init_status) ptr alloc" where
  "sTinkerbellClusterInitializationStatus_DeepCopy F = copy_ptr (sTinkerbellClusterInitializationStatus_DeepCopyInto F)"

fun sTinkerbellClusterStatus_DeepCopyInto ::
    "foreign_copies \<Rightarrow> addr smem_cluster_status \<Rightarrow> addr smem_cluster_status alloc" where
  "sTinkerbellClusterStatus_DeepCopyInto F (STinkerbellClusterStatus ready initialization conditions) =
     do {
       initialization' \<leftarrow> copy_ptr (sTinkerbellClusterInitializationStatus_DeepCopyInto F) initialization;
       conditions' \<leftarrow> copy_slice (Condition_DeepCopyInto F) conditions;
       State_Monad.return (STinkerbellClusterStatus ready initialization' conditions')
     }"

definition sTinkerbellClusterStatus_DeepCopy ::
    "foreign_copies \<Rightarrow> (addr, addr smem_cluster_status) ptr \<Rightarrow> (addr, addr smem_cluster_status) ptr alloc" where
  "sTinkerbellClusterStatus_DeepCopy F = copy_ptr (sTinkerbellClusterStatus_DeepCopyInto F)"

fun sTinkerbellClusterSpec_DeepCopyInto ::
    "foreign_copies \<Rightarrow> addr smem_cluster_spec \<Rightarrow> addr smem_cluster_spec alloc" where
  "sTinkerbellClusterSpec_DeepCopyInto F (STinkerbellClusterSpec controlPlaneEndpoint lookupFormat lookupRegistry lookupDistro lookupVersion templateInline templateRef) =
     do {
       controlPlaneEndpoint' \<leftarrow> copy_ptr flat controlPlaneEndpoint;
       templateRef' \<leftarrow> copy_ptr flat templateRef;
       State_Monad.return (STinkerbellClusterSpec controlPlaneEndpoint' lookupFormat lookupRegistry lookupDistro lookupVersion templateInline templateRef')
     }"

definition sTinkerbellClusterSpec_DeepCopy ::
    "foreign_copies \<Rightarrow> (addr, addr smem_cluster_spec) ptr \<Rightarrow> (addr, addr smem_cluster_spec) ptr alloc" where
  "sTinkerbellClusterSpec_DeepCopy F = copy_ptr (sTinkerbellClusterSpec_DeepCopyInto F)"

fun sTinkerbellCluster_DeepCopyInto ::
    "foreign_copies \<Rightarrow> addr smem_cluster \<Rightarrow> addr smem_cluster alloc" where
  "sTinkerbellCluster_DeepCopyInto F (STinkerbellCluster typeMeta objectMeta spec status) =
     do {
       objectMeta' \<leftarrow> ObjectMeta_DeepCopyInto F objectMeta;
       spec' \<leftarrow> sTinkerbellClusterSpec_DeepCopyInto F spec;
       status' \<leftarrow> sTinkerbellClusterStatus_DeepCopyInto F status;
       State_Monad.return (STinkerbellCluster typeMeta objectMeta' spec' status')
     }"

definition sTinkerbellCluster_DeepCopy ::
    "foreign_copies \<Rightarrow> (addr, addr smem_cluster) ptr \<Rightarrow> (addr, addr smem_cluster) ptr alloc" where
  "sTinkerbellCluster_DeepCopy F = copy_ptr (sTinkerbellCluster_DeepCopyInto F)"

definition sTinkerbellCluster_DeepCopyObject ::
    "foreign_copies \<Rightarrow> (addr, addr smem_cluster) ptr \<Rightarrow> (addr, addr smem_cluster) ptr option alloc" where
  "sTinkerbellCluster_DeepCopyObject F p = as_object (sTinkerbellCluster_DeepCopy F p)"

fun sTinkerbellClusterList_DeepCopyInto ::
    "foreign_copies \<Rightarrow> addr smem_cluster_list \<Rightarrow> addr smem_cluster_list alloc" where
  "sTinkerbellClusterList_DeepCopyInto F (STinkerbellClusterList typeMeta listMeta items) =
     do {
       listMeta' \<leftarrow> ListMeta_DeepCopyInto F listMeta;
       items' \<leftarrow> copy_slice (sTinkerbellCluster_DeepCopyInto F) items;
       State_Monad.return (STinkerbellClusterList typeMeta listMeta' items')
     }"

definition sTinkerbellClusterList_DeepCopy ::
    "foreign_copies \<Rightarrow> (addr, addr smem_cluster_list) ptr \<Rightarrow> (addr, addr smem_cluster_list) ptr alloc" where
  "sTinkerbellClusterList_DeepCopy F = copy_ptr (sTinkerbellClusterList_DeepCopyInto F)"

definition sTinkerbellClusterList_DeepCopyObject ::
    "foreign_copies \<Rightarrow> (addr, addr smem_cluster_list) ptr \<Rightarrow> (addr, addr smem_cluster_list) ptr option alloc" where
  "sTinkerbellClusterList_DeepCopyObject F p = as_object (sTinkerbellClusterList_DeepCopy F p)"

section \<open>Every generated copy is a deep copy\<close>

lemma copier_sObjectRef [copiers]: "deep_copier (\<lambda>_. {}) id sObjectRef_DeepCopyInto"
  by unfold_locales (simp add: sObjectRef_DeepCopyInto_def yields_return)

lemma copier_sBootOptions [copiers]:
  "foreign_laws F \<Longrightarrow> deep_copier set_smem_boot_options (map_smem_boot_options (\<lambda>_. ())) (sBootOptions_DeepCopyInto F)"
  by (rule copierI, case_tac x, simp only: sBootOptions_DeepCopyInto.simps,
      (rule copier_step, (rule copiers | assumption)+)+, rule yields_return; auto)

lemma copier_sHardwareAffinityTerm [copiers]:
  "foreign_laws F \<Longrightarrow> deep_copier set_smem_affinity_term (map_smem_affinity_term (\<lambda>_. ())) (sHardwareAffinityTerm_DeepCopyInto F)"
  by (rule copierI, case_tac x, simp only: sHardwareAffinityTerm_DeepCopyInto.simps,
      (rule copier_step, (rule copiers | assumption)+)+, rule yields_return; auto)

lemma copier_sWeightedHardwareAffinityTerm [copiers]:
  "foreign_laws F \<Longrightarrow> deep_copier set_smem_weighted_term (map_smem_weighted_term (\<lambda>_. ())) (sWeightedHardwareAffinityTerm_DeepCopyInto F)"
  by (rule copierI, case_tac x, simp only: sWeightedHardwareAffinityTerm_DeepCopyInto.simps,
      (rule copier_step, (rule copiers | assumption)+)+, rule yields_return; auto)

lemma copier_sHardwareAffinity [copiers]:
  "foreign_laws F \<Longrightarrow> deep_copier set_smem_hardware_affinity (map_smem_hardware_affinity (\<lambda>_. ())) (sHardwareAffinity_DeepCopyInto F)"
  by (rule copierI, case_tac x, simp only: sHardwareAffinity_DeepCopyInto.simps,
      (rule copier_step, (rule copiers | assumption)+)+, rule yields_return; auto)

lemma copier_sTinkerbellMachineSpec [copiers]:
  "foreign_laws F \<Longrightarrow> deep_copier set_smem_machine_spec (map_smem_machine_spec (\<lambda>_. ())) (sTinkerbellMachineSpec_DeepCopyInto F)"
  by (rule copierI, case_tac x, simp only: sTinkerbellMachineSpec_DeepCopyInto.simps,
      (rule copier_step, (rule copiers | assumption)+)+, rule yields_return; auto)

lemma copier_sTinkerbellMachineInitializationStatus [copiers]:
  "foreign_laws F \<Longrightarrow> deep_copier set_smem_machine_init_status (map_smem_machine_init_status (\<lambda>_. ())) (sTinkerbellMachineInitializationStatus_DeepCopyInto F)"
  by (rule copierI, case_tac x, simp only: sTinkerbellMachineInitializationStatus_DeepCopyInto.simps,
      (rule copier_step, (rule copiers | assumption)+)+, rule yields_return; auto)

lemma copier_sTinkerbellMachineStatus [copiers]:
  "foreign_laws F \<Longrightarrow> deep_copier set_smem_machine_status (map_smem_machine_status (\<lambda>_. ())) (sTinkerbellMachineStatus_DeepCopyInto F)"
  by (rule copierI, case_tac x, simp only: sTinkerbellMachineStatus_DeepCopyInto.simps,
      (rule copier_step, (rule copiers | assumption)+)+, rule yields_return; auto)

lemma copier_sTinkerbellMachine [copiers]:
  "foreign_laws F \<Longrightarrow> deep_copier set_smem_machine (map_smem_machine (\<lambda>_. ())) (sTinkerbellMachine_DeepCopyInto F)"
  by (rule copierI, case_tac x, simp only: sTinkerbellMachine_DeepCopyInto.simps,
      (rule copier_step, (rule copiers | assumption)+)+, rule yields_return; auto)

lemma copier_sTinkerbellMachineList [copiers]:
  "foreign_laws F \<Longrightarrow> deep_copier set_smem_machine_list (map_smem_machine_list (\<lambda>_. ())) (sTinkerbellMachineList_DeepCopyInto F)"
  by (rule copierI, case_tac x, simp only: sTinkerbellMachineList_DeepCopyInto.simps,
      (rule copier_step, (rule copiers | assumption)+)+, rule yields_return; auto)

lemma copier_sTinkerbellMachineTemplateResource [copiers]:
  "foreign_laws F \<Longrightarrow> deep_copier set_smem_machine_template_resource (map_smem_machine_template_resource (\<lambda>_. ())) (sTinkerbellMachineTemplateResource_DeepCopyInto F)"
  by (rule copierI, case_tac x, simp only: sTinkerbellMachineTemplateResource_DeepCopyInto.simps,
      (rule copier_step, (rule copiers | assumption)+)+, rule yields_return; auto)

lemma copier_sTinkerbellMachineTemplateSpec [copiers]:
  "foreign_laws F \<Longrightarrow> deep_copier set_smem_machine_template_spec (map_smem_machine_template_spec (\<lambda>_. ())) (sTinkerbellMachineTemplateSpec_DeepCopyInto F)"
  by (rule copierI, case_tac x, simp only: sTinkerbellMachineTemplateSpec_DeepCopyInto.simps,
      (rule copier_step, (rule copiers | assumption)+)+, rule yields_return; auto)

lemma copier_sTinkerbellMachineTemplate [copiers]:
  "foreign_laws F \<Longrightarrow> deep_copier set_smem_machine_template (map_smem_machine_template (\<lambda>_. ())) (sTinkerbellMachineTemplate_DeepCopyInto F)"
  by (rule copierI, case_tac x, simp only: sTinkerbellMachineTemplate_DeepCopyInto.simps,
      (rule copier_step, (rule copiers | assumption)+)+, rule yields_return; auto)

lemma copier_sTinkerbellMachineTemplateList [copiers]:
  "foreign_laws F \<Longrightarrow> deep_copier set_smem_machine_template_list (map_smem_machine_template_list (\<lambda>_. ())) (sTinkerbellMachineTemplateList_DeepCopyInto F)"
  by (rule copierI, case_tac x, simp only: sTinkerbellMachineTemplateList_DeepCopyInto.simps,
      (rule copier_step, (rule copiers | assumption)+)+, rule yields_return; auto)

lemma copier_sTinkerbellClusterInitializationStatus [copiers]:
  "foreign_laws F \<Longrightarrow> deep_copier set_smem_cluster_init_status (map_smem_cluster_init_status (\<lambda>_. ())) (sTinkerbellClusterInitializationStatus_DeepCopyInto F)"
  by (rule copierI, case_tac x, simp only: sTinkerbellClusterInitializationStatus_DeepCopyInto.simps,
      (rule copier_step, (rule copiers | assumption)+)+, rule yields_return; auto)

lemma copier_sTinkerbellClusterStatus [copiers]:
  "foreign_laws F \<Longrightarrow> deep_copier set_smem_cluster_status (map_smem_cluster_status (\<lambda>_. ())) (sTinkerbellClusterStatus_DeepCopyInto F)"
  by (rule copierI, case_tac x, simp only: sTinkerbellClusterStatus_DeepCopyInto.simps,
      (rule copier_step, (rule copiers | assumption)+)+, rule yields_return; auto)

lemma copier_sTinkerbellClusterSpec [copiers]:
  "foreign_laws F \<Longrightarrow> deep_copier set_smem_cluster_spec (map_smem_cluster_spec (\<lambda>_. ())) (sTinkerbellClusterSpec_DeepCopyInto F)"
  by (rule copierI, case_tac x, simp only: sTinkerbellClusterSpec_DeepCopyInto.simps,
      (rule copier_step, (rule copiers | assumption)+)+, rule yields_return; auto)

lemma copier_sTinkerbellCluster [copiers]:
  "foreign_laws F \<Longrightarrow> deep_copier set_smem_cluster (map_smem_cluster (\<lambda>_. ())) (sTinkerbellCluster_DeepCopyInto F)"
  by (rule copierI, case_tac x, simp only: sTinkerbellCluster_DeepCopyInto.simps,
      (rule copier_step, (rule copiers | assumption)+)+, rule yields_return; auto)

lemma copier_sTinkerbellClusterList [copiers]:
  "foreign_laws F \<Longrightarrow> deep_copier set_smem_cluster_list (map_smem_cluster_list (\<lambda>_. ())) (sTinkerbellClusterList_DeepCopyInto F)"
  by (rule copierI, case_tac x, simp only: sTinkerbellClusterList_DeepCopyInto.simps,
      (rule copier_step, (rule copiers | assumption)+)+, rule yields_return; auto)

end
