(* ===== verification/CopyUse.thy ===== *)
theory CopyUse
  imports SpokeCopy HardwareOps
begin

text \<open>
  What the controllers rely on the generated copies for. The clients' caches and the patches keep one copy of an object
  and hand out another: every \<open>DeepCopyObject\<close> has to return an object of its own. And \<open>hardwareForMachine\<close>
  (\<open>controller/machine/hardware.go\<close>) extends the selectors of a copied affinity in place: the search is written out
  here with its writes to memory, and shown to be the search over values of the theory HardwareOps.
\<close>

section \<open>The kinds\<close>

lemmas object_defs =
  TinkerbellMachine_DeepCopyObject_def TinkerbellMachineList_DeepCopyObject_def
  TinkerbellMachineTemplate_DeepCopyObject_def TinkerbellMachineTemplateList_DeepCopyObject_def
  TinkerbellCluster_DeepCopyObject_def TinkerbellClusterList_DeepCopyObject_def
  TinkerbellClusterTemplate_DeepCopyObject_def TinkerbellClusterTemplateList_DeepCopyObject_def
  sTinkerbellMachine_DeepCopyObject_def sTinkerbellMachineList_DeepCopyObject_def
  sTinkerbellMachineTemplate_DeepCopyObject_def sTinkerbellMachineTemplateList_DeepCopyObject_def
  sTinkerbellCluster_DeepCopyObject_def sTinkerbellClusterList_DeepCopyObject_def

lemmas copy_defs =
  TinkerbellMachine_DeepCopy_def TinkerbellMachineList_DeepCopy_def
  TinkerbellMachineTemplate_DeepCopy_def TinkerbellMachineTemplateList_DeepCopy_def
  TinkerbellCluster_DeepCopy_def TinkerbellClusterList_DeepCopy_def
  TinkerbellClusterTemplate_DeepCopy_def TinkerbellClusterTemplateList_DeepCopy_def
  sTinkerbellMachine_DeepCopy_def sTinkerbellMachineList_DeepCopy_def
  sTinkerbellMachineTemplate_DeepCopy_def sTinkerbellMachineTemplateList_DeepCopy_def
  sTinkerbellCluster_DeepCopy_def sTinkerbellClusterList_DeepCopy_def

text \<open>A copy that takes new memory for every reference: what the other modules' generated copies do.\<close>

definition relocate :: "(addr, 'd) lib \<Rightarrow> (addr, 'd) lib alloc" where
  "relocate x = state.State (\<lambda>n. (Lib (libData x) [n..<n + length (libLocs x)], n + length (libLocs x)))"

definition relocating :: foreign_copies where
  "relocating =
     \<lparr>ObjectMeta_DeepCopyInto = relocate, ListMeta_DeepCopyInto = relocate, TemplateMeta_DeepCopyInto = relocate,
      LabelSelector_DeepCopyInto = relocate, Condition_DeepCopyInto = relocate,
      CustombootConfig_DeepCopyInto = relocate\<rparr>"

lemma copier_relocate: "deep_copier set_lib (map_lib (\<lambda>_. ())) relocate"
proof (rule copierI)
  fix x :: "(addr, 'd) lib"
  show "yields (relocate x) set_lib (map_lib (\<lambda>_. ())) (map_lib (\<lambda>_. ()) x)"
    by (cases x) (auto simp: yields_def relocate_def map_replicate_const)
qed

lemma relocating_laws: "foreign_laws relocating"
  by (simp add: foreign_laws_def relocating_def copier_relocate)

text \<open>
  C35: The copy every kind's \<open>DeepCopyObject\<close> returns (v1beta2 and v1beta1, lists included) is equal to the object
  and lies in memory of its own: no pointer, slice or map of the one is reached from the other, so a write to either
  is not seen by the other; and a nil object yields the nil interface, never an interface that holds a nil pointer.
\<close>

theorem kinds_deep_copied:
  assumes "foreign_laws F"
  shows "isolating set_mem_machine (map_mem_machine (\<lambda>_. ())) (TinkerbellMachine_DeepCopyObject F) \<and>
    isolating set_mem_machine_list (map_mem_machine_list (\<lambda>_. ())) (TinkerbellMachineList_DeepCopyObject F) \<and>
    isolating set_mem_machine_template (map_mem_machine_template (\<lambda>_. ())) (TinkerbellMachineTemplate_DeepCopyObject F) \<and>
    isolating set_mem_machine_template_list (map_mem_machine_template_list (\<lambda>_. ())) (TinkerbellMachineTemplateList_DeepCopyObject F) \<and>
    isolating set_mem_cluster (map_mem_cluster (\<lambda>_. ())) (TinkerbellCluster_DeepCopyObject F) \<and>
    isolating set_mem_cluster_list (map_mem_cluster_list (\<lambda>_. ())) (TinkerbellClusterList_DeepCopyObject F) \<and>
    isolating set_mem_cluster_template (map_mem_cluster_template (\<lambda>_. ())) (TinkerbellClusterTemplate_DeepCopyObject F) \<and>
    isolating set_mem_cluster_template_list (map_mem_cluster_template_list (\<lambda>_. ())) (TinkerbellClusterTemplateList_DeepCopyObject F) \<and>
    isolating set_smem_machine (map_smem_machine (\<lambda>_. ())) (sTinkerbellMachine_DeepCopyObject F) \<and>
    isolating set_smem_machine_list (map_smem_machine_list (\<lambda>_. ())) (sTinkerbellMachineList_DeepCopyObject F) \<and>
    isolating set_smem_machine_template (map_smem_machine_template (\<lambda>_. ())) (sTinkerbellMachineTemplate_DeepCopyObject F) \<and>
    isolating set_smem_machine_template_list (map_smem_machine_template_list (\<lambda>_. ())) (sTinkerbellMachineTemplateList_DeepCopyObject F) \<and>
    isolating set_smem_cluster (map_smem_cluster (\<lambda>_. ())) (sTinkerbellCluster_DeepCopyObject F) \<and>
    isolating set_smem_cluster_list (map_smem_cluster_list (\<lambda>_. ())) (sTinkerbellClusterList_DeepCopyObject F)"
  unfolding object_defs copy_defs
  by (intro conjI isolating_object copiers assms)

theorem kinds_deep_copied_witness:
  "isolating set_mem_machine (map_mem_machine (\<lambda>_. ())) (TinkerbellMachine_DeepCopyObject relocating)"
  using kinds_deep_copied [OF relocating_laws] by simp

section \<open>The search of hardwareForMachine, with its writes\<close>

fun affinity_term_value :: "'l mem_affinity_term \<Rightarrow> hardware_affinity_term" where
  "affinity_term_value (MHardwareAffinityTerm sel) = \<lparr>LabelSelector = libData sel\<rparr>"

fun weighted_term_value :: "'l mem_weighted_term \<Rightarrow> weighted_affinity_term" where
  "weighted_term_value (MWeightedHardwareAffinityTerm w t) = \<lparr>Weight = w, AffinityTerm = affinity_term_value t\<rparr>"

fun slice_elems :: "('l, 'a) slice \<Rightarrow> 'a list" where
  "slice_elems NilSlice = []"
| "slice_elems (Slice _ xs) = xs"

fun affinity_value :: "'l mem_hardware_affinity \<Rightarrow> hardware_affinity" where
  "affinity_value (MHardwareAffinity req pref) =
     \<lparr>Required = map affinity_term_value (slice_elems req), Preferred = map weighted_term_value (slice_elems pref)\<rparr>"

definition ptr_value :: "('a \<Rightarrow> 'b) \<Rightarrow> ('l, 'a) ptr \<Rightarrow> 'b option" where
  "ptr_value f p = (case p of Null \<Rightarrow> None | Ref _ x \<Rightarrow> Some (f x))"

text \<open>The memory the search works on: the affinity of the machine's spec and the search's own selector.\<close>

record search_memory =
  nextAddr :: addr
  specAffinity :: "(addr, addr mem_hardware_affinity) ptr"
  hardwareSelector :: "(addr, addr mem_hardware_affinity) ptr"

abbreviation affinity_locs :: "('l, 'l mem_hardware_affinity) ptr \<Rightarrow> 'l set" where
  "affinity_locs p \<equiv> set1_ptr p \<union> \<Union> (set_mem_hardware_affinity ` set2_ptr p)"

text \<open>A write to the field Required of the struct at an address, and to an element of the array at an address,
  changes what every pointer to it sees.\<close>

fun write_required ::
    "'l \<Rightarrow> ('l, 'l mem_affinity_term) slice \<Rightarrow> ('l, 'l mem_hardware_affinity) ptr \<Rightarrow> ('l, 'l mem_hardware_affinity) ptr" where
  "write_required a r Null = Null"
| "write_required a r (Ref b (MHardwareAffinity req pref)) = Ref b (MHardwareAffinity (if a = b then r else req) pref)"

fun write_elem :: "'l \<Rightarrow> nat \<Rightarrow> 'a \<Rightarrow> ('l, 'a) slice \<Rightarrow> ('l, 'a) slice" where
  "write_elem a i x NilSlice = NilSlice"
| "write_elem a i x (Slice b xs) = Slice b (if a = b then xs[i := x] else xs)"

fun write_term ::
    "'l \<Rightarrow> nat \<Rightarrow> 'l mem_affinity_term \<Rightarrow> ('l, 'l mem_hardware_affinity) ptr \<Rightarrow> ('l, 'l mem_hardware_affinity) ptr" where
  "write_term a i t Null = Null"
| "write_term a i t (Ref b (MHardwareAffinity req pref)) = Ref b (MHardwareAffinity (write_elem a i t req) pref)"

text \<open>\<open>hardwareSelector := spec.HardwareAffinity.DeepCopy()\<close>, or a new empty affinity.\<close>

definition copy_selector :: "foreign_copies \<Rightarrow> search_memory \<Rightarrow> search_memory" where
  "copy_selector F s =
     (case run_state (HardwareAffinity_DeepCopy F (specAffinity s)) (nextAddr s) of
        (Null, n) \<Rightarrow> s\<lparr>nextAddr := Suc n, hardwareSelector := Ref n (MHardwareAffinity NilSlice NilSlice)\<rparr>
      | (Ref a x, n) \<Rightarrow> s\<lparr>nextAddr := n, hardwareSelector := Ref a x\<rparr>)"

text \<open>\<open>if len(Required) == 0 { Required = append(Required, HardwareAffinityTerm{}) }\<close>: an empty slice has no room.\<close>

definition add_empty_term :: "search_memory \<Rightarrow> search_memory" where
  "add_empty_term s =
     (case hardwareSelector s of
        Ref a (MHardwareAffinity req _) \<Rightarrow>
          if slice_elems req = []
          then let n = nextAddr s;
                   r = Slice n [MHardwareAffinityTerm (Lib (LabelSelector empty_affinity_term) [])]
               in s\<lparr>nextAddr := Suc n, specAffinity := write_required a r (specAffinity s),
                    hardwareSelector := write_required a r (hardwareSelector s)\<rparr>
          else s
      | Null \<Rightarrow> s)"

text \<open>
  \<open>Required[i].LabelSelector.MatchExpressions = append(MatchExpressions, ...)\<close>: the expressions of a copy have no
  room to spare, so the append takes new memory; the element of the array Required is written in place.
\<close>

definition exclude_owned :: "nat \<Rightarrow> search_memory \<Rightarrow> search_memory" where
  "exclude_owned i s =
     (case hardwareSelector s of
        Ref _ (MHardwareAffinity (Slice b ts) _) \<Rightarrow>
          (case ts ! i of MHardwareAffinityTerm sel \<Rightarrow>
             let n = nextAddr s; t = MHardwareAffinityTerm (Lib (unowned_selector (libData sel)) (n # libLocs sel))
             in s\<lparr>nextAddr := Suc n, specAffinity := write_term b i t (specAffinity s),
                  hardwareSelector := write_term b i t (hardwareSelector s)\<rparr>)
      | _ \<Rightarrow> s)"

definition required_of :: "search_memory \<Rightarrow> hardware_affinity_term list" where
  "required_of s =
     (case hardwareSelector s of Ref _ x \<Rightarrow> Required (affinity_value x) | Null \<Rightarrow> [])"

text \<open>
  The selectors the loop lists the Hardware with, in order, and the memory it leaves. The lists themselves and the errors
  that end the loop early are those of \<open>list_required\<close> of the theory HardwareOps.
\<close>

fun search_loop :: "nat list \<Rightarrow> search_memory \<Rightarrow> label_selector list \<times> search_memory" where
  "search_loop [] s = ([], s)"
| "search_loop (i # is) s =
     (let s' = exclude_owned i s; (sels, s'') = search_loop is s'
      in (LabelSelector (required_of s' ! i) # sels, s''))"

definition search_selectors :: "foreign_copies \<Rightarrow> search_memory \<Rightarrow> label_selector list \<times> search_memory" where
  "search_selectors F s =
     (let s' = add_empty_term (copy_selector F s) in search_loop [0..<length (required_of s')] s')"

section \<open>The search works on memory of its own\<close>

lemma write_required_other: "a \<notin> affinity_locs p \<Longrightarrow> write_required a r p = p"
  by (induction a r p rule: write_required.induct) auto

lemma write_elem_other: "a \<notin> set1_slice s \<Longrightarrow> write_elem a i x s = s"
  by (cases s) auto

lemma write_term_other: "a \<notin> affinity_locs p \<Longrightarrow> write_term a i t p = p"
  by (induction a i t p rule: write_term.induct) (auto intro!: write_elem_other)

lemma HardwareAffinity_DeepCopy_copies:
  assumes "foreign_laws F" and "run_state (HardwareAffinity_DeepCopy F p) n = (q, m)"
  shows "n \<le> m \<and> map_ptr (\<lambda>_. ()) (map_mem_hardware_affinity (\<lambda>_. ())) q =
      map_ptr (\<lambda>_. ()) (map_mem_hardware_affinity (\<lambda>_. ())) p \<and> affinity_locs q \<subseteq> {n..<m}"
  using yields_run [OF deep_copier.copies [OF deep_copier.pointer [OF copier_HardwareAffinity [OF assms(1)]]]]
    assms(2) unfolding HardwareAffinity_DeepCopy_def by blast

lemma affinity_term_value_map [simp]: "affinity_term_value (map_mem_affinity_term f t) = affinity_term_value t"
  by (cases t; cases "case t of MHardwareAffinityTerm s \<Rightarrow> s") auto

lemma weighted_term_value_map [simp]: "weighted_term_value (map_mem_weighted_term f t) = weighted_term_value t"
  by (cases t) auto

lemma slice_elems_map [simp]: "slice_elems (map_slice f g s) = map g (slice_elems s)"
  by (cases s) auto

lemma affinity_value_map [simp]: "affinity_value (map_mem_hardware_affinity f x) = affinity_value x"
  by (cases x) (simp add: comp_def)

lemma ptr_value_erased:
  assumes "map_ptr (\<lambda>_. ()) (map_mem_hardware_affinity (\<lambda>_. ())) q =
    map_ptr (\<lambda>_. ()) (map_mem_hardware_affinity (\<lambda>_. ())) p"
  shows "ptr_value affinity_value q = ptr_value affinity_value p"
proof (cases q)
  case Null
  then show ?thesis using assms by (cases p) (auto simp: ptr_value_def)
next
  case (Ref a x)
  then obtain b y where p: "p = Ref b y"
      and xy: "map_mem_hardware_affinity (\<lambda>_. ()) x = map_mem_hardware_affinity (\<lambda>_. ()) y"
    using assms by (cases p) auto
  have "affinity_value x = affinity_value y"
    using arg_cong [OF xy, of affinity_value] by simp
  then show ?thesis by (simp add: ptr_value_def Ref p)
qed

text \<open>The loop, from any element on: the elements before it are done.\<close>

lemma search_loop_run:
  assumes "hardwareSelector s = Ref a (MHardwareAffinity (Slice b (pre @ ts)) pref)"
    and "b \<notin> affinity_locs (specAffinity s)"
  shows "\<exists>s'. search_loop [length pre..<length pre + length ts] s =
      (map (\<lambda>t. unowned_selector (LabelSelector (affinity_term_value t))) ts, s') \<and>
      specAffinity s' = specAffinity s"
  using assms
proof (induction ts arbitrary: pre s)
  case Nil
  then show ?case by simp
next
  case (Cons t ts)
  obtain sel where t: "t = MHardwareAffinityTerm sel" by (cases t)
  define t' where "t' = MHardwareAffinityTerm (Lib (unowned_selector (libData sel)) (nextAddr s # libLocs sel))"
  define s1 where "s1 = exclude_owned (length pre) s"
  have s1: "s1 = s\<lparr>nextAddr := Suc (nextAddr s),
      hardwareSelector := Ref a (MHardwareAffinity (Slice b ((pre @ [t']) @ ts)) pref)\<rparr>"
    using Cons.prems write_term_other [OF Cons.prems(2)]
    by (simp add: s1_def exclude_owned_def t t'_def Let_def nth_append)
  have "\<exists>s'. search_loop [length (pre @ [t'])..<length (pre @ [t']) + length ts] s1 =
      (map (\<lambda>t. unowned_selector (LabelSelector (affinity_term_value t))) ts, s') \<and>
      specAffinity s' = specAffinity s1"
    by (rule Cons.IH) (use Cons.prems in \<open>simp_all add: s1\<close>)
  then obtain s2 where s2: "search_loop [Suc (length pre)..<Suc (length pre + length ts)] s1 =
      (map (\<lambda>t. unowned_selector (LabelSelector (affinity_term_value t))) ts, s2)"
      "specAffinity s2 = specAffinity s"
    by (auto simp: s1)
  have "LabelSelector (required_of s1 ! length pre) = unowned_selector (libData sel)"
    by (simp add: s1 required_of_def nth_append t'_def)
  moreover have "[length pre..<length pre + length (t # ts)] =
      length pre # [Suc (length pre)..<Suc (length pre + length ts)]"
    by (simp add: upt_conv_Cons del: upt_Suc)
  ultimately show ?case
    using s2 by (simp add: t flip: s1_def del: upt_Suc)
qed

text \<open>
  C34: The search for a Hardware refines its version over values: it lists the Hardware once with each required
  term of the machine's affinity (one empty term when there is none), the expression that excludes owned Hardware
  appended, in order, and although it writes to the array of terms in place, the affinity in the
  machine's spec (which the next patch would send to the API server) is the one it was.
\<close>

theorem search_leaves_spec:
  assumes laws: "foreign_laws F" and below: "affinity_locs (specAffinity s) \<subseteq> {..<nextAddr s}"
  shows "fst (search_selectors F s) =
      map (\<lambda>t. unowned_selector (LabelSelector t)) (required_terms (ptr_value affinity_value (specAffinity s))) \<and>
    specAffinity (snd (search_selectors F s)) = specAffinity s"
proof -
  obtain q m where q: "run_state (HardwareAffinity_DeepCopy F (specAffinity s)) (nextAddr s) = (q, m)"
    by (cases "run_state (HardwareAffinity_DeepCopy F (specAffinity s)) (nextAddr s)")
  note c = HardwareAffinity_DeepCopy_copies [OF laws q]
  have same: "ptr_value affinity_value q = ptr_value affinity_value (specAffinity s)"
    by (rule ptr_value_erased) (use c in blast)
  let ?s1 = "add_empty_term (copy_selector F s)"
  have "\<exists>a b ts pref. hardwareSelector ?s1 = Ref a (MHardwareAffinity (Slice b ts) pref) \<and>
      specAffinity ?s1 = specAffinity s \<and> nextAddr s \<le> b \<and>
      map affinity_term_value ts = required_terms (ptr_value affinity_value (specAffinity s))"
  proof (cases q)
    case Null
    then have None: "ptr_value affinity_value (specAffinity s) = None"
      using same by (simp add: ptr_value_def)
    have "write_required m r (specAffinity s) = specAffinity s" for r
      by (rule write_required_other) (use below c in auto)
    then show ?thesis
      using c by (simp add: None Null q copy_selector_def add_empty_term_def Let_def required_terms_def empty_affinity_term_def)
  next
    case (Ref a x)
    obtain req pref where x: "x = MHardwareAffinity req pref" by (cases x)
    have Some: "ptr_value affinity_value (specAffinity s) = Some (affinity_value x)"
      using same by (simp add: Ref ptr_value_def [of _ "Ref a x"])
    have "write_required a r (specAffinity s) = specAffinity s" for r
      by (rule write_required_other) (use below c Ref in auto)
    moreover have "nextAddr s \<le> b" if "req = Slice b ts" for b ts
      using c Ref x that by auto
    ultimately show ?thesis
      using c Ref x q Some
      by (cases req) (auto simp: copy_selector_def add_empty_term_def Let_def required_terms_def empty_affinity_term_def)
  qed
  then obtain a b ts pref where s1: "hardwareSelector ?s1 = Ref a (MHardwareAffinity (Slice b ([] @ ts)) pref)"
      "specAffinity ?s1 = specAffinity s" "nextAddr s \<le> b"
      "map affinity_term_value ts = required_terms (ptr_value affinity_value (specAffinity s))"
    by auto
  have "b \<notin> affinity_locs (specAffinity ?s1)"
    using below s1 by auto
  from search_loop_run [OF s1(1) this] obtain s2 where
      "search_loop [0..<length ts] ?s1 =
        (map (\<lambda>t. unowned_selector (LabelSelector (affinity_term_value t))) ts, s2)"
      "specAffinity s2 = specAffinity s"
    using s1 by auto
  moreover have "length (required_of ?s1) = length ts"
    using length_map [of affinity_term_value ts] by (simp add: required_of_def s1(1) del: length_map)
  ultimately show ?thesis
    by (simp add: search_selectors_def Let_def flip: s1(4))
qed

text \<open>A machine that prefers and requires one label each, in memory from address 1 on.\<close>

definition example_memory :: search_memory where
  "example_memory =
     \<lparr>nextAddr = 9,
      specAffinity = Ref 1 (MHardwareAffinity
        (Slice 2 [MHardwareAffinityTerm (Lib \<lparr>MatchLabels = [(''type'', ''cp'')], MatchExpressions = []\<rparr> [3, 4])])
        NilSlice),
      hardwareSelector = Null\<rparr>"

theorem search_leaves_spec_witness:
  "specAffinity (snd (search_selectors relocating example_memory)) = specAffinity example_memory \<and>
   length (fst (search_selectors relocating example_memory)) = 1"
proof -
  have "affinity_locs (specAffinity example_memory) \<subseteq> {..<nextAddr example_memory}"
    by (simp add: example_memory_def)
  from search_leaves_spec [OF relocating_laws this] show ?thesis
    by (simp add: example_memory_def required_terms_def ptr_value_def)
qed

end
