(* ===== verification/Spec2Isabelle.thy ===== *)
theory Spec2Isabelle
  imports MachineController ClusterController Conversion Webhooks Build Race WatchRace Startup Panics CallBounds
    Fleet CopyUse
begin

text \<open>
  A verification development for CAPT, the Cluster API infrastructure provider for Tinkerbell (Go).

  \<^bold>\<open>The program.\<close> CAPT turns the machines and clusters of Cluster API into physical machines. Its machine
  controller (\<open>controller/machine\<close>) selects a free Hardware for a TinkerbellMachine, claims it with an
  optimistic lock, reserves an address from a pool on it, and creates the Workflow that installs it; it deletes
  machines by undoing this behind a power-off Job. Its cluster controller (\<open>controller/cluster\<close>) settles the
  endpoint of a TinkerbellCluster. Tinkerbell may be on another cluster, and then a watch manager
  (\<open>pkg/cluster\<close>) starts a cache per namespace. Webhooks (\<open>webhooks\<close>) admit changes, converters
  (\<open>api/v1beta1/conversion.go\<close>, \<open>pkg/conversion\<close>) serve the older API version, and \<open>main.go\<close> puts it together.

  \<^bold>\<open>How the code is modelled.\<close> Everything is executable and at the top level of its theory.
  \<^item> A function of the code that calls servers is a computation on its scope with an error result (theory
    \<open>Prelude\<close>: \<open>returnE\<close>, \<open>throwE\<close>, \<open>bindE\<close>, \<open>catchE\<close>, \<open>tryE\<close> for \<open>x, err := f()\<close>, \<open>deferE\<close> for \<open>defer\<close>, \<open>forE\<close>).
    Every call it makes is put on a log, and the answer is a function of the log so far: it stands for the
    servers and every other actor, and a theorem for all answer functions holds under any of their behaviours.
  \<^item> Errors are the sentinels \<open>errors.Is\<close> finds; message texts, wrapping and logging are left out. A nil
    dereference and the panics of \<open>validate\<close> are error values of their own.
  \<^item> Functions of other modules (finalizers, owner references, conditions, label selectors, JSON, the conversions of
    Tinkerbell, URL parsing) are fields of an environment; what is relied on of them is a named hypothesis
    (\<open>finalizer_laws\<close>, \<open>condition_laws\<close>, \<open>json_laws\<close>, \<open>controller_laws\<close>, \<open>foreign_laws\<close>, \<open>optimistic_lock\<close>), and so is
    what is relied on of the servers where any behaviour of theirs would not do: \<open>serves\<close> (the answers are
    those of a server with a state), \<open>lists_current\<close> and \<open>assigned_listed\<close> (what a list of Hardware must show). Each
    has an instance in a witness.
  \<^item> \<open>patchHelper.Patch\<close> leaves the object in memory as it is, the client's own \<open>Patch\<close> and \<open>Create\<close> return the
    server's. Nil and empty lists or maps are not distinguished, and values are immutable; the deep copies, where both
    matter, are modelled over an explicit memory instead. Times and durations are integers of nanoseconds;
    the integers of the code stay far from their bounds, and no overflow is modelled.

  \<^bold>\<open>The theories.\<close>
  \<^item> \<open>Prelude\<close>, \<open>GoStd\<close>: the combinators with the calculus of call logs (\<open>adds\<close>, \<open>issued\<close>, \<open>keeps\<close>, \<open>gives\<close>), and what
    the code uses of Go's library (strings, paths, \<open>net/netip\<close>, sorting).
  \<^item> \<open>Objects\<close>, \<open>Api\<close>: the types of \<open>api/v1beta2\<close>, \<open>api/v1beta1\<close> and of the objects the code reads and writes.
  \<^item> \<open>World\<close>, \<open>Examples\<close>: the calls, the scope of a machine's reconcile (\<open>machineReconcileScope\<close>), the environment and
    the servers; concrete instances of them for the witnesses.
  \<^item> \<open>HardwareOps\<close> (\<open>hardware.go\<close>): selection by affinity, claim, user data. The Hardware selected is a best one among
    the unowned that match; what is written, and when a claim is refused.
  \<^item> \<open>Ipam\<close> (\<open>ipam.go\<close>): claim, reservation on the Hardware and its release; giving back restores the interface.
  \<^item> \<open>Ownership\<close>, \<open>Templates\<close>, \<open>WorkflowOps\<close> (\<open>template.go\<close>, \<open>workflow.go\<close>): the labels and owner references on what is
    created, where the template comes from, the native and the compatibility mode of a Workflow.
  \<^item> \<open>Bmc\<close> (\<open>bmc.go\<close>, \<open>inplace_recovery.go\<close>): the power-off gate and the power cycle of a stalled in-place update.
  \<^item> \<open>Scope\<close>, \<open>Deletion\<close> (\<open>scope.go\<close>): \<open>Reconcile\<close> and \<open>DeleteMachineWithDependencies\<close>. A Workflow only after the address, ready
    only when installed, the finalizer added last and removed only after everything else.
  \<^item> \<open>MachineController\<close> (\<open>tinkerbellmachine.go\<close>), \<open>ClusterController\<close> (\<open>tinkerbellcluster.go\<close>): the reconcile of a request
    from the read of the object to the requeue, and the mappers that wake a machine.
  \<^item> \<open>Watch\<close>, \<open>WatchRace\<close>, \<open>CacheStart\<close> (\<open>watch.go\<close>): the manager's methods as the code between lock and unlock, any number of
    callers interleaved as a step relation, and the start of a cache with its clean-up.
  \<^item> \<open>Race\<close> with \<open>Runs\<close>: any number of machines claiming and releasing one Hardware, interleaved at their writes.
  \<^item> \<open>Fleet\<close>: the same race between whole runs of \<open>ensureHardware\<close>, over all Hardware of the store and with lists that may
    be read too early. A machine owns one Hardware at most when lists are current, and may own two when they are not.
  \<^item> \<open>Server\<close>: deletion against a server that keeps objects, removes them when their last finalizer goes and may take its time;
    the retried deletion comes to an end, with the machine gone and its Hardware free.
  \<^item> \<open>Memory\<close>, \<open>DeepCopy\<close>, \<open>SpokeCopy\<close> (\<open>zz_generated.deepcopy.go\<close>): an addressed memory with pointers, slices and maps, the
    kinds of both versions in it, and their generated deep copies. A copy reads the same and shares nothing with
    the original, for every kind and list kind.
  \<^item> \<open>CopyUse\<close> (\<open>hardware.go\<close>): the one place that depends on it, the selection that adds a requirement to a copy of each affinity
    term; in memory it computes the terms of \<open>HardwareOps\<close> and leaves the machine's spec as it was.
  \<^item> \<open>Conversion\<close>, \<open>Webhooks\<close>, \<open>Build\<close> (\<open>pkg/build/build.go\<close>): round trips of the API versions, admission, pseudo-versions.
  \<^item> \<open>Startup\<close> (\<open>main.go\<close>, \<open>cluster.go\<close>, \<open>controller.go\<close>): flags, scheme, mode, controllers, webhooks, start.
  \<^item> \<open>Panics\<close>, \<open>CallBounds\<close>: over all of the machine's and the cluster's operations, that none panics and that each
    makes a bounded number of calls.

  \<^bold>\<open>Interfaces.\<close> \<open>call_log\<close> is the contract of a log of calls (interpreted for machines, clusters, caches and startup);
  \<open>backoff_policy\<close> and \<open>watch_registry\<close> what the controller relies on of the watch manager; \<open>object_remover\<close> what
  \<open>removeTemplate\<close> and \<open>removeWorkflow\<close> share; \<open>deep_copier\<close> what a deep copy promises of the type it copies, so that the
  copier of a struct rests on those of its fields; \<open>hub_spoke\<close> and \<open>lossy_spoke\<close> the laws of a conversion; \<open>admission\<close> and
  \<open>frozen_part\<close> those of a webhook. Each is interpreted on the model of the code that provides it.

  \<^bold>\<open>Bounds and termination.\<close> No fuel is used: every loop of the code ranges over a list, and the two that do not recurse on
  their argument (\<open>replace_all\<close>, the IPv6 scanner) have a measure. \<open>CallBounds\<close> counts the calls of
  a whole reconcile in the lengths of those lists.

  \<^bold>\<open>Not modelled.\<close> Package markers; log and event messages, metrics, and what the loggers and the feature gates
  do with what startup passes on to them; event filters of the
  controllers, which decide only when a reconcile is triggered; manifests, tests and tooling. Within
  \<open>watch.go\<close>, the context a caller may cancel while it waits is part of the failure of a start.

  \<^bold>\<open>What the model showed.\<close> Deletion releases a Hardware without looking at its owner, which breaks the exclusion of
  claims (theory \<open>Race\<close>); a machine finds the Hardware it holds only by a list of labels, so that a list read too
  early makes it claim a second one, which its deletion does not release (\<open>Fleet\<close>); a cache that dies during its start stays registered, and a concurrent caller evades the
  backoff (\<open>WatchRace\<close>); a failed lookup of the owner by label is dropped (\<open>ClusterController\<close>); a second in-place
  update is not power cycled while the Job of the first exists (\<open>Bmc\<close>); six flags have no effect (\<open>Startup\<close>); the
  weights of affinity terms replace each other (\<open>HardwareOps\<close>), and the fields only v1beta1 has are lost
  (\<open>Conversion\<close>).
\<close>

end
